(* ===== verification/Sif_Prelude.thy ===== *)
theory Sif_Prelude
  imports Main
begin

text \<open>
  The prelude of the development: machine integers, time, results and the list lemmas that
  several components share.

  Go's \<open>int32\<close> and \<open>int64\<close> are modelled by \<open>int\<close> with the two's complement wrap-around
  written out (\<open>wrap32\<close>, \<open>wrap64\<close>) at every place where the code adds or subtracts them.
  A \<open>time.Time\<close> is the number of nanoseconds since Go's zero time, so that the zero time
  (\<open>IsZero\<close>) is \<open>0\<close>; a \<open>time.Duration\<close> is a number of nanoseconds.  A nil pointer is
  \<open>None\<close>, a fallible function returns \<open>error + value\<close>.
\<close>

type_synonym int32 = int
type_synonym int64 = int
type_synonym time = int
type_synonym duration = int

text \<open>Rules that describe one operation completely, used by the component proofs.\<close>

named_theorems go_int
named_theorems frame_simps

section \<open>Machine integers\<close>

definition wrap32 :: "int \<Rightarrow> int32" where
  "wrap32 x = (x + 2 ^ 31) mod 2 ^ 32 - 2 ^ 31"

definition wrap64 :: "int \<Rightarrow> int64" where
  "wrap64 x = (x + 2 ^ 63) mod 2 ^ 64 - 2 ^ 63"

definition in_int32 :: "int \<Rightarrow> bool" where
  "in_int32 x \<longleftrightarrow> - (2 ^ 31) \<le> x \<and> x < 2 ^ 31"

definition in_int64 :: "int \<Rightarrow> bool" where
  "in_int64 x \<longleftrightarrow> - (2 ^ 63) \<le> x \<and> x < 2 ^ 63"

lemma wrap32_id [go_int]: "in_int32 x \<Longrightarrow> wrap32 x = x"
  by (simp add: wrap32_def in_int32_def)

lemma in_int32_wrap32 [simp]: "in_int32 (wrap32 x)"
proof -
  have "0 \<le> (x + 2 ^ 31) mod 2 ^ 32 \<and> (x + 2 ^ 31) mod 2 ^ 32 < (2 ^ 32 :: int)"
    by simp
  then show ?thesis
    by (simp add: wrap32_def in_int32_def)
qed

lemma wrap64_id [go_int]: "in_int64 x \<Longrightarrow> wrap64 x = x"
  by (simp add: wrap64_def in_int64_def)

lemma wrap32_cong: "x mod 2 ^ 32 = y mod 2 ^ 32 \<Longrightarrow> wrap32 x = wrap32 y"
  unfolding wrap32_def by (metis mod_add_left_eq)

lemma wrap32_mod: "wrap32 x mod 2 ^ 32 = x mod 2 ^ 32"
  unfolding wrap32_def by (simp add: mod_diff_left_eq)

lemma wrap32_add_left [simp]: "wrap32 (wrap32 x + y) = wrap32 (x + y)"
  by (rule wrap32_cong) (metis mod_add_left_eq wrap32_mod)

lemma wrap32_add_right [simp]: "wrap32 (x + wrap32 y) = wrap32 (x + y)"
  by (rule wrap32_cong) (metis mod_add_right_eq wrap32_mod)

lemma wrap32_diff_right [simp]: "wrap32 (x - wrap32 y) = wrap32 (x - y)"
  by (rule wrap32_cong) (metis mod_diff_right_eq wrap32_mod)

lemma wrap32_wrap32 [simp]: "wrap32 (wrap32 x) = wrap32 x"
  by (rule wrap32_cong) (rule wrap32_mod)

section \<open>Time\<close>

definition second :: duration where
  "second = 10 ^ 9"

definition millisecond :: duration where
  "millisecond = 10 ^ 6"

text \<open>
  \<open>t.Sub(u)\<close> of Go's standard library saturates at the range of \<open>Duration\<close>.
\<close>

definition time_sub :: "time \<Rightarrow> time \<Rightarrow> duration" where
  "time_sub t u = max (- (2 ^ 63)) (min (2 ^ 63 - 1) (t - u))"

lemma time_sub_le_0 [go_int]: "time_sub t u \<le> 0 \<longleftrightarrow> t \<le> u"
  by (auto simp: time_sub_def)

lemma time_sub_id [go_int]: "in_int64 (t - u) \<Longrightarrow> time_sub t u = t - u"
  by (simp add: time_sub_def in_int64_def)

lemma time_sub_less [go_int]:
  "- (2 ^ 63) \<le> d \<Longrightarrow> d < 2 ^ 63 - 1 \<Longrightarrow> d < time_sub t u \<longleftrightarrow> d < t - u"
  by (auto simp: time_sub_def)

lemma time_sub_ge [go_int]:
  "- (2 ^ 63) < d \<Longrightarrow> d \<le> 2 ^ 63 - 1 \<Longrightarrow> d \<le> time_sub t u \<longleftrightarrow> d \<le> t - u"
  by (auto simp: time_sub_def)

section \<open>Lists\<close>

text \<open>
  The \<open>kept := samples[:0]; for ... append\<close> idiom of the code is \<open>filter\<close> on the value.
  A sorted list is split by a threshold into a prefix and a suffix; \<open>count_le\<close> says how
  many entries of a sorted list are at most its \<open>i\<close>-th one.
\<close>

lemma sorted_nth_count_le:
  fixes xs :: "'a::linorder list"
  assumes "sorted xs" "i < length xs"
  shows "Suc i \<le> length (filter (\<lambda>x. x \<le> xs ! i) xs)"
proof -
  have all: "\<forall>x \<in> set (take (Suc i) xs). x \<le> xs ! i"
    using assms by (auto simp: in_set_conv_nth sorted_iff_nth_mono)
  have "length (filter (\<lambda>x. x \<le> xs ! i) (take (Suc i) xs)) = Suc i"
    using all assms(2) by (simp add: filter_id_conv [THEN iffD2])
  moreover have "length (filter (\<lambda>x. x \<le> xs ! i) (take (Suc i) xs))
      \<le> length (filter (\<lambda>x. x \<le> xs ! i) (take (Suc i) xs @ drop (Suc i) xs))"
    by (simp only: filter_append length_append)
  ultimately show ?thesis by simp
qed

lemma sorted_nth_count_less:
  fixes xs :: "'a::linorder list"
  assumes "sorted xs" "i < length xs"
  shows "length (filter (\<lambda>x. x < xs ! i) xs) \<le> i"
proof -
  have "\<forall>x \<in> set (drop i xs). \<not> x < xs ! i"
    using assms by (auto simp: in_set_conv_nth sorted_iff_nth_mono not_less)
  then have "filter (\<lambda>x. x < xs ! i) (drop i xs) = []"
    by (simp add: filter_empty_conv)
  then have "length (filter (\<lambda>x. x < xs ! i) (take i xs @ drop i xs))
      = length (filter (\<lambda>x. x < xs ! i) (take i xs))"
    by (simp only: filter_append length_append) simp
  also have "\<dots> \<le> i"
    by (rule order_trans [OF length_filter_le]) simp
  finally show ?thesis by simp
qed

lemma length_filter_sort:
  fixes xs :: "'a::linorder list"
  shows "length (filter P (sort xs)) = length (filter P xs)"
  by (simp add: filter_sort)

section \<open>Results\<close>

text \<open>
  \<open>error + value\<close> composes by \<open>bindR\<close>: the rest runs only when there was no error, as
  after an early \<open>return err\<close>.
\<close>

fun bindR :: "'e + 'a \<Rightarrow> ('a \<Rightarrow> 'e + 'b) \<Rightarrow> 'e + 'b" where
  "bindR (Inl e) f = Inl e"
| "bindR (Inr a) f = f a"

lemma bindR_Inr_iff: "bindR m f = Inr b \<longleftrightarrow> (\<exists>a. m = Inr a \<and> f a = Inr b)"
  by (cases m) auto

end
