(* ===== verification/Go_Text.thy ===== *)
theory Go_Text
  imports Sif_Prelude "HOL-Library.Sublist"
begin

text \<open>
  The string operations of Go's standard library that the program uses, on \<open>string\<close> (a list
  of bytes, as a Go string is).

  \<^item> \<open>strings.TrimSpace\<close> is exact, including the non-ASCII white space of Unicode, which is
    given by its UTF-8 encodings.
  \<^item> \<open>strings.ToLower\<close> and \<open>strings.EqualFold\<close> map the ASCII letters; letters outside ASCII
    are left alone.  No comparison of the program against one of its own lower-case names can
    tell the difference, but for the letter U+0130 (whose lower case is \<open>i\<close>).
  \<^item> \<open>%d\<close>, \<open>%t\<close> and \<open>%q\<close> of \<open>fmt.Sprintf\<close> are \<open>fmt_d\<close>, \<open>fmt_t\<close> and \<open>fmt_q\<close>, and
    \<open>strconv.ParseInt (s, 10, 64)\<close> is \<open>parse_int64\<close>.
\<close>

section \<open>Trimming\<close>

definition go_spaces :: "string list" where
  "go_spaces =
    [[CHR 0x20], [CHR 0x09], [CHR 0x0A], [CHR 0x0B], [CHR 0x0C], [CHR 0x0D],
     [CHR 0xC2, CHR 0x85], [CHR 0xC2, CHR 0xA0], [CHR 0xE1, CHR 0x9A, CHR 0x80],
     [CHR 0xE2, CHR 0x80, CHR 0x80], [CHR 0xE2, CHR 0x80, CHR 0x81], [CHR 0xE2, CHR 0x80, CHR 0x82],
     [CHR 0xE2, CHR 0x80, CHR 0x83], [CHR 0xE2, CHR 0x80, CHR 0x84], [CHR 0xE2, CHR 0x80, CHR 0x85],
     [CHR 0xE2, CHR 0x80, CHR 0x86], [CHR 0xE2, CHR 0x80, CHR 0x87], [CHR 0xE2, CHR 0x80, CHR 0x88],
     [CHR 0xE2, CHR 0x80, CHR 0x89], [CHR 0xE2, CHR 0x80, CHR 0x8A], [CHR 0xE2, CHR 0x80, CHR 0xA8],
     [CHR 0xE2, CHR 0x80, CHR 0xA9], [CHR 0xE2, CHR 0x80, CHR 0xAF], [CHR 0xE2, CHR 0x81, CHR 0x9F],
     [CHR 0xE3, CHR 0x80, CHR 0x80]]"

text \<open>Drop tokens of a set from the front of a list for as long as one is there.\<close>

function strip_front :: "'a list list \<Rightarrow> 'a list \<Rightarrow> 'a list" where
  "strip_front ws s =
    (case find (\<lambda>w. w \<noteq> [] \<and> prefix w s) ws of
       None \<Rightarrow> s
     | Some w \<Rightarrow> strip_front ws (drop (length w) s))"
  by pat_completeness auto
termination
  by (relation "measure (\<lambda>(ws, s). length s)") (auto simp: find_Some_iff prefix_def)

declare strip_front.simps [simp del]

definition strip_back :: "'a list list \<Rightarrow> 'a list \<Rightarrow> 'a list" where
  "strip_back ws s = rev (strip_front (map rev ws) (rev s))"

definition trimSpace :: "string \<Rightarrow> string" where
  "trimSpace s = strip_back go_spaces (strip_front go_spaces s)"

lemma strip_front_stuck:
  "find (\<lambda>w. w \<noteq> [] \<and> prefix w (strip_front ws s)) ws = None"
proof (induction ws s rule: strip_front.induct)
  case (1 ws s)
  show ?case
    by (cases "find (\<lambda>w. w \<noteq> [] \<and> prefix w s) ws")
      (simp_all add: strip_front.simps [of ws s] 1)
qed

lemma strip_front_id_iff:
  "find (\<lambda>w. w \<noteq> [] \<and> prefix w s) ws = None \<Longrightarrow> strip_front ws s = s"
  by (simp add: strip_front.simps [of ws s])

lemma strip_front_idem [simp]: "strip_front ws (strip_front ws s) = strip_front ws s"
  by (rule strip_front_id_iff) (rule strip_front_stuck)

lemma suffix_strip_front: "suffix (strip_front ws s) s"
proof (induction ws s rule: strip_front.induct)
  case (1 ws s)
  then show ?case
    by (cases "find (\<lambda>w. w \<noteq> [] \<and> prefix w s) ws")
      (auto simp: strip_front.simps [of ws s] intro: suffix_order.trans suffix_drop)
qed

lemma prefix_strip_back: "prefix (strip_back ws s) s"
  using suffix_strip_front [of "map rev ws" "rev s"]
  by (simp add: strip_back_def suffix_to_prefix)

lemma strip_back_idem [simp]: "strip_back ws (strip_back ws s) = strip_back ws s"
  by (simp add: strip_back_def)

text \<open>Stripping the back does not uncover a token at the front.\<close>

lemma strip_front_strip_back [simp]:
  "strip_front ws (strip_back ws' (strip_front ws s)) = strip_back ws' (strip_front ws s)"
proof (rule strip_front_id_iff)
  have stuck: "\<forall>w \<in> set ws. \<not> (w \<noteq> [] \<and> prefix w (strip_front ws s))"
    using strip_front_stuck [of ws s] by (simp add: find_None_iff)
  have "prefix (strip_back ws' (strip_front ws s)) (strip_front ws s)"
    by (rule prefix_strip_back)
  with stuck show "find (\<lambda>w. w \<noteq> [] \<and> prefix w (strip_back ws' (strip_front ws s))) ws = None"
    unfolding find_None_iff by (meson prefix_order.trans)
qed

lemma trimSpace_idem [simp]: "trimSpace (trimSpace s) = trimSpace s"
  by (simp add: trimSpace_def)

lemma trimSpace_Nil [simp]: "trimSpace [] = []"
  by code_simp

lemma sublist_trimSpace: "set (trimSpace s) \<subseteq> set s"
proof -
  have "set (trimSpace s) \<subseteq> set (strip_front go_spaces s)"
    unfolding trimSpace_def by (rule set_mono_prefix [OF prefix_strip_back])
  also have "\<dots> \<subseteq> set s"
    by (rule set_mono_suffix [OF suffix_strip_front])
  finally show ?thesis .
qed

text \<open>Text without a byte that starts or ends an encoded white space is left alone.\<close>

definition plain_char :: "char \<Rightarrow> bool" where
  "plain_char c \<longleftrightarrow> 0x20 < (of_char c :: nat) \<and> (of_char c :: nat) < 0x80"

lemma go_spaces_not_plain:
  "w \<in> set go_spaces \<Longrightarrow> w \<noteq> [] \<and> (\<forall>c \<in> set w. \<not> plain_char c)"
proof -
  have "list_all (\<lambda>w. w \<noteq> [] \<and> list_all (\<lambda>c. \<not> plain_char c) w) go_spaces"
    by code_simp
  then show "w \<in> set go_spaces \<Longrightarrow> w \<noteq> [] \<and> (\<forall>c \<in> set w. \<not> plain_char c)"
    by (auto simp: list_all_iff)
qed

lemma strip_front_plain:
  assumes "\<And>w. w \<in> set ws \<Longrightarrow> w \<noteq> [] \<and> (\<forall>c \<in> set w. \<not> plain_char c)"
    and "list_all plain_char s"
  shows "strip_front ws s = s"
proof (rule strip_front_id_iff, unfold find_None_iff, rule notI, elim exE conjE)
  fix w assume w: "w \<in> set ws" "w \<noteq> []" "prefix w s"
  then have "hd w \<in> set w" and "hd w \<in> set s"
    using set_mono_prefix by fastforce+
  with assms w show False
    by (auto simp: list_all_iff)
qed

lemma trimSpace_plain: "list_all plain_char s \<Longrightarrow> trimSpace s = s"
proof -
  assume p: "list_all plain_char s"
  have f: "strip_front go_spaces s = s"
    using p by (intro strip_front_plain) (auto dest: go_spaces_not_plain)
  have "strip_front (map rev go_spaces) (rev s) = rev s"
    using p by (intro strip_front_plain) (auto dest: go_spaces_not_plain)
  with f show ?thesis
    by (simp add: trimSpace_def strip_back_def)
qed

section \<open>Letter case\<close>

definition lower_char :: "char \<Rightarrow> char" where
  "lower_char c =
    (let n = (of_char c :: nat) in if 65 \<le> n \<and> n \<le> 90 then char_of (n + 32) else c)"

definition toLower :: "string \<Rightarrow> string" where
  "toLower s = map lower_char s"

definition equalFold :: "string \<Rightarrow> string \<Rightarrow> bool" where
  "equalFold s t \<longleftrightarrow> toLower s = toLower t"

lemma of_char_lower_char:
  "(of_char (lower_char c) :: nat)
     = (if 65 \<le> (of_char c :: nat) \<and> (of_char c :: nat) \<le> 90 then of_char c + 32 else of_char c)"
  by (simp add: lower_char_def Let_def of_char_of)

lemma lower_char_idem [simp]: "lower_char (lower_char c) = lower_char c"
  unfolding lower_char_def [of "lower_char c"] Let_def of_char_lower_char by auto

lemma toLower_idem [simp]: "toLower (toLower s) = toLower s"
  by (simp add: toLower_def)

lemma length_toLower [simp]: "length (toLower s) = length s"
  by (simp add: toLower_def)

lemma toLower_Nil_iff [simp]: "toLower s = [] \<longleftrightarrow> s = []"
  by (simp add: toLower_def)

text \<open>Trimmed text has no white space at its ends; lower-casing it leaves it trimmed.\<close>

definition trimmed :: "string \<Rightarrow> bool" where
  "trimmed s \<longleftrightarrow> (\<forall>w \<in> set go_spaces. \<not> prefix w s \<and> \<not> suffix w s)"

lemma go_spaces_not_Nil: "w \<in> set go_spaces \<Longrightarrow> w \<noteq> []"
  using go_spaces_not_plain by blast

lemma trimSpace_trimmed: "trimmed s \<Longrightarrow> trimSpace s = s"
proof -
  assume t: "trimmed s"
  have f: "strip_front go_spaces s = s"
    using t by (intro strip_front_id_iff) (auto simp: find_None_iff trimmed_def)
  have "strip_front (map rev go_spaces) (rev s) = rev s"
    using t by (intro strip_front_id_iff) (auto simp: find_None_iff trimmed_def suffix_to_prefix)
  with f show ?thesis by (simp add: trimSpace_def strip_back_def)
qed

lemma trimmed_trimSpace: "trimmed (trimSpace s)"
  unfolding trimmed_def
proof (intro ballI conjI)
  fix w assume w: "w \<in> set go_spaces"
  have "find (\<lambda>w. w \<noteq> [] \<and> prefix w (trimSpace s)) go_spaces = None"
    using strip_front_stuck [where ws = go_spaces and s = "trimSpace s"] by (simp add: trimSpace_def)
  then show "\<not> prefix w (trimSpace s)"
    using w go_spaces_not_Nil [OF w] by (auto simp: find_None_iff)
  have "find (\<lambda>w. w \<noteq> [] \<and> prefix w (rev (trimSpace s))) (map rev go_spaces) = None"
    using strip_front_stuck [where ws = "map rev go_spaces" and s = "rev (strip_front go_spaces s)"]
    by (simp add: trimSpace_def strip_back_def)
  then show "\<not> suffix w (trimSpace s)"
    using w go_spaces_not_Nil [OF w] by (auto simp: find_None_iff suffix_to_prefix)
qed

lemma lower_char_space: "w \<in> set go_spaces \<Longrightarrow> x \<in> set w \<Longrightarrow> lower_char c = x \<longleftrightarrow> c = x"
proof -
  assume w: "w \<in> set go_spaces" "x \<in> set w"
  have "list_all (list_all (\<lambda>c. \<not> (65 \<le> (of_char c :: nat) \<and> of_char c \<le> (90 :: nat)) \<and>
      \<not> (97 \<le> (of_char c :: nat) \<and> of_char c \<le> (122 :: nat)))) go_spaces"
    by code_simp
  with w have "\<not> (65 \<le> (of_char x :: nat) \<and> of_char x \<le> (90 :: nat))"
    "\<not> (97 \<le> (of_char x :: nat) \<and> of_char x \<le> (122 :: nat))"
    by (auto simp: list_all_iff)
  moreover have "lower_char c = c \<or> (97 \<le> (of_char (lower_char c) :: nat) \<and> of_char (lower_char c) \<le> (122 :: nat)
      \<and> 65 \<le> (of_char c :: nat) \<and> of_char c \<le> (90 :: nat))"
    by (auto simp: lower_char_def Let_def of_char_of)
  ultimately show ?thesis by auto
qed

lemma trimmed_toLower: "trimmed s \<Longrightarrow> trimmed (toLower s)"
  unfolding trimmed_def
proof (intro ballI)
  fix w assume t: "\<forall>w \<in> set go_spaces. \<not> prefix w s \<and> \<not> suffix w s" and w: "w \<in> set go_spaces"
  have same: "map lower_char u = w \<Longrightarrow> u = w" for u
    using w lower_char_space [OF w] by (auto simp: list_eq_iff_nth_eq)
  show "\<not> prefix w (toLower s) \<and> \<not> suffix w (toLower s)"
    using t w same unfolding toLower_def prefix_def suffix_def
    by (metis map_eq_append_conv)
qed

lemma trimSpace_toLower_trimSpace [simp]: "trimSpace (toLower (trimSpace s)) = toLower (trimSpace s)"
  by (intro trimSpace_trimmed trimmed_toLower trimmed_trimSpace)

section \<open>Numbers\<close>

definition digit_char :: "nat \<Rightarrow> char" where
  "digit_char d = char_of (48 + d)"

definition digit_val :: "char \<Rightarrow> nat option" where
  "digit_val c =
    (let n = (of_char c :: nat) in if 48 \<le> n \<and> n \<le> 57 then Some (n - 48) else None)"

lemma digit_val_digit_char [simp]: "d < 10 \<Longrightarrow> digit_val (digit_char d) = Some d"
  by (simp add: digit_val_def digit_char_def of_char_of)

fun dec_nat :: "nat \<Rightarrow> string" where
  "dec_nat n = (if n < 10 then [digit_char n] else dec_nat (n div 10) @ [digit_char (n mod 10)])"

declare dec_nat.simps [simp del]

definition fmt_d :: "int \<Rightarrow> string" where
  "fmt_d i = (if i < 0 then CHR ''-'' # dec_nat (nat (- i)) else dec_nat (nat i))"

definition fmt_t :: "bool \<Rightarrow> string" where
  "fmt_t b = (if b then ''true'' else ''false'')"

fun undec :: "nat \<Rightarrow> string \<Rightarrow> nat option" where
  "undec acc [] = Some acc"
| "undec acc (c # cs) =
    (case digit_val c of None \<Rightarrow> None | Some d \<Rightarrow> undec (10 * acc + d) cs)"

lemma undec_append:
  "undec acc (s @ t) = (case undec acc s of None \<Rightarrow> None | Some a \<Rightarrow> undec a t)"
  by (induction s arbitrary: acc) (auto split: option.splits)

lemma undec_dec_nat [simp]: "undec 0 (dec_nat n) = Some n"
proof (induction n rule: dec_nat.induct)
  case (1 n)
  show ?case
  proof (cases "n < 10")
    case True
    then show ?thesis by (simp add: dec_nat.simps [of n])
  next
    case False
    then show ?thesis
      using 1 by (simp add: dec_nat.simps [of n] undec_append)
  qed
qed

definition is_digit :: "char \<Rightarrow> bool" where
  "is_digit c \<longleftrightarrow> digit_val c \<noteq> None"

lemma dec_nat_digits: "list_all is_digit (dec_nat n)"
proof (induction n rule: dec_nat.induct)
  case (1 n)
  then show ?case
    by (cases "n < 10") (simp_all add: dec_nat.simps [of n] is_digit_def)
qed

lemma dec_nat_not_Nil [simp]: "dec_nat n \<noteq> []"
  by (simp add: dec_nat.simps [of n])

lemma dec_nat_inject [simp]: "dec_nat m = dec_nat n \<longleftrightarrow> m = n"
  by (metis option.inject undec_dec_nat)

lemma minus_not_digit [simp]: "\<not> is_digit (CHR ''-'')" "\<not> is_digit (CHR ''+'')"
  by (simp_all add: is_digit_def digit_val_def)

text \<open>
  A decimal number is delimited by the first character that is not a digit, so a command id
  built with \<open>%d\<close> determines its numbers.
\<close>

lemma dec_nat_delimited:
  assumes "dec_nat m @ c # s = dec_nat n @ d # t" "\<not> is_digit c" "\<not> is_digit d"
  shows "m = n \<and> c = d \<and> s = t"
proof -
  have split: "takeWhile is_digit (dec_nat k @ e # u) = dec_nat k
      \<and> dropWhile is_digit (dec_nat k @ e # u) = e # u"
    if "\<not> is_digit e" for k e u
    using dec_nat_digits [of k] that
    by (simp add: list_all_iff takeWhile_append2 dropWhile_append2)
  from assms split show ?thesis
    by (metis dec_nat_inject list.inject)
qed

lemma hd_dec_nat: "is_digit (hd (dec_nat n))"
  using dec_nat_digits [of n] by (cases "dec_nat n") auto

lemma fmt_d_inject [simp]: "fmt_d i = fmt_d j \<longleftrightarrow> i = j"
proof
  assume e: "fmt_d i = fmt_d j"
  have nm: "dec_nat k \<noteq> CHR ''-'' # s" for k s
    using hd_dec_nat [of k] by (metis list.sel(1) minus_not_digit(1))
  from e show "i = j"
    using nm nm [symmetric] by (auto simp: fmt_d_def split: if_splits)
qed simp

lemma fmt_d_delimited:
  assumes "fmt_d i @ c # s = fmt_d j @ d # t" "\<not> is_digit c" "\<not> is_digit d"
  shows "i = j \<and> c = d \<and> s = t"
proof -
  have nm: "dec_nat k @ e # s \<noteq> CHR ''-'' # u" for k e s u
    using hd_dec_nat [of k]
    by (metis append_is_Nil_conv dec_nat_not_Nil hd_append2 list.sel(1) minus_not_digit(1))
  from assms show ?thesis
    using nm [of "nat i"] nm [of "nat j", THEN not_sym]
    by (auto simp: fmt_d_def split: if_splits dest: dec_nat_delimited)
qed

text \<open>
  \<open>strconv.ParseInt (s, 10, 64)\<close>: an optional sign, then at least one digit and nothing else;
  a value outside \<open>int64\<close> is an error.
\<close>

definition parse_int64 :: "string \<Rightarrow> int option" where
  "parse_int64 s =
    (let neg = (case s of c # _ \<Rightarrow> c = CHR ''-'' | [] \<Rightarrow> False);
         body = (case s of c # cs \<Rightarrow> if c = CHR ''-'' \<or> c = CHR ''+'' then cs else s | [] \<Rightarrow> s)
     in if body = [] then None
        else case undec 0 body of
            None \<Rightarrow> None
          | Some n \<Rightarrow>
              (let v = (if neg then - int n else int n)
               in if in_int64 v then Some v else None))"

lemma parse_int64_fmt_d: "in_int64 i \<Longrightarrow> parse_int64 (fmt_d i) = Some i"
proof (cases "i < 0")
  case True
  assume "in_int64 i"
  with True show ?thesis by (simp add: parse_int64_def fmt_d_def)
next
  case False
  assume r: "in_int64 i"
  obtain c cs where s: "dec_nat (nat i) = c # cs"
    by (cases "dec_nat (nat i)") auto
  then have "is_digit c"
    using hd_dec_nat [of "nat i"] by simp
  then have "c \<noteq> CHR ''-''" "c \<noteq> CHR ''+''"
    using minus_not_digit by auto
  moreover have "undec 0 (c # cs) = Some (nat i)"
    using s undec_dec_nat [of "nat i"] by simp
  ultimately show ?thesis
    using r False by (simp add: parse_int64_def fmt_d_def s del: undec.simps)
qed

lemma is_digit_plain: "is_digit c \<Longrightarrow> plain_char c"
  by (auto simp: is_digit_def digit_val_def plain_char_def Let_def split: if_splits)

lemma fmt_d_plain: "list_all plain_char (fmt_d i)"
proof -
  have "list_all plain_char (dec_nat n)" for n
    using dec_nat_digits [of n] by (auto simp: list_all_iff intro: is_digit_plain)
  moreover have "plain_char (CHR ''-'')"
    by (simp add: plain_char_def)
  ultimately show ?thesis
    by (simp add: fmt_d_def)
qed

section \<open>Quoting\<close>

text \<open>
  \<open>%q\<close> on ASCII text: printable characters stand for themselves, the quote and the backslash
  are escaped, control characters have their short escape or \<open>\x\<close> and two hex digits.
\<close>

definition hex_char :: "nat \<Rightarrow> char" where
  "hex_char d = (if d < 10 then char_of (48 + d) else char_of (87 + d))"

definition quote_char :: "char \<Rightarrow> string" where
  "quote_char c =
    (let n = (of_char c :: nat)
     in if n = 0x22 then [CHR 0x5C, CHR 0x22]
        else if n = 0x5C then [CHR 0x5C, CHR 0x5C]
        else if n = 0x07 then [CHR 0x5C, CHR ''a'']
        else if n = 0x08 then [CHR 0x5C, CHR ''b'']
        else if n = 0x0C then [CHR 0x5C, CHR ''f'']
        else if n = 0x0A then [CHR 0x5C, CHR ''n'']
        else if n = 0x0D then [CHR 0x5C, CHR ''r'']
        else if n = 0x09 then [CHR 0x5C, CHR ''t'']
        else if n = 0x0B then [CHR 0x5C, CHR ''v'']
        else if n < 0x20 \<or> n = 0x7F
          then [CHR 0x5C, CHR ''x'', hex_char (n div 16), hex_char (n mod 16)]
        else [c])"

definition fmt_q :: "string \<Rightarrow> string" where
  "fmt_q s = [CHR 0x22] @ concat (map quote_char s) @ [CHR 0x22]"

section \<open>Prefixes and suffixes\<close>

definition trimPrefix :: "string \<Rightarrow> string \<Rightarrow> string" where
  "trimPrefix s p = (if prefix p s then drop (length p) s else s)"

definition trimSuffix :: "string \<Rightarrow> string \<Rightarrow> string" where
  "trimSuffix s p = (if suffix p s then take (length s - length p) s else s)"

text \<open>\<open>strings.TrimRight (s, c)\<close> and \<open>strings.Trim (s, c)\<close> for a one-character cut set.\<close>

definition trimRightChar :: "char \<Rightarrow> string \<Rightarrow> string" where
  "trimRightChar c s = rev (dropWhile (\<lambda>x. x = c) (rev s))"

definition trimChar :: "char \<Rightarrow> string \<Rightarrow> string" where
  "trimChar c s = trimRightChar c (dropWhile (\<lambda>x. x = c) s)"

lemma trimSuffix_append [simp]: "trimSuffix (s @ p) p = s"
  by (simp add: trimSuffix_def suffix_def)

end
