(* ===== verification/Api_Types.thy ===== *)
theory Api_Types
  imports Go_Text
begin

text \<open>
  The \<open>WasmFunction\<close> resource of \<open>edge/operator/api/v1alpha1/wasmfunction_types.go\<close>: one record
  per Go struct, one field per Go field.  A pointer field is an option, a \<open>metav1.Time\<close> pointer
  a \<open>time option\<close>.  Field names that several structs share carry the struct's initials.
\<close>

section \<open>The specification\<close>

record resourceInputKeySpec =
  RK_Name :: string
  RK_Type :: string

record resourceInputSpec =
  RI_Name :: string
  RI_Locality :: string
  RI_Keys :: "resourceInputKeySpec list"

record resourceOutputSpec =
  RO_Name :: string
  RO_Type :: string
  RO_Locality :: string

record resourceContractSpec =
  Inputs :: "resourceInputSpec list"
  Outputs :: "resourceOutputSpec list"

record releaseSpec =
  R_Generation :: int64
  R_ArtifactDigest :: string
  FunctionIdentity :: string
  ResourceContract :: resourceContractSpec

record envVar =
  EV_Name :: string
  EV_Value :: string

record batterySimulationSpec =
  BS_Enabled :: "bool option"
  LocalDrainPercent :: "int32 option"
  EdgeRecoverPercent :: "int32 option"

record deviceSpec =
  D_ID :: string
  ControlTopic :: string
  TelemetryTopic :: string
  OperatorWasmURL :: string
  D_ArtifactURL :: string
  BatterySimulation :: batterySimulationSpec

record batteryThresholdPolicySpec =
  BT_Enabled :: "bool option"

record deadlineEstimatorSpec =
  DE_WindowSeconds :: int32
  MinSamples :: int32
  Percentile :: int32
  FallbackLocalExecutionMs :: int32
  FallbackEdgeExecutionMs :: int32
  FallbackNetworkRoundTripMs :: int32
  FallbackResourceCollectionMs :: int32

record deadlinePolicySpec =
  DP_Enabled :: "bool option"
  TargetMs :: "int32 option"
  MinSlackMs :: int32
  SafetyMarginMs :: int32
  Estimator :: deadlineEstimatorSpec

record batteryDeltaPolicySpec =
  BD_Enabled :: "bool option"
  BD_WindowSeconds :: int32
  MaxDrainPercent :: int32
  RiskyWindowsToOffload :: int32

record placementSpec =
  P_Mode :: string
  P_BatteryPercent :: "int32 option"
  LowBatteryThreshold :: int32
  HighBatteryThreshold :: int32
  BatteryThreshold :: batteryThresholdPolicySpec
  Deadline :: deadlinePolicySpec
  BatteryDelta :: batteryDeltaPolicySpec

record wasmFunctionSpec =
  Image :: string
  WasmPath :: string
  Replicas :: "int32 option"
  Port :: int32
  Env :: "envVar list"
  Device :: deviceSpec
  Placement :: placementSpec
  Release :: releaseSpec

section \<open>The status\<close>

text \<open>\<open>metav1.Condition\<close>, as far as the program fills it.\<close>

datatype conditionStatus = ConditionTrue | ConditionFalse | ConditionUnknown

record condition =
  C_Type :: string
  C_Status :: conditionStatus
  C_Reason :: string
  C_Message :: string
  C_LastTransitionTime :: time

record wasmFunctionStatus =
  AvailableReplicas :: int32
  Endpoint :: string
  DesiredArtifactDigest :: string
  HostArtifactDigest :: string
  HostStagedArtifactDigest :: string
  DeviceStagedArtifactDigest :: string
  SelectedFunctionIdentity :: string
  DesiredReleaseGeneration :: int64
  AcknowledgedReleaseGeneration :: int64
  StagedReleaseGeneration :: int64
  DesiredPlacement :: string
  PlacementReason :: string
  ProposalSource :: string
  ProposedPlacement :: string
  PredictedCandidateCostMs :: "int32 option"
  PredictedCandidateSlackMs :: "int32 option"
  ArtifactReadinessReason :: string
  ArtifactSyncStartedAt :: "time option"
  ArtifactSyncRetryCount :: int32
  ObservedBatteryPercent :: "int32 option"
  ObservedMode :: string
  ObservedAdmissionPaused :: bool
  ObservedBatterySource :: string
  ObservedVoltageMillivolts :: "int32 option"
  ObservedArtifactDigest :: string
  ObservedFunction :: string
  ObservedBatteryDeltaPercent :: "int32 option"
  ObservedBatteryDeltaWindowSeconds :: "int32 option"
  ConsecutiveRiskyWindows :: int32
  LastTelemetryTime :: "time option"
  LastCommandedPlacement :: string
  LastCommandedRuntimeMode :: string
  LastCommandTime :: "time option"
  LastCommandID :: string
  LastStageCommandID :: string
  LastStageCommandTime :: "time option"
  StageCommandAttempts :: int32
  ReleaseDeliveryState :: string
  LastDeadlineDecisionID :: string
  LastSignaledDeadlineDecisionID :: string
  LastAppliedBatterySimulationCommandID :: string
  LastBatterySimulationCommandTime :: "time option"
  LastAppliedLowBatteryThreshold :: int32
  LastAppliedHighBatteryThreshold :: int32
  Conditions :: "condition list"

section \<open>The resource\<close>

text \<open>\<open>M_Name\<close>, \<open>M_Namespace\<close> and \<open>M_Generation\<close> are the fields of \<open>ObjectMeta\<close> the program reads.\<close>

record wasmFunction =
  M_Name :: string
  M_Namespace :: string
  M_Generation :: int64
  Spec :: wasmFunctionSpec
  Status :: wasmFunctionStatus

type_synonym namespacedName = "string \<times> string"

definition key_of :: "wasmFunction \<Rightarrow> namespacedName" where
  "key_of w = (M_Namespace w, M_Name w)"

text \<open>Short names for the parts of a resource that most functions read.\<close>

abbreviation release :: "wasmFunction \<Rightarrow> releaseSpec" where
  "release w \<equiv> Release (Spec w)"

abbreviation device :: "wasmFunction \<Rightarrow> deviceSpec" where
  "device w \<equiv> Device (Spec w)"

abbreviation placement :: "wasmFunction \<Rightarrow> placementSpec" where
  "placement w \<equiv> Placement (Spec w)"

abbreviation on_status :: "(wasmFunctionStatus \<Rightarrow> wasmFunctionStatus) \<Rightarrow> wasmFunction \<Rightarrow> wasmFunction" where
  "on_status f w \<equiv> w\<lparr>Status := f (Status w)\<rparr>"

section \<open>Values at their zero\<close>

text \<open>The zero values of the structs: what a resource holds where nothing is written.\<close>

definition zeroContract :: resourceContractSpec where
  "zeroContract = \<lparr>Inputs = [], Outputs = []\<rparr>"

definition zeroRelease :: releaseSpec where
  "zeroRelease = \<lparr>R_Generation = 0, R_ArtifactDigest = [], FunctionIdentity = [],
     ResourceContract = zeroContract\<rparr>"

definition zeroDevice :: deviceSpec where
  "zeroDevice = \<lparr>D_ID = [], ControlTopic = [], TelemetryTopic = [], OperatorWasmURL = [],
     D_ArtifactURL = [],
     BatterySimulation = \<lparr>BS_Enabled = None, LocalDrainPercent = None, EdgeRecoverPercent = None\<rparr>\<rparr>"

definition zeroEstimator :: deadlineEstimatorSpec where
  "zeroEstimator = \<lparr>DE_WindowSeconds = 0, MinSamples = 0, Percentile = 0,
     FallbackLocalExecutionMs = 0, FallbackEdgeExecutionMs = 0,
     FallbackNetworkRoundTripMs = 0, FallbackResourceCollectionMs = 0\<rparr>"

definition zeroPlacement :: placementSpec where
  "zeroPlacement = \<lparr>P_Mode = [], P_BatteryPercent = None, LowBatteryThreshold = 0,
     HighBatteryThreshold = 0, BatteryThreshold = \<lparr>BT_Enabled = None\<rparr>,
     Deadline = \<lparr>DP_Enabled = None, TargetMs = None, MinSlackMs = 0, SafetyMarginMs = 0,
       Estimator = zeroEstimator\<rparr>,
     BatteryDelta = \<lparr>BD_Enabled = None, BD_WindowSeconds = 0, MaxDrainPercent = 0,
       RiskyWindowsToOffload = 0\<rparr>\<rparr>"

definition zeroSpec :: wasmFunctionSpec where
  "zeroSpec = \<lparr>Image = [], WasmPath = [], Replicas = None, Port = 0, Env = [],
     Device = zeroDevice, Placement = zeroPlacement, Release = zeroRelease\<rparr>"

definition zeroStatus :: wasmFunctionStatus where
  "zeroStatus = \<lparr>AvailableReplicas = 0, Endpoint = [], DesiredArtifactDigest = [],
     HostArtifactDigest = [], HostStagedArtifactDigest = [], DeviceStagedArtifactDigest = [],
     SelectedFunctionIdentity = [], DesiredReleaseGeneration = 0,
     AcknowledgedReleaseGeneration = 0, StagedReleaseGeneration = 0, DesiredPlacement = [],
     PlacementReason = [], ProposalSource = [], ProposedPlacement = [],
     PredictedCandidateCostMs = None, PredictedCandidateSlackMs = None,
     ArtifactReadinessReason = [], ArtifactSyncStartedAt = None, ArtifactSyncRetryCount = 0,
     ObservedBatteryPercent = None, ObservedMode = [], ObservedAdmissionPaused = False,
     ObservedBatterySource = [], ObservedVoltageMillivolts = None, ObservedArtifactDigest = [],
     ObservedFunction = [], ObservedBatteryDeltaPercent = None,
     ObservedBatteryDeltaWindowSeconds = None, ConsecutiveRiskyWindows = 0,
     LastTelemetryTime = None, LastCommandedPlacement = [], LastCommandedRuntimeMode = [],
     LastCommandTime = None, LastCommandID = [], LastStageCommandID = [],
     LastStageCommandTime = None, StageCommandAttempts = 0, ReleaseDeliveryState = [],
     LastDeadlineDecisionID = [], LastSignaledDeadlineDecisionID = [],
     LastAppliedBatterySimulationCommandID = [], LastBatterySimulationCommandTime = None,
     LastAppliedLowBatteryThreshold = 0, LastAppliedHighBatteryThreshold = 0, Conditions = []\<rparr>"

definition zeroWasmFunction :: wasmFunction where
  "zeroWasmFunction = \<lparr>M_Name = [], M_Namespace = [], M_Generation = 0, Spec = zeroSpec,
     Status = zeroStatus\<rparr>"

lemmas zero_defs = zeroWasmFunction_def zeroStatus_def zeroSpec_def zeroPlacement_def
  zeroEstimator_def zeroDevice_def zeroRelease_def zeroContract_def

end
