(* ===== verification/Release_Match.thy ===== *)
theory Release_Match
  imports Api_Types
begin

text \<open>
  Release identity: digests, command ids and the predicates that say whether the edge host or the
  device holds the release the specification declares (\<open>artifact_sync.go\<close>, and
  \<open>normalizeArtifactDigest\<close>, \<open>telemetryTopicForDevice\<close>, \<open>releaseDeliveryState\<close>).
\<close>

section \<open>Normalisers\<close>

text \<open>
  The program compares many values only after bringing them into a normal form.  The contract of
  a normaliser is that a second application changes nothing; equality of normal forms is then
  insensitive to whether the two sides have been normalised before.
\<close>

locale normaliser =
  fixes norm :: "'a \<Rightarrow> 'a"
  assumes norm_norm: "norm (norm x) = norm x"
begin

lemma norm_eq_norm_iff: "norm (norm x) = norm y \<longleftrightarrow> norm x = norm y"
  by (simp add: norm_norm)

lemma normal_iff_range: "norm x = x \<longleftrightarrow> x \<in> range norm"
  by (metis norm_norm rangeI image_iff)

end

interpretation trim: normaliser trimSpace
  by unfold_locales simp

interpretation lower: normaliser toLower
  by unfold_locales simp

section \<open>Digests\<close>

definition is_hex_char :: "char \<Rightarrow> bool" where
  "is_hex_char ch \<longleftrightarrow>
     \<not> (((of_char ch :: nat) < 48 \<or> (of_char ch :: nat) > 57) \<and>
        ((of_char ch :: nat) < 97 \<or> (of_char ch :: nat) > 102))"

definition normalizeArtifactDigest :: "string \<Rightarrow> string" where
  "normalizeArtifactDigest digest =
    (let d = toLower (trimSpace digest)
     in if length d \<noteq> 64 then []
        else if \<exists>ch \<in> set d. \<not> is_hex_char ch then []
        else d)"

text \<open>The normal form of a digest: 64 lower-case hexadecimal digits.\<close>

definition is_digest :: "string \<Rightarrow> bool" where
  "is_digest d \<longleftrightarrow> length d = 64 \<and> list_all is_hex_char d"

lemma is_hex_char_plain: "is_hex_char c \<Longrightarrow> plain_char c"
  by (auto simp: is_hex_char_def plain_char_def not_less)

lemma lower_char_hex [simp]: "is_hex_char c \<Longrightarrow> lower_char c = c"
  by (auto simp: is_hex_char_def lower_char_def Let_def)

lemma is_digest_not_Nil: "is_digest d \<Longrightarrow> d \<noteq> []"
  by (auto simp: is_digest_def)

lemma is_digest_lower: "is_digest d \<Longrightarrow> toLower d = d"
  by (auto simp: is_digest_def toLower_def list_all_iff intro: map_idI)

lemma is_digest_trim: "is_digest d \<Longrightarrow> trimSpace d = d"
  by (rule trimSpace_plain) (auto simp: is_digest_def list_all_iff intro: is_hex_char_plain)

lemma normalize_digest [simp]: "is_digest d \<Longrightarrow> normalizeArtifactDigest d = d"
  using is_digest_trim [of d] is_digest_lower [of d]
  by (auto simp: normalizeArtifactDigest_def Let_def is_digest_def list_all_iff)

lemma normalize_cases:
  "normalizeArtifactDigest d = [] \<or>
   is_digest (normalizeArtifactDigest d) \<and> normalizeArtifactDigest d = toLower (trimSpace d)"
  by (auto simp: normalizeArtifactDigest_def Let_def is_digest_def list_all_iff)

lemma normalize_Nil [simp]: "normalizeArtifactDigest [] = []"
  by (simp add: normalizeArtifactDigest_def toLower_def)

lemma normalize_idem [simp]:
  "normalizeArtifactDigest (normalizeArtifactDigest d) = normalizeArtifactDigest d"
  using normalize_cases [of d]
proof (elim disjE conjE)
  assume "normalizeArtifactDigest d = []"
  then show ?thesis by simp
next
  assume "is_digest (normalizeArtifactDigest d)"
  then show ?thesis by (rule normalize_digest)
qed

lemma is_digest_normalize_iff [simp]:
  "is_digest (normalizeArtifactDigest d) \<longleftrightarrow> normalizeArtifactDigest d \<noteq> []"
  using normalize_cases [of d] is_digest_not_Nil by blast

interpretation digest: normaliser normalizeArtifactDigest
  by unfold_locales simp

definition artifactDigestForLog :: "string \<Rightarrow> string" where
  "artifactDigestForLog digest =
    (let normalized = normalizeArtifactDigest digest
     in if normalized = [] then trimSpace digest
        else if length normalized \<le> 12 then normalized
        else take 12 normalized @ ''...'')"

lemma artifactDigestForLog_digest:
  "is_digest d \<Longrightarrow> artifactDigestForLog d = take 12 d @ ''...''"
  using is_digest_not_Nil [of d] by (simp add: artifactDigestForLog_def Let_def) (simp add: is_digest_def)

section \<open>Addresses\<close>

definition operatorArtifactURL :: "wasmFunction \<Rightarrow> string" where
  "operatorArtifactURL w = trimSpace (OperatorWasmURL (device w))"

definition deviceArtifactURL :: "wasmFunction \<Rightarrow> string" where
  "deviceArtifactURL w = trimSpace (D_ArtifactURL (device w))"

definition telemetryTopicForDevice :: "deviceSpec \<Rightarrow> string" where
  "telemetryTopicForDevice d =
    (if TelemetryTopic d \<noteq> [] then trimSpace (TelemetryTopic d)
     else if ControlTopic d = [] then []
     else trimRightChar (CHR ''/'') (ControlTopic d) @ ''/telemetry'')"

section \<open>Which release a runtime holds\<close>

record artifactDecision =
  A_Enabled :: bool
  SourceURL :: string
  HostURL :: string
  DesiredDigest :: string
  HostDigest :: string
  HostStagedDigest :: string
  HostActiveGeneration :: int64
  HostStagedGeneration :: int64
  HostActiveFunction :: string
  HostStagedFunction :: string
  UpdatedHost :: bool

definition zeroArtifact :: artifactDecision where
  "zeroArtifact = \<lparr>A_Enabled = False, SourceURL = [], HostURL = [], DesiredDigest = [],
     HostDigest = [], HostStagedDigest = [], HostActiveGeneration = 0, HostStagedGeneration = 0,
     HostActiveFunction = [], HostStagedFunction = [], UpdatedHost = False\<rparr>"

definition hostReleaseMatches :: "string \<Rightarrow> int64 \<Rightarrow> string \<Rightarrow> wasmFunction \<Rightarrow> bool" where
  "hostReleaseMatches digest generation function w \<longleftrightarrow>
     normalizeArtifactDigest digest = normalizeArtifactDigest (R_ArtifactDigest (release w)) \<and>
     generation = R_Generation (release w) \<and>
     trimSpace function = trimSpace (FunctionIdentity (release w))"

definition deviceReleaseStaged :: "wasmFunction \<Rightarrow> string \<Rightarrow> bool" where
  "deviceReleaseStaged w digest \<longleftrightarrow>
     StagedReleaseGeneration (Status w) = R_Generation (release w) \<and>
     normalizeArtifactDigest (DeviceStagedArtifactDigest (Status w)) = digest"

definition deviceReleaseActive :: "wasmFunction \<Rightarrow> string \<Rightarrow> bool" where
  "deviceReleaseActive w digest \<longleftrightarrow>
     AcknowledgedReleaseGeneration (Status w) = R_Generation (release w) \<and>
     normalizeArtifactDigest (ObservedArtifactDigest (Status w)) = digest \<and>
     trimSpace (ObservedFunction (Status w)) = trimSpace (FunctionIdentity (release w))"

definition deviceReleaseReady :: "wasmFunction \<Rightarrow> string \<Rightarrow> bool" where
  "deviceReleaseReady w digest \<longleftrightarrow> deviceReleaseStaged w digest \<or> deviceReleaseActive w digest"

text \<open>The two host slots of an artifact decision, as the call sites compare them.\<close>

definition hostActiveMatches :: "artifactDecision \<Rightarrow> wasmFunction \<Rightarrow> bool" where
  "hostActiveMatches a w \<longleftrightarrow>
     hostReleaseMatches (HostDigest a) (HostActiveGeneration a) (HostActiveFunction a) w"

definition hostStagedMatches :: "artifactDecision \<Rightarrow> wasmFunction \<Rightarrow> bool" where
  "hostStagedMatches a w \<longleftrightarrow>
     hostReleaseMatches (HostStagedDigest a) (HostStagedGeneration a) (HostStagedFunction a) w"

section \<open>Command ids\<close>

text \<open>The ids the operator gives its MQTT commands, as the code formats them.\<close>

definition stageCommandID :: "int64 \<Rightarrow> string \<Rightarrow> string" where
  "stageCommandID generation digest =
     ''stage-'' @ fmt_d generation @ ''-'' @ artifactDigestForLog digest"

definition activateLocalID :: "int64 \<Rightarrow> string" where
  "activateLocalID generation = ''activate-local-'' @ fmt_d generation"

definition runtimeEdgeID :: "int64 \<Rightarrow> string" where
  "runtimeEdgeID generation = ''runtime-edge-'' @ fmt_d generation"

definition pauseID :: "int64 \<Rightarrow> string" where
  "pauseID generation = ''pause-'' @ fmt_d generation"

definition resumeID :: "int64 \<Rightarrow> string" where
  "resumeID generation = ''resume-'' @ fmt_d generation"

lemmas command_id_defs = stageCommandID_def activateLocalID_def runtimeEdgeID_def
  pauseID_def resumeID_def

lemma command_id_inject [simp]:
  "activateLocalID g = activateLocalID h \<longleftrightarrow> g = h"
  "runtimeEdgeID g = runtimeEdgeID h \<longleftrightarrow> g = h"
  "pauseID g = pauseID h \<longleftrightarrow> g = h"
  "resumeID g = resumeID h \<longleftrightarrow> g = h"
  by (simp_all add: command_id_defs)

lemma command_id_distinct [simp]:
  "activateLocalID g \<noteq> runtimeEdgeID h" "runtimeEdgeID h \<noteq> activateLocalID g"
  "activateLocalID g \<noteq> pauseID h" "pauseID h \<noteq> activateLocalID g"
  "activateLocalID g \<noteq> resumeID h" "resumeID h \<noteq> activateLocalID g"
  "runtimeEdgeID g \<noteq> pauseID h" "pauseID h \<noteq> runtimeEdgeID g"
  "runtimeEdgeID g \<noteq> resumeID h" "resumeID h \<noteq> runtimeEdgeID g"
  "pauseID g \<noteq> resumeID h" "resumeID h \<noteq> pauseID g"
  by (simp_all add: command_id_defs)

lemma command_id_not_Nil [simp]:
  "stageCommandID g d \<noteq> []" "activateLocalID g \<noteq> []" "runtimeEdgeID g \<noteq> []"
  "pauseID g \<noteq> []" "resumeID g \<noteq> []"
  by (simp_all add: command_id_defs)

lemma stageCommandID_inject:
  "stageCommandID g d = stageCommandID h e \<longleftrightarrow>
     g = h \<and> artifactDigestForLog d = artifactDigestForLog e"
proof
  assume "stageCommandID g d = stageCommandID h e"
  then have "fmt_d g @ CHR ''-'' # artifactDigestForLog d
      = fmt_d h @ CHR ''-'' # artifactDigestForLog e"
    by (simp add: stageCommandID_def)
  then show "g = h \<and> artifactDigestForLog d = artifactDigestForLog e"
    by (auto dest: fmt_d_delimited)
qed (simp add: stageCommandID_def)

section \<open>Delivery state\<close>

definition releaseDeliveryState :: "wasmFunction \<Rightarrow> string \<Rightarrow> string" where
  "releaseDeliveryState w digest =
    (let generation = R_Generation (release w)
     in if digest = [] \<or> generation \<le> 0 then ''Pending''
        else if deviceReleaseActive w digest then ''Active''
        else if deviceReleaseStaged w digest then
          (if LastCommandID (Status w) = activateLocalID generation \<or>
              LastCommandID (Status w) = runtimeEdgeID generation
           then ''AwaitingActivationAck'' else ''Staged'')
        else if LastStageCommandID (Status w) = stageCommandID generation digest
          then ''AwaitingStageAck''
        else ''Pending'')"

lemma releaseDeliveryState_cases:
  "releaseDeliveryState w digest \<in>
     {''Pending'', ''AwaitingStageAck'', ''Staged'', ''AwaitingActivationAck'', ''Active''}"
  by (simp add: releaseDeliveryState_def Let_def)

lemma releaseDeliveryState_iffs:
  "releaseDeliveryState w d = ''Active'' \<longleftrightarrow>
     d \<noteq> [] \<and> 0 < R_Generation (release w) \<and> deviceReleaseActive w d"
  "releaseDeliveryState w d = ''AwaitingActivationAck'' \<longleftrightarrow>
     d \<noteq> [] \<and> 0 < R_Generation (release w) \<and> \<not> deviceReleaseActive w d \<and> deviceReleaseStaged w d \<and>
     LastCommandID (Status w) \<in>
       {activateLocalID (R_Generation (release w)), runtimeEdgeID (R_Generation (release w))}"
  "releaseDeliveryState w d = ''AwaitingStageAck'' \<longleftrightarrow>
     d \<noteq> [] \<and> 0 < R_Generation (release w) \<and> \<not> deviceReleaseReady w d \<and>
     LastStageCommandID (Status w) = stageCommandID (R_Generation (release w)) d"
  by (auto simp: releaseDeliveryState_def Let_def deviceReleaseReady_def)

end
