(* ===== verification/Deadline.thy ===== *)
theory Deadline
  imports Release_Match
begin

text \<open>
  Deadline admission (\<open>deadline_placement.go\<close>): the cost of a candidate placement, its slack
  against the target, and the verdict.  Costs and slack are \<open>int32\<close> and wrap around; the lemmas
  say where that cannot happen and what the verdict is there.
\<close>

section \<open>Placements and defaults\<close>

abbreviation placementAuto :: string where "placementAuto \<equiv> ''auto''"
abbreviation placementLocal :: string where "placementLocal \<equiv> ''local''"
abbreviation placementEdge :: string where "placementEdge \<equiv> ''edge''"
abbreviation placementHybrid :: string where "placementHybrid \<equiv> ''hybrid''"

definition defaultDeadlineMinSlackMs :: int32 where "defaultDeadlineMinSlackMs = 500"
definition defaultDeadlineSafetyMarginMs :: int32 where "defaultDeadlineSafetyMarginMs = 250"
definition defaultDeadlineEstimatorWindowSeconds :: int32 where
  "defaultDeadlineEstimatorWindowSeconds = 300"
definition defaultDeadlineEstimatorMinSamples :: int32 where
  "defaultDeadlineEstimatorMinSamples = 5"
definition defaultDeadlineEstimatorPercentile :: int32 where
  "defaultDeadlineEstimatorPercentile = 95"

definition effectiveDeadlineEnabled :: "wasmFunction \<Rightarrow> bool" where
  "effectiveDeadlineEnabled w =
    (case DP_Enabled (Deadline (placement w)) of None \<Rightarrow> True | Some b \<Rightarrow> b)"

definition effectiveDeadlineMinSlackMs :: "wasmFunction \<Rightarrow> int32" where
  "effectiveDeadlineMinSlackMs w =
    (if MinSlackMs (Deadline (placement w)) > 0 then MinSlackMs (Deadline (placement w))
     else defaultDeadlineMinSlackMs)"

definition effectiveDeadlineSafetyMarginMs :: "wasmFunction \<Rightarrow> int32" where
  "effectiveDeadlineSafetyMarginMs w =
    (if SafetyMarginMs (Deadline (placement w)) > 0 then SafetyMarginMs (Deadline (placement w))
     else defaultDeadlineSafetyMarginMs)"

definition effectiveDeadlineEstimatorWindowSeconds :: "wasmFunction \<Rightarrow> int32" where
  "effectiveDeadlineEstimatorWindowSeconds w =
    (let e = Estimator (Deadline (placement w))
     in if DE_WindowSeconds e > 0 then DE_WindowSeconds e
        else defaultDeadlineEstimatorWindowSeconds)"

definition effectiveDeadlineEstimatorMinSamples :: "wasmFunction \<Rightarrow> int32" where
  "effectiveDeadlineEstimatorMinSamples w =
    (let e = Estimator (Deadline (placement w))
     in if MinSamples e > 0 then MinSamples e else defaultDeadlineEstimatorMinSamples)"

definition effectiveDeadlineEstimatorPercentile :: "wasmFunction \<Rightarrow> int32" where
  "effectiveDeadlineEstimatorPercentile w =
    (let e = Estimator (Deadline (placement w))
     in if Percentile e > 0 then Percentile e else defaultDeadlineEstimatorPercentile)"

lemma effective_pos [simp]:
  "0 < effectiveDeadlineMinSlackMs w" "0 < effectiveDeadlineSafetyMarginMs w"
  "0 < effectiveDeadlineEstimatorWindowSeconds w" "0 < effectiveDeadlineEstimatorMinSamples w"
  "0 < effectiveDeadlineEstimatorPercentile w"
  by (simp_all add: effectiveDeadlineMinSlackMs_def effectiveDeadlineSafetyMarginMs_def
      effectiveDeadlineEstimatorWindowSeconds_def effectiveDeadlineEstimatorMinSamples_def
      effectiveDeadlineEstimatorPercentile_def defaultDeadlineMinSlackMs_def
      defaultDeadlineSafetyMarginMs_def defaultDeadlineEstimatorWindowSeconds_def
      defaultDeadlineEstimatorMinSamples_def defaultDeadlineEstimatorPercentile_def Let_def)

section \<open>Estimates and verdicts\<close>

record deadlineEstimateSnapshot =
  IdentityKnown :: bool
  Available :: bool
  LocalExecutionMs :: int32
  LocalQueueDelayMs :: int32
  ResourceWakeMs :: int32
  EdgeExecutionMs :: int32
  NetworkRoundTripMs :: int32
  ResourceCollectionMs :: int32
  OutputApplicationMs :: int32
  HybridRoundTripMs :: int32
  SampleCount :: int32

definition noEstimate :: "bool \<Rightarrow> deadlineEstimateSnapshot" where
  "noEstimate known =
    \<lparr>IdentityKnown = known, Available = False, LocalExecutionMs = 0, LocalQueueDelayMs = 0,
     ResourceWakeMs = 0, EdgeExecutionMs = 0, NetworkRoundTripMs = 0, ResourceCollectionMs = 0,
     OutputApplicationMs = 0, HybridRoundTripMs = 0, SampleCount = 0\<rparr>"

record deadlineEvaluation =
  E_Enabled :: bool
  Accepted :: bool
  BlocksTransition :: bool
  Unsafe :: bool
  Forced :: bool
  E_Candidate :: string
  CostMs :: "int32 option"
  SlackMs :: "int32 option"
  E_Condition :: "condition option"

definition zeroEvaluation :: deadlineEvaluation where
  "zeroEvaluation = \<lparr>E_Enabled = False, Accepted = False, BlocksTransition = False, Unsafe = False,
     Forced = False, E_Candidate = [], CostMs = None, SlackMs = None, E_Condition = None\<rparr>"

definition deadlineAdmissionCondition ::
    "time \<Rightarrow> conditionStatus \<Rightarrow> string \<Rightarrow> string \<Rightarrow> condition" where
  "deadlineAdmissionCondition now status reason message =
    \<lparr>C_Type = ''DeadlineAdmission'', C_Status = status, C_Reason = reason, C_Message = message,
     C_LastTransitionTime = now\<rparr>"

definition deadlineCandidateCost ::
    "string \<Rightarrow> deadlineEstimateSnapshot \<Rightarrow> int32 \<Rightarrow> int32 option" where
  "deadlineCandidateCost candidate e safetyMargin =
    (if candidate = placementLocal then
       Some (wrap32 (wrap32 (wrap32 (LocalQueueDelayMs e + ResourceWakeMs e) + LocalExecutionMs e)
               + safetyMargin))
     else if candidate = placementEdge then
       Some (wrap32 (wrap32 (NetworkRoundTripMs e + EdgeExecutionMs e) + safetyMargin))
     else if candidate = placementHybrid then
       Some (wrap32 (wrap32 (wrap32 (wrap32 (ResourceCollectionMs e + NetworkRoundTripMs e)
               + EdgeExecutionMs e) + OutputApplicationMs e) + safetyMargin))
     else None)"

text \<open>
  \<open>now\<close> is the reading of \<open>metav1.Now ()\<close> for the condition the evaluation builds (it builds at
  most one).
\<close>

definition evaluateDeadlineAdmission ::
    "time \<Rightarrow> wasmFunction \<Rightarrow> string \<Rightarrow> bool \<Rightarrow> deadlineEstimateSnapshot \<Rightarrow> deadlineEvaluation" where
  "evaluateDeadlineAdmission now w candidate hard estimates =
    (let evaluation = zeroEvaluation\<lparr>E_Enabled := effectiveDeadlineEnabled w, Accepted := True,
           E_Candidate := candidate\<rparr>;
         identity = trimSpace (FunctionIdentity (release w));
         observedIdentity = trimSpace (ObservedFunction (Status w));
         target = TargetMs (Deadline (placement w));
         condition = deadlineAdmissionCondition now
     in if \<not> E_Enabled evaluation then evaluation
        else if identity = [] \<or> \<not> IdentityKnown estimates then
          evaluation\<lparr>Accepted := hard, BlocksTransition := \<not> hard,
            E_Condition := Some (condition ConditionUnknown ''FunctionIdentityUnknown''
              (''function identity '' @ fmt_q identity @ '' has no configured timing profile''))\<rparr>
        else if observedIdentity \<noteq> [] \<and> observedIdentity \<noteq> identity then
          evaluation\<lparr>Accepted := hard, BlocksTransition := \<not> hard,
            E_Condition := Some (condition ConditionUnknown ''FunctionIdentityMismatch''
              (''selected function '' @ fmt_q identity @ '' does not match reported function '' @
               fmt_q observedIdentity))\<rparr>
        else case target of
          None \<Rightarrow>
            evaluation\<lparr>E_Condition := Some (condition ConditionUnknown ''TargetUnavailable''
              ''deadline targetMs is not configured; deadline admission abstained'')\<rparr>
        | Some targetMs \<Rightarrow>
            if targetMs \<le> 0 then
              evaluation\<lparr>E_Condition := Some (condition ConditionUnknown ''TargetUnavailable''
                ''deadline targetMs is not configured; deadline admission abstained'')\<rparr>
            else if \<not> Available estimates then
              evaluation\<lparr>E_Condition := Some (condition ConditionUnknown ''EstimatesUnavailable''
                (''timing estimates for function '' @ fmt_q identity @
                 '' are unavailable; deadline admission abstained''))\<rparr>
            else case deadlineCandidateCost candidate estimates (effectiveDeadlineSafetyMarginMs w) of
              None \<Rightarrow>
                evaluation\<lparr>Accepted := False, BlocksTransition := True,
                  E_Condition := Some (condition ConditionUnknown ''CandidateUnknown''
                    (''cannot evaluate unsupported candidate placement '' @ fmt_q candidate))\<rparr>
            | Some cost \<Rightarrow>
                let slack = wrap32 (targetMs - cost);
                    minimum = effectiveDeadlineMinSlackMs w;
                    priced = evaluation\<lparr>CostMs := Some cost, SlackMs := Some slack\<rparr>
                in if slack \<ge> minimum then
                     priced\<lparr>E_Condition := Some (condition ConditionTrue ''CandidateAccepted''
                       (candidate @ '' candidate cost '' @ fmt_d cost @ ''ms leaves '' @ fmt_d slack @
                        ''ms slack (minimum '' @ fmt_d minimum @ ''ms)''))\<rparr>
                   else if hard then
                     priced\<lparr>Unsafe := True, Forced := True,
                       E_Condition := Some (condition ConditionFalse ''ForcedBatteryOverride''
                         (candidate @ '' candidate cost '' @ fmt_d cost @ ''ms leaves '' @ fmt_d slack @
                          ''ms slack below minimum '' @ fmt_d minimum @
                          ''ms; low-battery guardrail overrides deadline risk''))\<rparr>
                   else
                     priced\<lparr>Unsafe := True, Accepted := False, BlocksTransition := True,
                       E_Condition := Some (condition ConditionFalse ''CandidateDeadlineUnsafe''
                         (candidate @ '' candidate cost '' @ fmt_d cost @ ''ms leaves '' @ fmt_d slack @
                          ''ms slack below minimum '' @ fmt_d minimum @ ''ms''))\<rparr>)"

section \<open>The cost of a candidate\<close>

text \<open>The mathematical cost, without the width of the machine's integers.\<close>

definition ideal_cost :: "string \<Rightarrow> deadlineEstimateSnapshot \<Rightarrow> int \<Rightarrow> int" where
  "ideal_cost candidate e margin =
    (if candidate = placementLocal then
       LocalQueueDelayMs e + ResourceWakeMs e + LocalExecutionMs e + margin
     else if candidate = placementEdge then NetworkRoundTripMs e + EdgeExecutionMs e + margin
     else ResourceCollectionMs e + NetworkRoundTripMs e + EdgeExecutionMs e
       + OutputApplicationMs e + margin)"

definition valid_placement :: "string \<Rightarrow> bool" where
  "valid_placement p \<longleftrightarrow> p = placementLocal \<or> p = placementEdge \<or> p = placementHybrid"

lemma candidate_cost_wraps:
  "deadlineCandidateCost candidate e margin =
     (if valid_placement candidate then Some (wrap32 (ideal_cost candidate e margin)) else None)"
  by (auto simp: deadlineCandidateCost_def ideal_cost_def valid_placement_def)

lemma slack_wraps: "wrap32 (t - wrap32 c) = wrap32 (t - c)"
  by simp

section \<open>The verdict\<close>

text \<open>The conditions under which admission prices the candidate at all.\<close>

definition deadline_priced :: "wasmFunction \<Rightarrow> deadlineEstimateSnapshot \<Rightarrow> bool" where
  "deadline_priced w e \<longleftrightarrow>
     effectiveDeadlineEnabled w \<and> trimSpace (FunctionIdentity (release w)) \<noteq> [] \<and>
     IdentityKnown e \<and> Available e \<and>
     trimSpace (ObservedFunction (Status w)) \<in> {[], trimSpace (FunctionIdentity (release w))} \<and>
     (\<exists>t. TargetMs (Deadline (placement w)) = Some t \<and> 0 < t)"

lemma blocks_iff_not_accepted:
  "BlocksTransition (evaluateDeadlineAdmission now w c hard e)
     \<longleftrightarrow> \<not> Accepted (evaluateDeadlineAdmission now w c hard e)"
  by (simp add: evaluateDeadlineAdmission_def zeroEvaluation_def Let_def split: option.split)

lemma forced_imp:
  "Forced (evaluateDeadlineAdmission now w c hard e) \<Longrightarrow>
     hard \<and> Unsafe (evaluateDeadlineAdmission now w c hard e) \<and>
     Accepted (evaluateDeadlineAdmission now w c hard e)"
  by (simp add: evaluateDeadlineAdmission_def zeroEvaluation_def Let_def
      split: option.splits if_splits)

lemma hard_accepted:
  "valid_placement c \<Longrightarrow> Accepted (evaluateDeadlineAdmission now w c True e)"
  by (simp add: evaluateDeadlineAdmission_def zeroEvaluation_def Let_def candidate_cost_wraps
      split: option.split)

lemma condition_unsafe_iff:
  "(\<exists>k. E_Condition (evaluateDeadlineAdmission now w c hard e) = Some k \<and>
      C_Reason k = ''CandidateDeadlineUnsafe'')
   \<longleftrightarrow> \<not> hard \<and> Unsafe (evaluateDeadlineAdmission now w c hard e)"
  by (simp add: evaluateDeadlineAdmission_def zeroEvaluation_def Let_def
      deadlineAdmissionCondition_def split: option.split)

lemma priced_accepted_iff:
  assumes "deadline_priced w e" "valid_placement c"
    and "TargetMs (Deadline (placement w)) = Some t"
  shows "Accepted (evaluateDeadlineAdmission now w c hard e) \<longleftrightarrow>
      hard \<or> effectiveDeadlineMinSlackMs w \<le>
               wrap32 (t - ideal_cost c e (effectiveDeadlineSafetyMarginMs w))"
  using assms
  by (auto simp: evaluateDeadlineAdmission_def zeroEvaluation_def Let_def deadline_priced_def
      candidate_cost_wraps)

lemma unpriced_verdict:
  assumes "\<not> deadline_priced w e" "effectiveDeadlineEnabled w"
    and "trimSpace (FunctionIdentity (release w)) \<noteq> []" "IdentityKnown e"
    and "trimSpace (ObservedFunction (Status w)) \<in> {[], trimSpace (FunctionIdentity (release w))}"
  shows "Accepted (evaluateDeadlineAdmission now w c hard e) \<and>
    CostMs (evaluateDeadlineAdmission now w c hard e) = None"
  using assms
  by (auto simp: evaluateDeadlineAdmission_def zeroEvaluation_def Let_def deadline_priced_def
      split: option.split)

section \<open>Properties\<close>

text \<open>C16: Destination admission is exact wherever the arithmetic cannot overflow.  Let the policy be enabled,
  let the declared function identity be non-empty and known to the estimator, let the device report no
  function or that very identity, and let there be a positive target and available estimates.  Then a
  supported candidate is accepted exactly when the proposal is the hard low-battery one, or the target
  minus the candidate's own cost terms and the safety margin leaves at least the minimum slack.\<close>

theorem deadline_admission_exact:
  assumes "deadline_priced w e" "valid_placement c"
    and "TargetMs (Deadline (placement w)) = Some t"
    and "in_int32 (t - ideal_cost c e (effectiveDeadlineSafetyMarginMs w))"
  shows "Accepted (evaluateDeadlineAdmission now w c hard e) \<longleftrightarrow>
      hard \<or> effectiveDeadlineMinSlackMs w + ideal_cost c e (effectiveDeadlineSafetyMarginMs w) \<le> t"
  using priced_accepted_iff [OF assms(1-3)] assms(4) by (auto simp: go_int)

definition sampleEstimates :: deadlineEstimateSnapshot where
  "sampleEstimates = (noEstimate True)\<lparr>Available := True, LocalExecutionMs := 100,
     LocalQueueDelayMs := 200, EdgeExecutionMs := 5, NetworkRoundTripMs := 100,
     ResourceCollectionMs := 50, OutputApplicationMs := 2\<rparr>"

definition sampleFunction :: wasmFunction where
  "sampleFunction = zeroWasmFunction\<lparr>M_Name := ''dht-reader'', M_Namespace := ''sif'',
     Spec := zeroSpec\<lparr>
       Device := zeroDevice\<lparr>ControlTopic := ''device/control''\<rparr>,
       Release := zeroRelease\<lparr>R_Generation := 1, FunctionIdentity := ''hybrid-resource-demo''\<rparr>,
       Placement := zeroPlacement\<lparr>Deadline := (Deadline zeroPlacement)\<lparr>TargetMs := Some 1000\<rparr>\<rparr>\<rparr>\<rparr>"

lemmas sample_defs = sampleFunction_def sampleEstimates_def noEstimate_def

lemma trim_sample [simp]: "trimSpace ''hybrid-resource-demo'' = ''hybrid-resource-demo''"
  by (rule trimSpace_plain) (simp add: plain_char_def)

lemma sample_priced: "deadline_priced sampleFunction sampleEstimates"
  by (simp add: deadline_priced_def sample_defs zero_defs effectiveDeadlineEnabled_def)

theorem deadline_admission_exact_witness:
  "Accepted (evaluateDeadlineAdmission 0 sampleFunction placementHybrid False sampleEstimates)"
  using deadline_admission_exact [OF sample_priced, of placementHybrid 1000 0 False]
  by (simp add: valid_placement_def sample_defs zero_defs ideal_cost_def in_int32_def
      effectiveDeadlineSafetyMarginMs_def effectiveDeadlineMinSlackMs_def
      defaultDeadlineSafetyMarginMs_def defaultDeadlineMinSlackMs_def)

text \<open>The fields of a verdict agree with each other on every input: a verdict blocks exactly
  when it does not accept, a forced verdict is an accepted and unsafe one of a hard proposal, the
  unsafe soft verdict is exactly the one whose condition is \<open>CandidateDeadlineUnsafe\<close>, and no
  deadline result stands in the way of a hard proposal for a supported placement.\<close>

theorem deadline_verdict_consistent:
  "let v = evaluateDeadlineAdmission now w c hard e
   in (BlocksTransition v \<longleftrightarrow> \<not> Accepted v) \<and>
      (Forced v \<longrightarrow> hard \<and> Unsafe v \<and> Accepted v) \<and>
      ((\<exists>k. E_Condition v = Some k \<and> C_Reason k = ''CandidateDeadlineUnsafe'') \<longleftrightarrow>
         \<not> hard \<and> Unsafe v) \<and>
      (hard \<and> valid_placement c \<longrightarrow> Accepted v)"
  unfolding Let_def
  by (auto simp: blocks_iff_not_accepted condition_unsafe_iff hard_accepted dest: forced_imp)

theorem deadline_verdict_consistent_witness:
  "Accepted (evaluateDeadlineAdmission 0 sampleFunction placementEdge True sampleEstimates)"
  using deadline_verdict_consistent [of 0 sampleFunction placementEdge True sampleEstimates]
  by (simp add: valid_placement_def Let_def)

text \<open>Without a usable target or without estimates admission abstains: for a known identity that
  the device does not contradict, a missing or non-positive target or missing estimates accepts the
  candidate, prices nothing and blocks nothing, whatever the candidate.\<close>

theorem deadline_abstains:
  assumes "effectiveDeadlineEnabled w" "trimSpace (FunctionIdentity (release w)) \<noteq> []"
    and "IdentityKnown e"
    and "trimSpace (ObservedFunction (Status w)) \<in> {[], trimSpace (FunctionIdentity (release w))}"
    and "(\<forall>t. TargetMs (Deadline (placement w)) = Some t \<longrightarrow> t \<le> 0) \<or> \<not> Available e"
  shows "Accepted (evaluateDeadlineAdmission now w c hard e) \<and>
    CostMs (evaluateDeadlineAdmission now w c hard e) = None \<and>
    \<not> BlocksTransition (evaluateDeadlineAdmission now w c hard e)"
proof -
  have "\<not> deadline_priced w e"
    using assms(5) by (auto simp: deadline_priced_def)
  from unpriced_verdict [OF this assms(1-4)] show ?thesis
    by (simp add: blocks_iff_not_accepted)
qed

theorem deadline_abstains_witness:
  "Accepted (evaluateDeadlineAdmission 0 sampleFunction placementEdge False (noEstimate True))"
  using deadline_abstains [of sampleFunction "noEstimate True" 0 placementEdge False]
  by (simp add: sample_defs zero_defs effectiveDeadlineEnabled_def)

text \<open>Outside the range of \<open>int32\<close> the verdict is wrong: there are non-negative estimates, each
  a value a profile may hold, whose true cost exceeds the target by more than four million seconds
  and for which a soft candidate is accepted.\<close>

theorem deadline_admission_overflow:
  "\<exists>w e t. deadline_priced w e \<and> TargetMs (Deadline (placement w)) = Some t \<and>
     0 \<le> LocalQueueDelayMs e \<and> 0 \<le> LocalExecutionMs e \<and> 0 \<le> ResourceWakeMs e \<and>
     in_int32 (LocalQueueDelayMs e) \<and> in_int32 (LocalExecutionMs e) \<and>
     t + 4000000000 < ideal_cost placementLocal e (effectiveDeadlineSafetyMarginMs w) \<and>
     Accepted (evaluateDeadlineAdmission 0 w placementLocal False e)"
proof -
  let ?w = sampleFunction
  let ?e = "sampleEstimates\<lparr>LocalQueueDelayMs := 2147483647, LocalExecutionMs := 2147483647\<rparr>"
  have priced: "deadline_priced ?w ?e"
    using sample_priced by (simp add: deadline_priced_def)
  have target: "TargetMs (Deadline (placement ?w)) = Some 1000"
    by (simp add: sample_defs zero_defs)
  have cost: "ideal_cost placementLocal ?e (effectiveDeadlineSafetyMarginMs ?w) = 4294967544"
    by (simp add: ideal_cost_def sample_defs zero_defs effectiveDeadlineSafetyMarginMs_def
        defaultDeadlineSafetyMarginMs_def)
  have "effectiveDeadlineMinSlackMs ?w = 500"
    by (simp add: sample_defs zero_defs effectiveDeadlineMinSlackMs_def
        defaultDeadlineMinSlackMs_def)
  then have accepted: "Accepted (evaluateDeadlineAdmission 0 ?w placementLocal False ?e)"
    using priced_accepted_iff [OF priced _ target, of placementLocal 0 False]
    by (simp add: valid_placement_def cost wrap32_def)
  have "0 \<le> LocalQueueDelayMs ?e" "0 \<le> LocalExecutionMs ?e" "0 \<le> ResourceWakeMs ?e"
    "in_int32 (LocalQueueDelayMs ?e)" "in_int32 (LocalExecutionMs ?e)"
    "1000 + 4000000000 < ideal_cost placementLocal ?e (effectiveDeadlineSafetyMarginMs ?w)"
    using cost by (simp_all add: sample_defs in_int32_def)
  with priced target accepted show ?thesis by blast
qed

end
