(* ===== verification/Placement_Policy.thy ===== *)
theory Placement_Policy
  imports Deadline
begin

text \<open>
  The placement decision (\<open>wasmfunction_controller.go\<close>): the current placement, the proposal, the
  resource-locality transformation, the deadline verdict and the readiness gate.
\<close>

section \<open>Defaults\<close>

definition defaultLowBatteryThreshold :: int32 where "defaultLowBatteryThreshold = 20"
definition defaultHighBatteryThreshold :: int32 where "defaultHighBatteryThreshold = 60"
definition defaultBatteryDeltaWindowSeconds :: int32 where "defaultBatteryDeltaWindowSeconds = 60"
definition defaultBatteryDeltaMaxDrainPercent :: int32 where "defaultBatteryDeltaMaxDrainPercent = 3"
definition defaultBatteryDeltaRiskyWindows :: int32 where "defaultBatteryDeltaRiskyWindows = 2"

definition effectiveBatteryThresholdEnabled :: "wasmFunction \<Rightarrow> bool" where
  "effectiveBatteryThresholdEnabled w =
    (case BT_Enabled (BatteryThreshold (placement w)) of None \<Rightarrow> True | Some b \<Rightarrow> b)"

definition effectiveBatteryDeltaEnabled :: "wasmFunction \<Rightarrow> bool" where
  "effectiveBatteryDeltaEnabled w =
    (case BD_Enabled (BatteryDelta (placement w)) of None \<Rightarrow> True | Some b \<Rightarrow> b)"

definition batteryPercentForPlacement :: "wasmFunction \<Rightarrow> int32 option" where
  "batteryPercentForPlacement w =
    (case ObservedBatteryPercent (Status w) of
       Some b \<Rightarrow> Some b
     | None \<Rightarrow> P_BatteryPercent (placement w))"

definition effectiveBatteryDeltaWindowSeconds :: "wasmFunction \<Rightarrow> int32" where
  "effectiveBatteryDeltaWindowSeconds w =
    (if BD_WindowSeconds (BatteryDelta (placement w)) > 0
     then BD_WindowSeconds (BatteryDelta (placement w)) else defaultBatteryDeltaWindowSeconds)"

definition effectiveBatteryDeltaMaxDrainPercent :: "wasmFunction \<Rightarrow> int32" where
  "effectiveBatteryDeltaMaxDrainPercent w =
    (if MaxDrainPercent (BatteryDelta (placement w)) > 0
     then MaxDrainPercent (BatteryDelta (placement w)) else defaultBatteryDeltaMaxDrainPercent)"

definition effectiveBatteryDeltaRiskyWindows :: "wasmFunction \<Rightarrow> int32" where
  "effectiveBatteryDeltaRiskyWindows w =
    (if RiskyWindowsToOffload (BatteryDelta (placement w)) > 0
     then RiskyWindowsToOffload (BatteryDelta (placement w)) else defaultBatteryDeltaRiskyWindows)"

lemma effective_drain_pos [simp]:
  "0 < effectiveBatteryDeltaWindowSeconds w" "0 < effectiveBatteryDeltaMaxDrainPercent w"
  "0 < effectiveBatteryDeltaRiskyWindows w"
  by (simp_all add: effectiveBatteryDeltaWindowSeconds_def effectiveBatteryDeltaMaxDrainPercent_def
      effectiveBatteryDeltaRiskyWindows_def defaultBatteryDeltaWindowSeconds_def
      defaultBatteryDeltaMaxDrainPercent_def defaultBatteryDeltaRiskyWindows_def)

definition localBatteryDeltaForcesEdge :: "wasmFunction \<Rightarrow> int32 \<Rightarrow> bool" where
  "localBatteryDeltaForcesEdge w high =
    (if \<not> effectiveBatteryDeltaEnabled w \<or> ObservedMode (Status w) \<noteq> placementLocal \<or>
        ObservedBatteryDeltaPercent (Status w) = None then False
     else if (case ObservedBatteryPercent (Status w) of None \<Rightarrow> False | Some b \<Rightarrow> b \<ge> high) then False
     else the (ObservedBatteryDeltaPercent (Status w)) \<ge> effectiveBatteryDeltaMaxDrainPercent w \<and>
          ConsecutiveRiskyWindows (Status w) \<ge> effectiveBatteryDeltaRiskyWindows w)"

section \<open>Resource locality and the current placement\<close>

definition hasDeviceLocalResources :: "resourceContractSpec \<Rightarrow> bool" where
  "hasDeviceLocalResources contract \<longleftrightarrow>
     (\<exists>input \<in> set (Inputs contract). equalFold (trimSpace (RI_Locality input)) ''device'') \<or>
     (\<exists>output \<in> set (Outputs contract). equalFold (trimSpace (RO_Locality output)) ''device'')"

abbreviation needs_device :: "wasmFunction \<Rightarrow> bool" where
  "needs_device w \<equiv> hasDeviceLocalResources (ResourceContract (release w))"

definition applyResourceLocality :: "wasmFunction \<Rightarrow> string \<Rightarrow> string" where
  "applyResourceLocality w p = (if p = placementEdge \<and> needs_device w then placementHybrid else p)"

definition runtimeModeForPlacement :: "string \<Rightarrow> string" where
  "runtimeModeForPlacement p = (if p = placementHybrid then placementEdge else p)"

definition normalizeRetainedPlacement :: "string \<Rightarrow> string" where
  "normalizeRetainedPlacement p =
    (if p = placementLocal \<or> p = placementEdge \<or> p = placementHybrid then p else placementLocal)"

definition currentPlacement :: "wasmFunction \<Rightarrow> string" where
  "currentPlacement w =
    (if DesiredPlacement (Status w) \<noteq> [] then
       (let retained = normalizeRetainedPlacement (DesiredPlacement (Status w))
        in if retained = placementHybrid \<and> \<not> needs_device w then placementEdge else retained)
     else if equalFold (ObservedMode (Status w)) placementEdge then
       applyResourceLocality w placementEdge
     else placementLocal)"

interpretation retained: normaliser normalizeRetainedPlacement
  by unfold_locales (simp add: normalizeRetainedPlacement_def)

lemma valid_currentPlacement [simp]: "valid_placement (currentPlacement w)"
  by (simp add: currentPlacement_def normalizeRetainedPlacement_def valid_placement_def
      applyResourceLocality_def Let_def)

lemma valid_applyResourceLocality [simp]:
  "valid_placement p \<Longrightarrow> valid_placement (applyResourceLocality w p)"
  by (auto simp: valid_placement_def applyResourceLocality_def)

lemma currentPlacement_hybrid: "currentPlacement w = placementHybrid \<Longrightarrow> needs_device w"
  by (auto simp: currentPlacement_def normalizeRetainedPlacement_def applyResourceLocality_def
      Let_def split: if_splits)

section \<open>The decision\<close>

record placementDecision =
  PD_Enabled :: bool
  Current :: string
  Proposal :: string
  Candidate :: string
  Desired :: string
  RuntimeMode :: string
  PD_Reason :: string
  ReadinessReason :: string
  PD_ProposalSource :: string
  Hard :: bool
  Transition :: bool
  PD_BatteryPercent :: "int32 option"
  LowThreshold :: int32
  HighThreshold :: int32
  BatteryThresholdEnabled :: bool
  PD_Deadline :: deadlineEvaluation

definition resolvedLowThreshold :: "wasmFunction \<Rightarrow> int32" where
  "resolvedLowThreshold w =
    (if LowBatteryThreshold (placement w) = 0 then defaultLowBatteryThreshold
     else LowBatteryThreshold (placement w))"

definition resolvedHighThreshold :: "wasmFunction \<Rightarrow> int32" where
  "resolvedHighThreshold w =
    (let high = (if HighBatteryThreshold (placement w) = 0 then defaultHighBatteryThreshold
                 else HighBatteryThreshold (placement w))
     in if high < resolvedLowThreshold w then resolvedLowThreshold w else high)"

definition initialDecision :: "wasmFunction \<Rightarrow> placementDecision" where
  "initialDecision w =
    \<lparr>PD_Enabled = (ControlTopic (device w) \<noteq> []), Current = currentPlacement w, Proposal = [],
     Candidate = [], Desired = currentPlacement w,
     RuntimeMode = runtimeModeForPlacement (currentPlacement w), PD_Reason = [],
     ReadinessReason = [], PD_ProposalSource = [], Hard = False, Transition = False,
     PD_BatteryPercent = batteryPercentForPlacement w, LowThreshold = resolvedLowThreshold w,
     HighThreshold = resolvedHighThreshold w,
     BatteryThresholdEnabled = effectiveBatteryThresholdEnabled w, PD_Deadline = zeroEvaluation\<rparr>"

text \<open>
  The proposal: the low-battery guard first, then the mode's own policy.  In the drain branch the
  observed delta is present, since \<open>localBatteryDeltaForcesEdge\<close> has tested it.
\<close>

definition policy_mode :: "wasmFunction \<Rightarrow> string" where
  "policy_mode w =
    (if toLower (P_Mode (placement w)) = [] then placementAuto else toLower (P_Mode (placement w)))"

definition proposeAuto :: "wasmFunction \<Rightarrow> placementDecision \<Rightarrow> placementDecision" where
  "proposeAuto w d =
    (case PD_BatteryPercent d of
       None \<Rightarrow> d\<lparr>PD_Reason := ''auto placement waiting for battery telemetry''\<rparr>
     | Some b \<Rightarrow>
         if BatteryThresholdEnabled d \<and> Current d \<noteq> placementLocal \<and> b \<ge> HighThreshold d then
           d\<lparr>Proposal := placementLocal, PD_ProposalSource := ''HighBatteryThreshold'',
             PD_Reason := ''battery '' @ fmt_d b @ ''% >= high threshold '' @
               fmt_d (HighThreshold d) @ ''%''\<rparr>
         else if localBatteryDeltaForcesEdge w (HighThreshold d) then
           d\<lparr>Proposal := placementEdge, PD_ProposalSource := ''BatteryDrain'',
             PD_Reason := ''local battery drain '' @
               fmt_d (the (ObservedBatteryDeltaPercent (Status w))) @ ''% confirmed for '' @
               fmt_d (ConsecutiveRiskyWindows (Status w)) @ '' windows over '' @
               fmt_d (effectiveBatteryDeltaWindowSeconds w) @ ''s''\<rparr>
         else d\<lparr>PD_Reason := ''retaining accepted '' @ Current d @ '' placement''\<rparr>)"

definition proposePlacement :: "wasmFunction \<Rightarrow> placementDecision \<Rightarrow> placementDecision" where
  "proposePlacement w d =
    (if BatteryThresholdEnabled d \<and> Current d = placementLocal \<and>
        (case PD_BatteryPercent d of None \<Rightarrow> False | Some b \<Rightarrow> b \<le> LowThreshold d) then
       d\<lparr>Proposal := placementEdge, PD_ProposalSource := ''LowBatteryThreshold'', Hard := True,
         PD_Reason := ''battery '' @ fmt_d (the (PD_BatteryPercent d)) @
           ''% <= low threshold '' @ fmt_d (LowThreshold d) @ ''%''\<rparr>
     else if policy_mode w = placementEdge then
       d\<lparr>Proposal := placementEdge, PD_ProposalSource := ''ExplicitPlacement'',
         PD_Reason := ''operator requested edge placement''\<rparr>
     else if policy_mode w = placementLocal then
       d\<lparr>Proposal := placementLocal, PD_ProposalSource := ''ExplicitPlacement'',
         PD_Reason := ''operator requested local placement''\<rparr>
     else if policy_mode w = placementAuto then proposeAuto w d
     else d\<lparr>PD_Reason := ''unsupported placement mode '' @ fmt_q (P_Mode (placement w))\<rparr>)"

definition resolvePlacementWithEstimates ::
    "time \<Rightarrow> wasmFunction \<Rightarrow> deadlineEstimateSnapshot \<Rightarrow> placementDecision" where
  "resolvePlacementWithEstimates now w estimates =
    (let d0 = initialDecision w
     in if \<not> PD_Enabled d0 then d0\<lparr>PD_Reason := ''device control topic not configured''\<rparr>
        else let d = proposePlacement w d0
        in if Proposal d = [] then
             d\<lparr>Candidate := Current d,
               PD_Deadline := evaluateDeadlineAdmission now w (Current d) False estimates\<rparr>
           else let candidate = applyResourceLocality w (Proposal d);
                    transition = (candidate \<noteq> Current d);
                    verdict = evaluateDeadlineAdmission now w candidate (Hard d) estimates;
                    d' = d\<lparr>Candidate := candidate, Transition := transition, PD_Deadline := verdict\<rparr>
                in if \<not> transition \<or> Accepted verdict then
                     d'\<lparr>Desired := candidate, RuntimeMode := runtimeModeForPlacement candidate\<rparr>
                   else let kept = d'\<lparr>Desired := Current d,
                              RuntimeMode := runtimeModeForPlacement (Current d)\<rparr>
                        in case E_Condition verdict of
                             None \<Rightarrow> kept
                           | Some k \<Rightarrow> kept\<lparr>PD_Reason := C_Message k\<rparr>)"

section \<open>The readiness gate\<close>

definition hostReady :: "artifactDecision \<Rightarrow> wasmFunction \<Rightarrow> bool" where
  "hostReady a w \<longleftrightarrow> hostActiveMatches a w \<or> hostStagedMatches a w"

definition applyDestinationReadiness ::
    "wasmFunction \<Rightarrow> placementDecision \<Rightarrow> artifactDecision \<Rightarrow> bool
       \<Rightarrow> wasmFunction \<times> placementDecision" where
  "applyDestinationReadiness w d artifact edgeRuntimeAvailable =
    (let deviceReady = deviceReleaseReady w (DesiredDigest artifact);
         hostIsReady = hostReady artifact w;
         remote = (Candidate d = placementEdge \<or> Candidate d = placementHybrid);
         ready = (if remote then deviceReady \<and> hostIsReady \<and> edgeRuntimeAvailable else deviceReady);
         reason = (if remote then
                     (if \<not> edgeRuntimeAvailable then ''RuntimeUnavailable''
                      else if \<not> hostIsReady then ''HostStagePending''
                      else ''DeviceStagePending'')
                   else ''DeviceStagePending'');
         note = (\<lambda>r. (on_status (\<lambda>s. s\<lparr>ArtifactReadinessReason := r\<rparr>) w, d\<lparr>ReadinessReason := r\<rparr>))
     in if \<not> Transition d then note ''CurrentPlacementActivation''
        else if ready then note ''DestinationReady''
        else (case note reason of (w', d') \<Rightarrow>
          (w', d'\<lparr>Desired := Current d, RuntimeMode := runtimeModeForPlacement (Current d),
               PD_Deadline := (PD_Deadline d)\<lparr>Accepted := False\<rparr>,
               PD_Reason := (if Hard d then ''ForcedRemotePendingArtifact: '' @ reason
                 else ''candidate readiness pending: '' @ reason)\<rparr>)))"

section \<open>The placement condition\<close>

definition placementStatusCondition ::
    "time \<Rightarrow> placementDecision \<Rightarrow> bool \<Rightarrow> string option \<Rightarrow> condition" where
  "placementStatusCondition now d commanded err =
    (let cond = (\<lambda>status reason message. \<lparr>C_Type = ''PlacementCommanded'', C_Status = status,
           C_Reason = reason, C_Message = message, C_LastTransitionTime = now\<rparr>)
     in if \<not> PD_Enabled d then cond ConditionFalse ''ControlTopicMissing'' (PD_Reason d)
        else case err of
          Some e \<Rightarrow> cond ConditionFalse ''PublishFailed'' e
        | None \<Rightarrow>
            if Desired d = [] then cond ConditionUnknown ''WaitingForTelemetry'' (PD_Reason d)
            else if Transition d \<and> ReadinessReason d \<noteq> ''DestinationReady'' then
              cond ConditionUnknown ''ArtifactSyncPending'' (PD_Reason d)
            else if Transition d \<and> \<not> Accepted (PD_Deadline d) then
              cond ConditionFalse ''TransitionRejected''
                (''retained '' @ Current d @ '' placement: '' @ PD_Reason d)
            else if commanded then
              cond ConditionTrue ''CommandSent''
                (''commanded '' @ Desired d @ '' placement: '' @ PD_Reason d)
            else cond ConditionTrue ''AlreadyCommanded''
                (Desired d @ '' placement already commanded: '' @ PD_Reason d))"

end
