(* ===== verification/Placement_Props.thy ===== *)
theory Placement_Props
  imports Placement_Policy
begin

text \<open>
  What the placement decision guarantees: its shape, the priority of the proposals, the safety of
  the desired placement behind the deadline and the readiness gate, and whether repeated decisions
  settle or oscillate.
\<close>

section \<open>The abstract policy\<close>

text \<open>
  The policy as the documentation states it: who proposes, in which priority.
\<close>

datatype proposer = LowBattery | ExplicitEdge | ExplicitLocal | HighBattery | Drain | Nobody

definition low_guard :: "wasmFunction \<Rightarrow> bool" where
  "low_guard w \<longleftrightarrow> effectiveBatteryThresholdEnabled w \<and> currentPlacement w = placementLocal \<and>
     (\<exists>b. batteryPercentForPlacement w = Some b \<and> b \<le> resolvedLowThreshold w)"

definition high_return :: "wasmFunction \<Rightarrow> bool" where
  "high_return w \<longleftrightarrow> effectiveBatteryThresholdEnabled w \<and> currentPlacement w \<noteq> placementLocal \<and>
     (\<exists>b. batteryPercentForPlacement w = Some b \<and> resolvedHighThreshold w \<le> b)"

definition drain_confirmed :: "wasmFunction \<Rightarrow> bool" where
  "drain_confirmed w \<longleftrightarrow> batteryPercentForPlacement w \<noteq> None \<and>
     localBatteryDeltaForcesEdge w (resolvedHighThreshold w)"

definition proposer_of :: "wasmFunction \<Rightarrow> proposer" where
  "proposer_of w =
    (if low_guard w then LowBattery
     else if policy_mode w = placementEdge then ExplicitEdge
     else if policy_mode w = placementLocal then ExplicitLocal
     else if policy_mode w = placementAuto \<and> high_return w then HighBattery
     else if policy_mode w = placementAuto \<and> drain_confirmed w then Drain
     else Nobody)"

fun target_of :: "proposer \<Rightarrow> string" where
  "target_of LowBattery = placementEdge"
| "target_of ExplicitEdge = placementEdge"
| "target_of ExplicitLocal = placementLocal"
| "target_of HighBattery = placementLocal"
| "target_of Drain = placementEdge"
| "target_of Nobody = []"

fun source_of :: "proposer \<Rightarrow> string" where
  "source_of LowBattery = ''LowBatteryThreshold''"
| "source_of ExplicitEdge = ''ExplicitPlacement''"
| "source_of ExplicitLocal = ''ExplicitPlacement''"
| "source_of HighBattery = ''HighBatteryThreshold''"
| "source_of Drain = ''BatteryDrain''"
| "source_of Nobody = []"

definition candidate_of :: "wasmFunction \<Rightarrow> string" where
  "candidate_of w =
    (if proposer_of w = Nobody then currentPlacement w
     else applyResourceLocality w (target_of (proposer_of w)))"

lemma auto_fields:
  assumes "\<not> low_guard w" "policy_mode w = placementAuto"
  shows "Proposal (proposeAuto w (initialDecision w)) = target_of (proposer_of w)"
    and "PD_ProposalSource (proposeAuto w (initialDecision w)) = source_of (proposer_of w)"
    and "\<not> Hard (proposeAuto w (initialDecision w))"
  using assms
  by (auto simp: proposeAuto_def initialDecision_def proposer_of_def high_return_def
      drain_confirmed_def split: option.splits)

lemma low_guard_decision:
  "low_guard w \<longleftrightarrow>
    BatteryThresholdEnabled (initialDecision w) \<and> Current (initialDecision w) = placementLocal \<and>
    (case PD_BatteryPercent (initialDecision w) of
       None \<Rightarrow> False | Some b \<Rightarrow> b \<le> LowThreshold (initialDecision w))"
  by (auto simp: low_guard_def initialDecision_def split: option.splits)

lemma initial_fields [frame_simps]:
  "Current (initialDecision w) = currentPlacement w"
  "PD_Enabled (initialDecision w) \<longleftrightarrow> ControlTopic (device w) \<noteq> []"
  "Desired (initialDecision w) = currentPlacement w"
  "RuntimeMode (initialDecision w) = runtimeModeForPlacement (currentPlacement w)"
  "Proposal (initialDecision w) = []" "PD_ProposalSource (initialDecision w) = []"
  "\<not> Transition (initialDecision w)" "\<not> Hard (initialDecision w)"
  by (simp_all add: initialDecision_def)

lemma propose_fields:
  "Proposal (proposePlacement w (initialDecision w)) = target_of (proposer_of w)"
  "PD_ProposalSource (proposePlacement w (initialDecision w)) = source_of (proposer_of w)"
  "Hard (proposePlacement w (initialDecision w)) \<longleftrightarrow> proposer_of w = LowBattery"
  unfolding proposePlacement_def low_guard_decision [symmetric]
  by (simp_all add: auto_fields proposer_of_def initial_fields)

lemma auto_frame [frame_simps]:
  "Current (proposeAuto w d) = Current d"
  "PD_Enabled (proposeAuto w d) = PD_Enabled d"
  "Desired (proposeAuto w d) = Desired d"
  "RuntimeMode (proposeAuto w d) = RuntimeMode d"
  "Transition (proposeAuto w d) = Transition d"
  "ReadinessReason (proposeAuto w d) = ReadinessReason d"
  by (simp_all add: proposeAuto_def split: option.split)

lemma propose_frame [frame_simps]:
  "Current (proposePlacement w d) = Current d"
  "PD_Enabled (proposePlacement w d) = PD_Enabled d"
  "Desired (proposePlacement w d) = Desired d"
  "RuntimeMode (proposePlacement w d) = RuntimeMode d"
  "Transition (proposePlacement w d) = Transition d"
  "ReadinessReason (proposePlacement w d) = ReadinessReason d"
  by (simp_all add: proposePlacement_def auto_frame)

lemma target_Nil_iff [simp]: "target_of p = [] \<longleftrightarrow> p = Nobody"
  by (cases p) simp_all

text \<open>The whole decision in terms of the abstract policy.\<close>

lemma resolve_disabled:
  assumes "ControlTopic (device w) = []"
  shows "resolvePlacementWithEstimates now w e =
    (initialDecision w)\<lparr>PD_Reason := ''device control topic not configured''\<rparr>"
  using assms by (simp add: resolvePlacementWithEstimates_def frame_simps Let_def)

lemma resolve_enabled:
  fixes now w e
  defines "d \<equiv> resolvePlacementWithEstimates now w e"
  assumes "ControlTopic (device w) \<noteq> []"
  shows "PD_Enabled d" "Current d = currentPlacement w" "Candidate d = candidate_of w"
    and "PD_ProposalSource d = source_of (proposer_of w)"
    and "Hard d \<longleftrightarrow> proposer_of w = LowBattery"
    and "Transition d \<longleftrightarrow> candidate_of w \<noteq> currentPlacement w"
    and "PD_Deadline d = evaluateDeadlineAdmission now w (candidate_of w) (Hard d) e"
    and "Desired d = (if Accepted (PD_Deadline d) then candidate_of w else currentPlacement w)"
    and "RuntimeMode d = runtimeModeForPlacement (Desired d)"
  unfolding d_def using assms
  by (auto simp: resolvePlacementWithEstimates_def frame_simps propose_fields candidate_of_def
      Let_def split: option.split)

lemma candidate_cases:
  "candidate_of w = currentPlacement w \<or> candidate_of w = placementLocal \<or>
   candidate_of w = (if needs_device w then placementHybrid else placementEdge)"
  by (cases "proposer_of w") (auto simp: candidate_of_def applyResourceLocality_def)

lemma valid_candidate [simp]: "valid_placement (candidate_of w)"
  using candidate_cases [of w] valid_currentPlacement [of w]
  by (auto simp: valid_placement_def split: if_splits)

section \<open>Settling\<close>

text \<open>
  A reconcile stores the desired placement; the next one starts from it.  \<open>next_resource\<close> is that
  step with everything else of the resource unchanged.
\<close>

definition next_resource :: "time \<Rightarrow> deadlineEstimateSnapshot \<Rightarrow> wasmFunction \<Rightarrow> wasmFunction" where
  "next_resource now e w =
    on_status (\<lambda>s. s\<lparr>DesiredPlacement := Desired (resolvePlacementWithEstimates now w e)\<rparr>) w"

definition with_placement :: "string \<Rightarrow> wasmFunction \<Rightarrow> wasmFunction" where
  "with_placement p w = on_status (\<lambda>s. s\<lparr>DesiredPlacement := p\<rparr>) w"

lemma with_placement_frame [simp]:
  "Spec (with_placement p w) = Spec w"
  "ObservedBatteryPercent (Status (with_placement p w)) = ObservedBatteryPercent (Status w)"
  "ObservedFunction (Status (with_placement p w)) = ObservedFunction (Status w)"
  "DesiredPlacement (Status (with_placement p w)) = p"
  "ObservedMode (Status (with_placement p w)) = ObservedMode (Status w)"
  by (simp_all add: with_placement_def)

lemma with_placement_battery [simp]:
  "batteryPercentForPlacement (with_placement p w) = batteryPercentForPlacement w"
  "effectiveBatteryThresholdEnabled (with_placement p w) = effectiveBatteryThresholdEnabled w"
  "resolvedLowThreshold (with_placement p w) = resolvedLowThreshold w"
  "policy_mode (with_placement p w) = policy_mode w"
  "applyResourceLocality (with_placement p w) q = applyResourceLocality w q"
  by (simp_all add: batteryPercentForPlacement_def effectiveBatteryThresholdEnabled_def
      resolvedLowThreshold_def policy_mode_def applyResourceLocality_def cong: option.case_cong)

lemma with_placement_high [simp]:
  "resolvedHighThreshold (with_placement p w) = resolvedHighThreshold w"
  by (simp add: resolvedHighThreshold_def Let_def)

lemma with_placement_drain [simp]:
  "drain_confirmed (with_placement p w) = drain_confirmed w"
  by (simp add: drain_confirmed_def localBatteryDeltaForcesEdge_def with_placement_def
      [of p w, THEN arg_cong [of _ _ Status]] effectiveBatteryDeltaEnabled_def
      effectiveBatteryDeltaMaxDrainPercent_def effectiveBatteryDeltaRiskyWindows_def)

lemma with_placement_deadline_params:
  "effectiveDeadlineEnabled (with_placement p w) = effectiveDeadlineEnabled w"
  "effectiveDeadlineSafetyMarginMs (with_placement p w) = effectiveDeadlineSafetyMarginMs w"
  "effectiveDeadlineMinSlackMs (with_placement p w) = effectiveDeadlineMinSlackMs w"
  by (simp_all add: effectiveDeadlineEnabled_def effectiveDeadlineSafetyMarginMs_def
      effectiveDeadlineMinSlackMs_def)

lemma with_placement_deadline [simp]:
  "evaluateDeadlineAdmission now (with_placement p w) c h e = evaluateDeadlineAdmission now w c h e"
  by (simp only: evaluateDeadlineAdmission_def with_placement_frame with_placement_deadline_params)

text \<open>A placement the policy can produce is retained by the next decision.\<close>

definition producible :: "wasmFunction \<Rightarrow> string \<Rightarrow> bool" where
  "producible w p \<longleftrightarrow> valid_placement p \<and> (p = placementHybrid \<longrightarrow> needs_device w)"

lemma current_with_placement [simp]:
  "producible w p \<Longrightarrow> currentPlacement (with_placement p w) = p"
  by (auto simp: currentPlacement_def producible_def valid_placement_def
      normalizeRetainedPlacement_def Let_def)

lemma producible_current [simp]: "producible w (currentPlacement w)"
  by (auto simp: producible_def dest: currentPlacement_hybrid)

lemma producible_candidate [simp]: "producible w (candidate_of w)"
  using candidate_cases [of w] producible_current [of w]
  by (auto simp: producible_def valid_placement_def split: if_splits)

lemma next_resource_eq:
  "next_resource now e w = with_placement (Desired (resolvePlacementWithEstimates now w e)) w"
  by (simp add: next_resource_def with_placement_def)

lemma resolve_Desired_cases:
  "Desired (resolvePlacementWithEstimates now w e) \<in> {currentPlacement w, candidate_of w}"
  by (cases "ControlTopic (device w) = []") (simp_all add: resolve_disabled resolve_enabled frame_simps)

lemma producible_Desired [simp]: "producible w (Desired (resolvePlacementWithEstimates now w e))"
  using resolve_Desired_cases [of now w e] producible_current producible_candidate by (metis insertE singletonD)

text \<open>
  The candidate after an accepted move, in auto mode with a live battery value: the same
  placement, as long as the two thresholds differ.
\<close>

lemma high_at_least_low: "resolvedLowThreshold w \<le> resolvedHighThreshold w"
  by (simp add: resolvedHighThreshold_def Let_def)

lemma drain_below_high:
  "drain_confirmed w \<Longrightarrow> ObservedBatteryPercent (Status w) = Some b \<Longrightarrow> b < resolvedHighThreshold w"
  by (simp add: drain_confirmed_def localBatteryDeltaForcesEdge_def split: if_splits)

lemma candidate_with_placement:
  assumes "producible w q" "policy_mode w = placementAuto"
    and "batteryPercentForPlacement w = Some b"
  shows "candidate_of (with_placement q w) =
    (if effectiveBatteryThresholdEnabled w \<and> q = placementLocal \<and> b \<le> resolvedLowThreshold w
       then applyResourceLocality w placementEdge
     else if effectiveBatteryThresholdEnabled w \<and> q \<noteq> placementLocal \<and> resolvedHighThreshold w \<le> b
       then placementLocal
     else if drain_confirmed w then applyResourceLocality w placementEdge
     else q)"
  using assms
  by (auto simp: candidate_of_def proposer_of_def low_guard_def high_return_def
      applyResourceLocality_def)

lemma candidate_in_auto:
  assumes "policy_mode w = placementAuto" "batteryPercentForPlacement w = Some b"
  shows "candidate_of w =
    (if effectiveBatteryThresholdEnabled w \<and> currentPlacement w = placementLocal \<and>
        b \<le> resolvedLowThreshold w
       then applyResourceLocality w placementEdge
     else if effectiveBatteryThresholdEnabled w \<and> currentPlacement w \<noteq> placementLocal \<and>
        resolvedHighThreshold w \<le> b
       then placementLocal
     else if drain_confirmed w then applyResourceLocality w placementEdge
     else currentPlacement w)"
  using assms
  by (auto simp: candidate_of_def proposer_of_def low_guard_def high_return_def
      applyResourceLocality_def)

lemma auto_candidate_stable:
  assumes "policy_mode w = placementAuto"
    and "ObservedBatteryPercent (Status w) = Some b"
    and "effectiveBatteryThresholdEnabled w \<longrightarrow> resolvedLowThreshold w < resolvedHighThreshold w"
  shows "candidate_of (with_placement (candidate_of w) w) = candidate_of w"
proof -
  have battery: "batteryPercentForPlacement w = Some b"
    using assms(2) by (simp add: batteryPercentForPlacement_def)
  have drain: "drain_confirmed w \<Longrightarrow> b < resolvedHighThreshold w"
    using assms(2) by (rule drain_below_high [rotated])
  have remote: "applyResourceLocality w placementEdge \<noteq> placementLocal"
    by (simp add: applyResourceLocality_def)
  show ?thesis
    unfolding candidate_with_placement [OF producible_candidate assms(1) battery]
    using candidate_in_auto [OF assms(1) battery] assms(3) drain remote
    by (auto split: if_splits)
qed

text \<open>The verdict does not depend on the clock, which only stamps its condition.\<close>

lemma accepted_now:
  "Accepted (evaluateDeadlineAdmission now w c h e) = Accepted (evaluateDeadlineAdmission 0 w c h e)"
  by (simp add: evaluateDeadlineAdmission_def zeroEvaluation_def Let_def split: option.split)

lemma disabled_deadline_accepts:
  "\<not> effectiveDeadlineEnabled w \<Longrightarrow> Accepted (evaluateDeadlineAdmission now w c h e)"
  by (simp add: evaluateDeadlineAdmission_def zeroEvaluation_def Let_def)

lemma control_topic_with_placement [simp]:
  "ControlTopic (device (with_placement p w)) = ControlTopic (device w)"
  by simp

text \<open>
  Two placements of which each is the other's candidate are visited in turn, for ever, when no
  deadline stands in the way.
\<close>

lemma next_of_candidate:
  assumes "ControlTopic (device w) \<noteq> []" "\<not> effectiveDeadlineEnabled w"
  shows "next_resource now e w = with_placement (candidate_of w) w"
  using assms by (simp add: next_resource_eq resolve_enabled disabled_deadline_accepts)

lemma with_placement_twice [simp]: "with_placement p (with_placement q w) = with_placement p w"
  by (simp add: with_placement_def)

lemma two_cycle:
  assumes topic: "ControlTopic (device w) \<noteq> []" and off: "\<not> effectiveDeadlineEnabled w"
    and start: "w = with_placement p w"
    and pq: "candidate_of (with_placement p w) = q" and qp: "candidate_of (with_placement q w) = p"
  shows "(next_resource now e ^^ n) w = with_placement (if even n then p else q) w"
proof (induction n)
  case 0
  show ?case using start by simp
next
  case (Suc n)
  have "next_resource now e (with_placement r w) = with_placement (candidate_of (with_placement r w)) w"
    for r
    using next_of_candidate [of "with_placement r w" now e] topic off
    by (simp add: with_placement_deadline_params)
  with Suc pq qp show ?case by simp
qed

section \<open>Properties\<close>

text \<open>C2: The decision implements the documented policy.  With a control topic, the candidate, the
  proposal source and the hardness of a decision are those of the first proposer in the order hard
  low battery, explicit mode, high battery, confirmed drain; the candidate is the proposal after
  mandatory resource locality; and the desired placement is the candidate if the deadline verdict
  on that candidate accepts, the current placement otherwise.\<close>

theorem decision_implements_policy:
  assumes "ControlTopic (device w) \<noteq> []"
  shows "let d = resolvePlacementWithEstimates now w e in
    Current d = currentPlacement w \<and> Candidate d = candidate_of w \<and>
    PD_ProposalSource d = source_of (proposer_of w) \<and> (Hard d \<longleftrightarrow> proposer_of w = LowBattery) \<and>
    (Transition d \<longleftrightarrow> candidate_of w \<noteq> currentPlacement w) \<and>
    PD_Deadline d = evaluateDeadlineAdmission now w (candidate_of w) (Hard d) e \<and>
    Desired d = (if Accepted (PD_Deadline d) then candidate_of w else currentPlacement w) \<and>
    RuntimeMode d = runtimeModeForPlacement (Desired d)"
  unfolding Let_def using resolve_enabled [OF assms] by (intro conjI) assumption+

lemma sample_topic: "ControlTopic (device sampleFunction) \<noteq> []"
  by (simp add: sample_defs zero_defs)

theorem decision_implements_policy_witness:
  "Candidate (resolvePlacementWithEstimates 0 sampleFunction sampleEstimates)
     = candidate_of sampleFunction"
  using decision_implements_policy [OF sample_topic, of 0 sampleEstimates] by (simp add: Let_def)

text \<open>C20: Threshold hysteresis works.  In auto mode with live battery telemetry and a low threshold
  below the high one, a placement that has been accepted is decided again by the next reconcile,
  whatever the estimates then are; a rejected one is decided again under the same estimates.\<close>

theorem auto_placement_settles:
  assumes "policy_mode w = placementAuto" "ControlTopic (device w) \<noteq> []"
    and "ObservedBatteryPercent (Status w) = Some b"
    and "effectiveBatteryThresholdEnabled w \<longrightarrow> resolvedLowThreshold w < resolvedHighThreshold w"
    and "Accepted (PD_Deadline (resolvePlacementWithEstimates now w e)) \<or> e' = e"
  shows "Desired (resolvePlacementWithEstimates now' (next_resource now e w) e')
       = Desired (resolvePlacementWithEstimates now w e)"
proof (cases "Accepted (PD_Deadline (resolvePlacementWithEstimates now w e))")
  case True
  then have n: "next_resource now e w = with_placement (candidate_of w) w"
    using assms(2) by (simp add: next_resource_eq resolve_enabled)
  have "candidate_of (with_placement (candidate_of w) w) = candidate_of w"
    using assms(1,3,4) by (rule auto_candidate_stable)
  with True show ?thesis
    using assms(2) by (simp add: n resolve_enabled)
next
  case False
  then have n: "next_resource now e w = with_placement (currentPlacement w) w"
    using assms(2) by (simp add: next_resource_eq resolve_enabled)
  have p: "proposer_of (with_placement (currentPlacement w) w) = proposer_of w"
    by (simp add: proposer_of_def low_guard_def high_return_def)
  then have "candidate_of (with_placement (currentPlacement w) w) = candidate_of w"
    by (simp add: candidate_of_def)
  with False p show ?thesis
    using assms(2,5) accepted_now [of now] accepted_now [of now']
    by (simp add: n resolve_enabled)
qed

definition sampleObserved :: "int32 \<Rightarrow> wasmFunction" where
  "sampleObserved b = on_status (\<lambda>s. s\<lparr>ObservedBatteryPercent := Some b\<rparr>) sampleFunction"

lemma sampleObserved_fields [simp]:
  "Spec (sampleObserved b) = Spec sampleFunction"
  "ObservedBatteryPercent (Status (sampleObserved b)) = Some b"
  "ControlTopic (device sampleFunction) = ''device/control''"
  "P_Mode (placement sampleFunction) = []"
  "LowBatteryThreshold (placement sampleFunction) = 0"
  "HighBatteryThreshold (placement sampleFunction) = 0"
  "BT_Enabled (BatteryThreshold (placement sampleFunction)) = None"
  "TargetMs (Deadline (placement sampleFunction)) = Some 1000"
  by (simp_all add: sampleObserved_def sample_defs zero_defs)

theorem auto_placement_settles_witness:
  "Desired (resolvePlacementWithEstimates 9
      (next_resource 5 sampleEstimates (sampleObserved 10)) sampleEstimates)
   = Desired (resolvePlacementWithEstimates 5 (sampleObserved 10) sampleEstimates)"
  using auto_placement_settles [of "sampleObserved 10" 10 5 sampleEstimates sampleEstimates 9]
  by (simp add: policy_mode_def toLower_def effectiveBatteryThresholdEnabled_def
      resolvedLowThreshold_def resolvedHighThreshold_def defaultLowBatteryThreshold_def
      defaultHighBatteryThreshold_def)

text \<open>An explicit local request and a low battery contradict each other for ever.  With mode
  local, the threshold policy on and the battery at or below the low threshold, a resource whose
  deadline policy is off alternates between local and remote at every reconcile: the hard guard
  moves it away and the explicit request moves it back.\<close>

theorem explicit_local_low_battery_oscillates:
  assumes "policy_mode w = placementLocal" "ControlTopic (device w) \<noteq> []"
    and "effectiveBatteryThresholdEnabled w" "\<not> effectiveDeadlineEnabled w"
    and "batteryPercentForPlacement w = Some b" "b \<le> resolvedLowThreshold w"
    and "DesiredPlacement (Status w) = placementLocal"
  shows "currentPlacement ((next_resource now e ^^ n) w)
      = (if even n then placementLocal else applyResourceLocality w placementEdge)"
proof -
  let ?r = "applyResourceLocality w placementEdge"
  have local: "producible w placementLocal" and remote: "producible w ?r"
    by (simp_all add: producible_def valid_placement_def applyResourceLocality_def)
  have start: "w = with_placement placementLocal w"
    using assms(7) by (simp add: with_placement_def)
  have "candidate_of (with_placement placementLocal w) = ?r"
    using assms local by (simp add: candidate_of_def proposer_of_def low_guard_def)
  moreover have "candidate_of (with_placement ?r w) = placementLocal"
    using assms remote
    by (simp add: candidate_of_def proposer_of_def low_guard_def applyResourceLocality_def)
  ultimately have "(next_resource now e ^^ n) w
      = with_placement (if even n then placementLocal else ?r) w"
    by (rule two_cycle [OF assms(2,4) start])
  then show ?thesis using local remote by simp
qed

definition sampleConflict :: wasmFunction where
  "sampleConflict = zeroWasmFunction\<lparr>
     Spec := zeroSpec\<lparr>Device := zeroDevice\<lparr>ControlTopic := ''device/control''\<rparr>,
       Placement := zeroPlacement\<lparr>P_Mode := ''local'',
         Deadline := (Deadline zeroPlacement)\<lparr>DP_Enabled := Some False\<rparr>\<rparr>\<rparr>,
     Status := zeroStatus\<lparr>DesiredPlacement := ''local'', ObservedBatteryPercent := Some 10\<rparr>\<rparr>"

theorem explicit_local_low_battery_oscillates_witness:
  "currentPlacement ((next_resource 0 sampleEstimates ^^ 7) sampleConflict) = placementEdge"
  using explicit_local_low_battery_oscillates [of sampleConflict 10 7 0 sampleEstimates]
  by (simp add: sampleConflict_def zero_defs policy_mode_def toLower_def lower_char_def
      effectiveBatteryThresholdEnabled_def effectiveDeadlineEnabled_def
      batteryPercentForPlacement_def resolvedLowThreshold_def defaultLowBatteryThreshold_def
      applyResourceLocality_def hasDeviceLocalResources_def)

text \<open>Equal thresholds give no hysteresis either.  In auto mode, when the high threshold resolves
  to the low one (it is raised to it when it is configured below), a battery value equal to both
  moves the placement back and forth at every reconcile.\<close>

theorem equal_thresholds_oscillate:
  assumes "policy_mode w = placementAuto" "ControlTopic (device w) \<noteq> []"
    and "effectiveBatteryThresholdEnabled w" "\<not> effectiveDeadlineEnabled w"
    and "batteryPercentForPlacement w = Some (resolvedLowThreshold w)"
    and "HighBatteryThreshold (placement w) \<noteq> 0"
    and "HighBatteryThreshold (placement w) \<le> resolvedLowThreshold w"
    and "DesiredPlacement (Status w) = placementLocal"
  shows "currentPlacement ((next_resource now e ^^ n) w)
      = (if even n then placementLocal else applyResourceLocality w placementEdge)"
proof -
  let ?r = "applyResourceLocality w placementEdge"
  have local: "producible w placementLocal" and remote: "producible w ?r"
    by (simp_all add: producible_def valid_placement_def applyResourceLocality_def)
  have remote_not_local: "?r \<noteq> placementLocal"
    by (simp add: applyResourceLocality_def)
  have high: "resolvedHighThreshold w = resolvedLowThreshold w"
    using assms(6,7) by (simp add: resolvedHighThreshold_def Let_def)
  have start: "w = with_placement placementLocal w"
    using assms(8) by (simp add: with_placement_def)
  have "candidate_of (with_placement placementLocal w) = ?r"
    using assms(1,3,5) by (simp add: candidate_with_placement [OF local])
  moreover have "candidate_of (with_placement ?r w) = placementLocal"
    using assms(1,3,5) high remote_not_local
    by (simp add: candidate_with_placement [OF remote])
  ultimately have "(next_resource now e ^^ n) w
      = with_placement (if even n then placementLocal else ?r) w"
    by (rule two_cycle [OF assms(2,4) start])
  then show ?thesis using local remote by simp
qed

definition sampleEqual :: wasmFunction where
  "sampleEqual = zeroWasmFunction\<lparr>
     Spec := zeroSpec\<lparr>Device := zeroDevice\<lparr>ControlTopic := ''device/control''\<rparr>,
       Placement := zeroPlacement\<lparr>LowBatteryThreshold := 50, HighBatteryThreshold := 40,
         Deadline := (Deadline zeroPlacement)\<lparr>DP_Enabled := Some False\<rparr>\<rparr>\<rparr>,
     Status := zeroStatus\<lparr>DesiredPlacement := ''local'', ObservedBatteryPercent := Some 50\<rparr>\<rparr>"

theorem equal_thresholds_oscillate_witness:
  "currentPlacement ((next_resource 0 sampleEstimates ^^ 2) sampleEqual) = placementLocal"
  using equal_thresholds_oscillate [of sampleEqual 2 0 sampleEstimates]
  by (simp add: sampleEqual_def zero_defs policy_mode_def toLower_def
      effectiveBatteryThresholdEnabled_def effectiveDeadlineEnabled_def
      batteryPercentForPlacement_def resolvedLowThreshold_def)

section \<open>Behind the readiness gate\<close>

text \<open>Whether the destination of a candidate can run the declared release.\<close>

definition destination_ready :: "wasmFunction \<Rightarrow> string \<Rightarrow> artifactDecision \<Rightarrow> bool \<Rightarrow> bool" where
  "destination_ready w candidate a available \<longleftrightarrow>
     deviceReleaseReady w (DesiredDigest a) \<and>
     (candidate \<noteq> placementLocal \<longrightarrow> hostReady a w \<and> available)"

lemma readiness_frame [frame_simps]:
  "Current (snd (applyDestinationReadiness w d a av)) = Current d"
  "Candidate (snd (applyDestinationReadiness w d a av)) = Candidate d"
  "Transition (snd (applyDestinationReadiness w d a av)) = Transition d"
  "Hard (snd (applyDestinationReadiness w d a av)) = Hard d"
  "PD_Enabled (snd (applyDestinationReadiness w d a av)) = PD_Enabled d"
  by (simp_all add: applyDestinationReadiness_def Let_def)

lemma readiness_resource:
  "fst (applyDestinationReadiness w d a av) =
     on_status (\<lambda>s. s\<lparr>ArtifactReadinessReason :=
       ReadinessReason (snd (applyDestinationReadiness w d a av))\<rparr>) w"
  by (simp add: applyDestinationReadiness_def Let_def)

lemma readiness_passes:
  assumes "Transition d \<longrightarrow> valid_placement (Candidate d) \<and> destination_ready w (Candidate d) a av"
  shows "Desired (snd (applyDestinationReadiness w d a av)) = Desired d"
    and "PD_Deadline (snd (applyDestinationReadiness w d a av)) = PD_Deadline d"
    and "RuntimeMode (snd (applyDestinationReadiness w d a av)) = RuntimeMode d"
  using assms
  by (auto simp: applyDestinationReadiness_def Let_def destination_ready_def valid_placement_def)

lemma readiness_blocks:
  assumes "Transition d" "valid_placement (Candidate d)" "\<not> destination_ready w (Candidate d) a av"
  shows "Desired (snd (applyDestinationReadiness w d a av)) = Current d"
    and "\<not> Accepted (PD_Deadline (snd (applyDestinationReadiness w d a av)))"
    and "RuntimeMode (snd (applyDestinationReadiness w d a av)) = runtimeModeForPlacement (Current d)"
    and "ReadinessReason (snd (applyDestinationReadiness w d a av)) \<noteq> ''DestinationReady''"
  using assms
  by (auto simp: applyDestinationReadiness_def Let_def destination_ready_def valid_placement_def)

text \<open>The decision a reconcile acts on: resolved, then gated.\<close>

definition gated_decision ::
    "time \<Rightarrow> wasmFunction \<Rightarrow> deadlineEstimateSnapshot \<Rightarrow> artifactDecision \<Rightarrow> bool \<Rightarrow> placementDecision" where
  "gated_decision now w e a av =
    snd (applyDestinationReadiness w (resolvePlacementWithEstimates now w e) a av)"

lemma gated_enabled:
  assumes "ControlTopic (device w) \<noteq> []"
  shows "Current (gated_decision now w e a av) = currentPlacement w"
    and "Candidate (gated_decision now w e a av) = candidate_of w"
    and "Transition (gated_decision now w e a av) \<longleftrightarrow> candidate_of w \<noteq> currentPlacement w"
    and "Hard (gated_decision now w e a av) \<longleftrightarrow> proposer_of w = LowBattery"
  using assms by (simp_all add: gated_decision_def frame_simps resolve_enabled)

lemma gated_Desired:
  assumes "ControlTopic (device w) \<noteq> []"
  shows "Desired (gated_decision now w e a av) =
    (if candidate_of w \<noteq> currentPlacement w \<and> destination_ready w (candidate_of w) a av \<and>
        Accepted (evaluateDeadlineAdmission now w (candidate_of w) (proposer_of w = LowBattery) e)
     then candidate_of w else currentPlacement w)"
proof -
  let ?d = "resolvePlacementWithEstimates now w e"
  show ?thesis
  proof (cases "Transition ?d \<and> \<not> destination_ready w (Candidate ?d) a av")
    case True
    then show ?thesis
      using readiness_blocks(1) [of ?d w a av] assms by (simp add: gated_decision_def resolve_enabled)
  next
    case False
    then show ?thesis
      using readiness_passes(1) [of ?d w a av] assms by (auto simp: gated_decision_def resolve_enabled)
  qed
qed

text \<open>The low-battery guard is hard.  With the threshold policy on, the current placement local
  and the battery at or below the low threshold, the decision desires the remote placement (hybrid
  where the contract needs the device) as soon as the destination is ready, whatever the requested
  mode and whatever the deadline estimates say.\<close>

theorem low_battery_overrides_deadline:
  assumes "ControlTopic (device w) \<noteq> []" "low_guard w"
    and "deviceReleaseReady w (DesiredDigest a)" "hostReady a w"
  shows "Desired (gated_decision now w e a True)
      = (if needs_device w then placementHybrid else placementEdge)"
proof -
  have p: "proposer_of w = LowBattery"
    using assms(2) by (simp add: proposer_of_def)
  then have c: "candidate_of w = (if needs_device w then placementHybrid else placementEdge)"
    by (simp add: candidate_of_def applyResourceLocality_def)
  have "currentPlacement w = placementLocal"
    using assms(2) by (simp add: low_guard_def)
  moreover have "Accepted (evaluateDeadlineAdmission now w (candidate_of w) True e)"
    by (rule hard_accepted) simp
  ultimately show ?thesis
    using assms(1,3,4) p c by (simp add: gated_Desired destination_ready_def)
qed

definition sampleDigest :: string where
  "sampleDigest = replicate 64 (CHR ''a'')"

lemma sampleDigest [simp]: "is_digest sampleDigest"
  by (simp add: sampleDigest_def is_digest_def is_hex_char_def list_all_iff)

text \<open>A resource whose device and host hold release 6 of the digest, on low battery.\<close>

definition sampleReady :: wasmFunction where
  "sampleReady = zeroWasmFunction\<lparr>
     Spec := zeroSpec\<lparr>Device := zeroDevice\<lparr>ControlTopic := ''device/control''\<rparr>,
       Release := zeroRelease\<lparr>R_Generation := 6, R_ArtifactDigest := sampleDigest\<rparr>\<rparr>,
     Status := zeroStatus\<lparr>ObservedBatteryPercent := Some 10, StagedReleaseGeneration := 6,
       DeviceStagedArtifactDigest := sampleDigest\<rparr>\<rparr>"

definition sampleArtifact :: artifactDecision where
  "sampleArtifact = zeroArtifact\<lparr>A_Enabled := True, DesiredDigest := sampleDigest,
     HostDigest := sampleDigest, HostActiveGeneration := 6\<rparr>"

lemma sampleReady_facts:
  "ControlTopic (device sampleReady) \<noteq> []" "\<not> needs_device sampleReady"
  "deviceReleaseReady sampleReady (DesiredDigest sampleArtifact)"
  "hostReady sampleArtifact sampleReady" "low_guard sampleReady"
  by (simp_all add: sampleReady_def sampleArtifact_def zero_defs zeroArtifact_def
      hasDeviceLocalResources_def deviceReleaseReady_def deviceReleaseStaged_def hostReady_def
      hostActiveMatches_def hostReleaseMatches_def low_guard_def currentPlacement_def
      effectiveBatteryThresholdEnabled_def batteryPercentForPlacement_def
      resolvedLowThreshold_def defaultLowBatteryThreshold_def equalFold_def toLower_def
      lower_char_def)

theorem low_battery_overrides_deadline_witness:
  "Desired (gated_decision 0 sampleReady sampleEstimates sampleArtifact True) = placementEdge"
  using low_battery_overrides_deadline [OF sampleReady_facts(1,5,3,4), of 0 sampleEstimates]
  by (simp add: sampleReady_facts)

text \<open>Resource locality is kept by every transition: a decision never moves a function whose
  contract needs the device to the pure edge placement, and no decision desires hybrid for a
  contract that does not need the device.\<close>

theorem transitions_keep_locality:
  assumes "ControlTopic (device w) \<noteq> []"
  shows "let d = gated_decision now w e a av in
    (Desired d \<noteq> currentPlacement w \<and> needs_device w \<longrightarrow> Desired d \<noteq> placementEdge) \<and>
    (Desired d = placementHybrid \<longrightarrow> needs_device w)"
proof -
  have "candidate_of w \<noteq> currentPlacement w \<and> needs_device w \<longrightarrow> candidate_of w \<noteq> placementEdge"
    using candidate_cases [of w] by auto
  moreover have "producible w (Desired (gated_decision now w e a av))"
    using assms by (simp add: gated_Desired)
  ultimately show ?thesis
    using assms by (auto simp: Let_def gated_Desired producible_def split: if_splits)
qed

theorem transitions_keep_locality_witness:
  "Desired (gated_decision 0 sampleReady sampleEstimates sampleArtifact True) \<noteq> placementHybrid"
  using transitions_keep_locality [OF sampleReady_facts(1), of 0 sampleEstimates sampleArtifact True]
    sampleReady_facts(2) by (auto simp: Let_def)

text \<open>The retained placement escapes the rule.  A function retained at the edge placement in auto
  mode stays there when a new release starts to need the device: the proposal-free decision keeps
  the pure edge placement although the contract has device-local members.\<close>

theorem retained_edge_ignores_locality:
  assumes "ControlTopic (device w) \<noteq> []" "DesiredPlacement (Status w) = placementEdge"
    and "proposer_of w = Nobody"
  shows "Desired (gated_decision now w e a av) = placementEdge"
  using assms by (simp add: gated_Desired candidate_of_def currentPlacement_def
      normalizeRetainedPlacement_def Let_def)

definition sampleRetained :: wasmFunction where
  "sampleRetained = zeroWasmFunction\<lparr>
     Spec := zeroSpec\<lparr>Device := zeroDevice\<lparr>ControlTopic := ''device/control''\<rparr>,
       Release := zeroRelease\<lparr>ResourceContract := zeroContract\<lparr>
         Inputs := [\<lparr>RI_Name = ''DHT'', RI_Locality = ''device'', RI_Keys = []\<rparr>]\<rparr>\<rparr>\<rparr>,
     Status := zeroStatus\<lparr>DesiredPlacement := ''edge'', ObservedBatteryPercent := Some 40\<rparr>\<rparr>"

theorem retained_edge_ignores_locality_witness:
  "needs_device sampleRetained \<and>
   Desired (gated_decision 0 sampleRetained sampleEstimates zeroArtifact True) = placementEdge"
proof -
  have "trimSpace ''device'' = ''device''"
    by (rule trimSpace_plain) (simp add: plain_char_def)
  then have "needs_device sampleRetained"
    by (simp add: sampleRetained_def zero_defs hasDeviceLocalResources_def equalFold_def)
  moreover have "proposer_of sampleRetained = Nobody"
    by (simp add: sampleRetained_def zero_defs proposer_of_def low_guard_def high_return_def
        drain_confirmed_def policy_mode_def toLower_def currentPlacement_def
        normalizeRetainedPlacement_def batteryPercentForPlacement_def resolvedHighThreshold_def
        resolvedLowThreshold_def defaultHighBatteryThreshold_def defaultLowBatteryThreshold_def
        localBatteryDeltaForcesEdge_def Let_def)
  ultimately show ?thesis
    using retained_edge_ignores_locality [of sampleRetained 0 sampleEstimates zeroArtifact True]
    by (simp add: sampleRetained_def zero_defs)
qed

end
