(* ===== verification/Rolling_Window.thy ===== *)
theory Rolling_Window
  imports Sif_Prelude
begin

text \<open>
  The interface of the two rolling sample windows of the operator (deadline estimator and battery
  drain tracker): an observation made at \<open>now\<close> drops what is older than the window and is then
  the newest sample.
\<close>

locale rolling_window =
  fixes samples :: "'st \<Rightarrow> 's list"
    and at :: "'s \<Rightarrow> time"
    and observe :: "time \<Rightarrow> 's \<Rightarrow> 'st \<Rightarrow> 'st"
    and window :: duration
  assumes window_nonneg: "0 \<le> window"
    and samples_observe: "at x = now \<Longrightarrow>
      samples (observe now x st) = filter (\<lambda>s. now - window \<le> at s) (samples st) @ [x]"
begin

text \<open>
  After any run of observations at non-decreasing times the window holds exactly the samples, old
  and new, that are at most the window older than the last observation, in order.
\<close>

lemma samples_run:
  assumes "obs \<noteq> []" "\<forall>(now, x) \<in> set obs. at x = now" "sorted (map fst obs)"
  shows "samples (fold (\<lambda>(now, x). observe now x) obs st)
    = filter (\<lambda>s. fst (last obs) - window \<le> at s) (samples st @ map snd obs)"
  using assms
proof (induction obs rule: rev_induct)
  case Nil
  then show ?case by simp
next
  case (snoc o_last obs)
  obtain now x where o: "o_last = (now, x)" by (cases o_last)
  have x: "at x = now" using snoc.prems o by simp
  show ?case
  proof (cases "obs = []")
    case True
    then show ?thesis
      using x o window_nonneg by (simp add: samples_observe)
  next
    case False
    have sorted: "sorted (map fst obs)" and le: "fst (last obs) \<le> now"
      using snoc.prems False o by (auto simp: sorted_append)
    have IH: "samples (fold (\<lambda>(now, x). observe now x) obs st)
        = filter (\<lambda>s. fst (last obs) - window \<le> at s) (samples st @ map snd obs)"
      using snoc False sorted by auto
    have narrow: "fst (last obs) - window \<le> at s \<and> now - window \<le> at s
        \<longleftrightarrow> now - window \<le> at s" for s
      using le by auto
    show ?thesis
      using x o window_nonneg by (simp add: samples_observe IH narrow)
  qed
qed

lemma samples_in_window:
  assumes "s \<in> set (samples (observe now x st))" "at x = now"
  shows "now - window \<le> at s"
  using assms window_nonneg by (auto simp: samples_observe)

lemma newest_sample: "at x = now \<Longrightarrow> last (samples (observe now x st)) = x"
  by (simp add: samples_observe)

end

end
