(* ===== verification/Estimator.thy ===== *)
theory Estimator
  imports Deadline Rolling_Window "HOL-Library.Monad_Syntax"
begin

text \<open>
  The in-memory deadline estimator (\<open>deadline_estimator.go\<close>): samples per namespace, resource,
  function and mode, pruned to a rolling window, and nearest-rank percentiles over them with the
  configured profile as the fallback.
\<close>

section \<open>Telemetry payloads\<close>

text \<open>\<open>batteryTelemetry\<close> of \<open>mqtt_telemetry.go\<close>, as decoded from JSON.\<close>

record batteryTelemetry =
  T_BatteryPercent :: "int32 option"
  T_Mode :: string
  T_Source :: string
  T_VoltageMV :: "int32 option"
  T_ArtifactDigest :: string
  T_ReleaseGeneration :: "int64 option"
  T_StagedArtifactDigest :: "string option"
  T_StagedGeneration :: "int64 option"
  T_AdmissionPaused :: "bool option"
  T_Function :: string
  T_ExecutionMs :: "int32 option"
  T_QueueDelayMs :: "int32 option"
  T_ResourceWakeMs :: "int32 option"
  T_ResourceCollectionMs :: "int32 option"
  T_NetworkRoundTripMs :: "int32 option"
  T_EdgeExecutionMs :: "int32 option"
  T_OutputApplicationMs :: "int32 option"

definition zeroTelemetry :: batteryTelemetry where
  "zeroTelemetry = \<lparr>T_BatteryPercent = None, T_Mode = [], T_Source = [], T_VoltageMV = None,
     T_ArtifactDigest = [], T_ReleaseGeneration = None, T_StagedArtifactDigest = None,
     T_StagedGeneration = None, T_AdmissionPaused = None, T_Function = [], T_ExecutionMs = None,
     T_QueueDelayMs = None, T_ResourceWakeMs = None, T_ResourceCollectionMs = None,
     T_NetworkRoundTripMs = None, T_EdgeExecutionMs = None, T_OutputApplicationMs = None\<rparr>"

section \<open>Samples, profiles and the estimator's state\<close>

record deadlineTelemetrySample =
  S_At :: time
  S_LocalExecutionMs :: "int32 option"
  S_LocalQueueDelayMs :: "int32 option"
  S_ResourceWakeMs :: "int32 option"
  S_EdgeExecutionMs :: "int32 option"
  S_NetworkRoundTripMs :: "int32 option"
  S_ResourceCollectionMs :: "int32 option"
  S_OutputApplicationMs :: "int32 option"

record deadlineProfile =
  DPf_LocalExecutionMs :: int32
  DPf_LocalQueueDelayMs :: int32
  DPf_ResourceWakeMs :: int32
  DPf_EdgeExecutionMs :: int32
  DPf_NetworkRoundTripMs :: int32
  DPf_ResourceCollectionMs :: int32
  DPf_OutputApplicationMs :: int32

record deadlineTelemetryEstimator =
  Samples :: "string \<Rightarrow> deadlineTelemetrySample list option"
  Profiles :: "string \<Rightarrow> deadlineProfile option"

definition knownFunctionIdentities :: "string list" where
  "knownFunctionIdentities = [''basic-edge-demo'', ''dht-reader'', ''hybrid-resource-demo'']"

definition validDeadlineProfile :: "deadlineProfile \<Rightarrow> bool" where
  "validDeadlineProfile p \<longleftrightarrow>
     DPf_LocalExecutionMs p \<ge> 0 \<and> DPf_LocalQueueDelayMs p \<ge> 0 \<and> DPf_ResourceWakeMs p \<ge> 0 \<and>
     DPf_EdgeExecutionMs p \<ge> 0 \<and> DPf_NetworkRoundTripMs p \<ge> 0 \<and>
     DPf_ResourceCollectionMs p \<ge> 0 \<and> DPf_OutputApplicationMs p \<ge> 0"

text \<open>
  \<open>loadDeadlineProfilesFromEnvironment\<close>: the argument is the decoded profile file, \<open>None\<close> when it
  cannot be read or decoded.  Unknown identities and invalid profiles are dropped.
\<close>

definition loadDeadlineProfiles ::
    "(string \<Rightarrow> deadlineProfile option) option \<Rightarrow> string \<Rightarrow> deadlineProfile option" where
  "loadDeadlineProfiles file =
    (case file of
       None \<Rightarrow> (\<lambda>_. None)
     | Some profiles \<Rightarrow> (\<lambda>identity.
         case profiles identity of
           None \<Rightarrow> None
         | Some p \<Rightarrow>
             if identity \<notin> set knownFunctionIdentities \<or> \<not> validDeadlineProfile p then None
             else Some p))"

definition newDeadlineTelemetryEstimator ::
    "(string \<Rightarrow> deadlineProfile option) \<Rightarrow> deadlineTelemetryEstimator" where
  "newDeadlineTelemetryEstimator profiles = \<lparr>Samples = (\<lambda>_. None), Profiles = profiles\<rparr>"

section \<open>Keys\<close>

definition deadlineEstimatorKeyPrefix :: "string \<Rightarrow> string \<Rightarrow> string \<Rightarrow> string" where
  "deadlineEstimatorKeyPrefix namespace name function =
     namespace @ ''/'' @ name @ ''/'' @ function"

definition deadlineEstimatorKey :: "string \<Rightarrow> string \<Rightarrow> string" where
  "deadlineEstimatorKey prefix_key mode = prefix_key @ ''/'' @ mode"

definition deadlineEstimatorFunction :: "wasmFunction \<Rightarrow> batteryTelemetry \<Rightarrow> string" where
  "deadlineEstimatorFunction w telemetry =
    (let selected = trimSpace (FunctionIdentity (release w))
     in if selected = [] then []
        else if T_Function telemetry \<noteq> [] \<and> T_Function telemetry \<noteq> selected then []
        else selected)"

section \<open>Fallbacks\<close>

definition unavailableDeadlineEstimate :: "wasmFunction \<Rightarrow> deadlineEstimateSnapshot" where
  "unavailableDeadlineEstimate w =
     noEstimate (trimSpace (FunctionIdentity (release w)) \<in> set knownFunctionIdentities)"

definition override :: "int32 \<Rightarrow> int32 \<Rightarrow> int32" where
  "override configured profile = (if configured > 0 then configured else profile)"

definition profileEstimate ::
    "deadlineTelemetryEstimator \<Rightarrow> wasmFunction \<Rightarrow> deadlineEstimateSnapshot" where
  "profileEstimate est w =
    (let identity = trimSpace (FunctionIdentity (release w));
         c = Estimator (Deadline (placement w))
     in case Profiles est identity of
          None \<Rightarrow> noEstimate (identity \<in> set knownFunctionIdentities)
        | Some p \<Rightarrow>
            let localExecution = override (FallbackLocalExecutionMs c) (DPf_LocalExecutionMs p);
                edgeExecution = override (FallbackEdgeExecutionMs c) (DPf_EdgeExecutionMs p);
                networkRoundTrip =
                  override (FallbackNetworkRoundTripMs c) (DPf_NetworkRoundTripMs p);
                resourceCollection =
                  override (FallbackResourceCollectionMs c) (DPf_ResourceCollectionMs p)
            in \<lparr>IdentityKnown = True, Available = True, LocalExecutionMs = localExecution,
                LocalQueueDelayMs = DPf_LocalQueueDelayMs p, ResourceWakeMs = DPf_ResourceWakeMs p,
                EdgeExecutionMs = edgeExecution, NetworkRoundTripMs = networkRoundTrip,
                ResourceCollectionMs = resourceCollection,
                OutputApplicationMs = DPf_OutputApplicationMs p,
                HybridRoundTripMs = wrap32 (wrap32 (wrap32 (resourceCollection + networkRoundTrip)
                  + edgeExecution) + DPf_OutputApplicationMs p),
                SampleCount = 0\<rparr>)"

section \<open>Percentiles\<close>

definition metric_values ::
    "deadlineTelemetrySample list \<Rightarrow> (deadlineTelemetrySample \<Rightarrow> int32 option) \<Rightarrow> int32 list" where
  "metric_values samples valueFor =
     map (the \<circ> valueFor)
       (filter (\<lambda>s. case valueFor s of None \<Rightarrow> False | Some v \<Rightarrow> \<not> v < 0) samples)"

text \<open>
  \<open>None\<close> is the panic of the final index expression (no values although none were required).  The
  product of percentile and length does not overflow \<open>int64\<close> for any list that fits in memory.
\<close>

definition estimateDeadlinePercentile ::
    "deadlineTelemetrySample list \<Rightarrow> (deadlineTelemetrySample \<Rightarrow> int32 option) \<Rightarrow> int \<Rightarrow> int32
       \<Rightarrow> int32 \<Rightarrow> int32 option" where
  "estimateDeadlinePercentile samples valueFor minSamples percentile fallback =
    (let vs = metric_values samples valueFor
     in if int (length vs) < minSamples then Some fallback
        else let sorted_vs = sort vs;
                 index0 = (percentile * int (length vs) + 99) div 100;
                 index1 = (if index0 < 1 then 1 else index0);
                 index = (if index1 > int (length vs) then int (length vs) else index1)
             in if 1 \<le> index then Some (sorted_vs ! nat (index - 1)) else None)"

definition samplesAt :: "deadlineTelemetryEstimator \<Rightarrow> string \<Rightarrow> deadlineTelemetrySample list" where
  "samplesAt est key = (case Samples est key of None \<Rightarrow> [] | Some xs \<Rightarrow> xs)"

definition snapshotLocked ::
    "deadlineTelemetryEstimator \<Rightarrow> wasmFunction \<Rightarrow> string \<Rightarrow> deadlineEstimateSnapshot option" where
  "snapshotLocked est w prefix_key =
    (let fallback = profileEstimate est w;
         localSamples = samplesAt est (deadlineEstimatorKey prefix_key placementLocal);
         edgeSamples = samplesAt est (deadlineEstimatorKey prefix_key placementEdge);
         allCount = wrap32 (int (length localSamples) + int (length edgeSamples));
         minSamples = effectiveDeadlineEstimatorMinSamples w;
         percentile = effectiveDeadlineEstimatorPercentile w;
         estim = (\<lambda>xs f. estimateDeadlinePercentile xs f minSamples percentile)
     in if \<not> Available fallback then Some fallback
        else do {
          localExecution \<leftarrow> estim localSamples S_LocalExecutionMs (LocalExecutionMs fallback);
          localQueue \<leftarrow> estim localSamples S_LocalQueueDelayMs (LocalQueueDelayMs fallback);
          resourceWake \<leftarrow> estim localSamples S_ResourceWakeMs (ResourceWakeMs fallback);
          edgeExecution \<leftarrow> estim edgeSamples S_EdgeExecutionMs (EdgeExecutionMs fallback);
          networkRoundTrip \<leftarrow> estim edgeSamples S_NetworkRoundTripMs (NetworkRoundTripMs fallback);
          resourceCollection \<leftarrow>
            estim edgeSamples S_ResourceCollectionMs (ResourceCollectionMs fallback);
          outputApplication \<leftarrow>
            estim edgeSamples S_OutputApplicationMs (OutputApplicationMs fallback);
          Some \<lparr>IdentityKnown = True, Available = True, LocalExecutionMs = localExecution,
            LocalQueueDelayMs = localQueue, ResourceWakeMs = resourceWake,
            EdgeExecutionMs = edgeExecution, NetworkRoundTripMs = networkRoundTrip,
            ResourceCollectionMs = resourceCollection, OutputApplicationMs = outputApplication,
            HybridRoundTripMs = wrap32 (wrap32 (wrap32 (resourceCollection + networkRoundTrip)
              + edgeExecution) + outputApplication),
            SampleCount = allCount\<rparr>
        })"

section \<open>Recording\<close>

definition emptySample :: "time \<Rightarrow> deadlineTelemetrySample" where
  "emptySample now = \<lparr>S_At = now, S_LocalExecutionMs = None, S_LocalQueueDelayMs = None,
     S_ResourceWakeMs = None, S_EdgeExecutionMs = None, S_NetworkRoundTripMs = None,
     S_ResourceCollectionMs = None, S_OutputApplicationMs = None\<rparr>"

definition hasDeadlineValue :: "deadlineTelemetrySample \<Rightarrow> bool" where
  "hasDeadlineValue s \<longleftrightarrow>
     S_LocalExecutionMs s \<noteq> None \<or> S_LocalQueueDelayMs s \<noteq> None \<or> S_ResourceWakeMs s \<noteq> None \<or>
     S_EdgeExecutionMs s \<noteq> None \<or> S_NetworkRoundTripMs s \<noteq> None \<or>
     S_ResourceCollectionMs s \<noteq> None \<or> S_OutputApplicationMs s \<noteq> None"

definition deadlineSampleFromTelemetry ::
    "string \<Rightarrow> batteryTelemetry \<Rightarrow> time \<Rightarrow> deadlineTelemetrySample option" where
  "deadlineSampleFromTelemetry mode t now =
    (let sample =
       (if mode = placementLocal then
          Some ((emptySample now)\<lparr>S_LocalExecutionMs := T_ExecutionMs t,
            S_LocalQueueDelayMs := T_QueueDelayMs t, S_ResourceWakeMs := T_ResourceWakeMs t\<rparr>)
        else if mode = placementEdge then
          Some ((emptySample now)\<lparr>
            S_EdgeExecutionMs :=
              (if T_EdgeExecutionMs t = None \<and> T_NetworkRoundTripMs t = None
               then T_ExecutionMs t else T_EdgeExecutionMs t),
            S_NetworkRoundTripMs := T_NetworkRoundTripMs t,
            S_ResourceCollectionMs := T_ResourceCollectionMs t,
            S_OutputApplicationMs := T_OutputApplicationMs t\<rparr>)
        else None)
     in case sample of
          None \<Rightarrow> None
        | Some s \<Rightarrow> if hasDeadlineValue s then Some s else None)"

definition appendSample ::
    "string \<Rightarrow> deadlineTelemetrySample \<Rightarrow> deadlineTelemetryEstimator \<Rightarrow> deadlineTelemetryEstimator" where
  "appendSample key sample est =
     est\<lparr>Samples := (Samples est)(key := Some (samplesAt est key @ [sample]))\<rparr>"

text \<open>The pruning loop over all keys with the prefix; emptied keys are deleted.\<close>

definition pruneSamples ::
    "string \<Rightarrow> time \<Rightarrow> deadlineTelemetryEstimator \<Rightarrow> deadlineTelemetryEstimator" where
  "pruneSamples prefix_key cutoff est =
     est\<lparr>Samples := (\<lambda>key.
       case Samples est key of
         None \<Rightarrow> None
       | Some xs \<Rightarrow>
           if \<not> prefix (prefix_key @ ''/'') key then Some xs
           else let kept = filter (\<lambda>s. \<not> S_At s < cutoff) xs
                in if kept = [] then None else Some kept)\<rparr>"

definition recordAndEstimate ::
    "deadlineTelemetryEstimator \<Rightarrow> wasmFunction \<Rightarrow> batteryTelemetry \<Rightarrow> time
       \<Rightarrow> deadlineTelemetryEstimator \<times> deadlineEstimateSnapshot option" where
  "recordAndEstimate est w telemetry now =
    (let function = deadlineEstimatorFunction w telemetry
     in if function = [] then (est, Some (unavailableDeadlineEstimate w))
        else let prefix_key = deadlineEstimatorKeyPrefix (M_Namespace w) (M_Name w) function;
                 mode = toLower (trimSpace (T_Mode telemetry));
                 window = effectiveDeadlineEstimatorWindowSeconds w * second;
                 cutoff = now - window;
                 est1 = (case deadlineSampleFromTelemetry mode telemetry now of
                           None \<Rightarrow> est
                         | Some sample \<Rightarrow>
                             appendSample (deadlineEstimatorKey prefix_key mode) sample est);
                 est2 = pruneSamples prefix_key cutoff est1
             in (est2, snapshotLocked est2 w prefix_key))"

definition estimate ::
    "deadlineTelemetryEstimator \<Rightarrow> wasmFunction \<Rightarrow> deadlineEstimateSnapshot option" where
  "estimate est w =
    (let identity = trimSpace (FunctionIdentity (release w))
     in if identity = [] then Some (unavailableDeadlineEstimate w)
        else snapshotLocked est w
          (deadlineEstimatorKeyPrefix (M_Namespace w) (M_Name w) identity))"

text \<open>\<open>deadlineEstimate\<close> of the reconciler; its estimator may be nil.\<close>

definition deadlineEstimate ::
    "deadlineTelemetryEstimator option \<Rightarrow> wasmFunction \<Rightarrow> deadlineEstimateSnapshot option" where
  "deadlineEstimate est w =
    (case est of None \<Rightarrow> Some (unavailableDeadlineEstimate w) | Some e \<Rightarrow> estimate e w)"

end
