(* ===== verification/Estimator_Props.thy ===== *)
theory Estimator_Props
  imports Estimator
begin

text \<open>
  What the estimator guarantees: its percentiles are nearest-rank percentiles, it never panics, its
  estimates are never negative, its windows are exact, and different functions do not see each
  other's samples.
\<close>

section \<open>Percentiles\<close>

lemma metric_values_nonneg: "v \<in> set (metric_values xs f) \<Longrightarrow> 0 \<le> v"
  by (auto simp: metric_values_def split: option.splits)

lemma percentile_fallback:
  "int (length (metric_values xs f)) < m \<Longrightarrow> estimateDeadlinePercentile xs f m p fb = Some fb"
  by (simp add: estimateDeadlinePercentile_def Let_def)

text \<open>The index the code computes, as a natural number into the sorted values.\<close>

definition rank_index :: "int \<Rightarrow> nat \<Rightarrow> nat" where
  "rank_index p n = nat (min (int n) (max 1 ((p * int n + 99) div 100)) - 1)"

lemma percentile_value:
  assumes "m \<le> int (length (metric_values xs f))" "1 \<le> m"
  shows "estimateDeadlinePercentile xs f m p fb
      = Some (sort (metric_values xs f) ! rank_index p (length (metric_values xs f)))"
    and "rank_index p (length (metric_values xs f)) < length (metric_values xs f)"
  using assms
  by (auto simp: estimateDeadlinePercentile_def Let_def rank_index_def min_def max_def)

lemma percentile_total: "1 \<le> m \<Longrightarrow> \<exists>r. estimateDeadlinePercentile xs f m p fb = Some r"
  by (cases "int (length (metric_values xs f)) < m")
    (simp_all add: percentile_fallback percentile_value(1))

lemma percentile_nonneg:
  assumes "estimateDeadlinePercentile xs f m p fb = Some r" "1 \<le> m" "0 \<le> fb"
  shows "0 \<le> r"
proof (cases "m \<le> int (length (metric_values xs f))")
  case True
  let ?vs = "metric_values xs f"
  have "sort ?vs ! rank_index p (length ?vs) \<in> set (sort ?vs)"
    using percentile_value(2) [OF True assms(2), of p] by (intro nth_mem) simp
  then show ?thesis
    using assms percentile_value(1) [OF True assms(2)] metric_values_nonneg by auto
qed (use assms percentile_fallback in force)

lemma rank_index_bounds:
  assumes "1 \<le> p" "p \<le> 100" "0 < n"
  shows "p * int n \<le> 100 * (int (rank_index p n) + 1)"
    and "100 * int (rank_index p n) < p * int n"
proof -
  have pn: "0 < p * int n" "p * int n \<le> 100 * int n"
    using assms by (auto intro: mult_right_mono)
  let ?q = "(p * int n + 99) div 100"
  have q: "100 * ?q \<le> p * int n + 99" "p * int n + 99 < 100 * ?q + 100"
    by presburger+
  have "1 \<le> ?q" "?q \<le> int n"
    using pn q by linarith+
  then have "int (rank_index p n) = ?q - 1"
    by (simp add: rank_index_def min_def max_def)
  then show "p * int n \<le> 100 * (int (rank_index p n) + 1)"
    and "100 * int (rank_index p n) < p * int n"
    using q by simp_all
qed

lemma share_le: "a \<le> 100 * (int i + 1) \<Longrightarrow> i + 1 \<le> k \<Longrightarrow> a \<le> 100 * int k"
  by simp

lemma share_less: "100 * int i < a \<Longrightarrow> k \<le> i \<Longrightarrow> 100 * int k < a"
  by linarith

section \<open>Totality\<close>

lemma snapshot_total: "\<exists>s. snapshotLocked est w p = Some s"
proof -
  have "1 \<le> effectiveDeadlineEstimatorMinSamples w"
    using effective_pos(4) [of w] by linarith
  then have total: "\<exists>r. estimateDeadlinePercentile xs f (effectiveDeadlineEstimatorMinSamples w) q fb
      = Some r" for xs f q fb
    by (rule percentile_total)
  show ?thesis
  proof (cases "Available (profileEstimate est w)")
    case True
    have "(estimateDeadlinePercentile xs f (effectiveDeadlineEstimatorMinSamples w) q fb \<bind> g) \<noteq> None"
      if "\<And>r. g r \<noteq> None" for xs f q fb and g :: "int32 \<Rightarrow> deadlineEstimateSnapshot option"
      using total [of xs f q fb] that by auto
    then have "snapshotLocked est w p \<noteq> None"
      using True unfolding snapshotLocked_def Let_def by simp
    then show ?thesis by auto
  next
    case False
    then show ?thesis by (simp add: snapshotLocked_def Let_def)
  qed
qed

section \<open>Estimates are never negative\<close>

definition nonneg_snapshot :: "deadlineEstimateSnapshot \<Rightarrow> bool" where
  "nonneg_snapshot s \<longleftrightarrow>
     0 \<le> LocalExecutionMs s \<and> 0 \<le> LocalQueueDelayMs s \<and> 0 \<le> ResourceWakeMs s \<and>
     0 \<le> EdgeExecutionMs s \<and> 0 \<le> NetworkRoundTripMs s \<and> 0 \<le> ResourceCollectionMs s \<and>
     0 \<le> OutputApplicationMs s"

lemma nonneg_profileEstimate:
  assumes "\<forall>f p. Profiles est f = Some p \<longrightarrow> validDeadlineProfile p"
  shows "nonneg_snapshot (profileEstimate est w)"
  using assms
  by (auto simp: profileEstimate_def nonneg_snapshot_def noEstimate_def validDeadlineProfile_def
      override_def Let_def split: option.split)

lemma nonneg_snapshotLocked:
  assumes "snapshotLocked est w p = Some s" "nonneg_snapshot (profileEstimate est w)"
  shows "nonneg_snapshot s"
proof -
  have m: "1 \<le> effectiveDeadlineEstimatorMinSamples w"
    using effective_pos(4) [of w] by linarith
  note nn = percentile_nonneg [OF _ m]
  show ?thesis
    using assms
    by (auto simp: snapshotLocked_def nonneg_snapshot_def Let_def bind_eq_Some_conv
        intro: nn split: if_splits)
qed

lemma loaded_profiles_valid:
  "loadDeadlineProfiles file f = Some p \<Longrightarrow> validDeadlineProfile p \<and> f \<in> set knownFunctionIdentities"
  by (auto simp: loadDeadlineProfiles_def split: option.splits if_splits)

lemma recordAndEstimate_Profiles [frame_simps]:
  "Profiles (fst (recordAndEstimate est w t now)) = Profiles est"
  by (simp add: recordAndEstimate_def pruneSamples_def appendSample_def Let_def split: option.split)

section \<open>Windows\<close>

lemma key_has_prefix [simp]: "prefix (p @ ''/'') (deadlineEstimatorKey p m)"
  by (simp add: deadlineEstimatorKey_def)

lemma samplesAt_prune:
  "samplesAt (pruneSamples p cutoff est) key =
    (if prefix (p @ ''/'') key then filter (\<lambda>s. cutoff \<le> S_At s) (samplesAt est key)
     else samplesAt est key)"
  by (auto simp: samplesAt_def pruneSamples_def Let_def not_less split: option.split)

lemma samplesAt_append:
  "samplesAt (appendSample k x est) key =
    (if key = k then samplesAt est key @ [x] else samplesAt est key)"
  by (auto simp: samplesAt_def appendSample_def)

lemma estimator_window_nonneg: "0 \<le> effectiveDeadlineEstimatorWindowSeconds w * second"
  by (intro mult_nonneg_nonneg order_less_imp_le [OF effective_pos(3)]) (simp add: second_def)

interpretation estimator_window: rolling_window
  "\<lambda>est. samplesAt est (deadlineEstimatorKey p m)" S_At
  "\<lambda>now (x :: deadlineTelemetrySample) est. pruneSamples p (now - effectiveDeadlineEstimatorWindowSeconds w * second)
     (appendSample (deadlineEstimatorKey p m) x est)"
  "effectiveDeadlineEstimatorWindowSeconds w * second"
  for p m w
proof
  show "0 \<le> effectiveDeadlineEstimatorWindowSeconds w * second"
    by (rule estimator_window_nonneg)
next
  fix x :: deadlineTelemetrySample and now est
  assume "S_At x = now"
  moreover note estimator_window_nonneg [of w]
  ultimately show "samplesAt (pruneSamples p (now - effectiveDeadlineEstimatorWindowSeconds w * second)
      (appendSample (deadlineEstimatorKey p m) x est)) (deadlineEstimatorKey p m)
    = filter (\<lambda>s. now - effectiveDeadlineEstimatorWindowSeconds w * second \<le> S_At s)
        (samplesAt est (deadlineEstimatorKey p m)) @ [x]"
    by (simp add: samplesAt_prune samplesAt_append)
qed

text \<open>Recording telemetry is an observation of the window of its own key.\<close>

lemma sample_At: "deadlineSampleFromTelemetry m t now = Some s \<Longrightarrow> S_At s = now"
  by (auto simp: deadlineSampleFromTelemetry_def emptySample_def Let_def split: if_splits)

lemma record_as_step:
  assumes "deadlineEstimatorFunction w t \<noteq> []"
    and "deadlineSampleFromTelemetry (toLower (trimSpace (T_Mode t))) t now \<noteq> None"
  shows "fst (recordAndEstimate est w t now) =
    (let p = deadlineEstimatorKeyPrefix (M_Namespace w) (M_Name w) (deadlineEstimatorFunction w t);
         m = toLower (trimSpace (T_Mode t))
     in pruneSamples p (now - effectiveDeadlineEstimatorWindowSeconds w * second)
        (appendSample (deadlineEstimatorKey p m) (the (deadlineSampleFromTelemetry m t now)) est))"
  using assms by (auto simp: recordAndEstimate_def Let_def)

section \<open>Isolation\<close>

abbreviation slash_free :: "string \<Rightarrow> bool" where
  "slash_free s \<equiv> CHR ''/'' \<notin> set s"

lemma slash_split:
  assumes "a @ CHR ''/'' # s = b @ CHR ''/'' # t" "slash_free a" "slash_free b"
  shows "a = b \<and> s = t"
proof -
  have "takeWhile (\<lambda>c. c \<noteq> CHR ''/'') (c @ CHR ''/'' # u) = c
      \<and> dropWhile (\<lambda>c. c \<noteq> CHR ''/'') (c @ CHR ''/'' # u) = CHR ''/'' # u"
    if "slash_free c" for c u :: string
    using that by (subst takeWhile_append2, force, subst dropWhile_append2) auto
  with assms show ?thesis by (metis list.inject)
qed

lemma key_prefix_iff:
  assumes "slash_free ns" "slash_free n" "slash_free f" "slash_free ns'" "slash_free n'" "slash_free f'"
  shows "prefix (deadlineEstimatorKeyPrefix ns n f @ ''/'')
      (deadlineEstimatorKey (deadlineEstimatorKeyPrefix ns' n' f') m) \<longleftrightarrow>
    ns = ns' \<and> n = n' \<and> f = f'"
proof
  assume "prefix (deadlineEstimatorKeyPrefix ns n f @ ''/'')
      (deadlineEstimatorKey (deadlineEstimatorKeyPrefix ns' n' f') m)"
  then obtain u where "ns' @ CHR ''/'' # n' @ CHR ''/'' # f' @ CHR ''/'' # m
      = ns @ CHR ''/'' # n @ CHR ''/'' # f @ CHR ''/'' # u"
    by (auto simp: deadlineEstimatorKeyPrefix_def deadlineEstimatorKey_def prefix_def)
  with assms show "ns = ns' \<and> n = n' \<and> f = f'"
    by (metis slash_split)
qed simp

lemma record_other_key:
  assumes "\<not> prefix (deadlineEstimatorKeyPrefix (M_Namespace w) (M_Name w)
      (deadlineEstimatorFunction w t) @ ''/'') key"
  shows "samplesAt (fst (recordAndEstimate est w t now)) key = samplesAt est key"
proof -
  have "key \<noteq> deadlineEstimatorKey (deadlineEstimatorKeyPrefix (M_Namespace w) (M_Name w)
      (deadlineEstimatorFunction w t)) m" for m
    using assms key_has_prefix by metis
  then show ?thesis
    using assms
    by (simp add: recordAndEstimate_def Let_def samplesAt_prune samplesAt_append split: option.split)
qed

section \<open>Properties\<close>

text \<open>C30: Estimates are nearest-rank percentiles.  With at least the required number of usable
  (present and non-negative) values and a percentile between 1 and 100, the estimate is one of the
  values, at least the percentile's share of the values is at most it, and less than that share is
  below it; with fewer values it is the fallback.\<close>

theorem percentile_is_nearest_rank:
  assumes "1 \<le> minSamples" "1 \<le> p" "p \<le> 100"
  shows "if int (length (metric_values xs f)) < minSamples
    then estimateDeadlinePercentile xs f minSamples p fallback = Some fallback
    else \<exists>r \<in> set (metric_values xs f).
      estimateDeadlinePercentile xs f minSamples p fallback = Some r \<and>
      p * int (length (metric_values xs f)) \<le> 100 * int (length (filter (\<lambda>v. v \<le> r) (metric_values xs f))) \<and>
      100 * int (length (filter (\<lambda>v. v < r) (metric_values xs f))) < p * int (length (metric_values xs f))"
proof (cases "int (length (metric_values xs f)) < minSamples")
  case True
  then show ?thesis by (simp add: percentile_fallback)
next
  case False
  let ?vs = "metric_values xs f" and ?n = "length (metric_values xs f)"
  let ?i = "rank_index p ?n"
  let ?r = "sort ?vs ! ?i"
  have percentile: "estimateDeadlinePercentile xs f minSamples p fallback = Some ?r" and i: "?i < ?n"
    using False assms(1) percentile_value(1) [of minSamples xs f p fallback]
      percentile_value(2) [of minSamples xs f p] by auto
  then have n: "0 < ?n" by linarith
  have "Suc ?i \<le> length (filter (\<lambda>v. v \<le> ?r) (sort ?vs))"
    using i by (intro sorted_nth_count_le) simp_all
  then have le: "?i + 1 \<le> length (filter (\<lambda>v. v \<le> ?r) ?vs)"
    by (simp only: length_filter_sort Suc_eq_plus1)
  have "length (filter (\<lambda>v. v < ?r) (sort ?vs)) \<le> ?i"
    using i by (intro sorted_nth_count_less) simp_all
  then have less: "length (filter (\<lambda>v. v < ?r) ?vs) \<le> ?i"
    by (simp only: length_filter_sort)
  have "?r \<in> set ?vs"
    using nth_mem [of ?i "sort ?vs"] i by simp
  moreover have "p * int ?n \<le> 100 * int (length (filter (\<lambda>v. v \<le> ?r) ?vs))"
    by (rule share_le [OF rank_index_bounds(1) [OF assms(2,3) n] le])
  moreover have "100 * int (length (filter (\<lambda>v. v < ?r) ?vs)) < p * int ?n"
    by (rule share_less [OF rank_index_bounds(2) [OF assms(2,3) n] less])
  ultimately show ?thesis
    using False percentile by auto
qed

definition sampleWith :: "time \<Rightarrow> int32 \<Rightarrow> deadlineTelemetrySample" where
  "sampleWith now v = (emptySample now)\<lparr>S_LocalExecutionMs := Some v\<rparr>"

theorem percentile_is_nearest_rank_witness:
  "\<exists>r \<in> {30, 10, 20, 50, 40}. estimateDeadlinePercentile
     (map (sampleWith 0) [30, 10, 20, 50, 40]) S_LocalExecutionMs 5 50 0 = Some r"
proof -
  have "metric_values (map (sampleWith 0) [30, 10, 20, 50, 40]) S_LocalExecutionMs = [30, 10, 20, 50, 40]"
    by (simp add: metric_values_def sampleWith_def)
  then show ?thesis
    using percentile_is_nearest_rank [of 5 50 "map (sampleWith 0) [30, 10, 20, 50, 40]"
        S_LocalExecutionMs 0] by auto
qed

text \<open>The estimator always answers, and never with a negative time.  For profiles as they are
  loaded, an estimate taken from any state of the samples exists (the index expression of the
  percentile never panics) and every one of its seven components is non-negative; recording
  telemetry answers too and leaves the profiles alone.\<close>

theorem estimates_total_and_nonneg:
  assumes "Profiles est = loadDeadlineProfiles file"
  shows "(\<exists>s. estimate est w = Some s \<and> nonneg_snapshot s) \<and>
    (\<exists>s. snd (recordAndEstimate est w t now) = Some s \<and> nonneg_snapshot s) \<and>
    Profiles (fst (recordAndEstimate est w t now)) = loadDeadlineProfiles file"
proof -
  have snap: "\<exists>s. snapshotLocked e w p = Some s \<and> nonneg_snapshot s"
    if "Profiles e = loadDeadlineProfiles file" for e p
  proof -
    have "nonneg_snapshot (profileEstimate e w)"
      using that loaded_profiles_valid by (intro nonneg_profileEstimate) metis
    then show ?thesis
      using snapshot_total [of e w p] nonneg_snapshotLocked by blast
  qed
  have none: "nonneg_snapshot (unavailableDeadlineEstimate w)"
    by (simp add: unavailableDeadlineEstimate_def noEstimate_def nonneg_snapshot_def)
  have "Profiles (fst (recordAndEstimate est w t now)) = loadDeadlineProfiles file"
    using assms by (simp add: frame_simps)
  moreover from this have "\<exists>s. snd (recordAndEstimate est w t now) = Some s \<and> nonneg_snapshot s"
    using none snap by (auto simp: recordAndEstimate_def Let_def split: if_splits)
  ultimately show ?thesis
    using none snap [OF assms] by (auto simp: estimate_def Let_def)
qed

definition sampleProfile :: deadlineProfile where
  "sampleProfile = \<lparr>DPf_LocalExecutionMs = 50, DPf_LocalQueueDelayMs = 200,
     DPf_ResourceWakeMs = 0, DPf_EdgeExecutionMs = 5, DPf_NetworkRoundTripMs = 100,
     DPf_ResourceCollectionMs = 20, DPf_OutputApplicationMs = 0\<rparr>"

definition sampleEstimator :: deadlineTelemetryEstimator where
  "sampleEstimator = newDeadlineTelemetryEstimator
     (loadDeadlineProfiles (Some (Map.empty(''dht-reader'' \<mapsto> sampleProfile))))"

theorem estimates_total_and_nonneg_witness:
  "\<exists>s. estimate sampleEstimator sampleFunction = Some s \<and> nonneg_snapshot s"
proof -
  have "Profiles sampleEstimator
      = loadDeadlineProfiles (Some (Map.empty(''dht-reader'' \<mapsto> sampleProfile)))"
    by (simp add: sampleEstimator_def newDeadlineTelemetryEstimator_def)
  from estimates_total_and_nonneg [OF this, of sampleFunction zeroTelemetry 0] show ?thesis by simp
qed

text \<open>C31: The estimator's window is exact.  After any non-empty run of telemetry of one function in
  one mode, received at non-decreasing times and each giving a sample, the samples held for that
  mode are exactly those, of the ones held before and the ones received, that are at most the
  configured window older than the last telemetry, in the order they were received.\<close>

theorem estimator_window_exact:
  assumes "obs \<noteq> []" "sorted (map fst obs)" "f \<noteq> []"
    and "\<forall>(now, t) \<in> set obs. deadlineEstimatorFunction w t = f \<and>
      toLower (trimSpace (T_Mode t)) = mode \<and> deadlineSampleFromTelemetry mode t now \<noteq> None"
  shows "samplesAt (fold (\<lambda>(now, t) est. fst (recordAndEstimate est w t now)) obs est)
      (deadlineEstimatorKey (deadlineEstimatorKeyPrefix (M_Namespace w) (M_Name w) f) mode)
    = filter (\<lambda>s. fst (last obs) - effectiveDeadlineEstimatorWindowSeconds w * second \<le> S_At s)
        (samplesAt est
           (deadlineEstimatorKey (deadlineEstimatorKeyPrefix (M_Namespace w) (M_Name w) f) mode)
         @ map (\<lambda>(now, t). the (deadlineSampleFromTelemetry mode t now)) obs)"
proof -
  let ?smp = "\<lambda>(now, t). (now, the (deadlineSampleFromTelemetry mode t now))"
  let ?p = "deadlineEstimatorKeyPrefix (M_Namespace w) (M_Name w) f"
  let ?step = "\<lambda>(now, x) est.
      pruneSamples ?p (now - effectiveDeadlineEstimatorWindowSeconds w * second)
        (appendSample (deadlineEstimatorKey ?p mode) x est)"
  have steps: "fold (\<lambda>(now, t) est. fst (recordAndEstimate est w t now)) obs est
      = fold ?step (map ?smp obs) est"
    unfolding fold_map using assms(3,4)
    by (intro fold_cong refl ext) (auto simp: record_as_step Let_def)
  have at: "\<forall>(now, x) \<in> set (map ?smp obs). S_At x = now"
    using assms(4) sample_At by fastforce
  have maps: "map fst (map ?smp obs) = map fst obs"
    "map snd (map ?smp obs) = map (\<lambda>(now, t). the (deadlineSampleFromTelemetry mode t now)) obs"
    "fst (last (map ?smp obs)) = fst (last obs)" "map ?smp obs \<noteq> []"
    using assms(1) by (auto simp: last_map split: prod.split)
  have "sorted (map fst (map ?smp obs))"
    unfolding maps(1) by (rule assms(2))
  from estimator_window.samples_run [OF maps(4) at this, of ?p w mode est]
  show ?thesis
    unfolding steps maps .
qed

definition sampleTelemetry :: "int32 \<Rightarrow> batteryTelemetry" where
  "sampleTelemetry v = zeroTelemetry\<lparr>T_Mode := ''local'', T_ExecutionMs := Some v\<rparr>"

theorem estimator_window_exact_witness:
  "samplesAt (fold (\<lambda>(now, t) est. fst (recordAndEstimate est sampleFunction t now))
      [(0, sampleTelemetry 7), (400 * second, sampleTelemetry 9)] sampleEstimator)
    (deadlineEstimatorKey (deadlineEstimatorKeyPrefix ''sif'' ''dht-reader'' ''hybrid-resource-demo'')
       ''local'') = [sampleWith (400 * second) 9]"
proof -
  have "effectiveDeadlineEstimatorWindowSeconds sampleFunction = 300"
    by (simp add: effectiveDeadlineEstimatorWindowSeconds_def sample_defs zero_defs
        defaultDeadlineEstimatorWindowSeconds_def Let_def)
  moreover have "deadlineEstimatorFunction sampleFunction (sampleTelemetry v) = ''hybrid-resource-demo''" for v
    by (simp add: deadlineEstimatorFunction_def sample_defs zero_defs zeroTelemetry_def sampleTelemetry_def)
  moreover have "M_Namespace sampleFunction = ''sif''" "M_Name sampleFunction = ''dht-reader''"
    by (simp_all add: sampleFunction_def)
  moreover have "toLower (trimSpace (T_Mode (sampleTelemetry v))) = ''local''" for v
    by (simp add: sampleTelemetry_def zeroTelemetry_def trimSpace_plain plain_char_def toLower_def
        lower_char_def)
  moreover have "deadlineSampleFromTelemetry ''local'' (sampleTelemetry v) now = Some (sampleWith now v)" for v now
    by (simp add: sampleTelemetry_def zeroTelemetry_def deadlineSampleFromTelemetry_def sampleWith_def
        emptySample_def hasDeadlineValue_def)
  ultimately show ?thesis
    using estimator_window_exact [of "[(0, sampleTelemetry 7), (400 * second, sampleTelemetry 9)]"
        "''hybrid-resource-demo''" sampleFunction "''local''" sampleEstimator]
    by (simp add: sampleWith_def emptySample_def second_def samplesAt_def sampleEstimator_def
        newDeadlineTelemetryEstimator_def)
qed

text \<open>Estimates are isolated.  For names and identities without a slash, recording telemetry of
  one namespace, resource and function changes no sample list of another, in any mode, so no
  estimate of another function can move.\<close>

theorem estimator_isolation:
  assumes "slash_free (M_Namespace w)" "slash_free (M_Name w)"
    and "slash_free (deadlineEstimatorFunction w t)"
    and "slash_free ns" "slash_free n" "slash_free f"
    and "(ns, n, f) \<noteq> (M_Namespace w, M_Name w, deadlineEstimatorFunction w t)"
  shows "samplesAt (fst (recordAndEstimate est w t now))
      (deadlineEstimatorKey (deadlineEstimatorKeyPrefix ns n f) mode)
    = samplesAt est (deadlineEstimatorKey (deadlineEstimatorKeyPrefix ns n f) mode)"
  using assms by (intro record_other_key) (auto simp: key_prefix_iff)

theorem estimator_isolation_witness:
  "samplesAt (fst (recordAndEstimate sampleEstimator sampleFunction zeroTelemetry 5))
      (deadlineEstimatorKey (deadlineEstimatorKeyPrefix ''sif'' ''dht-reader'' ''dht-reader'') ''edge'')
    = samplesAt sampleEstimator
      (deadlineEstimatorKey (deadlineEstimatorKeyPrefix ''sif'' ''dht-reader'' ''dht-reader'') ''edge'')"
proof -
  have f: "deadlineEstimatorFunction sampleFunction zeroTelemetry = ''hybrid-resource-demo''"
    by (simp add: deadlineEstimatorFunction_def sample_defs zero_defs zeroTelemetry_def)
  have n: "M_Namespace sampleFunction = ''sif''" "M_Name sampleFunction = ''dht-reader''"
    by (simp_all add: sampleFunction_def)
  show ?thesis
    by (rule estimator_isolation) (simp_all add: f n)
qed

end
