(* ===== verification/Drain.thy ===== *)
theory Drain
  imports Placement_Policy Estimator
begin

text \<open>
  The battery drain tracker (\<open>mqtt_telemetry.go\<close>): per resource, a rolling window of battery
  samples taken in local mode and the number of consecutive risky windows, mirrored into the
  resource's status.  The lemmas connect the status with the observations that caused it.
\<close>

section \<open>State\<close>

record telemetryUpdateResult =
  statusChanged :: bool
  reportableInfo :: bool
  stagedReleaseAcknowledged :: bool
  activatedReleaseAcknowledged :: bool

definition zeroResult :: telemetryUpdateResult where
  "zeroResult = \<lparr>statusChanged = False, reportableInfo = False, stagedReleaseAcknowledged = False,
     activatedReleaseAcknowledged = False\<rparr>"

record batteryDrainSample =
  DS_At :: time
  DS_Battery :: int32

record batteryDrainState =
  Dr_Source :: string
  Dr_Function :: string
  Dr_Mode :: string
  Dr_LastObserved :: time
  Dr_Samples :: "batteryDrainSample list"
  Dr_RiskyWindows :: int32

text \<open>\<open>batteryDrainTracker\<close>: its map; a missing key is the nil pointer.\<close>

type_synonym batteryDrainTracker = "namespacedName \<Rightarrow> batteryDrainState option"

definition newBatteryDrainTracker :: batteryDrainTracker where
  "newBatteryDrainTracker = (\<lambda>_. None)"

section \<open>Operations\<close>

definition equalInt32Ptr :: "int32 option \<Rightarrow> int32 option \<Rightarrow> bool" where
  "equalInt32Ptr left right =
    (case (left, right) of
       (Some l, Some r) \<Rightarrow> l = r
     | _ \<Rightarrow> left = None \<and> right = None)"

lemma equalInt32Ptr_iff [simp]: "equalInt32Ptr left right \<longleftrightarrow> left = right"
  by (cases left; cases right) (simp_all add: equalInt32Ptr_def)

definition latestTelemetryMode :: "wasmFunction \<Rightarrow> batteryTelemetry \<Rightarrow> string" where
  "latestTelemetryMode w t = (if T_Mode t \<noteq> [] then T_Mode t else ObservedMode (Status w))"

definition setBatteryDrainStatus ::
    "wasmFunction \<Rightarrow> int32 \<Rightarrow> int32 option \<Rightarrow> int32 \<Rightarrow> telemetryUpdateResult
       \<Rightarrow> wasmFunction \<times> telemetryUpdateResult" where
  "setBatteryDrainStatus w window delta riskyWindows result =
    (let (w1, r1) =
       (if \<not> equalInt32Ptr (ObservedBatteryDeltaPercent (Status w)) delta then
          (on_status (\<lambda>s. s\<lparr>ObservedBatteryDeltaPercent := delta\<rparr>) w, result\<lparr>statusChanged := True\<rparr>)
        else (w, result));
       (w2, r2) =
       (if ObservedBatteryDeltaWindowSeconds (Status w1) \<noteq> Some window then
          (on_status (\<lambda>s. s\<lparr>ObservedBatteryDeltaWindowSeconds := Some window\<rparr>) w1,
           r1\<lparr>statusChanged := True\<rparr>)
        else (w1, r1))
     in if ConsecutiveRiskyWindows (Status w2) \<noteq> riskyWindows then
          (on_status (\<lambda>s. s\<lparr>ConsecutiveRiskyWindows := riskyWindows\<rparr>) w2,
           r2\<lparr>statusChanged := True\<rparr>)
        else (w2, r2))"

text \<open>The source and function an observation is attributed to.\<close>

definition drainSource :: "wasmFunction \<Rightarrow> batteryTelemetry \<Rightarrow> string" where
  "drainSource w t = (if T_Source t = [] then ObservedBatterySource (Status w) else T_Source t)"

definition drainFunction :: "wasmFunction \<Rightarrow> batteryTelemetry \<Rightarrow> string" where
  "drainFunction w t =
    (if T_Function t = [] then trimSpace (FunctionIdentity (release w)) else T_Function t)"

definition drainWindow :: "wasmFunction \<Rightarrow> duration" where
  "drainWindow w = effectiveBatteryDeltaWindowSeconds w * second"

text \<open>The state is kept while source, function and mode stay and no gap exceeds the window.\<close>

definition drainContinues ::
    "wasmFunction \<Rightarrow> batteryTelemetry \<Rightarrow> time \<Rightarrow> batteryDrainState \<Rightarrow> bool" where
  "drainContinues w t now state =
    (let gap = (Dr_LastObserved state \<noteq> 0 \<and> time_sub now (Dr_LastObserved state) > drainWindow w)
     in \<not> (Dr_Source state \<noteq> drainSource w t \<or> Dr_Function state \<noteq> drainFunction w t \<or>
           Dr_Mode state \<noteq> latestTelemetryMode w t \<or> gap))"

definition drainStateFor ::
    "wasmFunction \<Rightarrow> batteryTelemetry \<Rightarrow> time \<Rightarrow> batteryDrainState option \<Rightarrow> batteryDrainState" where
  "drainStateFor w t now old =
    (let fresh = \<lparr>Dr_Source = drainSource w t, Dr_Function = drainFunction w t,
           Dr_Mode = latestTelemetryMode w t, Dr_LastObserved = 0, Dr_Samples = [],
           Dr_RiskyWindows = 0\<rparr>;
         state = (case old of None \<Rightarrow> fresh
                  | Some st \<Rightarrow> if drainContinues w t now st then st else fresh)
     in state\<lparr>Dr_LastObserved := now\<rparr>)"

definition drainApplicable :: "wasmFunction \<Rightarrow> batteryTelemetry \<Rightarrow> int32 \<Rightarrow> bool" where
  "drainApplicable w t battery =
    (let low0 = LowBatteryThreshold (placement w);
         low = (if low0 = 0 then defaultLowBatteryThreshold else low0);
         high0 = HighBatteryThreshold (placement w);
         high = (if high0 = 0 then defaultHighBatteryThreshold else high0)
     in latestTelemetryMode w t = placementLocal \<and> battery > low \<and> battery < high)"

definition observeDrain ::
    "duration \<Rightarrow> time \<Rightarrow> batteryDrainSample \<Rightarrow> batteryDrainState \<Rightarrow> batteryDrainState" where
  "observeDrain window now sample state =
    (let cutoff = now - window;
         kept = filter (\<lambda>s. \<not> DS_At s < cutoff) (Dr_Samples state)
     in state\<lparr>Dr_Samples := kept @ [sample]\<rparr>)"

definition updateBatteryDeltaStatus ::
    "namespacedName \<Rightarrow> wasmFunction \<Rightarrow> batteryTelemetry \<Rightarrow> int32 \<Rightarrow> time \<Rightarrow> telemetryUpdateResult
       \<Rightarrow> batteryDrainTracker \<Rightarrow> wasmFunction \<times> telemetryUpdateResult \<times> batteryDrainTracker" where
  "updateBatteryDeltaStatus key w t battery now result tracker =
    (if \<not> effectiveBatteryDeltaEnabled w then
       (let tracker' = tracker(key := None)
        in if ObservedBatteryDeltaPercent (Status w) \<noteq> None \<or>
              ObservedBatteryDeltaWindowSeconds (Status w) \<noteq> None \<or>
              ConsecutiveRiskyWindows (Status w) \<noteq> 0
           then (on_status (\<lambda>s. s\<lparr>ObservedBatteryDeltaPercent := None,
                   ObservedBatteryDeltaWindowSeconds := None, ConsecutiveRiskyWindows := 0\<rparr>) w,
                 result\<lparr>statusChanged := True\<rparr>, tracker')
           else (w, result, tracker'))
     else
       let window = effectiveBatteryDeltaWindowSeconds w;
           state = drainStateFor w t now (tracker key)
       in if \<not> drainApplicable w t battery then
            (let (w', result') = setBatteryDrainStatus w window None 0 result
             in (w', result', tracker(key := Some (state\<lparr>Dr_Samples := [], Dr_RiskyWindows := 0\<rparr>))))
          else
            let state1 = observeDrain (drainWindow w) now \<lparr>DS_At = now, DS_Battery = battery\<rparr> state
            in if length (Dr_Samples state1) < 2 then
                 (let (w', result') = setBatteryDrainStatus w window None 0 result
                  in (w', result', tracker(key := Some (state1\<lparr>Dr_RiskyWindows := 0\<rparr>))))
               else
                 let delta0 = wrap32 (DS_Battery (Dr_Samples state1 ! 0) - battery);
                     delta = (if delta0 < 0 then 0 else delta0);
                     risky = (if delta \<ge> effectiveBatteryDeltaMaxDrainPercent w
                              then wrap32 (Dr_RiskyWindows state1 + 1) else 0);
                     (w', result') = setBatteryDrainStatus w window (Some delta) risky result
                 in (w', result', tracker(key := Some (state1\<lparr>Dr_RiskyWindows := risky\<rparr>))))"

section \<open>The window\<close>

interpretation drain_window: rolling_window Dr_Samples DS_At "observeDrain (drainWindow w)" "drainWindow w"
  for w
proof
  show "0 \<le> drainWindow w"
    using effective_drain_pos(1) [of w] unfolding drainWindow_def second_def
    by (intro mult_nonneg_nonneg) (simp_all add: order_less_imp_le)
next
  fix x :: batteryDrainSample and now st
  assume "DS_At x = now"
  then show "Dr_Samples (observeDrain (drainWindow w) now x st)
      = filter (\<lambda>s. now - drainWindow w \<le> DS_At s) (Dr_Samples st) @ [x]"
    by (simp add: observeDrain_def Let_def not_less)
qed

end
