(* ===== verification/Drain_Props.thy ===== *)
theory Drain_Props
  imports Drain
begin

text \<open>
  What the drain tracker guarantees: the status mirrors the tracker, changes are reported exactly,
  and every counted risky window is backed by observations.
\<close>

section \<open>The status the update writes\<close>

definition drain_status :: "int32 option \<Rightarrow> int32 option \<Rightarrow> int32 \<Rightarrow> wasmFunctionStatus \<Rightarrow> wasmFunctionStatus" where
  "drain_status delta window risky s =
     s\<lparr>ObservedBatteryDeltaPercent := delta, ObservedBatteryDeltaWindowSeconds := window,
       ConsecutiveRiskyWindows := risky\<rparr>"

lemma drain_status_fields [simp]:
  "ObservedBatteryDeltaPercent (drain_status d w r s) = d"
  "ObservedBatteryDeltaWindowSeconds (drain_status d w r s) = w"
  "ConsecutiveRiskyWindows (drain_status d w r s) = r"
  by (simp_all add: drain_status_def)

lemma drain_status_same_iff:
  "drain_status d w r s = s \<longleftrightarrow> ObservedBatteryDeltaPercent s = d \<and>
     ObservedBatteryDeltaWindowSeconds s = w \<and> ConsecutiveRiskyWindows s = r"
  by (cases s) (auto simp: drain_status_def)

lemma setBatteryDrainStatus_eq:
  "setBatteryDrainStatus w window d r result =
    (on_status (drain_status d (Some window) r) w,
     if drain_status d (Some window) r (Status w) = Status w then result
     else result\<lparr>statusChanged := True\<rparr>)"
  unfolding drain_status_same_iff
  by (cases w; cases "Status w") (simp add: setBatteryDrainStatus_def drain_status_def)

text \<open>The state before a sample is counted, the delta, and whether the window is risky.\<close>

definition sampled :: "wasmFunction \<Rightarrow> batteryTelemetry \<Rightarrow> int32 \<Rightarrow> time \<Rightarrow> batteryDrainState option
    \<Rightarrow> batteryDrainState" where
  "sampled w t b now old =
     observeDrain (drainWindow w) now \<lparr>DS_At = now, DS_Battery = b\<rparr> (drainStateFor w t now old)"

definition delta_of :: "wasmFunction \<Rightarrow> batteryTelemetry \<Rightarrow> int32 \<Rightarrow> time \<Rightarrow> batteryDrainState option
    \<Rightarrow> int32 option" where
  "delta_of w t b now old =
     (let xs = Dr_Samples (sampled w t b now old)
      in if drainApplicable w t b \<and> 2 \<le> length xs
         then Some (max 0 (wrap32 (DS_Battery (xs ! 0) - b))) else None)"

definition risky_of :: "wasmFunction \<Rightarrow> batteryTelemetry \<Rightarrow> int32 \<Rightarrow> time \<Rightarrow> batteryDrainState option
    \<Rightarrow> int32" where
  "risky_of w t b now old =
     (case delta_of w t b now old of
        None \<Rightarrow> 0
      | Some d \<Rightarrow> if effectiveBatteryDeltaMaxDrainPercent w \<le> d
                  then wrap32 (Dr_RiskyWindows (drainStateFor w t now old) + 1) else 0)"

lemma observeDrain_risky [simp]:
  "Dr_RiskyWindows (observeDrain window now x st) = Dr_RiskyWindows st"
  by (simp add: observeDrain_def Let_def)

lemma update_enabled:
  assumes "effectiveBatteryDeltaEnabled w"
  shows "updateBatteryDeltaStatus key w t b now result tracker =
    (let d = delta_of w t b now (tracker key); r = risky_of w t b now (tracker key);
         s = drain_status d (Some (effectiveBatteryDeltaWindowSeconds w)) r (Status w);
         st = (if drainApplicable w t b then sampled w t b now (tracker key)
               else (drainStateFor w t now (tracker key))\<lparr>Dr_Samples := []\<rparr>)
     in (w\<lparr>Status := s\<rparr>, if s = Status w then result else result\<lparr>statusChanged := True\<rparr>,
         tracker(key := Some (st\<lparr>Dr_RiskyWindows := r\<rparr>))))"
proof -
  have max0: "(if x < 0 then 0 else x) = max 0 x" for x :: int
    by (simp add: max_def)
  show ?thesis
  proof (cases "drainApplicable w t b")
    case False
    then show ?thesis
      using assms
      by (simp add: updateBatteryDeltaStatus_def delta_of_def risky_of_def setBatteryDrainStatus_eq
          Let_def)
  next
    case True
    show ?thesis
    proof (cases "length (Dr_Samples (sampled w t b now (tracker key))) < 2")
      case few: True
      then show ?thesis
        using assms True
        by (simp add: updateBatteryDeltaStatus_def delta_of_def risky_of_def
            setBatteryDrainStatus_eq Let_def sampled_def)
    next
      case many: False
      then show ?thesis
        using assms True
        by (simp add: updateBatteryDeltaStatus_def delta_of_def risky_of_def max0
            setBatteryDrainStatus_eq Let_def sampled_def not_less)
    qed
  qed
qed

lemma update_disabled:
  assumes "\<not> effectiveBatteryDeltaEnabled w"
  shows "updateBatteryDeltaStatus key w t b now result tracker =
    (w\<lparr>Status := drain_status None None 0 (Status w)\<rparr>,
     if drain_status None None 0 (Status w) = Status w then result
     else result\<lparr>statusChanged := True\<rparr>,
     tracker(key := None))"
proof (cases "drain_status None None 0 (Status w) = Status w")
  case True
  then show ?thesis
    using assms drain_status_same_iff [of None None 0 "Status w"]
    by (simp add: updateBatteryDeltaStatus_def)
next
  case False
  then show ?thesis
    using assms
    by (auto simp: updateBatteryDeltaStatus_def drain_status_same_iff) (simp_all add: drain_status_def)
qed

section \<open>Provenance of the risky windows\<close>

text \<open>An observation: the resource as read, the telemetry, the battery and the time.\<close>

type_synonym drainObs = "wasmFunction \<times> batteryTelemetry \<times> int32 \<times> time"

definition trackOne :: "namespacedName \<Rightarrow> drainObs \<Rightarrow> batteryDrainTracker \<Rightarrow> batteryDrainTracker" where
  "trackOne key ob tracker = (case ob of (w, t, b, now) \<Rightarrow>
     snd (snd (updateBatteryDeltaStatus key w t b now zeroResult tracker)))"

text \<open>
  The observation \<open>i\<close> of a run shows a risky drop: it counts, and an earlier one that counts, at
  most the window older, had a battery level higher by at least the permitted drain.
\<close>

definition counts :: "drainObs \<Rightarrow> bool" where
  "counts ob = (case ob of (w, t, b, now) \<Rightarrow>
     effectiveBatteryDeltaEnabled w \<and> drainApplicable w t b)"

definition drops_from :: "drainObs \<Rightarrow> drainObs \<Rightarrow> bool" where
  "drops_from ob early = (case (ob, early) of ((w, t, b, now), (w', t', b', now')) \<Rightarrow>
     counts ob \<and> counts early \<and> now - drainWindow w \<le> now' \<and>
     b + effectiveBatteryDeltaMaxDrainPercent w \<le> b')"

definition drop_seen :: "drainObs list \<Rightarrow> nat \<Rightarrow> bool" where
  "drop_seen obs i \<longleftrightarrow> (\<exists>j<i. drops_from (obs ! i) (obs ! j))"

lemma drop_seen_append: "i < length obs \<Longrightarrow> drop_seen (obs @ later) i \<longleftrightarrow> drop_seen obs i"
  unfolding drop_seen_def by (intro ex_cong1 conj_cong refl) (simp add: nth_append)

definition observed_sample :: "drainObs list \<Rightarrow> batteryDrainSample \<Rightarrow> bool" where
  "observed_sample obs s \<longleftrightarrow>
     (\<exists>(w, t, b, now) \<in> set obs. counts (w, t, b, now) \<and> DS_At s = now \<and> DS_Battery s = b)"

definition backed :: "drainObs list \<Rightarrow> batteryDrainState \<Rightarrow> bool" where
  "backed obs st \<longleftrightarrow> (\<forall>s \<in> set (Dr_Samples st). observed_sample obs s) \<and>
     in_int32 (Dr_RiskyWindows st) \<and>
     (\<exists>m \<le> length obs. Dr_RiskyWindows st \<le> int m \<and>
        (\<forall>i. length obs - m \<le> i \<and> i < length obs \<longrightarrow> drop_seen obs i))"

lemma backed_fresh:
  "Dr_Samples st = [] \<Longrightarrow> Dr_RiskyWindows st = 0 \<Longrightarrow> backed obs st"
  by (auto simp: backed_def in_int32_def intro: exI [of _ 0])

lemma backed_drainStateFor:
  assumes "\<And>st. old = Some st \<Longrightarrow> backed obs st"
  shows "backed obs (drainStateFor w t now old)"
proof (cases "\<exists>st. old = Some st \<and> drainContinues w t now st")
  case True
  then show ?thesis
    using assms by (auto simp: drainStateFor_def Let_def backed_def)
next
  case False
  then show ?thesis
    by (intro backed_fresh) (auto simp: drainStateFor_def Let_def split: option.split)
qed

lemma wrap32_le: "- (2 ^ 31) \<le> x \<Longrightarrow> wrap32 x \<le> x"
proof -
  assume "- (2 ^ 31) \<le> x"
  then have "(x + 2 ^ 31) mod 2 ^ 32 \<le> x + 2 ^ 31"
    by (intro zmod_le_nonneg_dividend) simp
  then show "wrap32 x \<le> x"
    by (simp add: wrap32_def)
qed

definition percent :: "int32 \<Rightarrow> bool" where
  "percent b \<longleftrightarrow> 0 \<le> b \<and> b \<le> 100"

lemma wrap32_percent: "percent a \<Longrightarrow> percent b \<Longrightarrow> wrap32 (a - b) = a - b"
  by (intro wrap32_id) (simp add: percent_def in_int32_def)

lemma sampled_samples:
  "Dr_Samples (sampled w t b now old) =
     filter (\<lambda>s. now - drainWindow w \<le> DS_At s) (Dr_Samples (drainStateFor w t now old))
       @ [\<lparr>DS_At = now, DS_Battery = b\<rparr>]"
  by (simp add: sampled_def drain_window.samples_observe)

lemma delta_ofD:
  "delta_of w t b now old = Some d \<Longrightarrow>
    drainApplicable w t b \<and> 2 \<le> length (Dr_Samples (sampled w t b now old)) \<and>
    d = max 0 (wrap32 (DS_Battery (Dr_Samples (sampled w t b now old) ! 0) - b))"
  by (simp add: delta_of_def Let_def split: if_splits)

lemma risky_drop_seen:
  assumes st: "backed obs (drainStateFor w t now old)"
    and pct: "\<forall>(w, t, b, now) \<in> set obs. percent b" "percent b"
    and en: "effectiveBatteryDeltaEnabled w"
    and risky: "delta_of w t b now old = Some d" "effectiveBatteryDeltaMaxDrainPercent w \<le> d"
  shows "drop_seen (obs @ [(w, t, b, now)]) (length obs)"
proof -
  let ?old = "filter (\<lambda>s. now - drainWindow w \<le> DS_At s) (Dr_Samples (drainStateFor w t now old))"
  let ?x = "\<lparr>DS_At = now, DS_Battery = b\<rparr>"
  have app: "drainApplicable w t b" and two: "2 \<le> length (?old @ [?x])"
    and d0: "d = max 0 (wrap32 (DS_Battery ((?old @ [?x]) ! 0) - b))"
    using delta_ofD [OF risky(1)] unfolding sampled_samples by blast+
  from two have ne: "?old \<noteq> []" by (cases ?old) simp_all
  with d0 have d: "d = max 0 (wrap32 (DS_Battery (?old ! 0) - b))"
    by (simp add: nth_append)
  have mem: "?old ! 0 \<in> set ?old"
    using ne by (intro nth_mem) simp
  then have "observed_sample obs (?old ! 0)"
    using st by (auto simp: backed_def)
  then obtain w' t' b' now' where early: "(w', t', b', now') \<in> set obs" "counts (w', t', b', now')"
      "DS_At (?old ! 0) = now'" "DS_Battery (?old ! 0) = b'"
    by (auto simp: observed_sample_def)
  have "percent b'"
    using early(1) pct(1) by auto
  then have "d = max 0 (b' - b)"
    using d early(4) wrap32_percent [OF _ pct(2)] by simp
  then have le: "b + effectiveBatteryDeltaMaxDrainPercent w \<le> b'"
    using risky(2) effective_drain_pos(2) [of w] by linarith
  have "now - drainWindow w \<le> now'"
    using mem early(3) by simp
  with en app early(2) le have from_early: "drops_from (w, t, b, now) (w', t', b', now')"
    by (simp add: drops_from_def counts_def)
  obtain j where "j < length obs" "obs ! j = (w', t', b', now')"
    using early(1) by (auto simp: in_set_conv_nth)
  with from_early show ?thesis
    unfolding drop_seen_def by (intro exI [of _ j]) (simp add: nth_append)
qed

lemma observed_sample_append: "observed_sample obs s \<Longrightarrow> observed_sample (obs @ later) s"
  by (auto simp: observed_sample_def)

lemma risky_of_cases:
  "risky_of w t b now old = 0 \<or>
   (\<exists>d. delta_of w t b now old = Some d \<and> effectiveBatteryDeltaMaxDrainPercent w \<le> d \<and>
      risky_of w t b now old = wrap32 (Dr_RiskyWindows (drainStateFor w t now old) + 1))"
  by (auto simp: risky_of_def split: option.split)

lemma risky_backed:
  assumes "backed obs st" "drop_seen (obs @ [ob]) (length obs)"
  shows "\<exists>m \<le> length (obs @ [ob]). wrap32 (Dr_RiskyWindows st + 1) \<le> int m \<and>
    (\<forall>i. length (obs @ [ob]) - m \<le> i \<and> i < length (obs @ [ob]) \<longrightarrow> drop_seen (obs @ [ob]) i)"
proof -
  obtain m where m: "m \<le> length obs" "Dr_RiskyWindows st \<le> int m"
    "\<And>i. length obs - m \<le> i \<Longrightarrow> i < length obs \<Longrightarrow> drop_seen obs i"
    and "in_int32 (Dr_RiskyWindows st)"
    using assms(1) by (auto simp: backed_def)
  then have "wrap32 (Dr_RiskyWindows st + 1) \<le> Dr_RiskyWindows st + 1"
    by (intro wrap32_le) (simp add: in_int32_def)
  with m(2) have "wrap32 (Dr_RiskyWindows st + 1) \<le> int (Suc m)" by simp
  moreover have "drop_seen (obs @ [ob]) i"
    if "length (obs @ [ob]) - Suc m \<le> i" "i < length (obs @ [ob])" for i
  proof (cases "i < length obs")
    case True
    then show ?thesis using m(3) [of i] that by (simp add: drop_seen_append)
  next
    case False
    then show ?thesis using that assms(2) by (simp add: less_Suc_eq)
  qed
  ultimately show ?thesis using m(1) by (intro exI [of _ "Suc m"]) simp
qed

lemma backed_trackOne:
  assumes old: "\<And>st. tracker key = Some st \<Longrightarrow> backed obs st"
    and pct: "\<forall>(w, t, b, now) \<in> set obs. percent b" "percent b"
    and run: "trackOne key (w, t, b, now) tracker key = Some st"
  shows "backed (obs @ [(w, t, b, now)]) st"
proof -
  let ?old = "drainStateFor w t now (tracker key)"
  let ?risky = "risky_of w t b now (tracker key)"
  have en: "effectiveBatteryDeltaEnabled w"
    using run by (cases "effectiveBatteryDeltaEnabled w") (auto simp: trackOne_def update_disabled)
  have backs: "backed obs ?old"
    using old by (intro backed_drainStateFor)
  have st: "Dr_Samples st = (if drainApplicable w t b then
        Dr_Samples (sampled w t b now (tracker key)) else [])" "Dr_RiskyWindows st = ?risky"
    using run by (auto simp: trackOne_def update_enabled [OF en] Let_def)
  have samples: "\<forall>s \<in> set (Dr_Samples st). observed_sample (obs @ [(w, t, b, now)]) s"
    using backs en
    by (auto simp: st(1) sampled_samples backed_def counts_def observed_sample_def)
  have "in_int32 ?risky"
    using risky_of_cases [of w t b now "tracker key"] by (auto simp: in_int32_def [of 0])
  moreover have "\<exists>m \<le> length (obs @ [(w, t, b, now)]). ?risky \<le> int m \<and>
    (\<forall>i. length (obs @ [(w, t, b, now)]) - m \<le> i \<and> i < length (obs @ [(w, t, b, now)])
       \<longrightarrow> drop_seen (obs @ [(w, t, b, now)]) i)"
    using risky_of_cases [of w t b now "tracker key"]
  proof (elim disjE exE conjE)
    assume "?risky = 0"
    then show ?thesis by (intro exI [of _ 0]) (simp add: not_le [symmetric])
  next
    fix d
    assume d: "delta_of w t b now (tracker key) = Some d" "effectiveBatteryDeltaMaxDrainPercent w \<le> d"
      and r: "?risky = wrap32 (Dr_RiskyWindows ?old + 1)"
    from d have "drop_seen (obs @ [(w, t, b, now)]) (length obs)"
      by (rule risky_drop_seen [OF backs pct en])
    from risky_backed [OF backs this] show ?thesis by (simp only: r)
  qed
  ultimately show ?thesis
    using samples by (simp only: backed_def st(2))
qed

lemma backed_run:
  assumes "\<forall>(w, t, b, now) \<in> set obs. percent b"
    and "fold (trackOne key) obs newBatteryDrainTracker key = Some st"
  shows "backed obs st"
  using assms
proof (induction obs arbitrary: st rule: rev_induct)
  case Nil
  then show ?case by (simp add: newBatteryDrainTracker_def)
next
  case (snoc ob obs)
  obtain w t b now where ob: "ob = (w, t, b, now)" by (cases ob)
  show ?case
    using snoc.prems snoc.IH unfolding ob
    by (intro backed_trackOne [where key = key and tracker = "fold (trackOne key) obs newBatteryDrainTracker"])
      auto
qed

lemma drain_status_mirror:
  assumes "effectiveBatteryDeltaEnabled w"
    and "updateBatteryDeltaStatus key w t b now result tracker = (w', result', tracker')"
  shows "\<exists>st. tracker' key = Some st \<and> ConsecutiveRiskyWindows (Status w') = Dr_RiskyWindows st"
  using assms(2) by (auto simp: update_enabled [OF assms(1)] Let_def)

section \<open>Properties\<close>

text \<open>The status mirrors the tracker.  With the drain policy enabled, an observation leaves a
  tracker state for the resource whose risky-window counter is the one in the status; the delta in
  the status is present exactly when the observation counts and the window has at least two samples,
  and then it is the drop from the oldest sample of the window, never negative; a risky window
  raises the counter by one and anything else resets it.  No other resource's state changes.\<close>

theorem drain_status_mirrors_tracker:
  assumes "effectiveBatteryDeltaEnabled w"
    and "updateBatteryDeltaStatus key w t b now result tracker = (w', result', tracker')"
  shows "\<exists>st. tracker' key = Some st \<and> tracker' = tracker(key := Some st) \<and>
    Dr_LastObserved st = now \<and>
    ConsecutiveRiskyWindows (Status w') = Dr_RiskyWindows st \<and>
    ObservedBatteryDeltaPercent (Status w') =
      (if drainApplicable w t b \<and> 2 \<le> length (Dr_Samples st)
       then Some (max 0 (wrap32 (DS_Battery (hd (Dr_Samples st)) - b))) else None) \<and>
    Dr_RiskyWindows st =
      (if \<exists>d. ObservedBatteryDeltaPercent (Status w') = Some d \<and>
            effectiveBatteryDeltaMaxDrainPercent w \<le> d
       then wrap32 (Dr_RiskyWindows (drainStateFor w t now (tracker key)) + 1) else 0)"
proof -
  let ?xs = "Dr_Samples (sampled w t b now (tracker key))"
  have hd: "?xs ! 0 = hd ?xs"
    by (simp add: sampled_samples hd_conv_nth)
  have last: "Dr_LastObserved (sampled w t b now (tracker key)) = now"
    by (simp add: sampled_def observeDrain_def drainStateFor_def Let_def)
  have last0: "Dr_LastObserved (drainStateFor w t now (tracker key)) = now"
    by (simp add: drainStateFor_def Let_def)
  have w': "Status w' = drain_status (delta_of w t b now (tracker key))
      (Some (effectiveBatteryDeltaWindowSeconds w)) (risky_of w t b now (tracker key)) (Status w)"
    using assms(2) by (auto simp: update_enabled [OF assms(1)] Let_def)
  have risky: "risky_of w t b now (tracker key) =
      (if \<exists>d. delta_of w t b now (tracker key) = Some d \<and> effectiveBatteryDeltaMaxDrainPercent w \<le> d
       then wrap32 (Dr_RiskyWindows (drainStateFor w t now (tracker key)) + 1) else 0)"
    by (auto simp: risky_of_def split: option.split)
  show ?thesis
  proof (cases "drainApplicable w t b")
    case True
    then have "tracker' = tracker(key := Some ((sampled w t b now (tracker key))
        \<lparr>Dr_RiskyWindows := risky_of w t b now (tracker key)\<rparr>))"
      using assms(2) by (simp add: update_enabled [OF assms(1)] Let_def)
    then show ?thesis
      using True last by (simp add: w' hd [symmetric] risky [symmetric]) (simp add: delta_of_def Let_def)
  next
    case False
    then have "tracker' = tracker(key := Some ((drainStateFor w t now (tracker key))
        \<lparr>Dr_Samples := [], Dr_RiskyWindows := risky_of w t b now (tracker key)\<rparr>))"
      using assms(2) by (simp add: update_enabled [OF assms(1)] Let_def)
    then show ?thesis
      using False last0 by (simp add: w' risky [symmetric]) (simp add: delta_of_def)
  qed
qed

text \<open>A function in local mode with the default policies, and its telemetry.\<close>

definition drainingFunction :: wasmFunction where
  "drainingFunction = zeroWasmFunction\<lparr>Status := zeroStatus\<lparr>ObservedMode := ''local''\<rparr>\<rparr>"

lemma draining_policy [simp]:
  "effectiveBatteryDeltaEnabled drainingFunction"
  "effectiveBatteryDeltaMaxDrainPercent drainingFunction = 3"
  "effectiveBatteryDeltaRiskyWindows drainingFunction = 2"
  "drainWindow drainingFunction = 60 * second"
  by (simp_all add: drainingFunction_def zero_defs effectiveBatteryDeltaEnabled_def
      effectiveBatteryDeltaMaxDrainPercent_def effectiveBatteryDeltaRiskyWindows_def drainWindow_def
      effectiveBatteryDeltaWindowSeconds_def defaultBatteryDeltaMaxDrainPercent_def
      defaultBatteryDeltaRiskyWindows_def defaultBatteryDeltaWindowSeconds_def)

lemma draining_applicable [simp]:
  "drainApplicable drainingFunction zeroTelemetry b \<longleftrightarrow> 20 < b \<and> b < 60"
  by (simp add: drainApplicable_def latestTelemetryMode_def drainingFunction_def zeroTelemetry_def
      zero_defs defaultLowBatteryThreshold_def defaultHighBatteryThreshold_def)

lemma draining_attribution [simp]:
  "drainSource drainingFunction zeroTelemetry = []"
  "drainFunction drainingFunction zeroTelemetry = []"
  "latestTelemetryMode drainingFunction zeroTelemetry = ''local''"
  by (simp_all add: drainSource_def drainFunction_def latestTelemetryMode_def drainingFunction_def
      zeroTelemetry_def zero_defs)

theorem drain_status_mirrors_tracker_witness:
  "\<exists>st. snd (snd (updateBatteryDeltaStatus (''sif'', ''dht'') drainingFunction zeroTelemetry 50
      second zeroResult newBatteryDrainTracker)) (''sif'', ''dht'') = Some st \<and>
    Dr_LastObserved st = second \<and> Dr_RiskyWindows st = 0"
proof -
  obtain w' r' t' where u: "updateBatteryDeltaStatus (''sif'', ''dht'') drainingFunction zeroTelemetry 50
      second zeroResult newBatteryDrainTracker = (w', r', t')"
    by (cases "updateBatteryDeltaStatus (''sif'', ''dht'') drainingFunction zeroTelemetry 50
      second zeroResult newBatteryDrainTracker") auto
  have "drainStateFor drainingFunction zeroTelemetry second (newBatteryDrainTracker (''sif'', ''dht''))
      = \<lparr>Dr_Source = [], Dr_Function = [], Dr_Mode = ''local'', Dr_LastObserved = second,
         Dr_Samples = [], Dr_RiskyWindows = 0\<rparr>"
    by (simp add: drainStateFor_def newBatteryDrainTracker_def)
  then have "delta_of drainingFunction zeroTelemetry 50 second (newBatteryDrainTracker (''sif'', ''dht'')) = None"
    by (simp add: delta_of_def sampled_samples)
  then have "ObservedBatteryDeltaPercent (Status w') = None"
    using u by (auto simp: update_enabled Let_def)
  then show ?thesis
    using drain_status_mirrors_tracker [OF draining_policy(1) u] u by auto
qed

text \<open>C29: A drain-triggered offload is backed by telemetry.  Take any run of observations of a
  resource from an empty tracker, with specifications and modes changing freely and battery levels
  between 0 and 100.  If the status the last observation writes makes the placement policy force
  the edge, then there were at least as many observations as the policy requires, and each of the
  last that many was made in local mode between the thresholds and lies, by at least the permitted
  drain of its policy, below an earlier such observation at most its window older.\<close>

theorem drain_offload_is_backed:
  assumes "\<forall>(w, t, b, now) \<in> set (obs @ [(w, t, b, now)]). percent b"
    and "updateBatteryDeltaStatus key w t b now zeroResult
      (fold (trackOne key) obs newBatteryDrainTracker) = (w', result', tracker')"
    and "localBatteryDeltaForcesEdge w' high"
  shows "effectiveBatteryDeltaRiskyWindows w \<le> int (length (obs @ [(w, t, b, now)])) \<and>
    (\<forall>i. int (length (obs @ [(w, t, b, now)])) - effectiveBatteryDeltaRiskyWindows w \<le> int i \<and>
      i < length (obs @ [(w, t, b, now)]) \<longrightarrow> drop_seen (obs @ [(w, t, b, now)]) i)"
proof -
  let ?tr = "fold (trackOne key) obs newBatteryDrainTracker" and ?obs = "obs @ [(w, t, b, now)]"
  have spec: "Spec w' = Spec w"
    using assms(2) update_enabled [of w key t b now zeroResult ?tr]
      update_disabled [of w key t b now zeroResult ?tr]
    by (cases "effectiveBatteryDeltaEnabled w") (auto simp: Let_def)
  have en: "effectiveBatteryDeltaEnabled w"
    and risky: "effectiveBatteryDeltaRiskyWindows w \<le> ConsecutiveRiskyWindows (Status w')"
    using assms(3) spec
    by (auto simp: localBatteryDeltaForcesEdge_def effectiveBatteryDeltaEnabled_def
        effectiveBatteryDeltaRiskyWindows_def split: if_splits)
  obtain st where st: "tracker' key = Some st" "ConsecutiveRiskyWindows (Status w') = Dr_RiskyWindows st"
    using drain_status_mirror [OF en assms(2)] by blast
  have "fold (trackOne key) ?obs newBatteryDrainTracker key = Some st"
    using st(1) assms(2) by (simp add: trackOne_def)
  from backed_run [OF assms(1) this] obtain m where
    m: "m \<le> length ?obs" "Dr_RiskyWindows st \<le> int m"
      "\<forall>i. length ?obs - m \<le> i \<and> i < length ?obs \<longrightarrow> drop_seen ?obs i"
    unfolding backed_def by blast
  have le: "effectiveBatteryDeltaRiskyWindows w \<le> int m"
    using risky st(2) m(2) by linarith
  show ?thesis
  proof (intro conjI allI impI, goal_cases)
    case 1
    then show ?case using le m(1) by linarith
  next
    case (2 i)
    then have "length ?obs - m \<le> i" using le by linarith
    with 2 m(3) show ?case by blast
  qed
qed

text \<open>Three observations, 50, 45 and 40 percent, ten seconds apart.\<close>

definition drainState :: "time \<Rightarrow> batteryDrainSample list \<Rightarrow> int32 \<Rightarrow> batteryDrainState" where
  "drainState seen xs r = \<lparr>Dr_Source = [], Dr_Function = [], Dr_Mode = ''local'',
     Dr_LastObserved = seen, Dr_Samples = xs, Dr_RiskyWindows = r\<rparr>"

lemma drain_start:
  "drainStateFor drainingFunction zeroTelemetry now None = drainState now [] 0"
  by (simp add: drainStateFor_def drainState_def)

lemma drain_continue:
  "0 < now - seen \<Longrightarrow> now - seen \<le> 60 * second \<Longrightarrow>
    drainStateFor drainingFunction zeroTelemetry now (Some (drainState seen xs r)) = drainState now xs r"
  by (simp add: drainStateFor_def drainContinues_def drainState_def Let_def time_sub_def second_def)

lemma track_eq:
  assumes "drainStateFor drainingFunction zeroTelemetry now (tr key) = drainState now xs r"
    and "20 < b" "b < 60" "filter (\<lambda>s. now - 60 * second \<le> DS_At s) xs = ys"
    and "r' = (if ys \<noteq> [] \<and> 3 \<le> DS_Battery (hd ys) - b then r + 1 else 0)"
    and "in_int32 (r + 1)" "\<forall>y \<in> set ys. percent (DS_Battery y)"
  shows "updateBatteryDeltaStatus key drainingFunction zeroTelemetry b now zeroResult tr =
    (drainingFunction\<lparr>Status := drain_status
        (if ys = [] then None else Some (max 0 (DS_Battery (hd ys) - b)))
        (Some (effectiveBatteryDeltaWindowSeconds drainingFunction)) r' (Status drainingFunction)\<rparr>,
     snd (setBatteryDrainStatus drainingFunction (effectiveBatteryDeltaWindowSeconds drainingFunction)
        (if ys = [] then None else Some (max 0 (DS_Battery (hd ys) - b))) r' zeroResult),
     tr(key := Some (drainState now (ys @ [\<lparr>DS_At = now, DS_Battery = b\<rparr>]) r')))"
proof -
  let ?x = "\<lparr>DS_At = now, DS_Battery = b\<rparr>"
  have samples: "sampled drainingFunction zeroTelemetry b now (tr key) = drainState now (ys @ [?x]) r"
    using assms(1,4) by (simp add: sampled_def observeDrain_def drainState_def not_less)
  have "percent b" using assms(2,3) by (simp add: percent_def)
  then have delta: "delta_of drainingFunction zeroTelemetry b now (tr key)
      = (if ys = [] then None else Some (max 0 (DS_Battery (hd ys) - b)))"
    using assms(2,3,7) by (cases ys) (auto simp: delta_of_def samples Let_def drainState_def wrap32_percent)
  have risky: "risky_of drainingFunction zeroTelemetry b now (tr key) = r'"
    using assms(5,6) by (simp add: risky_of_def delta assms(1)) (auto simp: drainState_def wrap32_id)
  show ?thesis
    using assms(2,3)
    by (simp add: update_enabled delta risky samples Let_def setBatteryDrainStatus_eq)
      (simp add: drainState_def)
qed

theorem drain_offload_is_backed_witness:
  "drop_seen [(drainingFunction, zeroTelemetry, 50, 10 * second),
      (drainingFunction, zeroTelemetry, 45, 20 * second),
      (drainingFunction, zeroTelemetry, 40, 30 * second)] 2"
proof -
  let ?key = "(''sif'', ''dht'')" and ?f = drainingFunction and ?t = zeroTelemetry
  let ?s = "\<lambda>k b. \<lparr>DS_At = k * second, DS_Battery = b\<rparr>"
  let ?obs = "[(?f, ?t, 50, 10 * second), (?f, ?t, 45, 20 * second)]"
  have one: "trackOne ?key (?f, ?t, 50, 10 * second) newBatteryDrainTracker
      = newBatteryDrainTracker(?key := Some (drainState (10 * second) [?s 10 50] 0))"
    unfolding trackOne_def prod.case
    by (subst track_eq [where xs = "[]" and ys = "[]" and r = 0])
      (simp_all add: newBatteryDrainTracker_def drain_start in_int32_def)
  have two: "trackOne ?key (?f, ?t, 45, 20 * second)
      (newBatteryDrainTracker(?key := Some (drainState (10 * second) [?s 10 50] 0)))
      = newBatteryDrainTracker(?key := Some (drainState (20 * second) [?s 10 50, ?s 20 45] 1))"
    unfolding trackOne_def prod.case
    by (subst track_eq [where xs = "[?s 10 50]" and ys = "[?s 10 50]" and r = 0])
      (simp_all add: drain_continue in_int32_def second_def percent_def)
  have run: "fold (trackOne ?key) ?obs newBatteryDrainTracker
      = newBatteryDrainTracker(?key := Some (drainState (20 * second) [?s 10 50, ?s 20 45] 1))"
    by (simp add: one two)
  obtain w' r' t' where u: "updateBatteryDeltaStatus ?key ?f ?t 40 (30 * second) zeroResult
      (fold (trackOne ?key) ?obs newBatteryDrainTracker) = (w', r', t')"
    by (cases "updateBatteryDeltaStatus ?key ?f ?t 40 (30 * second) zeroResult
      (fold (trackOne ?key) ?obs newBatteryDrainTracker)") auto
  have w': "w' = ?f\<lparr>Status := drain_status (Some 10) (Some (effectiveBatteryDeltaWindowSeconds ?f)) 2 (Status ?f)\<rparr>"
    using u unfolding run
    by (subst (asm) track_eq [where xs = "[?s 10 50, ?s 20 45]" and ys = "[?s 10 50, ?s 20 45]" and r = 1])
      (auto simp: drain_continue in_int32_def second_def percent_def)
  have "localBatteryDeltaForcesEdge w' 60"
    by (simp add: w' localBatteryDeltaForcesEdge_def effectiveBatteryDeltaEnabled_def
        effectiveBatteryDeltaRiskyWindows_def effectiveBatteryDeltaMaxDrainPercent_def drain_status_def
        drainingFunction_def zero_defs defaultBatteryDeltaRiskyWindows_def
        defaultBatteryDeltaMaxDrainPercent_def)
  from drain_offload_is_backed [OF _ u this] show ?thesis
    by (simp add: percent_def)
qed

end
