(* ===== verification/Commands.thy ===== *)
theory Commands
  imports Placement_Policy
begin

text \<open>
  The command side of the reconciler (\<open>applyPlacement\<close> and what it calls in
  \<open>wasmfunction_controller.go\<close>): the MQTT commands to the device, their throttling, and the status
  fields that remember them.

  A handler passes the operator's state explicitly: the resource being reconciled, the two in-memory
  maps of sent commands, and a log of the external calls it made.  The environment answers the
  external calls (the \<open>n\<close>-th call succeeds or fails with a message) and the clock readings.
\<close>

section \<open>Messages, events and state\<close>

datatype controlMessage =
    SetSimulation string bool int32 int32
  | PauseFunction string int64
  | ResumeFunction string int64
  | SetThresholds string int32 int32
  | StageRelease string int64 string string string resourceContractSpec
  | SignalDeadlineRejection string string
  | ActivateLocal string int64
  | SetRuntimeMode string string int64

datatype event =
    Publish string controlMessage
  | ActivateHost int64

record releaseStageSendState =
  SS_CommandID :: string
  SS_SentAt :: time
  SS_Attempts :: int32

record releaseActivationSendState =
  AS_CommandID :: string
  AS_SentAt :: time

record operatorState =
  Wf :: wasmFunction
  StageSends :: "namespacedName \<Rightarrow> releaseStageSendState option"
  ActivationSends :: "namespacedName \<Rightarrow> releaseActivationSendState option"
  Ticks :: nat
  Events :: "(event \<times> string option) list"

record environment =
  Clock :: "nat \<Rightarrow> time"
  Outcome :: "nat \<Rightarrow> string option"

type_synonym 'a step = "operatorState \<Rightarrow> (string + 'a) \<times> operatorState"

text \<open>\<open>if err := f(); err != nil { return err }\<close> followed by the rest.\<close>

definition andThen :: "'a step \<Rightarrow> ('a \<Rightarrow> 'b step) \<Rightarrow> 'b step" where
  "andThen f g st = (case f st of (Inl e, st') \<Rightarrow> (Inl e, st') | (Inr a, st') \<Rightarrow> g a st')"

definition ret :: "'a \<Rightarrow> 'a step" where
  "ret a st = (Inr a, st)"

definition modify :: "(operatorState \<Rightarrow> operatorState) \<Rightarrow> unit step" where
  "modify f st = (Inr (), f st)"

text \<open>One reading of the wall clock (\<open>r.now\<close>, \<open>metav1.Now\<close>).\<close>

definition readClock :: "environment \<Rightarrow> time step" where
  "readClock env st = (Inr (Clock env (Ticks st)), st\<lparr>Ticks := Ticks st + 1\<rparr>)"

definition call :: "environment \<Rightarrow> event \<Rightarrow> unit step" where
  "call env e st =
    (let answer = Outcome env (length (Events st));
         st' = st\<lparr>Events := Events st @ [(e, answer)]\<rparr>
     in case answer of None \<Rightarrow> (Inr (), st') | Some err \<Rightarrow> (Inl err, st'))"

definition publishControl :: "environment \<Rightarrow> string \<Rightarrow> controlMessage \<Rightarrow> unit step" where
  "publishControl env topic m = call env (Publish topic m)"

definition activateHostRelease :: "environment \<Rightarrow> unit step" where
  "activateHostRelease env st = call env (ActivateHost (R_Generation (release (Wf st)))) st"

abbreviation setStatus :: "(wasmFunctionStatus \<Rightarrow> wasmFunctionStatus) \<Rightarrow> operatorState \<Rightarrow> operatorState" where
  "setStatus f st \<equiv> st\<lparr>Wf := on_status f (Wf st)\<rparr>"

section \<open>Staging\<close>

definition releaseStageRetryBase :: duration where "releaseStageRetryBase = 30 * second"
definition releaseStageRetryMax :: duration where "releaseStageRetryMax = 60 * second"

text \<open>
  The loop of \<open>releaseStageRetryDelay\<close>: the first argument is \<open>n\<close>, the delay stops it after at most
  one doubling.
\<close>

function stageDelayLoop :: "int32 \<Rightarrow> int32 \<Rightarrow> duration \<Rightarrow> duration" where
  "stageDelayLoop n attempts delay =
    (if n < attempts \<and> delay < releaseStageRetryMax then
       (let doubled = delay * 2
        in stageDelayLoop (n + 1) attempts
             (if doubled > releaseStageRetryMax then releaseStageRetryMax else doubled))
     else delay)"
  by pat_completeness auto
termination by (relation "measure (\<lambda>(n, attempts, _). nat (attempts - n))") auto

declare stageDelayLoop.simps [simp del]

definition releaseStageRetryDelay :: "int32 \<Rightarrow> duration" where
  "releaseStageRetryDelay attempts =
    stageDelayLoop 1 (if attempts < 1 then 1 else attempts) releaseStageRetryBase"

text \<open>\<open>lastSent\<close> and \<open>attempts\<close> of \<open>claimReleaseStageAttempt\<close>: the status, unless memory is newer.\<close>

definition lastStageSend :: "operatorState \<Rightarrow> string \<Rightarrow> time \<times> int32" where
  "lastStageSend st commandID =
    (let s = Status (Wf st);
         (lastSent, attempts) =
           (case LastStageCommandTime s of
              Some t \<Rightarrow> if LastStageCommandID s = commandID then (t, StageCommandAttempts s) else (0, 0)
            | None \<Rightarrow> (0, 0))
     in case StageSends st (key_of (Wf st)) of
          None \<Rightarrow> (lastSent, attempts)
        | Some r \<Rightarrow> if SS_CommandID r = commandID \<and> SS_SentAt r > lastSent
                    then (SS_SentAt r, SS_Attempts r) else (lastSent, attempts))"

definition claimReleaseStageAttempt :: "string \<Rightarrow> time \<Rightarrow> operatorState \<Rightarrow> int32 option \<times> operatorState" where
  "claimReleaseStageAttempt commandID now st =
    (let (lastSent, attempts0) = lastStageSend st commandID;
         attempts = (if lastSent \<noteq> 0 \<and> attempts0 < 1 then 1 else attempts0)
     in if lastSent \<noteq> 0 \<and> now < lastSent + releaseStageRetryDelay attempts then (None, st)
        else let next = wrap32 (attempts + 1);
                 attempt = (if lastSent \<noteq> 0 then (if next < 2 then 2 else next) else 1);
                 st1 = setStatus (\<lambda>s. s\<lparr>LastStageCommandID := commandID,
                   LastStageCommandTime := Some now, StageCommandAttempts := attempt\<rparr>) st
             in (Some attempt, st1\<lparr>StageSends := (StageSends st1)(key_of (Wf st) :=
                   Some \<lparr>SS_CommandID = commandID, SS_SentAt = now, SS_Attempts = attempt\<rparr>)\<rparr>))"

definition applyReleaseStage :: "environment \<Rightarrow> string \<Rightarrow> artifactDecision \<Rightarrow> bool step" where
  "applyReleaseStage env topic artifact st =
    (let w = Wf st; generation = R_Generation (release w); digest = DesiredDigest artifact
     in if \<not> A_Enabled artifact \<or> digest = [] \<or> generation \<le> 0 then (Inr False, st)
        else if deviceArtifactURL w = [] then
          (Inl (''device.artifactURL is required to stage release '' @ fmt_d generation), st)
        else if deviceReleaseReady w digest then
          (Inr False, (setStatus (\<lambda>s. s\<lparr>StageCommandAttempts := 0\<rparr>) st)
             \<lparr>StageSends := (StageSends st)(key_of w := None)\<rparr>)
        else let commandID = stageCommandID generation digest
             in andThen (readClock env) (\<lambda>now st1.
                  case claimReleaseStageAttempt commandID now st1 of
                    (claimed, st2) \<Rightarrow>
                      (case claimed of
                         None \<Rightarrow> ret False
                       | Some attempt \<Rightarrow>
                           andThen (publishControl env topic
                             (StageRelease commandID generation (deviceArtifactURL w) digest
                               (FunctionIdentity (release w)) (ResourceContract (release w))))
                             (\<lambda>_. ret True)) st2) st)"

section \<open>Battery simulation and thresholds\<close>

definition effectiveSimulationStep :: "int32 option \<Rightarrow> int32" where
  "effectiveSimulationStep v = (case v of None \<Rightarrow> 10 | Some x \<Rightarrow> x)"

definition batterySimulationSourceAcknowledged :: "wasmFunction \<Rightarrow> bool \<Rightarrow> bool" where
  "batterySimulationSourceAcknowledged w enabled =
    (let source = toLower (trimSpace (ObservedBatterySource (Status w)))
     in if enabled then source = ''simulated'' else source = ''real'')"

definition simulationID :: "bool \<Rightarrow> int32 \<Rightarrow> int32 \<Rightarrow> string" where
  "simulationID enabled drain recov =
    ''battery-simulation-'' @ fmt_t enabled @ ''-'' @ fmt_d drain @ ''-'' @ fmt_d recov"

text \<open>\<open>a\<close> is strictly after \<open>b\<close>, when there is an \<open>a\<close>.\<close>

definition telemetryAfter :: "time option \<Rightarrow> time \<Rightarrow> bool" where
  "telemetryAfter a b \<longleftrightarrow> (case a of None \<Rightarrow> False | Some t \<Rightarrow> t > b)"

definition applyBatterySimulationUpdate :: "environment \<Rightarrow> string \<Rightarrow> bool step" where
  "applyBatterySimulationUpdate env topic st =
    (let w = Wf st; simulation = BatterySimulation (device w)
     in case BS_Enabled simulation of
          None \<Rightarrow> (Inr False, st)
        | Some enabled \<Rightarrow>
            let drain = effectiveSimulationStep (LocalDrainPercent simulation);
                recov = effectiveSimulationStep (EdgeRecoverPercent simulation);
                commandID = simulationID enabled drain recov;
                same = (LastAppliedBatterySimulationCommandID (Status w) = commandID)
            in if same \<and> batterySimulationSourceAcknowledged w enabled then (Inr False, st)
               else if same \<and>
                  (case LastBatterySimulationCommandTime (Status w) of
                     None \<Rightarrow> False
                   | Some sent \<Rightarrow> \<not> telemetryAfter (LastTelemetryTime (Status w)) sent) then (Inr False, st)
               else andThen (publishControl env topic (SetSimulation commandID enabled drain recov)) (\<lambda>_.
                    andThen (modify (setStatus (\<lambda>s. s\<lparr>LastAppliedBatterySimulationCommandID := commandID\<rparr>))) (\<lambda>_.
                    andThen (readClock env) (\<lambda>now.
                    andThen (modify (setStatus (\<lambda>s. s\<lparr>LastBatterySimulationCommandTime := Some now\<rparr>))) (\<lambda>_.
                    ret True)))) st)"

definition thresholdsID :: "int32 \<Rightarrow> int32 \<Rightarrow> string" where
  "thresholdsID low high = ''thresholds-'' @ fmt_d low @ ''-'' @ fmt_d high"

definition applyThresholdUpdate :: "environment \<Rightarrow> string \<Rightarrow> placementDecision \<Rightarrow> bool step" where
  "applyThresholdUpdate env topic d st =
    (if \<not> BatteryThresholdEnabled d then (Inr False, st)
     else if \<not> (LastAppliedLowBatteryThreshold (Status (Wf st)) \<noteq> LowThreshold d \<or>
                LastAppliedHighBatteryThreshold (Status (Wf st)) \<noteq> HighThreshold d) then (Inr False, st)
     else andThen (publishControl env topic
              (SetThresholds (thresholdsID (LowThreshold d) (HighThreshold d)) (LowThreshold d) (HighThreshold d)))
            (\<lambda>_. andThen (modify (setStatus (\<lambda>s. s\<lparr>LastAppliedLowBatteryThreshold := LowThreshold d,
               LastAppliedHighBatteryThreshold := HighThreshold d\<rparr>))) (\<lambda>_. ret True)) st)"

section \<open>Pause, resume and the deadline signal\<close>

definition commandAwaitingNewTelemetry :: "wasmFunction \<Rightarrow> string \<Rightarrow> bool" where
  "commandAwaitingNewTelemetry w commandID =
    (if LastCommandID (Status w) \<noteq> commandID then False
     else case (LastCommandTime (Status w), LastTelemetryTime (Status w)) of
            (Some sent, Some seen) \<Rightarrow> \<not> seen > sent
          | _ \<Rightarrow> True)"

text \<open>After a successful publish: the command id and the time of sending go to the status.\<close>

definition rememberCommand :: "environment \<Rightarrow> string \<Rightarrow> unit step" where
  "rememberCommand env commandID =
    andThen (readClock env) (\<lambda>now.
      modify (setStatus (\<lambda>s. s\<lparr>LastCommandID := commandID, LastCommandTime := Some now\<rparr>)))"

definition applyPauseCommand :: "environment \<Rightarrow> string \<Rightarrow> unit step" where
  "applyPauseCommand env topic st =
    (let w = Wf st; generation = R_Generation (release w)
     in if ObservedAdmissionPaused (Status w) then (Inr (), st)
        else if commandAwaitingNewTelemetry w (pauseID generation) then (Inr (), st)
        else andThen (publishControl env topic (PauseFunction (pauseID generation) generation))
               (\<lambda>_. rememberCommand env (pauseID generation)) st)"

definition applyResumeCommand ::
    "environment \<Rightarrow> string \<Rightarrow> placementDecision \<Rightarrow> artifactDecision \<Rightarrow> unit step" where
  "applyResumeCommand env topic d artifact st =
    (let w = Wf st; generation = R_Generation (release w)
     in if \<not> ObservedAdmissionPaused (Status w) \<or>
           ObservedMode (Status w) \<noteq> runtimeModeForPlacement (Desired d) \<or>
           AcknowledgedReleaseGeneration (Status w) \<noteq> generation \<or>
           normalizeArtifactDigest (ObservedArtifactDigest (Status w)) \<noteq> DesiredDigest artifact
        then (Inr (), st)
        else if commandAwaitingNewTelemetry w (resumeID generation) then (Inr (), st)
        else andThen (publishControl env topic (ResumeFunction (resumeID generation) generation))
               (\<lambda>_. rememberCommand env (resumeID generation)) st)"

text \<open>\<open>Time.UnixNano\<close>: Go's zero time lies 62135596800 seconds before the Unix epoch.\<close>

definition unixNano :: "time \<Rightarrow> int64" where
  "unixNano t = wrap64 (t - 62135596800 * second)"

definition deadlineDecisionID :: "wasmFunction \<Rightarrow> placementDecision \<Rightarrow> string" where
  "deadlineDecisionID w d =
    (let observation = (case LastTelemetryTime (Status w) of None \<Rightarrow> 0 | Some t \<Rightarrow> unixNano t)
     in ''deadline-'' @ fmt_d (R_Generation (release w)) @ ''-'' @ fmt_d (M_Generation w) @ ''-'' @
        Current d @ ''-'' @ Candidate d @ ''-'' @ fmt_d observation)"

definition deadlineRejected :: "wasmFunction \<Rightarrow> placementDecision \<Rightarrow> bool" where
  "deadlineRejected w d \<longleftrightarrow>
     \<not> (\<not> Transition d \<or>
        (case E_Condition (PD_Deadline d) of None \<Rightarrow> True | Some c \<Rightarrow> C_Reason c \<noteq> ''CandidateDeadlineUnsafe'') \<or>
        ArtifactReadinessReason (Status w) \<noteq> ''DestinationReady'')"

definition applyDeadlineRejectionSignal :: "environment \<Rightarrow> string \<Rightarrow> placementDecision \<Rightarrow> unit step" where
  "applyDeadlineRejectionSignal env topic d st =
    (let w = Wf st; decisionID = deadlineDecisionID w d
     in if \<not> deadlineRejected w d then (Inr (), st)
        else let st1 = setStatus (\<lambda>s. s\<lparr>LastDeadlineDecisionID := decisionID\<rparr>) st
             in if LastSignaledDeadlineDecisionID (Status w) = decisionID then (Inr (), st1)
                else andThen (publishControl env topic
                       (SignalDeadlineRejection decisionID (FunctionIdentity (release w))))
                     (\<lambda>_. modify (setStatus (\<lambda>s. s\<lparr>LastSignaledDeadlineDecisionID := decisionID\<rparr>))) st1)"

section \<open>Activation\<close>

definition rememberReleaseActivationSend :: "string \<Rightarrow> time \<Rightarrow> operatorState \<Rightarrow> operatorState" where
  "rememberReleaseActivationSend commandID now st =
     st\<lparr>ActivationSends := (ActivationSends st)(key_of (Wf st) :=
       Some \<lparr>AS_CommandID = commandID, AS_SentAt = now\<rparr>)\<rparr>"

text \<open>The device already runs what the command asks for.\<close>

definition runsAlready :: "wasmFunction \<Rightarrow> string \<Rightarrow> int64 \<Rightarrow> string \<Rightarrow> bool" where
  "runsAlready w runtimeMode generation digest \<longleftrightarrow>
     ObservedMode (Status w) = runtimeMode \<and>
     AcknowledgedReleaseGeneration (Status w) = generation \<and>
     normalizeArtifactDigest (ObservedArtifactDigest (Status w)) = digest"

definition shouldSkipPlacementCommand ::
    "string \<Rightarrow> string \<Rightarrow> string \<Rightarrow> int64 \<Rightarrow> string \<Rightarrow> time \<Rightarrow> operatorState \<Rightarrow> bool \<times> operatorState" where
  "shouldSkipPlacementCommand commandID desired runtimeMode generation digest now st =
    (let w = Wf st; key = key_of w; s = Status w; remembered = ActivationSends st key
     in if desired = [] \<or> runtimeMode = [] then (True, st)
        else if runsAlready w runtimeMode generation digest then
          (True, st\<lparr>ActivationSends := (ActivationSends st)(key := None)\<rparr>)
        else if LastCommandID s \<noteq> commandID then
          (case remembered of
             None \<Rightarrow> False
           | Some r \<Rightarrow> AS_CommandID r = commandID \<and> now < AS_SentAt r + releaseStageRetryBase, st)
        else let lastRuntimeMode = (if LastCommandedRuntimeMode s = []
                   then runtimeModeForPlacement (LastCommandedPlacement s)
                   else LastCommandedRuntimeMode s)
             in if LastCommandedPlacement s \<noteq> desired \<or> lastRuntimeMode \<noteq> runtimeMode then (False, st)
                else let sent0 = (case LastCommandTime s of None \<Rightarrow> 0 | Some t \<Rightarrow> t);
                         lastSent = (case remembered of
                             None \<Rightarrow> sent0
                           | Some r \<Rightarrow> if AS_CommandID r = commandID \<and> AS_SentAt r > sent0
                                       then AS_SentAt r else sent0)
                     in (lastSent \<noteq> 0 \<and> now < lastSent + releaseStageRetryBase, st))"

text \<open>
  The two senders differ in their message and in the placement they record when the command belongs
  to an accepted placement; the send is remembered before it is attempted.
\<close>

definition sendActivation ::
    "environment \<Rightarrow> string \<Rightarrow> string \<Rightarrow> controlMessage \<Rightarrow> string \<Rightarrow> string \<Rightarrow> bool \<Rightarrow> bool step" where
  "sendActivation env topic commandID msg p runtimeMode track =
    andThen (readClock env) (\<lambda>now.
    andThen (modify (rememberReleaseActivationSend commandID now)) (\<lambda>_.
    andThen (publishControl env topic msg) (\<lambda>_.
    andThen (modify (if track then setStatus (\<lambda>s. s\<lparr>LastCommandedPlacement := p,
               LastCommandedRuntimeMode := runtimeMode\<rparr>) else id)) (\<lambda>_.
    andThen (modify (setStatus (\<lambda>s. s\<lparr>LastCommandID := commandID\<rparr>))) (\<lambda>_. ret True)))))"

definition sendActivateLocalCommand :: "environment \<Rightarrow> string \<Rightarrow> bool \<Rightarrow> bool step" where
  "sendActivateLocalCommand env topic trackPlacement st =
    (let generation = R_Generation (release (Wf st)); commandID = activateLocalID generation
     in sendActivation env topic commandID (ActivateLocal commandID generation)
          placementLocal placementLocal trackPlacement st)"

definition sendRuntimeModeCommand ::
    "environment \<Rightarrow> string \<Rightarrow> placementDecision \<Rightarrow> bool \<Rightarrow> bool step" where
  "sendRuntimeModeCommand env topic d trackPlacement st =
    (let generation = R_Generation (release (Wf st)); commandID = runtimeEdgeID generation
     in sendActivation env topic commandID (SetRuntimeMode commandID placementEdge generation)
          (Desired d) placementEdge trackPlacement st)"

text \<open>The throttled sends of \<open>applyPlacementCommand\<close>: read the clock, ask whether to skip, send.\<close>

definition unlessSkipped ::
    "environment \<Rightarrow> string \<Rightarrow> string \<Rightarrow> string \<Rightarrow> string \<Rightarrow> bool step \<Rightarrow> bool step" where
  "unlessSkipped env commandID desired runtimeMode digest send =
    andThen (readClock env) (\<lambda>now st.
      case shouldSkipPlacementCommand commandID desired runtimeMode (R_Generation (release (Wf st)))
          digest now st of
        (skip, st') \<Rightarrow> (if skip then ret False else send) st')"

text \<open>
  Making the host's staged release active before the device is told to use it.  The result says
  whether the host now serves the release; after an activation it does by construction, since the
  code overwrites its copy of the decision with the declared release.
\<close>

definition ensureHostActive :: "environment \<Rightarrow> artifactDecision \<Rightarrow> artifactDecision option step" where
  "ensureHostActive env artifact st =
    (let w = Wf st
     in if hostActiveMatches artifact w then (Inr (Some artifact), st)
        else if \<not> hostStagedMatches artifact w then (Inr None, st)
        else andThen (activateHostRelease env) (\<lambda>_.
             andThen (modify (setStatus (\<lambda>s. s\<lparr>HostArtifactDigest := DesiredDigest artifact,
               HostStagedArtifactDigest := []\<rparr>))) (\<lambda>_.
             ret (Some (artifact\<lparr>HostDigest := DesiredDigest artifact,
               HostActiveGeneration := R_Generation (release w),
               HostActiveFunction := FunctionIdentity (release w),
               HostStagedDigest := [], HostStagedGeneration := 0, HostStagedFunction := []\<rparr>)))) st)"

definition applyPlacementCommand ::
    "environment \<Rightarrow> string \<Rightarrow> placementDecision \<Rightarrow> artifactDecision \<Rightarrow> bool step" where
  "applyPlacementCommand env topic d artifact st =
    (let w = Wf st; generation = R_Generation (release w); digest = DesiredDigest artifact;
         trackPlacement = (\<not> Transition d \<or> Accepted (PD_Deadline d))
     in if \<not> A_Enabled artifact \<or> digest = [] \<or> generation \<le> 0 then (Inr False, st)
        else if \<not> deviceReleaseReady w digest then (Inr False, st)
        else if Desired d = placementLocal then
          unlessSkipped env (activateLocalID generation) (Desired d) placementLocal digest
            (sendActivateLocalCommand env topic trackPlacement) st
        else andThen (ensureHostActive env artifact) (\<lambda>served.
          case served of
            None \<Rightarrow> ret False
          | Some artifact' \<Rightarrow>
              if \<not> hostActiveMatches artifact' w then ret False
              else unlessSkipped env (runtimeEdgeID generation) (Desired d) placementEdge digest
                     (sendRuntimeModeCommand env topic d trackPlacement)) st)"

section \<open>The whole command pass\<close>

text \<open>
  \<open>applyPlacement\<close>.  It returns \<open>placementCommanded\<close> also with an error of the resume command, which
  is why the result is a pair.
\<close>

definition applyPlacement ::
    "environment \<Rightarrow> placementDecision \<Rightarrow> artifactDecision \<Rightarrow> operatorState
       \<Rightarrow> (bool \<times> string option) \<times> operatorState" where
  "applyPlacement env d artifact st =
    (let topic = ControlTopic (device (Wf st));
         before = andThen (applyReleaseStage env topic artifact) (\<lambda>_.
           andThen (applyBatterySimulationUpdate env topic) (\<lambda>_.
           andThen (applyThresholdUpdate env topic d) (\<lambda>_.
           andThen (applyDeadlineRejectionSignal env topic d) (\<lambda>_.
           if Hard d \<and> Transition d \<and> \<not> Accepted (PD_Deadline d) then applyPauseCommand env topic
           else ret ()))));
         command = andThen before (\<lambda>_. applyPlacementCommand env topic d artifact)
     in if topic = [] then ((False, None), st)
        else case command st of
          (Inl e, st1) \<Rightarrow> ((False, Some e), st1)
        | (Inr commanded, st1) \<Rightarrow>
            let stamp = (if commanded then andThen (readClock env) (\<lambda>now.
                  modify (setStatus (\<lambda>s. s\<lparr>LastCommandTime := Some now\<rparr>))) else ret ())
            in case andThen stamp (\<lambda>_. applyResumeCommand env topic d artifact) st1 of
                 (Inl e, st2) \<Rightarrow> ((commanded, Some e), st2)
               | (Inr _, st2) \<Rightarrow> ((commanded, None), st2))"

end
