(* ===== verification/Command_Props.thy ===== *)
theory Command_Props
  imports Commands
begin

text \<open>
  What a command pass may do: which commands it sends and when, what it leaves alone, how it stops
  at a failure, how it throttles repeated commands, and where pausing goes wrong.
\<close>

section \<open>What commands never change\<close>

text \<open>The resource without the fields the command pass writes.\<close>

definition forget_status :: "wasmFunctionStatus \<Rightarrow> wasmFunctionStatus" where
  "forget_status s = s\<lparr>StageCommandAttempts := 0, LastStageCommandID := [], LastStageCommandTime := None,
     LastAppliedBatterySimulationCommandID := [], LastBatterySimulationCommandTime := None,
     LastAppliedLowBatteryThreshold := 0, LastAppliedHighBatteryThreshold := 0, LastCommandID := [],
     LastCommandTime := None, LastDeadlineDecisionID := [], LastSignaledDeadlineDecisionID := [],
     LastCommandedPlacement := [], LastCommandedRuntimeMode := [], HostArtifactDigest := [],
     HostStagedArtifactDigest := []\<rparr>"

definition forget :: "wasmFunction \<Rightarrow> wasmFunction" where
  "forget w = on_status forget_status w"

lemma forget_fields:
  "Spec (forget w) = Spec w" "M_Generation (forget w) = M_Generation w" "key_of (forget w) = key_of w"
  "StagedReleaseGeneration (Status (forget w)) = StagedReleaseGeneration (Status w)"
  "DeviceStagedArtifactDigest (Status (forget w)) = DeviceStagedArtifactDigest (Status w)"
  "AcknowledgedReleaseGeneration (Status (forget w)) = AcknowledgedReleaseGeneration (Status w)"
  "ObservedArtifactDigest (Status (forget w)) = ObservedArtifactDigest (Status w)"
  "ObservedFunction (Status (forget w)) = ObservedFunction (Status w)"
  "ObservedMode (Status (forget w)) = ObservedMode (Status w)"
  "ObservedAdmissionPaused (Status (forget w)) = ObservedAdmissionPaused (Status w)"
  "ObservedBatterySource (Status (forget w)) = ObservedBatterySource (Status w)"
  "LastTelemetryTime (Status (forget w)) = LastTelemetryTime (Status w)"
  "ArtifactReadinessReason (Status (forget w)) = ArtifactReadinessReason (Status w)"
  by (simp_all add: forget_def forget_status_def key_of_def)

text \<open>The predicates the guards use see only what is not forgotten.\<close>

lemma forget_guards:
  "deviceReleaseReady (forget w) = deviceReleaseReady w"
  "runsAlready (forget w) = runsAlready w"
  "hostActiveMatches a (forget w) = hostActiveMatches a w"
  "hostStagedMatches a (forget w) = hostStagedMatches a w"
  "deadlineRejected (forget w) = deadlineRejected w"
  "deadlineDecisionID (forget w) = deadlineDecisionID w"
  "deviceArtifactURL (forget w) = deviceArtifactURL w"
  "batterySimulationSourceAcknowledged (forget w) = batterySimulationSourceAcknowledged w"
  by (simp_all add: fun_eq_iff deviceReleaseReady_def deviceReleaseStaged_def deviceReleaseActive_def
      runsAlready_def hostActiveMatches_def hostStagedMatches_def hostReleaseMatches_def
      deadlineRejected_def deadlineDecisionID_def deviceArtifactURL_def
      batterySimulationSourceAcknowledged_def forget_fields Let_def)

definition same_view :: "wasmFunction \<Rightarrow> wasmFunction \<Rightarrow> bool" where
  "same_view w w' \<longleftrightarrow> forget w = forget w'"

lemma same_view_refl [simp]: "same_view w w"
  by (simp add: same_view_def)

lemma same_viewD:
  assumes "same_view w w'"
  shows "Spec w' = Spec w" "key_of w' = key_of w"
    "deviceReleaseReady w' = deviceReleaseReady w" "runsAlready w' = runsAlready w"
    "hostActiveMatches a w' = hostActiveMatches a w" "hostStagedMatches a w' = hostStagedMatches a w"
    "deadlineRejected w' = deadlineRejected w" "deadlineDecisionID w' = deadlineDecisionID w"
    "deviceArtifactURL w' = deviceArtifactURL w"
    "batterySimulationSourceAcknowledged w' = batterySimulationSourceAcknowledged w"
    "ObservedAdmissionPaused (Status w') = ObservedAdmissionPaused (Status w)"
    "ObservedMode (Status w') = ObservedMode (Status w)"
    "AcknowledgedReleaseGeneration (Status w') = AcknowledgedReleaseGeneration (Status w)"
    "ObservedArtifactDigest (Status w') = ObservedArtifactDigest (Status w)"
  using assms unfolding same_view_def by (metis forget_guards forget_fields)+

section \<open>What a step may emit\<close>

text \<open>
  A step that starts from the view of \<open>w\<close> keeps the view and appends events that all satisfy \<open>P\<close>;
  it stops at the first event that fails, with that event's error.
\<close>

definition stops :: "(event \<times> string option) list \<Rightarrow> string + 'a \<Rightarrow> bool" where
  "stops evs r \<longleftrightarrow> (\<forall>x \<in> set evs. snd x = None) \<or>
     (\<exists>pre e err. evs = pre @ [(e, Some err)] \<and> (\<forall>x \<in> set pre. snd x = None) \<and> r = Inl err)"

lemma stops_Nil [simp]: "stops [] r"
  by (simp add: stops_def)

lemma stops_append:
  assumes "\<forall>x \<in> set xs. snd x = None" "stops ys r"
  shows "stops (xs @ ys) r"
  using assms(2) unfolding stops_def
proof (elim disjE exE conjE)
  fix pre e err
  assume "ys = pre @ [(e, Some err)]" "\<forall>x \<in> set pre. snd x = None" "r = Inl err"
  with assms(1) show "(\<forall>x \<in> set (xs @ ys). snd x = None) \<or>
      (\<exists>pre e err. xs @ ys = pre @ [(e, Some err)] \<and> (\<forall>x \<in> set pre. snd x = None) \<and> r = Inl err)"
    by (intro disjI2 exI [of _ "xs @ pre"] exI [of _ e] exI [of _ err]) (simp add: ball_Un)
qed (use assms(1) in auto)

definition emits :: "wasmFunction \<Rightarrow> (event \<Rightarrow> bool) \<Rightarrow> 'a step \<Rightarrow> bool" where
  "emits w P f \<longleftrightarrow> (\<forall>st :: operatorState. same_view w (Wf st) \<longrightarrow>
     same_view w (Wf (snd (f st))) \<and>
     (\<exists>evs. Events (snd (f st)) = Events st @ evs \<and> (\<forall>(e, answer) \<in> set evs. P e) \<and>
        stops evs (fst (f st))))"

lemma emitsI:
  assumes "\<And>st :: operatorState. same_view w (Wf st) \<Longrightarrow> same_view w (Wf (snd (f st))) \<and>
     (\<exists>evs. Events (snd (f st)) = Events st @ evs \<and> (\<forall>(e, answer) \<in> set evs. P e) \<and>
        stops evs (fst (f st)))"
  shows "emits w P f"
  using assms by (simp add: emits_def)

lemma emits_silent:
  assumes "\<And>st :: operatorState. same_view w (Wf st) \<Longrightarrow> same_view w (Wf (snd (f st))) \<and> Events (snd (f st)) = Events st"
  shows "emits w P f"
  using assms by (intro emitsI) auto

lemma emits_if: "(b \<Longrightarrow> emits w P f) \<Longrightarrow> (\<not> b \<Longrightarrow> emits w P g) \<Longrightarrow> emits w P (if b then f else g)"
  by simp

lemma emits_fail: "emits w P (\<lambda>st. (x, st))"
  by (rule emits_silent) simp

lemma emits_ret [intro]: "emits w P (ret a)"
  by (rule emits_silent) (simp add: ret_def)

lemma emits_clock [intro]: "emits w P (readClock env)"
  by (rule emits_silent) (simp add: readClock_def)

lemma emits_call: "P e \<Longrightarrow> emits w P (call env e)"
  by (rule emitsI) (auto simp: call_def Let_def stops_def split: option.split)

lemma emits_publish: "P (Publish topic m) \<Longrightarrow> emits w P (publishControl env topic m)"
  by (simp add: publishControl_def emits_call)

lemma emits_modify:
  "(\<And>st :: operatorState. same_view w (Wf st) \<Longrightarrow> same_view w (Wf (f st)) \<and> Events (f st) = Events st) \<Longrightarrow>
     emits w P (modify f)"
  by (rule emits_silent) (simp add: modify_def)

lemma emits_andThen [intro]:
  assumes "emits w P f" "\<And>a. emits w P (g a)"
  shows "emits w P (andThen f g)"
proof (rule emitsI)
  fix st :: operatorState assume st: "same_view w (Wf st)"
  obtain r st1 where f: "f st = (r, st1)" by (cases "f st")
  with assms(1) st obtain evs1 where 1: "same_view w (Wf st1)" "Events st1 = Events st @ evs1"
    "\<forall>(e, answer) \<in> set evs1. P e" "stops evs1 r"
    unfolding emits_def by (metis fst_conv snd_conv)
  show "same_view w (Wf (snd (andThen f g st))) \<and>
    (\<exists>evs. Events (snd (andThen f g st)) = Events st @ evs \<and> (\<forall>(e, answer) \<in> set evs. P e) \<and>
      stops evs (fst (andThen f g st)))"
  proof (cases r)
    case (Inl e)
    then show ?thesis using f 1 by (auto simp: andThen_def stops_def)
  next
    case (Inr a)
    from assms(2) [of a] 1(1) obtain evs2 where *: "same_view w (Wf (snd (g a st1)))"
      "Events (snd (g a st1)) = Events st1 @ evs2" "\<forall>(e, answer) \<in> set evs2. P e" "stops evs2 (fst (g a st1))"
      unfolding emits_def by blast
    moreover have "\<forall>x \<in> set evs1. snd x = None" using 1(4) Inr by (auto simp: stops_def)
    ultimately have "stops (evs1 @ evs2) (fst (g a st1))" by (intro stops_append)
    with * Inr f 1 show ?thesis by (auto simp: andThen_def)
  qed
qed

text \<open>A step that is chosen by guards on its own state.\<close>

lemma emits_at:
  assumes "\<And>st :: operatorState. same_view w (Wf st) \<Longrightarrow> \<exists>f'. f st = f' st \<and> emits w P f'"
  shows "emits w P f"
  using assms unfolding emits_def by metis

lemma emits_guard:
  assumes "\<And>st :: operatorState. same_view w (Wf st) \<Longrightarrow> f st = (if b st then (x, st) else g st st)"
    and "\<And>st :: operatorState. same_view w (Wf st) \<Longrightarrow> \<not> b st \<Longrightarrow> emits w P (g st)"
  shows "emits w P f"
proof (rule emits_at)
  fix st :: operatorState assume st: "same_view w (Wf st)"
  show "\<exists>f'. f st = f' st \<and> emits w P f'"
  proof (cases "b st")
    case True
    then show ?thesis
      using assms(1) [OF st] by (intro exI [of _ "\<lambda>s. (x, s)"]) (auto intro: emits_silent)
  next
    case False
    then show ?thesis using assms(1) [OF st] assms(2) [OF st] by auto
  qed
qed

lemma emits_chosen: "f st = f' st \<Longrightarrow> emits w P f' \<Longrightarrow> \<exists>f'. f st = f' st \<and> emits w P f'"
  by blast

lemma modify_andThen: "andThen (modify f) g = (\<lambda>st. g () (f st))"
  by (simp add: andThen_def modify_def fun_eq_iff)

definition quiet :: "wasmFunction \<Rightarrow> (operatorState \<Rightarrow> 'b \<times> operatorState) \<Rightarrow> bool" where
  "quiet w h \<longleftrightarrow> (\<forall>st. same_view w (Wf st) \<longrightarrow>
     same_view w (Wf (snd (h st))) \<and> Events (snd (h st)) = Events st)"

lemma emits_after:
  assumes "quiet w h" "\<And>b. emits w P (k b)"
  shows "emits w P (\<lambda>st. case h st of (b, st') \<Rightarrow> k b st')"
proof (rule emitsI)
  fix st :: operatorState assume "same_view w (Wf st)"
  moreover obtain b st' where "h st = (b, st')" by (cases "h st")
  ultimately show "same_view w (Wf (snd (case h st of (b, st') \<Rightarrow> k b st'))) \<and>
    (\<exists>evs. Events (snd (case h st of (b, st') \<Rightarrow> k b st')) = Events st @ evs \<and>
      (\<forall>(e, answer) \<in> set evs. P e) \<and>
      stops evs (fst (case h st of (b, st') \<Rightarrow> k b st')))"
    using assms unfolding quiet_def emits_def by (metis prod.case snd_conv)
qed

text \<open>Writing the fields of the command pass keeps the view.\<close>

lemma same_view_status:
  "forget_status s = forget_status (Status w') \<Longrightarrow> same_view w (w'\<lparr>Status := s\<rparr>) \<longleftrightarrow> same_view w w'"
  by (simp add: same_view_def forget_def)

lemma emits_setStatus:
  assumes "\<And>s. forget_status (f s) = forget_status s"
  shows "emits w P (modify (setStatus f))"
  by (rule emits_modify) (simp add: same_view_status assms)

lemma quiet_claim: "quiet w (claimReleaseStageAttempt commandID now)"
  unfolding quiet_def claimReleaseStageAttempt_def Let_def
  by (simp add: same_view_status forget_status_def split: prod.split)

lemma quiet_skip: "quiet w (shouldSkipPlacementCommand c desired m g digest now)"
  unfolding quiet_def shouldSkipPlacementCommand_def Let_def by simp

section \<open>Which commands are justified\<close>

text \<open>
  What must hold of the resource, the decision and the artifact state for each external call.
\<close>

fun justified :: "wasmFunction \<Rightarrow> placementDecision \<Rightarrow> artifactDecision \<Rightarrow> event \<Rightarrow> bool" where
  "justified w d a (ActivateHost g) \<longleftrightarrow>
     g = R_Generation (release w) \<and> 0 < g \<and> Desired d \<noteq> placementLocal \<and>
     deviceReleaseReady w (DesiredDigest a) \<and> hostStagedMatches a w \<and> \<not> hostActiveMatches a w"
| "justified w d a (Publish topic (StageRelease c g url digest f contract)) \<longleftrightarrow>
     topic = ControlTopic (device w) \<and> g = R_Generation (release w) \<and> 0 < g \<and> A_Enabled a \<and>
     digest = DesiredDigest a \<and> digest \<noteq> [] \<and> url = deviceArtifactURL w \<and> url \<noteq> [] \<and>
     f = FunctionIdentity (release w) \<and> contract = ResourceContract (release w) \<and>
     \<not> deviceReleaseReady w digest"
| "justified w d a (Publish topic (ActivateLocal c g)) \<longleftrightarrow>
     topic = ControlTopic (device w) \<and> g = R_Generation (release w) \<and> 0 < g \<and>
     Desired d = placementLocal \<and> deviceReleaseReady w (DesiredDigest a) \<and>
     \<not> runsAlready w placementLocal g (DesiredDigest a)"
| "justified w d a (Publish topic (SetRuntimeMode c v g)) \<longleftrightarrow>
     topic = ControlTopic (device w) \<and> g = R_Generation (release w) \<and> 0 < g \<and> v = placementEdge \<and>
     Desired d \<noteq> placementLocal \<and> Desired d \<noteq> [] \<and> deviceReleaseReady w (DesiredDigest a) \<and>
     hostReady a w \<and> \<not> runsAlready w placementEdge g (DesiredDigest a)"
| "justified w d a (Publish topic (PauseFunction c g)) \<longleftrightarrow>
     topic = ControlTopic (device w) \<and> g = R_Generation (release w) \<and>
     Hard d \<and> Transition d \<and> \<not> Accepted (PD_Deadline d) \<and> \<not> ObservedAdmissionPaused (Status w)"
| "justified w d a (Publish topic (ResumeFunction c g)) \<longleftrightarrow>
     topic = ControlTopic (device w) \<and> g = R_Generation (release w) \<and>
     ObservedAdmissionPaused (Status w) \<and>
     runsAlready w (runtimeModeForPlacement (Desired d)) g (DesiredDigest a)"
| "justified w d a (Publish topic (SignalDeadlineRejection c f)) \<longleftrightarrow>
     topic = ControlTopic (device w) \<and> deadlineRejected w d \<and> c = deadlineDecisionID w d \<and>
     f = FunctionIdentity (release w)"
| "justified w d a (Publish topic (SetThresholds c low high)) \<longleftrightarrow>
     topic = ControlTopic (device w) \<and> BatteryThresholdEnabled d \<and>
     low = LowThreshold d \<and> high = HighThreshold d"
| "justified w d a (Publish topic (SetSimulation c enabled drain recov)) \<longleftrightarrow>
     topic = ControlTopic (device w) \<and> BS_Enabled (BatterySimulation (device w)) = Some enabled \<and>
     drain = effectiveSimulationStep (LocalDrainPercent (BatterySimulation (device w))) \<and>
     recov = effectiveSimulationStep (EdgeRecoverPercent (BatterySimulation (device w)))"

section \<open>Every operation sends only justified commands\<close>

text \<open>The staging command the code publishes, and the staging step with its guards on the view.\<close>

definition stageSend :: "environment \<Rightarrow> wasmFunction \<Rightarrow> artifactDecision \<Rightarrow> bool step" where
  "stageSend env w a =
    andThen (publishControl env (ControlTopic (device w))
      (StageRelease (stageCommandID (R_Generation (release w)) (DesiredDigest a)) (R_Generation (release w))
        (deviceArtifactURL w) (DesiredDigest a) (FunctionIdentity (release w))
        (ResourceContract (release w)))) (\<lambda>_. ret True)"

lemma stage_eq:
  assumes "same_view w (Wf st)"
  shows "applyReleaseStage env (ControlTopic (device w)) a st =
     (if \<not> A_Enabled a \<or> DesiredDigest a = [] \<or> R_Generation (release w) \<le> 0 then ret False
      else if deviceArtifactURL w = [] then
        (\<lambda>s. (Inl (''device.artifactURL is required to stage release '' @ fmt_d (R_Generation (release w))), s))
      else if deviceReleaseReady w (DesiredDigest a) then
        (\<lambda>s. (Inr False, (setStatus (\<lambda>s. s\<lparr>StageCommandAttempts := 0\<rparr>) s)
           \<lparr>StageSends := (StageSends s)(key_of w := None)\<rparr>))
      else andThen (readClock env) (\<lambda>now s.
        case claimReleaseStageAttempt (stageCommandID (R_Generation (release w)) (DesiredDigest a)) now s of
          (b, s') \<Rightarrow> (case b of None \<Rightarrow> ret False | Some _ \<Rightarrow> stageSend env w a) s')) st"
  by (simp add: applyReleaseStage_def stageSend_def Let_def ret_def same_viewD [OF assms])

lemma emits_stage:
  "emits w (justified w d a) (applyReleaseStage env (ControlTopic (device w)) a)"
proof (rule emits_at)
  fix st :: operatorState assume v: "same_view w (Wf st)"
  let ?go = "A_Enabled a \<and> DesiredDigest a \<noteq> [] \<and> 0 < R_Generation (release w) \<and>
    deviceArtifactURL w \<noteq> [] \<and> \<not> deviceReleaseReady w (DesiredDigest a)"
  have go: "emits w (justified w d a) (andThen (readClock env) (\<lambda>now s.
      case claimReleaseStageAttempt (stageCommandID (R_Generation (release w)) (DesiredDigest a)) now s of
        (b, s') \<Rightarrow> (case b of None \<Rightarrow> ret False | Some _ \<Rightarrow> stageSend env w a) s'))" if ?go
    using that unfolding stageSend_def
    by (intro emits_andThen emits_clock emits_after quiet_claim)
      (auto intro!: emits_andThen emits_publish split: option.split)
  from stage_eq [OF v] show "\<exists>f'. applyReleaseStage env (ControlTopic (device w)) a st = f' st \<and>
      emits w (justified w d a) f'"
    by (rule emits_chosen) (intro emits_if emits_ret emits_fail go emits_silent,
      simp_all add: same_view_status forget_status_def not_le)
qed

lemma emits_simulation:
  "emits w (justified w d a) (applyBatterySimulationUpdate env (ControlTopic (device w)))"
proof (rule emits_at)
  fix st :: operatorState assume v: "same_view w (Wf st)"
  show "\<exists>f'. applyBatterySimulationUpdate env (ControlTopic (device w)) st = f' st \<and> emits w (justified w d a) f'"
  proof (cases "BS_Enabled (BatterySimulation (device w))")
    case None
    then show ?thesis
      by (intro exI [of _ "ret False"])
        (auto simp: applyBatterySimulationUpdate_def Let_def ret_def same_viewD [OF v] intro: emits_fail)
  next
    case (Some enabled)
    let ?drain = "effectiveSimulationStep (LocalDrainPercent (BatterySimulation (device w)))"
    let ?recov = "effectiveSimulationStep (EdgeRecoverPercent (BatterySimulation (device w)))"
    let ?id = "simulationID enabled ?drain ?recov"
    let ?send = "andThen (publishControl env (ControlTopic (device w)) (SetSimulation ?id enabled ?drain ?recov)) (\<lambda>_.
      andThen (modify (setStatus (\<lambda>s. s\<lparr>LastAppliedBatterySimulationCommandID := ?id\<rparr>))) (\<lambda>_.
      andThen (readClock env) (\<lambda>now.
      andThen (modify (setStatus (\<lambda>s. s\<lparr>LastBatterySimulationCommandTime := Some now\<rparr>))) (\<lambda>_.
      ret True))))"
    have send: "emits w (justified w d a) ?send"
      by (intro emits_andThen emits_publish emits_setStatus emits_clock emits_ret)
        (simp_all add: Some forget_status_def)
    let ?skip = "LastAppliedBatterySimulationCommandID (Status (Wf st)) = ?id \<and>
      batterySimulationSourceAcknowledged w enabled \<or>
      LastAppliedBatterySimulationCommandID (Status (Wf st)) = ?id \<and>
      (case LastBatterySimulationCommandTime (Status (Wf st)) of
         None \<Rightarrow> False
       | Some sent \<Rightarrow> \<not> telemetryAfter (LastTelemetryTime (Status (Wf st))) sent)"
    have "applyBatterySimulationUpdate env (ControlTopic (device w)) st = (if ?skip then ret False else ?send) st"
      by (simp add: applyBatterySimulationUpdate_def Let_def ret_def same_viewD [OF v] Some)
    then show ?thesis
      by (rule emits_chosen) (intro emits_if emits_ret send)
  qed
qed

lemma emits_thresholds:
  "emits w (justified w d a) (applyThresholdUpdate env (ControlTopic (device w)) d)"
proof (rule emits_at)
  fix st :: operatorState assume v: "same_view w (Wf st)"
  let ?send = "andThen (publishControl env (ControlTopic (device w))
      (SetThresholds (thresholdsID (LowThreshold d) (HighThreshold d)) (LowThreshold d) (HighThreshold d)))
    (\<lambda>_. andThen (modify (setStatus (\<lambda>s. s\<lparr>LastAppliedLowBatteryThreshold := LowThreshold d,
       LastAppliedHighBatteryThreshold := HighThreshold d\<rparr>))) (\<lambda>_. ret True))"
  let ?skip = "\<not> BatteryThresholdEnabled d \<or>
    \<not> (LastAppliedLowBatteryThreshold (Status (Wf st)) \<noteq> LowThreshold d \<or>
       LastAppliedHighBatteryThreshold (Status (Wf st)) \<noteq> HighThreshold d)"
  have send: "emits w (justified w d a) ?send" if "\<not> ?skip"
    using that by (intro emits_andThen emits_publish emits_setStatus emits_ret)
      (simp_all add: forget_status_def)
  have "applyThresholdUpdate env (ControlTopic (device w)) d st = (if ?skip then ret False else ?send) st"
    by (simp add: applyThresholdUpdate_def ret_def)
  then show "\<exists>f'. applyThresholdUpdate env (ControlTopic (device w)) d st = f' st \<and> emits w (justified w d a) f'"
    by (rule emits_chosen) (intro emits_if emits_ret send)
qed

lemma emits_remember: "emits w P (rememberCommand env c)"
  unfolding rememberCommand_def
  by (intro emits_andThen emits_clock emits_setStatus) (simp add: forget_status_def)

lemma emits_rejection:
  "emits w (justified w d a) (applyDeadlineRejectionSignal env (ControlTopic (device w)) d)"
proof (rule emits_at)
  fix st :: operatorState assume v: "same_view w (Wf st)"
  let ?id = "deadlineDecisionID w d"
  let ?mark = "\<lambda>st. setStatus (\<lambda>s. s\<lparr>LastDeadlineDecisionID := ?id\<rparr>) st"
  let ?send = "\<lambda>st. andThen (publishControl env (ControlTopic (device w))
      (SignalDeadlineRejection ?id (FunctionIdentity (release w))))
    (\<lambda>_. modify (setStatus (\<lambda>s. s\<lparr>LastSignaledDeadlineDecisionID := ?id\<rparr>))) (?mark st)"
  have send: "emits w (justified w d a) ?send" if r: "deadlineRejected w d"
  proof -
    have "emits w (justified w d a) (andThen (modify ?mark) (\<lambda>_.
        andThen (publishControl env (ControlTopic (device w))
          (SignalDeadlineRejection ?id (FunctionIdentity (release w))))
        (\<lambda>_. modify (setStatus (\<lambda>s. s\<lparr>LastSignaledDeadlineDecisionID := ?id\<rparr>)))))"
      using r by (intro emits_andThen emits_publish emits_setStatus) (simp_all add: forget_status_def)
    then show ?thesis by (simp only: modify_andThen)
  qed
  have mark: "emits w (justified w d a) (\<lambda>st. (Inr (), ?mark st))"
    by (rule emits_silent) (simp add: same_view_status forget_status_def)
  have "applyDeadlineRejectionSignal env (ControlTopic (device w)) d st =
    (if \<not> deadlineRejected w d then ret ()
     else if LastSignaledDeadlineDecisionID (Status (Wf st)) = ?id then (\<lambda>st. (Inr (), ?mark st))
     else ?send) st"
    by (simp add: applyDeadlineRejectionSignal_def Let_def ret_def same_viewD [OF v])
  then show "\<exists>f'. applyDeadlineRejectionSignal env (ControlTopic (device w)) d st = f' st \<and>
      emits w (justified w d a) f'"
    by (rule emits_chosen) (intro emits_if emits_ret mark send, simp)
qed

lemma emits_pause:
  assumes "Hard d" "Transition d" "\<not> Accepted (PD_Deadline d)"
  shows "emits w (justified w d a) (applyPauseCommand env (ControlTopic (device w)))"
proof (rule emits_at)
  fix st :: operatorState assume v: "same_view w (Wf st)"
  let ?g = "R_Generation (release w)"
  let ?send = "andThen (publishControl env (ControlTopic (device w)) (PauseFunction (pauseID ?g) ?g))
    (\<lambda>_. rememberCommand env (pauseID ?g))"
  have send: "emits w (justified w d a) ?send" if "\<not> ObservedAdmissionPaused (Status w)"
    using that assms by (intro emits_andThen emits_publish emits_remember) simp_all
  have "applyPauseCommand env (ControlTopic (device w)) st =
    (if ObservedAdmissionPaused (Status w) then ret ()
     else if commandAwaitingNewTelemetry (Wf st) (pauseID ?g) then ret () else ?send) st"
    by (simp add: applyPauseCommand_def Let_def ret_def same_viewD [OF v])
  then show "\<exists>f'. applyPauseCommand env (ControlTopic (device w)) st = f' st \<and> emits w (justified w d a) f'"
    by (rule emits_chosen) (intro emits_if emits_ret send)
qed

lemma emits_resume:
  "emits w (justified w d a) (applyResumeCommand env (ControlTopic (device w)) d a)"
proof (rule emits_at)
  fix st :: operatorState assume v: "same_view w (Wf st)"
  let ?g = "R_Generation (release w)"
  let ?stay = "\<not> ObservedAdmissionPaused (Status w) \<or>
    \<not> runsAlready w (runtimeModeForPlacement (Desired d)) ?g (DesiredDigest a)"
  let ?send = "andThen (publishControl env (ControlTopic (device w)) (ResumeFunction (resumeID ?g) ?g))
    (\<lambda>_. rememberCommand env (resumeID ?g))"
  have send: "emits w (justified w d a) ?send" if "\<not> ?stay"
    using that by (intro emits_andThen emits_publish emits_remember) simp_all
  have "applyResumeCommand env (ControlTopic (device w)) d a st =
    (if ?stay then ret ()
     else if commandAwaitingNewTelemetry (Wf st) (resumeID ?g) then ret () else ?send) st"
    by (simp add: applyResumeCommand_def Let_def ret_def runsAlready_def same_viewD [OF v])
  then show "\<exists>f'. applyResumeCommand env (ControlTopic (device w)) d a st = f' st \<and> emits w (justified w d a) f'"
    by (rule emits_chosen) (intro emits_if emits_ret send)
qed

lemma skip_unless:
  "fst (shouldSkipPlacementCommand c desired m g digest now st) \<or>
   \<not> runsAlready (Wf st) m g digest \<and> desired \<noteq> []"
  by (simp add: shouldSkipPlacementCommand_def Let_def)

lemma emits_unlessSkipped:
  assumes "desired \<noteq> [] \<Longrightarrow> \<not> runsAlready w m (R_Generation (release w)) digest \<Longrightarrow> emits w P send"
  shows "emits w P (unlessSkipped env c desired m digest send)"
proof -
  let ?h = "\<lambda>now. shouldSkipPlacementCommand c desired m (R_Generation (release w)) digest now"
  have "emits w P (\<lambda>st. case shouldSkipPlacementCommand c desired m (R_Generation (release (Wf st)))
      digest now st of (skip, st') \<Rightarrow> (if skip then ret False else send) st')" for now
  proof (rule emits_at)
    fix st :: operatorState assume v: "same_view w (Wf st)"
    show "\<exists>f'. (case shouldSkipPlacementCommand c desired m (R_Generation (release (Wf st))) digest now st
        of (skip, st') \<Rightarrow> (if skip then ret False else send) st') = f' st \<and> emits w P f'"
    proof (cases "fst (?h now st)")
      case True
      then show ?thesis
        using quiet_skip [of w c desired m "R_Generation (release w)" digest now] same_viewD(1) [OF v]
        by (intro exI [of _ "\<lambda>st. case ?h now st of (_, st') \<Rightarrow> ret False st'"])
          (auto intro: emits_after split: prod.split)
    next
      case False
      then have "emits w P send"
        using skip_unless [of c desired m "R_Generation (release w)" digest now st] assms
        by (auto simp: same_viewD(4) [OF v])
      then show ?thesis
        using False quiet_skip [of w c desired m "R_Generation (release w)" digest now] same_viewD(1) [OF v]
        by (intro exI [of _ "\<lambda>st. case ?h now st of (_, st') \<Rightarrow> send st'"])
          (auto intro: emits_after split: prod.split)
    qed
  qed
  then show ?thesis
    unfolding unlessSkipped_def by (intro emits_andThen emits_clock)
qed

lemma emits_activation:
  assumes "P (Publish topic m)"
  shows "emits w P (sendActivation env topic c m p runtimeMode track)"
proof -
  have "emits w P (modify (if track then setStatus (\<lambda>s. s\<lparr>LastCommandedPlacement := p,
      LastCommandedRuntimeMode := runtimeMode\<rparr>) else id))"
    by (rule emits_modify) (simp add: same_view_status forget_status_def)
  moreover have "emits w P (modify (rememberReleaseActivationSend c now))" for now
    by (rule emits_modify) (simp add: rememberReleaseActivationSend_def)
  ultimately show ?thesis
    unfolding sendActivation_def using assms
    by (intro emits_andThen emits_clock emits_publish emits_setStatus emits_ret)
      (simp_all add: forget_status_def)
qed

lemma emits_hostActive:
  assumes "0 < R_Generation (release w)" "Desired d \<noteq> placementLocal" "deviceReleaseReady w (DesiredDigest a)"
  shows "emits w (justified w d a) (ensureHostActive env a)"
proof (rule emits_at)
  fix st :: operatorState assume v: "same_view w (Wf st)"
  let ?activate = "andThen (call env (ActivateHost (R_Generation (release w)))) (\<lambda>_.
    andThen (modify (setStatus (\<lambda>s. s\<lparr>HostArtifactDigest := DesiredDigest a,
      HostStagedArtifactDigest := []\<rparr>))) (\<lambda>_.
    ret (Some (a\<lparr>HostDigest := DesiredDigest a, HostActiveGeneration := R_Generation (release w),
      HostActiveFunction := FunctionIdentity (release w), HostStagedDigest := [],
      HostStagedGeneration := 0, HostStagedFunction := []\<rparr>))))"
  have go: "emits w (justified w d a) ?activate" if "\<not> hostActiveMatches a w" "\<not> \<not> hostStagedMatches a w"
    using that assms by (intro emits_andThen emits_call emits_setStatus emits_ret)
      (simp_all add: forget_status_def)
  have "ensureHostActive env a st =
    (if hostActiveMatches a w then ret (Some a) else if \<not> hostStagedMatches a w then ret None
     else ?activate) st"
    by (simp add: ensureHostActive_def activateHostRelease_def andThen_def [of "activateHostRelease env"]
        andThen_def [of "call env _"] Let_def ret_def same_viewD [OF v])
  then show "\<exists>f'. ensureHostActive env a st = f' st \<and> emits w (justified w d a) f'"
    by (rule emits_chosen) (intro emits_if emits_ret go)
qed

lemma emits_local:
  assumes "0 < R_Generation (release w)" "Desired d = placementLocal" "deviceReleaseReady w (DesiredDigest a)"
    and "\<not> runsAlready w placementLocal (R_Generation (release w)) (DesiredDigest a)"
  shows "emits w (justified w d a) (sendActivateLocalCommand env (ControlTopic (device w)) track)"
proof (rule emits_at)
  fix st :: operatorState assume v: "same_view w (Wf st)"
  let ?c = "activateLocalID (R_Generation (release w))"
  have "sendActivateLocalCommand env (ControlTopic (device w)) track st =
    sendActivation env (ControlTopic (device w)) ?c (ActivateLocal ?c (R_Generation (release w)))
      placementLocal placementLocal track st"
    by (simp add: sendActivateLocalCommand_def Let_def same_viewD [OF v])
  then show "\<exists>f'. sendActivateLocalCommand env (ControlTopic (device w)) track st = f' st \<and>
      emits w (justified w d a) f'"
    by (rule emits_chosen) (use assms in \<open>auto intro!: emits_activation\<close>)
qed

lemma emits_edge:
  assumes "0 < R_Generation (release w)" "Desired d \<noteq> placementLocal" "deviceReleaseReady w (DesiredDigest a)"
    and "hostReady a w" "Desired d \<noteq> []"
    and "\<not> runsAlready w placementEdge (R_Generation (release w)) (DesiredDigest a)"
  shows "emits w (justified w d a) (sendRuntimeModeCommand env (ControlTopic (device w)) d track)"
proof (rule emits_at)
  fix st :: operatorState assume v: "same_view w (Wf st)"
  let ?c = "runtimeEdgeID (R_Generation (release w))"
  have "sendRuntimeModeCommand env (ControlTopic (device w)) d track st =
    sendActivation env (ControlTopic (device w)) ?c (SetRuntimeMode ?c placementEdge (R_Generation (release w)))
      (Desired d) placementEdge track st"
    by (simp add: sendRuntimeModeCommand_def Let_def same_viewD [OF v])
  then show "\<exists>f'. sendRuntimeModeCommand env (ControlTopic (device w)) d track st = f' st \<and>
      emits w (justified w d a) f'"
    by (rule emits_chosen) (use assms in \<open>auto intro!: emits_activation\<close>)
qed

lemma emits_command:
  "emits w (justified w d a) (applyPlacementCommand env (ControlTopic (device w)) d a)"
proof (rule emits_at)
  fix st :: operatorState assume v: "same_view w (Wf st)"
  let ?g = "R_Generation (release w)" and ?digest = "DesiredDigest a"
  let ?track = "\<not> Transition d \<or> Accepted (PD_Deadline d)" and ?topic = "ControlTopic (device w)"
  let ?local = "unlessSkipped env (activateLocalID ?g) (Desired d) placementLocal ?digest
    (sendActivateLocalCommand env ?topic ?track)"
  let ?send = "unlessSkipped env (runtimeEdgeID ?g) (Desired d) placementEdge ?digest
    (sendRuntimeModeCommand env ?topic d ?track)"
  let ?edge = "andThen (ensureHostActive env a) (\<lambda>served. case served of None \<Rightarrow> ret False
    | Some a' \<Rightarrow> if \<not> hostActiveMatches a' w then ret False else ?send)"
  let ?no = "\<not> A_Enabled a \<or> ?digest = [] \<or> ?g \<le> 0 \<or> \<not> deviceReleaseReady w ?digest"
  have local: "emits w (justified w d a) ?local" if "\<not> ?no" "Desired d = placementLocal"
    using that by (intro emits_unlessSkipped emits_local) auto
  have edge: "emits w (justified w d a) ?edge"
    if "\<not> ?no" "Desired d \<noteq> placementLocal" "\<not> \<not> hostReady a w"
  proof -
    have "emits w (justified w d a) ?send"
      using that by (intro emits_unlessSkipped emits_edge) auto
    then show ?thesis
      using that by (intro emits_andThen emits_hostActive) (auto split: option.split)
  qed
  have not_ready: "andThen (ensureHostActive env a) k st = k None st" if "\<not> hostReady a w"
    for k :: "artifactDecision option \<Rightarrow> bool step"
    using that by (simp add: andThen_def ensureHostActive_def hostReady_def Let_def same_viewD [OF v])
  have "applyPlacementCommand env ?topic d a st =
    (if ?no then ret False else if Desired d = placementLocal then ?local
     else if \<not> hostReady a w then ret False else ?edge) st"
    using not_ready
    by (simp add: applyPlacementCommand_def Let_def ret_def same_viewD [OF v] cong: if_cong)
  then show "\<exists>f'. applyPlacementCommand env ?topic d a st = f' st \<and> emits w (justified w d a) f'"
    by (rule emits_chosen) (intro emits_if emits_ret local edge)
qed

text \<open>The whole pass, as one step whose result is the pair \<open>applyPlacement\<close> returns.\<close>

definition beforeCommand ::
    "environment \<Rightarrow> string \<Rightarrow> placementDecision \<Rightarrow> artifactDecision \<Rightarrow> unit step" where
  "beforeCommand env topic d artifact =
    andThen (applyReleaseStage env topic artifact) (\<lambda>_.
    andThen (applyBatterySimulationUpdate env topic) (\<lambda>_.
    andThen (applyThresholdUpdate env topic d) (\<lambda>_.
    andThen (applyDeadlineRejectionSignal env topic d) (\<lambda>_.
    if Hard d \<and> Transition d \<and> \<not> Accepted (PD_Deadline d) then applyPauseCommand env topic
    else ret ()))))"

lemma emits_before:
  "emits w (justified w d a) (beforeCommand env (ControlTopic (device w)) d a)"
  unfolding beforeCommand_def
  by (intro emits_andThen emits_stage emits_simulation emits_thresholds emits_rejection emits_if
      emits_pause emits_ret) auto

definition afterCommand ::
    "environment \<Rightarrow> string \<Rightarrow> placementDecision \<Rightarrow> artifactDecision \<Rightarrow> bool \<Rightarrow> unit step" where
  "afterCommand env topic d artifact commanded =
    andThen (if commanded then andThen (readClock env) (\<lambda>now.
        modify (setStatus (\<lambda>s. s\<lparr>LastCommandTime := Some now\<rparr>))) else ret ())
      (\<lambda>_. applyResumeCommand env topic d artifact)"

lemma emits_afterCommand:
  "emits w (justified w d a) (afterCommand env (ControlTopic (device w)) d a commanded)"
  unfolding afterCommand_def
  by (intro emits_andThen emits_if emits_clock emits_setStatus emits_resume emits_ret)
    (simp add: forget_status_def)

lemma applyPlacement_steps:
  "ControlTopic (device (Wf st)) = topic \<Longrightarrow> topic \<noteq> [] \<Longrightarrow>
   snd (applyPlacement env d a st) = snd (andThen (andThen (beforeCommand env topic d a)
     (\<lambda>_. applyPlacementCommand env topic d a)) (afterCommand env topic d a) st) \<and>
   snd (fst (applyPlacement env d a st)) = (case fst (andThen (andThen (beforeCommand env topic d a)
     (\<lambda>_. applyPlacementCommand env topic d a)) (afterCommand env topic d a) st) of
       Inl e \<Rightarrow> Some e | Inr _ \<Rightarrow> None)"
  by (auto simp: applyPlacement_def beforeCommand_def [symmetric] afterCommand_def [symmetric] Let_def
      andThen_def [of "andThen (beforeCommand env topic d a) _"] split: prod.split sum.split)

lemma emits_pass:
  "emits w (justified w d a) (andThen (andThen (beforeCommand env (ControlTopic (device w)) d a)
     (\<lambda>_. applyPlacementCommand env (ControlTopic (device w)) d a))
     (afterCommand env (ControlTopic (device w)) d a))"
  by (intro emits_andThen emits_before emits_command emits_afterCommand)

end
