(* ===== verification/Throttled_Sender.thy ===== *)
theory Throttled_Sender
  imports Sif_Prelude
begin

text \<open>
  The contract of a throttled sender: it remembers when it last sent a command, sends again only
  when the minimum gap has passed, and forgets nothing when it refuses.  Between two attempts the
  rest of the state may change (a new read of the resource, possibly a stale one), as long as the
  sender's own memory stays.  \<open>ok\<close> restricts the states in which the sender keeps its promise.
\<close>

locale throttled_sender =
  fixes sent :: "'st \<Rightarrow> time"
    and attempt :: "time \<Rightarrow> 'st \<Rightarrow> bool \<times> 'st"
    and ok :: "'st \<Rightarrow> bool"
    and gap :: duration
  assumes gap_nonneg: "0 \<le> gap"
    and accepted_late: "ok st \<Longrightarrow> attempt now st = (True, st') \<Longrightarrow> 0 < sent st \<Longrightarrow> sent st + gap \<le> now"
    and accepted_stamp: "ok st \<Longrightarrow> attempt now st = (True, st') \<Longrightarrow> sent st' = now"
    and refused_keeps: "ok st \<Longrightarrow> attempt now st = (False, st') \<Longrightarrow> sent st' = sent st"
begin

text \<open>A run of attempts; each is preceded by a change of the state.\<close>

fun accepted :: "(('st \<Rightarrow> 'st) \<times> time) list \<Rightarrow> 'st \<Rightarrow> time list" where
  "accepted [] st = []"
| "accepted ((change, now) # rest) st =
    (case attempt now (change st) of
       (True, st') \<Rightarrow> now # accepted rest st'
     | (False, st') \<Rightarrow> accepted rest st')"

definition harmless :: "('st \<Rightarrow> 'st) \<Rightarrow> bool" where
  "harmless change \<longleftrightarrow> (\<forall>st. ok (change st) \<and> sent (change st) = sent st)"

lemma accepted_after:
  assumes "\<forall>(change, now) \<in> set run. harmless change \<and> 0 < now" "0 < sent st"
  shows "(\<forall>t \<in> set (accepted run st). sent st + gap \<le> t) \<and>
    sorted_wrt (\<lambda>s t. s + gap \<le> t) (accepted run st)"
  using assms
proof (induction run arbitrary: st)
  case Nil
  then show ?case by simp
next
  case (Cons step rest)
  obtain change now where step: "step = (change, now)" by (cases step)
  have ok: "ok (change st)" and same: "sent (change st) = sent st" and now: "0 < now"
    using Cons.prems(1) step by (auto simp: harmless_def)
  have rest: "\<forall>(change, now) \<in> set rest. harmless change \<and> 0 < now"
    using Cons.prems(1) by simp
  obtain b st' where att: "attempt now (change st) = (b, st')"
    by (cases "attempt now (change st)")
  show ?case
  proof (cases b)
    case True
    have late: "sent st + gap \<le> now"
      using accepted_late [OF ok, of now st'] att True same Cons.prems(2) by simp
    have stamp: "sent st' = now"
      using accepted_stamp [OF ok, of now st'] att True by simp
    then have "(\<forall>t \<in> set (accepted rest st'). now + gap \<le> t) \<and>
        sorted_wrt (\<lambda>s t. s + gap \<le> t) (accepted rest st')"
      using Cons.IH [OF rest, of st'] now by simp
    with late gap_nonneg show ?thesis
      using att True step by auto
  next
    case False
    then have "sent st' = sent st"
      using refused_keeps [OF ok, of now st'] att same by simp
    with False show ?thesis
      using Cons.IH [OF rest, of st'] att step Cons.prems(2) by simp
  qed
qed

lemma accepted_spaced:
  assumes "\<forall>(change, now) \<in> set run. harmless change \<and> 0 < now"
  shows "sorted_wrt (\<lambda>s t. s + gap \<le> t) (accepted run st)"
  using assms
proof (induction run arbitrary: st)
  case Nil
  then show ?case by simp
next
  case (Cons step rest)
  obtain change now where step: "step = (change, now)" by (cases step)
  have ok: "ok (change st)" and now: "0 < now"
    using Cons.prems(1) step by (auto simp: harmless_def)
  have rest: "\<forall>(change, now) \<in> set rest. harmless change \<and> 0 < now"
    using Cons.prems(1) by simp
  obtain b st' where att: "attempt now (change st) = (b, st')"
    by (cases "attempt now (change st)")
  show ?case
  proof (cases b)
    case True
    then have "sent st' = now"
      using accepted_stamp [OF ok, of now st'] att by simp
    with accepted_after [OF rest, of st'] now True show ?thesis
      using att step by simp
  next
    case False
    then show ?thesis using Cons.IH [OF rest] att step by simp
  qed
qed

end

end
