(* ===== verification/Command_Safety.thy ===== *)
theory Command_Safety
  imports Command_Props Throttled_Sender
begin

text \<open>
  The properties of the command pass: justified commands, stopping at the first failure, the
  throttling of staging and activation, and the pause that a pass takes back.
\<close>

section \<open>Retry delays\<close>

lemma stage_delay_loop:
  "stageDelayLoop n attempts releaseStageRetryMax = releaseStageRetryMax"
  "stageDelayLoop n attempts releaseStageRetryBase =
     (if n < attempts then releaseStageRetryMax else releaseStageRetryBase)"
proof -
  show 1: "stageDelayLoop n attempts releaseStageRetryMax = releaseStageRetryMax" for n
    by (subst stageDelayLoop.simps) simp
  show "stageDelayLoop n attempts releaseStageRetryBase =
     (if n < attempts then releaseStageRetryMax else releaseStageRetryBase)"
    using 1 [of "n + 1"]
    by (subst stageDelayLoop.simps)
      (simp add: releaseStageRetryBase_def releaseStageRetryMax_def second_def)
qed

lemma stage_delay_value:
  "releaseStageRetryDelay attempts =
     (if attempts \<le> 1 then releaseStageRetryBase else releaseStageRetryMax)"
  by (simp add: releaseStageRetryDelay_def stage_delay_loop)

text \<open>The staging retry delay, a doubling loop capped at its maximum, is thirty seconds for the
  first attempt and sixty for every later one, whatever the attempt counter holds; it always ends.\<close>

theorem stage_retry_delay:
  "releaseStageRetryDelay attempts = (if attempts \<le> 1 then 30 * second else 60 * second)"
  by (simp add: stage_delay_value releaseStageRetryBase_def releaseStageRetryMax_def)

lemma stage_delay_ge: "30 * second \<le> releaseStageRetryDelay attempts"
  by (simp add: stage_delay_value releaseStageRetryBase_def releaseStageRetryMax_def second_def)

section \<open>Throttled staging\<close>

text \<open>When the in-memory map last sent this command for this resource (0 for never).\<close>

definition stageSent :: "namespacedName \<Rightarrow> string \<Rightarrow> operatorState \<Rightarrow> time" where
  "stageSent k c st = (case StageSends st k of None \<Rightarrow> 0
     | Some r \<Rightarrow> if SS_CommandID r = c then SS_SentAt r else 0)"

definition claimed :: "string \<Rightarrow> time \<Rightarrow> operatorState \<Rightarrow> bool \<times> operatorState" where
  "claimed c now st = (case claimReleaseStageAttempt c now st of (a, st') \<Rightarrow> (a \<noteq> None, st'))"

lemma lastStageSend_ge:
  assumes "key_of (Wf st) = k" "0 < stageSent k c st"
  shows "stageSent k c st \<le> fst (lastStageSend st c)"
  using assms
  by (auto simp: lastStageSend_def stageSent_def Let_def split: option.splits if_splits)

interpretation stage_throttle: throttled_sender
  "stageSent k c" "claimed c" "\<lambda>st. key_of (Wf st) = k" "30 * second" for k c
proof
  show "0 \<le> 30 * second" by (simp add: second_def)
next
  fix st now st'
  assume k: "key_of (Wf st) = k" and acc: "claimed c now st = (True, st')" and sent: "0 < stageSent k c st"
  obtain t n where l: "lastStageSend st c = (t, n)" by (cases "lastStageSend st c")
  have t: "stageSent k c st \<le> t" using lastStageSend_ge [OF k sent] l by simp
  have "\<not> now < t + releaseStageRetryDelay (if t \<noteq> 0 \<and> n < 1 then 1 else n)"
    using acc sent t l by (auto simp: claimed_def claimReleaseStageAttempt_def Let_def split: if_splits)
  moreover have "30 * second \<le> releaseStageRetryDelay (if t \<noteq> 0 \<and> n < 1 then 1 else n)"
    by (rule stage_delay_ge)
  ultimately show "stageSent k c st + 30 * second \<le> now"
    using t by linarith
next
  fix st now st'
  assume "key_of (Wf st) = k" "claimed c now st = (True, st')"
  then show "stageSent k c st' = now"
    by (auto simp: claimed_def claimReleaseStageAttempt_def stageSent_def Let_def
        split: prod.splits if_splits)
next
  fix st now st'
  assume "key_of (Wf st) = k" "claimed c now st = (False, st')"
  then show "stageSent k c st' = stageSent k c st"
    by (auto simp: claimed_def claimReleaseStageAttempt_def Let_def split: prod.splits if_splits)
qed

definition emptyOperator :: "wasmFunction \<Rightarrow> operatorState" where
  "emptyOperator w = \<lparr>Wf = w, StageSends = (\<lambda>_. None), ActivationSends = (\<lambda>_. None), Ticks = 0,
     Events = []\<rparr>"

lemma emptyOperator_fields [simp]:
  "Wf (emptyOperator w) = w" "Events (emptyOperator w) = []"
  by (simp_all add: emptyOperator_def)

section \<open>Throttled activation\<close>

definition activationSent :: "namespacedName \<Rightarrow> string \<Rightarrow> operatorState \<Rightarrow> time" where
  "activationSent k c st = (case ActivationSends st k of None \<Rightarrow> 0
     | Some r \<Rightarrow> if AS_CommandID r = c then AS_SentAt r else 0)"

text \<open>One activation attempt at time \<open>now\<close>; it counts as sent when it reached the broker or failed there.\<close>

definition activationAttempt ::
    "(nat \<Rightarrow> string option) \<Rightarrow> string \<Rightarrow> string \<Rightarrow> controlMessage \<Rightarrow> string \<Rightarrow> string \<Rightarrow> string \<Rightarrow> bool
       \<Rightarrow> time \<Rightarrow> operatorState \<Rightarrow> bool \<times> operatorState" where
  "activationAttempt outcome topic c msg desired m digest track now st =
    (let env = \<lparr>Clock = \<lambda>_. now, Outcome = outcome\<rparr>;
         st' = snd (unlessSkipped env c desired m digest (sendActivation env topic c msg desired m track) st)
     in (Events st' \<noteq> Events st, st'))"

text \<open>
  The device has not acknowledged, and the command, if it is the one last recorded in the status, is
  recorded with the placement it is for.
\<close>

definition activationTracked :: "namespacedName \<Rightarrow> string \<Rightarrow> string \<Rightarrow> string \<Rightarrow> int64 \<Rightarrow> string
    \<Rightarrow> operatorState \<Rightarrow> bool" where
  "activationTracked k c desired m g digest st \<longleftrightarrow>
     key_of (Wf st) = k \<and> R_Generation (release (Wf st)) = g \<and> \<not> runsAlready (Wf st) m g digest \<and>
     (LastCommandID (Status (Wf st)) = c \<longrightarrow>
        LastCommandedPlacement (Status (Wf st)) = desired \<and> LastCommandedRuntimeMode (Status (Wf st)) = m)"

lemma send_effect:
  "ActivationSends (snd (sendActivation \<lparr>Clock = \<lambda>_. now, Outcome = outcome\<rparr> topic c msg p m track st))
     = (ActivationSends st)(key_of (Wf st) := Some \<lparr>AS_CommandID = c, AS_SentAt = now\<rparr>)"
  "Events (snd (sendActivation \<lparr>Clock = \<lambda>_. now, Outcome = outcome\<rparr> topic c msg p m track st))
     \<noteq> Events st"
  by (simp_all add: sendActivation_def andThen_def readClock_def modify_def publishControl_def call_def
      ret_def rememberReleaseActivationSend_def Let_def split: option.split)

lemma skip_tracked:
  assumes "activationTracked k c desired m g digest st"
  shows "shouldSkipPlacementCommand c desired m g digest now st = (b, st') \<Longrightarrow> st' = st"
    and "0 < activationSent k c st \<Longrightarrow> now < activationSent k c st + 30 * second \<Longrightarrow>
      fst (shouldSkipPlacementCommand c desired m g digest now st)"
proof -
  show "shouldSkipPlacementCommand c desired m g digest now st = (b, st') \<Longrightarrow> st' = st"
    using assms by (auto simp: shouldSkipPlacementCommand_def activationTracked_def Let_def split: if_splits)
next
  assume sent: "0 < activationSent k c st" and now: "now < activationSent k c st + 30 * second"
  then obtain r where r: "ActivationSends st k = Some r" "AS_CommandID r = c" "activationSent k c st = AS_SentAt r"
    by (auto simp: activationSent_def split: option.splits if_splits)
  then show "fst (shouldSkipPlacementCommand c desired m g digest now st)"
    using assms sent now
    by (auto simp: shouldSkipPlacementCommand_def activationTracked_def Let_def
        releaseStageRetryBase_def split: option.split)
qed

interpretation activation_throttle: throttled_sender "activationSent k c"
  "activationAttempt outcome topic c msg desired m digest track"
  "activationTracked k c desired m g digest" "30 * second"
  for k c outcome topic msg desired m digest track g
proof -
  let ?env = "\<lambda>now. \<lparr>Clock = \<lambda>_. now, Outcome = outcome\<rparr>"
  let ?skip = "\<lambda>now st. shouldSkipPlacementCommand c desired m g digest now st"
  have att: "activationAttempt outcome topic c msg desired m digest track now st =
      (let s = st\<lparr>Ticks := Ticks st + 1\<rparr>
       in if fst (?skip now s) then (False, s)
          else (True, snd (sendActivation (?env now) topic c msg desired m track s)))"
    if "activationTracked k c desired m g digest st" for now st
  proof -
    let ?s = "st\<lparr>Ticks := Ticks st + 1\<rparr>"
    have ok: "activationTracked k c desired m g digest ?s" and g: "R_Generation (release (Wf st)) = g"
      using that by (simp_all add: activationTracked_def)
    obtain b where "?skip now ?s = (b, ?s)"
      using skip_tracked(1) [OF ok, of now] by (metis prod.collapse)
    then show ?thesis
      using g send_effect(2) [where st = ?s]
      by (auto simp: activationAttempt_def unlessSkipped_def andThen_def [of "readClock _"] readClock_def
          ret_def Let_def)
  qed
  have keep: "activationSent k c (st\<lparr>Ticks := n\<rparr>) = activationSent k c st"
    "activationTracked k c desired m g digest (st\<lparr>Ticks := n\<rparr>) \<longleftrightarrow> activationTracked k c desired m g digest st"
    for st n by (simp_all add: activationSent_def activationTracked_def)
  show "throttled_sender (activationSent k c) (activationAttempt outcome topic c msg desired m digest track)
      (activationTracked k c desired m g digest) (30 * second)"
  proof
    show "0 \<le> 30 * second" by (simp add: second_def)
  next
    fix st now st'
    assume ok: "activationTracked k c desired m g digest st"
      and acc: "activationAttempt outcome topic c msg desired m digest track now st = (True, st')"
      and sent: "0 < activationSent k c st"
    have "\<not> now < activationSent k c st + 30 * second"
      using skip_tracked(2) [of k c desired m g digest "st\<lparr>Ticks := Ticks st + 1\<rparr>" now] ok acc sent
      by (auto simp: att [OF ok] keep Let_def split: if_splits)
    then show "activationSent k c st + 30 * second \<le> now" by simp
  next
    fix st now st'
    assume ok: "activationTracked k c desired m g digest st"
      and acc: "activationAttempt outcome topic c msg desired m digest track now st = (True, st')"
    then show "activationSent k c st' = now"
      by (auto simp: att [OF ok] activationSent_def send_effect activationTracked_def Let_def split: if_splits)
  next
    fix st now st'
    assume ok: "activationTracked k c desired m g digest st"
      and acc: "activationAttempt outcome topic c msg desired m digest track now st = (False, st')"
    then show "activationSent k c st' = activationSent k c st"
      by (auto simp: att [OF ok] keep Let_def split: if_splits)
  qed
qed

fun activationRun ::
    "(nat \<Rightarrow> string option) \<Rightarrow> string \<Rightarrow> string \<Rightarrow> controlMessage \<Rightarrow> string \<Rightarrow> string \<Rightarrow> string \<Rightarrow> bool
       \<Rightarrow> (wasmFunction \<times> time) list \<Rightarrow> operatorState \<Rightarrow> time list" where
  "activationRun outcome topic c msg desired m digest track [] st = []"
| "activationRun outcome topic c msg desired m digest track ((w, now) # rest) st =
    (case activationAttempt outcome topic c msg desired m digest track now (st\<lparr>Wf := w\<rparr>) of
       (True, st') \<Rightarrow> now # activationRun outcome topic c msg desired m digest track rest st'
     | (False, st') \<Rightarrow> activationRun outcome topic c msg desired m digest track rest st')"

lemma activationRun_accepted:
  "activationRun outcome topic c msg desired m digest track obs st =
    activation_throttle.accepted outcome topic c msg desired m digest track
      (map (\<lambda>(w, now). (\<lambda>st. st\<lparr>Wf := w\<rparr>, now)) obs) st"
proof (induction obs arbitrary: st)
  case Nil
  then show ?case by simp
next
  case (Cons ob rest)
  obtain w now where ob: "ob = (w, now)" by (cases ob)
  obtain a st' where "activationAttempt outcome topic c msg desired m digest track now (st\<lparr>Wf := w\<rparr>) = (a, st')"
    by (cases "activationAttempt outcome topic c msg desired m digest track now (st\<lparr>Wf := w\<rparr>)")
  with Cons ob show ?case by (cases a) simp_all
qed

text \<open>C22: Activation is throttled while it is tracked.  Over any run of activation attempts for one
  command of one resource, each from its own reading of the resource, in which the device has not
  acknowledged and the status never shows the command id with another placement or runtime mode than the
  command's, the times at which the command is sent lie at least thirty seconds apart.\<close>

theorem activation_throttled:
  assumes "\<forall>(w, now) \<in> set obs. 0 < now \<and> key_of w = k \<and> R_Generation (release w) = g \<and>
      \<not> runsAlready w m g digest \<and>
      (LastCommandID (Status w) = c \<longrightarrow>
         LastCommandedPlacement (Status w) = desired \<and> LastCommandedRuntimeMode (Status w) = m)"
  shows "sorted_wrt (\<lambda>s t. s + 30 * second \<le> t)
    (activationRun outcome topic c msg desired m digest track obs st)"
  unfolding activationRun_accepted using assms
  by (intro activation_throttle.accepted_spaced [of _ k c desired m g digest])
    (auto simp: activation_throttle.harmless_def activationSent_def activationTracked_def)

definition unacknowledged :: wasmFunction where
  "unacknowledged = zeroWasmFunction\<lparr>Spec := zeroSpec\<lparr>Release := zeroRelease\<lparr>R_Generation := 3\<rparr>\<rparr>\<rparr>"

theorem activation_throttled_witness:
  "sorted_wrt (\<lambda>s t. s + 30 * second \<le> t)
    (activationRun (\<lambda>_. None) ''t'' (activateLocalID 3) (ActivateLocal (activateLocalID 3) 3)
       ''local'' ''local'' [] True [(unacknowledged, second), (unacknowledged, 2 * second)]
       (emptyOperator zeroWasmFunction))"
proof (rule activation_throttled [where k = "([], [])" and g = 3])
  have "\<not> runsAlready unacknowledged ''local'' 3 []" "LastCommandID (Status unacknowledged) \<noteq> activateLocalID 3"
    "key_of unacknowledged = ([], [])" "R_Generation (release unacknowledged) = 3"
    by (simp_all add: activateLocalID_def unacknowledged_def runsAlready_def zero_defs key_of_def)
  then show "\<forall>(w, now) \<in> set [(unacknowledged, second), (unacknowledged, 2 * second)]. 0 < now \<and>
      key_of w = ([], []) \<and> R_Generation (release w) = 3 \<and> \<not> runsAlready w ''local'' 3 [] \<and>
      (LastCommandID (Status w) = activateLocalID 3 \<longrightarrow>
         LastCommandedPlacement (Status w) = ''local'' \<and> LastCommandedRuntimeMode (Status w) = ''local'')"
    by (simp add: second_def)
qed

section \<open>The whole pass\<close>

lemma pass_events:
  obtains evs where "Events (snd (applyPlacement env d a st)) = Events st @ evs"
    "\<forall>(e, answer) \<in> set evs. justified (Wf st) d a e" "same_view (Wf st) (Wf (snd (applyPlacement env d a st)))"
    "(\<forall>x \<in> set evs. snd x = None) \<or>
     (\<exists>pre e err. evs = pre @ [(e, Some err)] \<and> (\<forall>x \<in> set pre. snd x = None) \<and>
        snd (fst (applyPlacement env d a st)) = Some err)"
proof (cases "ControlTopic (device (Wf st)) = []")
  case True
  then have "applyPlacement env d a st = ((False, None), st)"
    by (simp add: applyPlacement_def Let_def)
  then show ?thesis using that [of "[]"] by simp
next
  case False
  let ?topic = "ControlTopic (device (Wf st))"
  let ?pass = "andThen (andThen (beforeCommand env ?topic d a)
     (\<lambda>_. applyPlacementCommand env ?topic d a)) (afterCommand env ?topic d a)"
  obtain evs where "same_view (Wf st) (Wf (snd (?pass st)))" "Events (snd (?pass st)) = Events st @ evs"
    "\<forall>(e, answer) \<in> set evs. justified (Wf st) d a e" "stops evs (fst (?pass st))"
    using emits_pass [of "Wf st" d a env] same_view_refl [of "Wf st"] unfolding emits_def by blast
  with applyPlacement_steps [OF refl False, of env d a] show ?thesis
    by (intro that [of evs]) (auto simp: stops_def)
qed

text \<open>C4: A command pass makes only justified external calls.  Every message published and every
  host activation requested by a pass is one the resource, the decision and the artifact state
  justify: staging only of the declared release, only while the device does not hold it; local
  activation only when local is desired and the device holds the release and does not run it yet;
  edge mode only when a remote placement is desired, the device holds the release and the host
  holds it too; a pause only for a forced transition that is not admitted; a resume only after the
  device reported the desired runtime mode of the declared release.  Nothing but the fields of the
  command pass changes in the resource.\<close>

theorem commands_are_justified:
  "\<exists>evs. Events (snd (applyPlacement env d a st)) = Events st @ evs \<and>
     list_all (\<lambda>(e, answer). justified (Wf st) d a e) evs \<and>
     forget (Wf (snd (applyPlacement env d a st))) = forget (Wf st)"
proof -
  obtain evs where "Events (snd (applyPlacement env d a st)) = Events st @ evs"
    "\<forall>(e, answer) \<in> set evs. justified (Wf st) d a e" "same_view (Wf st) (Wf (snd (applyPlacement env d a st)))"
    by (rule pass_events)
  then show ?thesis by (intro exI [of _ evs]) (auto simp: list_all_iff same_view_def)
qed

text \<open>C27: A command pass stops at its first failing call.  Of the calls a pass makes, all succeed, or
  all but the last succeed, the last fails, and the pass returns exactly its error.\<close>

theorem pass_stops_at_failure:
  "\<exists>evs. Events (snd (applyPlacement env d a st)) = Events st @ evs \<and>
     (list_all (\<lambda>x. snd x = None) evs \<or>
      (\<exists>pre e err. evs = pre @ [(e, Some err)] \<and> list_all (\<lambda>x. snd x = None) pre \<and>
         snd (fst (applyPlacement env d a st)) = Some err))"
proof -
  obtain evs where "Events (snd (applyPlacement env d a st)) = Events st @ evs"
    "(\<forall>x \<in> set evs. snd x = None) \<or>
     (\<exists>pre e err. evs = pre @ [(e, Some err)] \<and> (\<forall>x \<in> set pre. snd x = None) \<and>
        snd (fst (applyPlacement env d a st)) = Some err)"
    by (rule pass_events)
  then show ?thesis by (simp add: list_all_iff)
qed

section \<open>The deadline signal\<close>

lemma signal_shape:
  assumes "deadlineRejected (Wf st) d" "LastSignaledDeadlineDecisionID (Status (Wf st)) \<noteq> deadlineDecisionID (Wf st) d"
  shows "Events (snd (applyDeadlineRejectionSignal env topic d st)) = Events st @
      [(Publish topic (SignalDeadlineRejection (deadlineDecisionID (Wf st) d) (FunctionIdentity (release (Wf st)))),
        Outcome env (length (Events st)))]"
    and "Outcome env (length (Events st)) = None \<Longrightarrow>
      LastSignaledDeadlineDecisionID (Status (Wf (snd (applyDeadlineRejectionSignal env topic d st))))
        = deadlineDecisionID (Wf st) d"
  using assms
  by (simp_all add: applyDeadlineRejectionSignal_def andThen_def publishControl_def call_def modify_def
      Let_def split: option.split)

lemma signal_silent:
  "LastSignaledDeadlineDecisionID (Status (Wf st)) = deadlineDecisionID (Wf st) d \<Longrightarrow>
     Events (snd (applyDeadlineRejectionSignal env topic d st)) = Events st"
  by (simp add: applyDeadlineRejectionSignal_def Let_def)

lemma unixNano_inject:
  "in_int64 (t - 62135596800 * second) \<Longrightarrow> in_int64 (u - 62135596800 * second) \<Longrightarrow>
     unixNano t = unixNano u \<Longrightarrow> t = u"
  by (simp add: unixNano_def wrap64_id)

lemma decisionID_observation:
  assumes "Spec w' = Spec w" "M_Generation w' = M_Generation w"
    and "LastTelemetryTime (Status w) = Some t" "LastTelemetryTime (Status w') = Some t'"
    and "deadlineDecisionID w' d = deadlineDecisionID w d"
  shows "unixNano t' = unixNano t"
  using assms by (simp add: deadlineDecisionID_def)

text \<open>A rejected transition is signalled exactly once per telemetry observation.  When the signal
  of a rejection reaches the broker, a second attempt on the resulting resource publishes nothing;
  once a telemetry observation with another time arrives (both times within the range of
  nanoseconds an int64 holds), the attempt publishes again, under a new decision id.\<close>

theorem rejection_signalled_once_per_observation:
  assumes "deadlineRejected (Wf st) d"
    and "LastSignaledDeadlineDecisionID (Status (Wf st)) \<noteq> deadlineDecisionID (Wf st) d"
    and "Outcome env (length (Events st)) = None"
    and "LastTelemetryTime (Status (Wf st)) = Some t"
    and "in_int64 (t - 62135596800 * second)" "in_int64 (t' - 62135596800 * second)" "t' \<noteq> t"
  shows "let st1 = snd (applyDeadlineRejectionSignal env topic d st);
             st2 = st1\<lparr>Wf := on_status (\<lambda>s. s\<lparr>LastTelemetryTime := Some t'\<rparr>) (Wf st1)\<rparr>
         in length (Events st1) = length (Events st) + 1 \<and>
            Events (snd (applyDeadlineRejectionSignal env topic d st1)) = Events st1 \<and>
            length (Events (snd (applyDeadlineRejectionSignal env topic d st2))) = length (Events st1) + 1"
proof -
  let ?st1 = "snd (applyDeadlineRejectionSignal env topic d st)"
  let ?st2 = "?st1\<lparr>Wf := on_status (\<lambda>s. s\<lparr>LastTelemetryTime := Some t'\<rparr>) (Wf ?st1)\<rparr>"
  have st1: "Wf ?st1 = on_status (\<lambda>s. s\<lparr>LastDeadlineDecisionID := deadlineDecisionID (Wf st) d,
      LastSignaledDeadlineDecisionID := deadlineDecisionID (Wf st) d\<rparr>) (Wf st)"
    using assms(1-3)
    by (simp add: applyDeadlineRejectionSignal_def andThen_def publishControl_def call_def modify_def Let_def)
  have id1: "deadlineDecisionID (Wf ?st1) d = deadlineDecisionID (Wf st) d"
    and r2: "deadlineRejected (Wf ?st2) d"
    using assms(1) by (simp_all add: st1 deadlineDecisionID_def deadlineRejected_def)
  have again: "Events (snd (applyDeadlineRejectionSignal env topic d ?st1)) = Events ?st1"
    by (rule signal_silent) (simp add: id1, simp add: st1)
  have "deadlineDecisionID (Wf ?st2) d \<noteq> deadlineDecisionID (Wf st) d"
    using decisionID_observation [of "Wf ?st2" "Wf st" t t' d] assms(4-7) unixNano_inject [of t' t]
    by (auto simp: st1)
  then have "Events (snd (applyDeadlineRejectionSignal env topic d ?st2)) = Events ?st2 @
      [(Publish topic (SignalDeadlineRejection (deadlineDecisionID (Wf ?st2) d)
         (FunctionIdentity (release (Wf ?st2)))), Outcome env (length (Events ?st2)))]"
    by (intro signal_shape r2) (simp add: st1)
  with again signal_shape(1) [OF assms(1,2), of env topic] show ?thesis
    by (simp add: Let_def)
qed

definition rejecting :: wasmFunction where
  "rejecting = zeroWasmFunction\<lparr>Status := zeroStatus\<lparr>LastTelemetryTime := Some (62135596800 * second),
     ArtifactReadinessReason := ''DestinationReady''\<rparr>\<rparr>"

definition rejectedDecision :: placementDecision where
  "rejectedDecision = (initialDecision rejecting)\<lparr>Transition := True, Candidate := ''edge'',
     PD_Deadline := zeroEvaluation\<lparr>E_Condition := Some (deadlineAdmissionCondition 0 ConditionFalse
       ''CandidateDeadlineUnsafe'' [])\<rparr>\<rparr>"

theorem rejection_signalled_once_per_observation_witness:
  "let env = \<lparr>Clock = (\<lambda>_. 0), Outcome = (\<lambda>_. None)\<rparr>;
       st1 = snd (applyDeadlineRejectionSignal env ''t'' rejectedDecision (emptyOperator rejecting));
       st2 = st1\<lparr>Wf := on_status (\<lambda>s. s\<lparr>LastTelemetryTime := Some (62135596801 * second)\<rparr>) (Wf st1)\<rparr>
   in length (Events st1) = 1 \<and>
      length (Events (snd (applyDeadlineRejectionSignal env ''t'' rejectedDecision st2))) = 2"
proof -
  let ?st = "emptyOperator rejecting" and ?env = "\<lparr>Clock = (\<lambda>_. 0), Outcome = (\<lambda>_. None)\<rparr>"
  have "deadlineRejected (Wf ?st) rejectedDecision"
    by (simp add: deadlineRejected_def rejectedDecision_def rejecting_def deadlineAdmissionCondition_def)
  moreover have "LastSignaledDeadlineDecisionID (Status (Wf ?st)) \<noteq> deadlineDecisionID (Wf ?st) rejectedDecision"
    by (simp add: rejecting_def zeroStatus_def deadlineDecisionID_def)
  moreover have "LastTelemetryTime (Status (Wf ?st)) = Some (62135596800 * second)"
    by (simp add: rejecting_def)
  ultimately show ?thesis
    using rejection_signalled_once_per_observation [of ?st rejectedDecision ?env "62135596800 * second"
        "62135596801 * second" "''t''"]
    by (simp add: Let_def in_int64_def second_def)
qed

end
