(* ===== verification/Command_Findings.thy ===== *)
theory Command_Findings
  imports Command_Safety Placement_Props
begin

text \<open>
  The order of host activation and edge mode, and two behaviours of the command pass that work
  against its purpose: a forced transition's pause is taken back while the transition is still
  pending, and an activation for a retained placement is repeated without throttling.
\<close>

section \<open>The host serves before the device is told\<close>

definition no_edge_mode :: "event \<Rightarrow> bool" where
  "no_edge_mode e \<longleftrightarrow> (case e of Publish _ (SetRuntimeMode _ _ _) \<Rightarrow> False | _ \<Rightarrow> True)"

lemma emits_sends:
  "emits w no_edge_mode (sendActivateLocalCommand env topic track)"
  "emits w (\<lambda>_. True) (sendRuntimeModeCommand env topic d track)"
  unfolding sendActivateLocalCommand_def sendRuntimeModeCommand_def Let_def
  by (rule emits_at, rule emits_chosen, rule refl, rule emits_activation, simp add: no_edge_mode_def)+

lemma ensure_staged:
  assumes "\<not> hostActiveMatches a (Wf st)" "hostStagedMatches a (Wf st)"
  shows "Events (snd (ensureHostActive env a st)) =
      Events st @ [(ActivateHost (R_Generation (release (Wf st))), Outcome env (length (Events st)))]"
    and "Outcome env (length (Events st)) = Some err \<Longrightarrow> fst (ensureHostActive env a st) = Inl err"
  using assms
  by (simp_all add: ensureHostActive_def activateHostRelease_def andThen_def call_def modify_def ret_def
      Let_def split: option.split)

lemma ensure_unready:
  "\<not> hostReady a (Wf st) \<Longrightarrow> andThen (ensureHostActive env a) k st = k None st"
  by (simp add: andThen_def ensureHostActive_def hostReady_def Let_def)

lemma edge_mode_order:
  assumes "Events (snd (applyPlacementCommand env topic d a st)) =
      Events st @ before @ (Publish t (SetRuntimeMode c v g), answer) # later"
  shows "hostActiveMatches a (Wf st) \<or> (ActivateHost (R_Generation (release (Wf st))), None) \<in> set before"
proof (rule ccontr)
  let ?g = "R_Generation (release (Wf st))" and ?w = "Wf st"
  let ?evs = "before @ (Publish t (SetRuntimeMode c v g), answer) # later"
  let ?track = "Transition d \<longrightarrow> Accepted (PD_Deadline d)"
  let ?k = "\<lambda>served. case served of None \<Rightarrow> ret False
    | Some a' \<Rightarrow> if \<not> hostActiveMatches a' ?w then ret False
        else unlessSkipped env (runtimeEdgeID ?g) (Desired d) placementEdge (DesiredDigest a)
          (sendRuntimeModeCommand env topic d ?track)"
  assume "\<not> ?thesis"
  then have inactive: "\<not> hostActiveMatches a ?w" and none: "(ActivateHost ?g, None) \<notin> set before"
    by simp_all
  have go: "A_Enabled a \<and> DesiredDigest a \<noteq> [] \<and> 0 < ?g \<and> deviceReleaseReady ?w (DesiredDigest a)"
  proof (rule ccontr)
    assume no: "\<not> ?thesis"
    then have "applyPlacementCommand env topic d a st = (Inr False, st)"
      by (cases "A_Enabled a \<and> DesiredDigest a \<noteq> [] \<and> 0 < ?g")
        (auto simp: applyPlacementCommand_def Let_def)
    with assms show False by simp
  qed
  have "Desired d \<noteq> placementLocal"
  proof
    assume "Desired d = placementLocal"
    then have "applyPlacementCommand env topic d a st =
      unlessSkipped env (activateLocalID ?g) (Desired d) placementLocal (DesiredDigest a)
        (sendActivateLocalCommand env topic ?track) st"
      using go by (simp add: applyPlacementCommand_def Let_def)
    moreover have "emits ?w no_edge_mode (unlessSkipped env (activateLocalID ?g) (Desired d) placementLocal
        (DesiredDigest a) (sendActivateLocalCommand env topic ?track))"
      by (intro emits_unlessSkipped emits_sends)
    ultimately obtain evs where "Events (snd (applyPlacementCommand env topic d a st)) = Events st @ evs"
      "\<forall>(e, answer) \<in> set evs. no_edge_mode e"
      unfolding emits_def by (metis same_view_refl)
    with assms show False by (auto simp: no_edge_mode_def)
  qed
  with go have cmd: "applyPlacementCommand env topic d a st = andThen (ensureHostActive env a) ?k st"
    by (simp add: applyPlacementCommand_def Let_def cong: if_cong)
  have staged: "hostStagedMatches a ?w"
    by (rule ccontr) (use assms inactive in \<open>simp add: cmd ensure_unready hostReady_def ret_def\<close>)
  show False
  proof (cases "fst (ensureHostActive env a st)")
    case (Inl err)
    then have "?evs = [(ActivateHost ?g, Outcome env (length (Events st)))]"
      using assms ensure_staged(1) [OF inactive staged, of env]
      by (simp add: cmd andThen_def split: prod.splits)
    then show False by (cases before) auto
  next
    case (Inr served)
    let ?st1 = "snd (ensureHostActive env a st)"
    have ok: "Outcome env (length (Events st)) = None"
      using Inr ensure_staged(2) [OF inactive staged, of env] by (cases "Outcome env (length (Events st))") auto
    have "emits (Wf ?st1) (\<lambda>_. True) (?k served)"
      by (auto intro!: emits_unlessSkipped emits_sends emits_ret split: option.split)
    then obtain evs where "Events (snd (?k served ?st1)) = Events ?st1 @ evs"
      unfolding emits_def by (metis same_view_refl)
    then have "?evs = (ActivateHost ?g, None) # evs"
      using assms Inr ok ensure_staged(1) [OF inactive staged, of env]
      by (simp add: cmd andThen_def split: prod.splits)
    with none show False by (cases before) auto
  qed
qed

text \<open>The device is put into edge mode only after the host serves the release.  If a placement
  command publishes the edge runtime mode, then the host's active slot already held the declared
  release, or a host activation of that release succeeded earlier in the same command.\<close>

theorem edge_mode_after_host:
  assumes "Events (snd (applyPlacementCommand env topic d a st)) =
      Events st @ before @ (Publish t (SetRuntimeMode c v g), answer) # later"
  shows "hostActiveMatches a (Wf st) \<or> (ActivateHost (R_Generation (release (Wf st))), None) \<in> set before"
  by (rule edge_mode_order [OF assms])

text \<open>Release 6 staged on the device and on the host, edge desired.\<close>

definition sampleStaged :: artifactDecision where
  "sampleStaged = zeroArtifact\<lparr>A_Enabled := True, DesiredDigest := sampleDigest,
     HostStagedDigest := sampleDigest, HostStagedGeneration := 6\<rparr>"

theorem edge_mode_after_host_witness:
  "(ActivateHost 6, None) \<in> set [(ActivateHost 6, None :: string option)] \<and>
   Events (snd (applyPlacementCommand \<lparr>Clock = (\<lambda>_. 1), Outcome = (\<lambda>_. None)\<rparr> ''device/control''
      ((initialDecision sampleReady)\<lparr>Desired := ''edge''\<rparr>) sampleStaged (emptyOperator sampleReady)))
    = [(ActivateHost 6, None),
       (Publish ''device/control'' (SetRuntimeMode (runtimeEdgeID 6) ''edge'' 6), None)]"
proof -
  let ?env = "\<lparr>Clock = (\<lambda>_. 1), Outcome = (\<lambda>_. None)\<rparr> :: environment"
  let ?d = "(initialDecision sampleReady)\<lparr>Desired := ''edge''\<rparr>"
  have g: "R_Generation (release sampleReady) = 6" and key: "key_of sampleReady = ([], [])"
    by (simp_all add: sampleReady_def zero_defs key_of_def)
  have "\<not> hostActiveMatches sampleStaged sampleReady" "hostStagedMatches sampleStaged sampleReady"
    "deviceReleaseReady sampleReady (DesiredDigest sampleStaged)"
    "\<not> runsAlready sampleReady ''edge'' 6 (DesiredDigest sampleStaged)"
    by (simp_all add: hostActiveMatches_def hostStagedMatches_def hostReleaseMatches_def sampleStaged_def
        sampleReady_def zero_defs zeroArtifact_def deviceReleaseReady_def deviceReleaseStaged_def
        runsAlready_def)
  moreover have "A_Enabled sampleStaged" "DesiredDigest sampleStaged \<noteq> []"
    using is_digest_not_Nil [OF sampleDigest] by (simp_all add: sampleStaged_def)
  moreover have "hostActiveMatches (sampleStaged\<lparr>HostDigest := DesiredDigest sampleStaged,
      HostActiveGeneration := 6, HostActiveFunction := FunctionIdentity (release sampleReady),
      HostStagedDigest := [], HostStagedGeneration := 0, HostStagedFunction := []\<rparr>) sampleReady"
    by (simp add: hostActiveMatches_def hostReleaseMatches_def sampleStaged_def sampleReady_def zero_defs)
  moreover have "LastCommandID (Status sampleReady) \<noteq> runtimeEdgeID 6"
    by (simp add: sampleReady_def zero_defs runtimeEdgeID_def)
  ultimately have run: "Events (snd (applyPlacementCommand ?env ''device/control'' ?d sampleStaged
      (emptyOperator sampleReady))) = [(ActivateHost 6, None),
       (Publish ''device/control'' (SetRuntimeMode (runtimeEdgeID 6) ''edge'' 6), None)]"
    by (simp add: applyPlacementCommand_def ensureHostActive_def activateHostRelease_def call_def andThen_def
        modify_def ret_def unlessSkipped_def readClock_def shouldSkipPlacementCommand_def
        sendRuntimeModeCommand_def sendActivation_def publishControl_def rememberReleaseActivationSend_def
        Let_def g runsAlready_def)
      (simp add: emptyOperator_def)
  have "(ActivateHost 6, None) \<in> set [(ActivateHost 6, None :: string option)]"
    using edge_mode_after_host [of ?env "''device/control''" ?d sampleStaged "emptyOperator sampleReady"
        "[(ActivateHost 6, None)]" "''device/control''" "runtimeEdgeID 6" "''edge''" 6 None "[]"]
      run \<open>\<not> hostActiveMatches sampleStaged sampleReady\<close> by (simp add: g)
  with run show ?thesis by simp
qed

section \<open>Successful steps\<close>

text \<open>
  A step that succeeds from the view of \<open>w\<close> and leaves the last command id alone.
\<close>

definition benign :: "wasmFunction \<Rightarrow> 'a step \<Rightarrow> bool" where
  "benign w f \<longleftrightarrow> (\<forall>st :: operatorState. same_view w (Wf st) \<longrightarrow> (\<exists>b st'. f st = (Inr b, st') \<and>
     same_view w (Wf st') \<and> LastCommandID (Status (Wf st')) = LastCommandID (Status (Wf st))))"

lemma benignI:
  assumes "emits w P f"
    and "\<And>st :: operatorState. same_view w (Wf st) \<Longrightarrow> \<not> isl (fst (f st)) \<and>
      LastCommandID (Status (Wf (snd (f st)))) = LastCommandID (Status (Wf st))"
  shows "benign w f"
  unfolding benign_def
proof (intro allI impI)
  fix st :: operatorState assume v: "same_view w (Wf st)"
  have "same_view w (Wf (snd (f st)))" using assms(1) v by (simp add: emits_def)
  with assms(2) [OF v] show "\<exists>b st'. f st = (Inr b, st') \<and> same_view w (Wf st') \<and>
      LastCommandID (Status (Wf st')) = LastCommandID (Status (Wf st))"
    by (cases "f st"; cases "fst (f st)") auto
qed

lemma benign_andThen:
  assumes "benign w f" "\<And>a. benign w (g a)"
  shows "benign w (andThen f g)"
  unfolding benign_def
proof (intro allI impI)
  fix st :: operatorState assume "same_view w (Wf st)"
  then obtain x st1 where f: "f st = (Inr x, st1)" "same_view w (Wf st1)"
    "LastCommandID (Status (Wf st1)) = LastCommandID (Status (Wf st))"
    using assms(1) unfolding benign_def by blast
  from assms(2) [of x] f(2) obtain y st2 where "g x st1 = (Inr y, st2)" "same_view w (Wf st2)"
    "LastCommandID (Status (Wf st2)) = LastCommandID (Status (Wf st1))"
    unfolding benign_def by blast
  with f show "\<exists>b st'. andThen f g st = (Inr b, st') \<and> same_view w (Wf st') \<and>
      LastCommandID (Status (Wf st')) = LastCommandID (Status (Wf st))"
    by (intro exI [of _ y] exI [of _ st2]) (simp add: andThen_def)
qed

lemma benign_ret: "benign w (ret a)"
  by (simp add: benign_def ret_def)

lemma claim_command:
  "LastCommandID (Status (Wf (snd (claimReleaseStageAttempt c now st)))) = LastCommandID (Status (Wf st))"
  by (simp add: claimReleaseStageAttempt_def Let_def split: prod.split)

lemma benign_at:
  "(\<And>st :: operatorState. same_view w (Wf st) \<Longrightarrow> \<exists>f'. f st = f' st \<and> benign w f') \<Longrightarrow> benign w f"
  unfolding benign_def by metis

lemma benign_chosen: "f st = f' st \<Longrightarrow> benign w f' \<Longrightarrow> \<exists>f'. f st = f' st \<and> benign w f'"
  by blast

lemma benign_if: "(b \<Longrightarrow> benign w f) \<Longrightarrow> (\<not> b \<Longrightarrow> benign w g) \<Longrightarrow> benign w (if b then f else g)"
  by simp

lemma benign_clock: "benign w (readClock env)"
  by (simp add: benign_def readClock_def)

lemma benign_publish: "Outcome env = (\<lambda>_. None) \<Longrightarrow> benign w (publishControl env topic m)"
  by (simp add: benign_def publishControl_def call_def)

lemma benign_claimed:
  assumes "\<And>b. benign w (k b)"
  shows "benign w (\<lambda>s. case claimReleaseStageAttempt c now s of (b, s') \<Rightarrow> k b s')"
  unfolding benign_def
proof (intro allI impI)
  fix st :: operatorState assume v: "same_view w (Wf st)"
  obtain b st1 where c: "claimReleaseStageAttempt c now st = (b, st1)"
    by (cases "claimReleaseStageAttempt c now st")
  have v1: "same_view w (Wf st1)"
    using quiet_claim [of w c now] v c unfolding quiet_def by (metis snd_conv)
  have id1: "LastCommandID (Status (Wf st1)) = LastCommandID (Status (Wf st))"
    using claim_command [of c now st] c by simp
  from assms [of b] v1 obtain b' st' where "k b st1 = (Inr b', st')" "same_view w (Wf st')"
    "LastCommandID (Status (Wf st')) = LastCommandID (Status (Wf st1))"
    unfolding benign_def by blast
  with c id1 show "\<exists>b' st'. (case claimReleaseStageAttempt c now st of (b, s') \<Rightarrow> k b s') = (Inr b', st') \<and>
      same_view w (Wf st') \<and> LastCommandID (Status (Wf st')) = LastCommandID (Status (Wf st))"
    by (intro exI [of _ b'] exI [of _ st']) simp
qed

lemma benign_stage:
  assumes "Outcome env = (\<lambda>_. None)" "A_Enabled a \<Longrightarrow> deviceArtifactURL w \<noteq> []"
  shows "benign w (applyReleaseStage env (ControlTopic (device w)) a)"
proof (rule benign_at)
  fix st :: operatorState assume v: "same_view w (Wf st)"
  have send: "benign w (stageSend env w a)"
    unfolding stageSend_def by (intro benign_andThen benign_publish benign_ret assms)
  have forget: "benign w (\<lambda>s. (Inr False, (setStatus (\<lambda>s. s\<lparr>StageCommandAttempts := 0\<rparr>) s)
      \<lparr>StageSends := (StageSends s)(key_of w := None)\<rparr>))"
    unfolding benign_def by (intro allI impI exI conjI, rule refl)
      (simp_all add: same_view_status forget_status_def)
  have "benign w (case b of None \<Rightarrow> ret False | Some _ \<Rightarrow> stageSend env w a)" for b :: "int32 option"
    using send by (simp add: benign_ret split: option.split)
  with stage_eq [OF v] show "\<exists>f'. applyReleaseStage env (ControlTopic (device w)) a st = f' st \<and> benign w f'"
    by (intro benign_chosen) (auto intro!: benign_if benign_ret benign_andThen benign_clock benign_claimed
        forget simp: assms(2))
qed

lemma benign_simulation:
  assumes "Outcome env = (\<lambda>_. None)"
  shows "benign w (applyBatterySimulationUpdate env (ControlTopic (device w)))"
proof (rule benignI [OF emits_simulation [of w undefined undefined env]])
  fix st :: operatorState assume v: "same_view w (Wf st)"
  let ?r = "applyBatterySimulationUpdate env (ControlTopic (device w)) st"
  show "\<not> isl (fst ?r) \<and> LastCommandID (Status (Wf (snd ?r))) = LastCommandID (Status (Wf st))"
    using assms by (simp add: applyBatterySimulationUpdate_def andThen_def readClock_def modify_def
        publishControl_def call_def ret_def Let_def split: option.split)
qed

lemma benign_thresholds:
  assumes "Outcome env = (\<lambda>_. None)"
  shows "benign w (applyThresholdUpdate env (ControlTopic (device w)) d)"
proof (rule benignI [OF emits_thresholds [of w d undefined env]])
  fix st :: operatorState assume v: "same_view w (Wf st)"
  let ?r = "applyThresholdUpdate env (ControlTopic (device w)) d st"
  show "\<not> isl (fst ?r) \<and> LastCommandID (Status (Wf (snd ?r))) = LastCommandID (Status (Wf st))"
    using assms by (simp add: applyThresholdUpdate_def andThen_def modify_def publishControl_def call_def
        ret_def Let_def)
qed

lemma benign_rejection:
  assumes "Outcome env = (\<lambda>_. None)"
  shows "benign w (applyDeadlineRejectionSignal env (ControlTopic (device w)) d)"
proof (rule benignI [OF emits_rejection [of w d undefined env]])
  fix st :: operatorState assume v: "same_view w (Wf st)"
  let ?r = "applyDeadlineRejectionSignal env (ControlTopic (device w)) d st"
  show "\<not> isl (fst ?r) \<and> LastCommandID (Status (Wf (snd ?r))) = LastCommandID (Status (Wf st))"
    using assms by (simp add: applyDeadlineRejectionSignal_def andThen_def modify_def publishControl_def
        call_def Let_def)
qed

lemma benign_paused:
  assumes "ObservedAdmissionPaused (Status w)"
  shows "benign w (applyPauseCommand env topic)"
  using assms by (auto simp: benign_def applyPauseCommand_def Let_def same_viewD)

lemma benign_before:
  assumes "Outcome env = (\<lambda>_. None)" "A_Enabled a \<Longrightarrow> deviceArtifactURL w \<noteq> []"
    and "ObservedAdmissionPaused (Status w)"
  shows "benign w (beforeCommand env (ControlTopic (device w)) d a)"
  unfolding beforeCommand_def using assms
  by (intro benign_andThen benign_stage benign_simulation benign_thresholds benign_rejection)
    (auto intro: benign_paused benign_ret)

text \<open>A local command to a device that already runs the release locally does nothing.\<close>

lemma command_silent:
  assumes "Desired d = placementLocal" "same_view w (Wf st)"
    and "runsAlready w placementLocal (R_Generation (release w)) (DesiredDigest a)"
  shows "\<exists>st'. applyPlacementCommand env topic d a st = (Inr False, st') \<and> Wf st' = Wf st \<and>
    Events st' = Events st"
  using assms same_viewD [OF assms(2)]
  by (auto simp: applyPlacementCommand_def unlessSkipped_def andThen_def readClock_def
      shouldSkipPlacementCommand_def ret_def Let_def)

section \<open>The pause that is taken back\<close>

lemma resume_event:
  assumes "ObservedAdmissionPaused (Status (Wf st))"
    and "runsAlready (Wf st) (runtimeModeForPlacement (Desired d)) (R_Generation (release (Wf st))) (DesiredDigest a)"
    and "LastCommandID (Status (Wf st)) \<noteq> resumeID (R_Generation (release (Wf st)))"
    and "Outcome env = (\<lambda>_. None)"
  shows "Events (snd (applyResumeCommand env topic d a st)) = Events st @
    [(Publish topic (ResumeFunction (resumeID (R_Generation (release (Wf st)))) (R_Generation (release (Wf st)))), None)]"
  using assms
  by (auto simp: applyResumeCommand_def runsAlready_def commandAwaitingNewTelemetry_def andThen_def
      publishControl_def call_def rememberCommand_def readClock_def modify_def Let_def)

lemma pending_pause_decision:
  assumes "ControlTopic (device (Wf st)) \<noteq> []" "Outcome env = (\<lambda>_. None)"
    and "A_Enabled a \<Longrightarrow> deviceArtifactURL (Wf st) \<noteq> []"
    and "Hard d" "Transition d" "\<not> Accepted (PD_Deadline d)" "Desired d = placementLocal"
    and "ObservedAdmissionPaused (Status (Wf st))"
    and "runsAlready (Wf st) placementLocal (R_Generation (release (Wf st))) (DesiredDigest a)"
    and "LastCommandID (Status (Wf st)) = pauseID (R_Generation (release (Wf st)))"
  shows "\<exists>t c g. (Publish t (ResumeFunction c g), None) \<in> set (Events (snd (applyPlacement env d a st)))"
proof -
  let ?w = "Wf st" and ?topic = "ControlTopic (device (Wf st))"
  let ?g = "R_Generation (release (Wf st))"
  obtain b st1 where before: "beforeCommand env ?topic d a st = (Inr b, st1)" "same_view ?w (Wf st1)"
    "LastCommandID (Status (Wf st1)) = LastCommandID (Status ?w)"
    using benign_before [OF assms(2,3,8), where d = d] same_view_refl [of ?w] unfolding benign_def by blast
  obtain st2 where cmd: "applyPlacementCommand env ?topic d a st1 = (Inr False, st2)"
    "Wf st2 = Wf st1" "Events st2 = Events st1"
    using command_silent [OF assms(7) before(2) assms(9)] by blast
  note view = same_viewD [OF before(2)]
  have ev: "Events (snd (applyResumeCommand env ?topic d a st2)) = Events st2 @
      [(Publish ?topic (ResumeFunction (resumeID ?g) ?g), None)]"
    using resume_event [where st = st2 and d = d and a = a and env = env and topic = ?topic] assms(2,7-10) before(3)
    by (simp add: cmd(2) view runtimeModeForPlacement_def)
  have "snd (applyPlacement env d a st) = snd (applyResumeCommand env ?topic d a st2)"
    using applyPlacement_steps [OF refl assms(1), where env = env and d = d and a = a] before(1) cmd(1)
    by (simp add: andThen_def afterCommand_def ret_def)
  with ev show ?thesis by auto
qed

lemma low_battery_pending:
  assumes "ControlTopic (device w) \<noteq> []" "low_guard w" "\<not> (hostReady a w \<and> av)"
  shows "Hard (gated_decision now w e a av)" "Transition (gated_decision now w e a av)"
    and "\<not> Accepted (PD_Deadline (gated_decision now w e a av))"
    and "Desired (gated_decision now w e a av) = placementLocal"
proof -
  let ?d = "resolvePlacementWithEstimates now w e"
  have p: "proposer_of w = LowBattery" and cur: "currentPlacement w = placementLocal"
    using assms(2) by (simp_all add: proposer_of_def low_guard_def)
  then have cand: "candidate_of w = placementEdge \<or> candidate_of w = placementHybrid"
    by (simp add: candidate_of_def applyResourceLocality_def)
  then have remote: "candidate_of w \<noteq> placementLocal" "valid_placement (candidate_of w)"
    by (auto simp: valid_placement_def)
  then show "Hard (gated_decision now w e a av)" "Transition (gated_decision now w e a av)"
    using assms(1) p cur by (simp_all add: gated_enabled)
  have unready: "\<not> destination_ready w (candidate_of w) a av"
    using remote(1) assms(3) by (simp add: destination_ready_def)
  show "Desired (gated_decision now w e a av) = placementLocal"
    using assms(1) unready cur by (simp add: gated_Desired)
  show "\<not> Accepted (PD_Deadline (gated_decision now w e a av))"
    unfolding gated_decision_def using assms(1) remote unready cur
    by (intro readiness_blocks(2)) (simp_all add: resolve_enabled)
qed

text \<open>A forced transition's pause is taken back while the transition is still pending.  Take a
  resource whose battery is at or below the low threshold in local placement while the remote
  destination is not ready, so that the decision forces a transition it cannot make, and whose
  device has acknowledged the pause and runs the declared release locally.  When every call
  succeeds, the next command pass publishes a resume of function admission, although the transition
  it was paused for has not happened.\<close>

theorem pending_pause_is_resumed:
  assumes "ControlTopic (device (Wf st)) \<noteq> []" "Outcome env = (\<lambda>_. None)"
    and "A_Enabled a \<Longrightarrow> deviceArtifactURL (Wf st) \<noteq> []"
    and "low_guard (Wf st)" "\<not> (hostReady a (Wf st) \<and> available)"
    and "ObservedAdmissionPaused (Status (Wf st))"
    and "runsAlready (Wf st) placementLocal (R_Generation (release (Wf st))) (DesiredDigest a)"
    and "LastCommandID (Status (Wf st)) = pauseID (R_Generation (release (Wf st)))"
  shows "\<exists>t c g. (Publish t (ResumeFunction c g), None) \<in>
    set (Events (snd (applyPlacement env (gated_decision now (Wf st) e a available) a st)))"
  using assms low_battery_pending [OF assms(1,4,5), of now e]
  by (intro pending_pause_decision) simp_all

text \<open>The sample release 6, paused and running locally on low battery; no host holds it.\<close>

definition samplePaused :: wasmFunction where
  "samplePaused = zeroWasmFunction\<lparr>
     Spec := zeroSpec\<lparr>Device := zeroDevice\<lparr>ControlTopic := ''device/control'', D_ArtifactURL := ''http://a''\<rparr>,
       Release := zeroRelease\<lparr>R_Generation := 6, R_ArtifactDigest := sampleDigest\<rparr>\<rparr>,
     Status := zeroStatus\<lparr>ObservedBatteryPercent := Some 10, ObservedMode := ''local'',
       ObservedAdmissionPaused := True, AcknowledgedReleaseGeneration := 6,
       ObservedArtifactDigest := sampleDigest, LastCommandID := pauseID 6\<rparr>\<rparr>"

theorem pending_pause_is_resumed_witness:
  "\<exists>t c g. (Publish t (ResumeFunction c g), None) \<in>
    set (Events (snd (applyPlacement \<lparr>Clock = (\<lambda>_. 1), Outcome = (\<lambda>_. None)\<rparr>
      (gated_decision 0 samplePaused sampleEstimates (sampleArtifact\<lparr>HostActiveGeneration := 5\<rparr>) True)
      (sampleArtifact\<lparr>HostActiveGeneration := 5\<rparr>) (emptyOperator samplePaused))))"
proof -
  let ?a = "sampleArtifact\<lparr>HostActiveGeneration := 5\<rparr>" and ?st = "emptyOperator samplePaused"
  let ?env = "\<lparr>Clock = (\<lambda>_. 1), Outcome = (\<lambda>_. None)\<rparr>"
  have "trimSpace ''http://a'' = ''http://a''"
    by (rule trimSpace_plain) (simp add: plain_char_def)
  then have url: "deviceArtifactURL samplePaused \<noteq> []"
    by (simp add: deviceArtifactURL_def samplePaused_def zero_defs)
  have low: "low_guard samplePaused"
    by (simp add: samplePaused_def zero_defs low_guard_def currentPlacement_def
        effectiveBatteryThresholdEnabled_def batteryPercentForPlacement_def resolvedLowThreshold_def
        defaultLowBatteryThreshold_def equalFold_def toLower_def lower_char_def)
  have host: "\<not> (hostReady ?a samplePaused \<and> True)"
    by (simp add: hostReady_def hostActiveMatches_def hostStagedMatches_def hostReleaseMatches_def
        samplePaused_def sampleArtifact_def zeroArtifact_def)
  have runs: "runsAlready samplePaused placementLocal (R_Generation (release samplePaused)) (DesiredDigest ?a)"
    by (simp add: runsAlready_def samplePaused_def sampleArtifact_def)
  have "LastCommandID (Status samplePaused) = pauseID (R_Generation (release samplePaused))"
    by (simp add: samplePaused_def)
  then show ?thesis
    using pending_pause_is_resumed [of ?st ?env ?a True 0 sampleEstimates] url low host runs
    by (simp add: samplePaused_def)
qed

section \<open>Untracked activation\<close>

text \<open>
  The state in which a retained local placement is commanded for a transition that is not admitted:
  the command id is recorded, the placement is not.
\<close>

definition untracked :: "placementDecision \<Rightarrow> artifactDecision \<Rightarrow> wasmFunction \<Rightarrow> bool" where
  "untracked d a w \<longleftrightarrow>
     A_Enabled a \<and> DesiredDigest a \<noteq> [] \<and> 0 < R_Generation (release w) \<and>
     deviceReleaseReady w (DesiredDigest a) \<and> Desired d = placementLocal \<and>
     Transition d \<and> \<not> Accepted (PD_Deadline d) \<and>
     \<not> runsAlready w placementLocal (R_Generation (release w)) (DesiredDigest a) \<and>
     LastCommandedPlacement (Status w) \<noteq> placementLocal \<and>
     LastCommandID (Status w) = activateLocalID (R_Generation (release w))"

lemma untracked_again:
  assumes "untracked d a (Wf st)" "Outcome env = (\<lambda>_. None)"
  shows "Events (snd (applyPlacementCommand env topic d a st)) = Events st @
      [(Publish topic (ActivateLocal (activateLocalID (R_Generation (release (Wf st))))
          (R_Generation (release (Wf st)))), None)]"
    and "Wf (snd (applyPlacementCommand env topic d a st)) = Wf st"
  using assms
  by (auto simp: untracked_def applyPlacementCommand_def unlessSkipped_def andThen_def readClock_def
      shouldSkipPlacementCommand_def sendActivateLocalCommand_def sendActivation_def modify_def
      publishControl_def call_def ret_def rememberReleaseActivationSend_def Let_def)

text \<open>An activation for a retained placement is not throttled.  While a transition away from
  local is proposed but not admitted, the device holds but does not yet run the release, and local
  was never commanded with tracking, every placement command publishes the activation again: any
  number of passes publishes that number of activations, whatever the clock says.\<close>

theorem untracked_activation_unthrottled:
  assumes "untracked d a (Wf st)" "Outcome env = (\<lambda>_. None)"
  shows "Events (((\<lambda>s. snd (applyPlacementCommand env topic d a s)) ^^ n) st) = Events st @
    replicate n (Publish topic (ActivateLocal (activateLocalID (R_Generation (release (Wf st))))
      (R_Generation (release (Wf st)))), None)"
proof -
  let ?f = "\<lambda>s. snd (applyPlacementCommand env topic d a s)"
  have "Wf ((?f ^^ n) st) = Wf st \<and> Events ((?f ^^ n) st) = Events st @
    replicate n (Publish topic (ActivateLocal (activateLocalID (R_Generation (release (Wf st))))
      (R_Generation (release (Wf st)))), None)"
  proof (induction n)
    case 0
    then show ?case by simp
  next
    case (Suc n)
    have "untracked d a (Wf ((?f ^^ n) st))" using Suc assms(1) by simp
    from untracked_again [OF this assms(2), of topic] Suc show ?case
      by (simp add: replicate_append_same)
  qed
  then show ?thesis by simp
qed

text \<open>A fresh resource on low battery whose device has staged release 6; no host holds it.\<close>

definition sampleFresh :: wasmFunction where
  "sampleFresh = on_status (\<lambda>s. s\<lparr>LastCommandID := activateLocalID 6\<rparr>) sampleReady"

theorem untracked_activation_unthrottled_witness:
  "length (Events (((\<lambda>s. snd (applyPlacementCommand \<lparr>Clock = (\<lambda>_. 1), Outcome = (\<lambda>_. None)\<rparr> ''t''
     (gated_decision 0 sampleFresh sampleEstimates (sampleArtifact\<lparr>HostActiveGeneration := 5\<rparr>) True)
     (sampleArtifact\<lparr>HostActiveGeneration := 5\<rparr>) s)) ^^ 100) (emptyOperator sampleFresh))) = 100"
proof -
  let ?a = "sampleArtifact\<lparr>HostActiveGeneration := 5\<rparr>"
  let ?d = "gated_decision 0 sampleFresh sampleEstimates ?a True"
  have topic: "ControlTopic (device sampleFresh) \<noteq> []"
    by (simp add: sampleFresh_def sampleReady_def)
  have low: "low_guard sampleFresh"
    by (simp add: sampleFresh_def sampleReady_def zero_defs low_guard_def currentPlacement_def
        effectiveBatteryThresholdEnabled_def batteryPercentForPlacement_def resolvedLowThreshold_def
        defaultLowBatteryThreshold_def equalFold_def toLower_def lower_char_def)
  have host: "\<not> (hostReady ?a sampleFresh \<and> True)"
    by (simp add: hostReady_def hostActiveMatches_def hostStagedMatches_def hostReleaseMatches_def
        sampleFresh_def sampleReady_def sampleArtifact_def zeroArtifact_def)
  have "untracked ?d ?a sampleFresh"
    using low_battery_pending [OF topic low host, of 0 sampleEstimates]
      is_digest_not_Nil [OF sampleDigest]
    by (simp add: untracked_def sampleFresh_def sampleReady_def sampleArtifact_def zero_defs
        deviceReleaseReady_def deviceReleaseStaged_def runsAlready_def)
  then show ?thesis
    using untracked_activation_unthrottled [of ?d ?a "emptyOperator sampleFresh"
        "\<lparr>Clock = (\<lambda>_. 1), Outcome = (\<lambda>_. None)\<rparr>" 100 "''t''"]
    by simp
qed

end
