(* ===== verification/Telemetry.thy ===== *)
theory Telemetry
  imports Drain "HOL-Library.List_Lexorder" "HOL-Library.Char_ord"
begin

text \<open>
  The telemetry side of the operator (\<open>mqtt_telemetry.go\<close>): normalising a payload, and writing it
  to the status of every resource whose device reports on the topic, together with the drain tracker
  and the deadline estimator.
\<close>

section \<open>Normalisation\<close>

definition clampNonNegativeInt32 :: "int32 option \<Rightarrow> int32 option" where
  "clampNonNegativeInt32 v = (case v of None \<Rightarrow> None | Some x \<Rightarrow> if x \<ge> 0 then Some x else Some 0)"

definition clampBattery :: "int32 \<Rightarrow> int32" where
  "clampBattery b =
    (let b1 = (if b < 0 then 0 else b)
     in if b1 > 100 then 100 else b1)"

text \<open>
  The part of \<open>applyBatteryTelemetry\<close> before the resources: a decoded payload becomes its normal form
  and the battery level, or an error.
\<close>

definition normalizeTelemetry :: "batteryTelemetry \<Rightarrow> string + batteryTelemetry \<times> int32" where
  "normalizeTelemetry t =
    (case T_BatteryPercent t of
       None \<Rightarrow> Inl ''telemetry payload missing batteryPercent''
     | Some b \<Rightarrow> Inr (t\<lparr>T_Mode := toLower (trimSpace (T_Mode t)),
         T_Source := toLower (trimSpace (T_Source t)),
         T_Function := trimSpace (T_Function t),
         T_ArtifactDigest := normalizeArtifactDigest (T_ArtifactDigest t),
         T_StagedArtifactDigest := map_option normalizeArtifactDigest (T_StagedArtifactDigest t),
         T_VoltageMV := clampNonNegativeInt32 (T_VoltageMV t),
         T_ExecutionMs := clampNonNegativeInt32 (T_ExecutionMs t),
         T_QueueDelayMs := clampNonNegativeInt32 (T_QueueDelayMs t),
         T_ResourceWakeMs := clampNonNegativeInt32 (T_ResourceWakeMs t),
         T_ResourceCollectionMs := clampNonNegativeInt32 (T_ResourceCollectionMs t),
         T_NetworkRoundTripMs := clampNonNegativeInt32 (T_NetworkRoundTripMs t),
         T_EdgeExecutionMs := clampNonNegativeInt32 (T_EdgeExecutionMs t),
         T_OutputApplicationMs := clampNonNegativeInt32 (T_OutputApplicationMs t)\<rparr>, clampBattery b))"

section \<open>The status fields\<close>

text \<open>
  One conditional assignment of \<open>updateObservedTelemetry\<close>: its condition, whether it is reportable,
  and the assignment.
\<close>

type_synonym fieldUpdate =
  "(wasmFunctionStatus \<Rightarrow> bool) \<times> bool \<times> (wasmFunctionStatus \<Rightarrow> wasmFunctionStatus)"

definition applyField :: "fieldUpdate \<Rightarrow> wasmFunction \<times> telemetryUpdateResult
    \<Rightarrow> wasmFunction \<times> telemetryUpdateResult" where
  "applyField u wr = (case (u, wr) of ((changed, reportable, f), (w, r)) \<Rightarrow>
     if changed (Status w) then
       (on_status f w, r\<lparr>statusChanged := True, reportableInfo := reportable \<or> reportableInfo r\<rparr>)
     else (w, r))"

definition fieldUpdates :: "batteryTelemetry \<Rightarrow> int32 \<Rightarrow> fieldUpdate list" where
  "fieldUpdates t battery =
    [(\<lambda>s. ObservedBatteryPercent s \<noteq> Some battery, False,
        \<lambda>s. s\<lparr>ObservedBatteryPercent := Some battery\<rparr>),
     (\<lambda>s. T_Mode t \<noteq> [] \<and> ObservedMode s \<noteq> T_Mode t, True, \<lambda>s. s\<lparr>ObservedMode := T_Mode t\<rparr>),
     (\<lambda>s. T_AdmissionPaused t \<noteq> None \<and> ObservedAdmissionPaused s \<noteq> the (T_AdmissionPaused t), True,
        \<lambda>s. s\<lparr>ObservedAdmissionPaused := the (T_AdmissionPaused t)\<rparr>),
     (\<lambda>s. T_Source t \<noteq> [] \<and> ObservedBatterySource s \<noteq> T_Source t, True,
        \<lambda>s. s\<lparr>ObservedBatterySource := T_Source t\<rparr>),
     (\<lambda>s. T_VoltageMV t \<noteq> None \<and> ObservedVoltageMillivolts s \<noteq> T_VoltageMV t, False,
        \<lambda>s. s\<lparr>ObservedVoltageMillivolts := T_VoltageMV t\<rparr>),
     (\<lambda>s. T_ArtifactDigest t \<noteq> [] \<and> ObservedArtifactDigest s \<noteq> T_ArtifactDigest t, True,
        \<lambda>s. s\<lparr>ObservedArtifactDigest := T_ArtifactDigest t\<rparr>),
     (\<lambda>s. T_ReleaseGeneration t \<noteq> None \<and> AcknowledgedReleaseGeneration s \<noteq> the (T_ReleaseGeneration t), True,
        \<lambda>s. s\<lparr>AcknowledgedReleaseGeneration := the (T_ReleaseGeneration t)\<rparr>),
     (\<lambda>s. T_StagedArtifactDigest t \<noteq> None \<and> DeviceStagedArtifactDigest s \<noteq> the (T_StagedArtifactDigest t), True,
        \<lambda>s. s\<lparr>DeviceStagedArtifactDigest := the (T_StagedArtifactDigest t)\<rparr>),
     (\<lambda>s. T_StagedGeneration t \<noteq> None \<and> StagedReleaseGeneration s \<noteq> the (T_StagedGeneration t), True,
        \<lambda>s. s\<lparr>StagedReleaseGeneration := the (T_StagedGeneration t)\<rparr>),
     (\<lambda>s. T_Function t \<noteq> [] \<and> ObservedFunction s \<noteq> T_Function t, True,
        \<lambda>s. s\<lparr>ObservedFunction := T_Function t\<rparr>)]"

section \<open>One observation\<close>

text \<open>The bridge's own state and the API server's resources.\<close>

record bridgeState =
  Tracker :: batteryDrainTracker
  Est :: deadlineTelemetryEstimator
  Store :: "namespacedName \<Rightarrow> wasmFunction option"
  Calls :: nat

text \<open>The closure of \<open>updateObservedTelemetry\<close> between its Get and its Patch.\<close>

definition observeTelemetry ::
    "namespacedName \<Rightarrow> batteryTelemetry \<Rightarrow> int32 \<Rightarrow> time \<Rightarrow> wasmFunction \<Rightarrow> telemetryUpdateResult
       \<Rightarrow> bridgeState \<Rightarrow> wasmFunction \<times> telemetryUpdateResult \<times> bridgeState" where
  "observeTelemetry key t battery now w result b =
    (let desiredDigest = normalizeArtifactDigest (R_ArtifactDigest (release w));
         wasStaged = deviceReleaseStaged w desiredDigest;
         wasActive = deviceReleaseActive w desiredDigest;
         (w1, r1, tracker) = updateBatteryDeltaStatus key w t battery now result (Tracker b);
         est = fst (recordAndEstimate (Est b) w1 t now);
         (w2, r2) = fold applyField (fieldUpdates t battery) (w1, r1);
         r3 = r2\<lparr>stagedReleaseAcknowledged := \<not> wasStaged \<and> deviceReleaseStaged w2 desiredDigest,
                activatedReleaseAcknowledged := \<not> wasActive \<and> deviceReleaseActive w2 desiredDigest\<rparr>
     in (on_status (\<lambda>s. s\<lparr>LastTelemetryTime := Some now\<rparr>) w2, r3, b\<lparr>Tracker := tracker, Est := est\<rparr>))"

section \<open>The API server and the retries\<close>

datatype apiError = NotFound | Conflict | OtherError string

text \<open>How the server answers one attempt: the error of the Get, the clock, and the error of the Patch.\<close>

record apiAttempt =
  GetError :: "apiError option"
  AttemptNow :: time
  PatchError :: "apiError option"

text \<open>
  \<open>retry.RetryOnConflict (retry.DefaultRetry)\<close> runs its closure at most five times and returns the
  last conflict; the first argument is the number of attempts left.  One attempt is a Get, which the
  client's cache answers, and the Patch; \<open>Calls\<close> counts attempts.  \<open>Store\<close> is what the cache holds for the
  duration of one observation: an attempt that is refused leaves it as it is, and a Patch that is taken
  stores the observed resource, as the merge patch does with a resource nobody else has written since it
  was read.  The patch names no resource version, so that a conflict is one the server reports itself.
\<close>

definition defaultRetrySteps :: nat where
  "defaultRetrySteps = 5"

definition getResource :: "apiAttempt \<Rightarrow> namespacedName \<Rightarrow> bridgeState \<Rightarrow> apiError + wasmFunction" where
  "getResource at key b =
    (case GetError at of
       Some e \<Rightarrow> Inl e
     | None \<Rightarrow> (case Store b key of None \<Rightarrow> Inl NotFound | Some w \<Rightarrow> Inr w))"

fun retryObserved ::
    "nat \<Rightarrow> (nat \<Rightarrow> apiAttempt) \<Rightarrow> namespacedName \<Rightarrow> batteryTelemetry \<Rightarrow> int32 \<Rightarrow> telemetryUpdateResult
       \<Rightarrow> bridgeState \<Rightarrow> apiError option \<times> telemetryUpdateResult \<times> bridgeState" where
  "retryObserved 0 env key t battery result b = (Some Conflict, result, b)"
| "retryObserved (Suc n) env key t battery result b =
    (let at = env (Calls b); b0 = b\<lparr>Calls := Calls b + 1\<rparr>
     in case getResource at key b of
          Inl NotFound \<Rightarrow> (None, result, b0)
        | Inl Conflict \<Rightarrow> retryObserved n env key t battery result b0
        | Inl e \<Rightarrow> (Some e, result, b0)
        | Inr w \<Rightarrow>
            (case observeTelemetry key t battery (AttemptNow at) w result b0 of
               (w', result', b1) \<Rightarrow>
                 (case PatchError at of
                    None \<Rightarrow> (None, result', b1\<lparr>Store := (Store b1)(key := Some w')\<rparr>)
                  | Some Conflict \<Rightarrow> retryObserved n env key t battery result' b1
                  | Some e \<Rightarrow> (Some e, result', b1))))"

definition updateObservedTelemetry ::
    "(nat \<Rightarrow> apiAttempt) \<Rightarrow> namespacedName \<Rightarrow> batteryTelemetry \<Rightarrow> int32 \<Rightarrow> bridgeState
       \<Rightarrow> apiError option \<times> telemetryUpdateResult \<times> bridgeState" where
  "updateObservedTelemetry env key t battery b =
     retryObserved defaultRetrySteps env key t battery zeroResult b"

text \<open>
  The loop over the listed resources: those of another topic are passed over, the first error ends
  it.  \<open>listing\<close> is what the client's List returns.
\<close>

fun applyToListed ::
    "(nat \<Rightarrow> apiAttempt) \<Rightarrow> string \<Rightarrow> batteryTelemetry \<Rightarrow> int32 \<Rightarrow> wasmFunction list \<Rightarrow> bridgeState
       \<Rightarrow> apiError option \<times> bridgeState" where
  "applyToListed env topic t battery [] b = (None, b)"
| "applyToListed env topic t battery (w # rest) b =
    (if telemetryTopicForDevice (device w) \<noteq> topic then applyToListed env topic t battery rest b
     else case updateObservedTelemetry env (key_of w) t battery b of
            (Some e, result, b') \<Rightarrow> (Some e, b')
          | (None, result, b') \<Rightarrow> applyToListed env topic t battery rest b')"

datatype telemetryError = DecodeError string | MissingBattery string | ApiError apiError

definition applyBatteryTelemetry ::
    "(nat \<Rightarrow> apiAttempt) \<Rightarrow> string \<Rightarrow> string + batteryTelemetry \<Rightarrow> apiError + wasmFunction list
       \<Rightarrow> bridgeState \<Rightarrow> telemetryError option \<times> bridgeState" where
  "applyBatteryTelemetry env topic decoded listing b =
    (case decoded of
       Inl e \<Rightarrow> (Some (DecodeError e), b)
     | Inr t0 \<Rightarrow>
         (case normalizeTelemetry t0 of
            Inl e \<Rightarrow> (Some (MissingBattery e), b)
          | Inr (t, battery) \<Rightarrow>
              (case listing of
                 Inl e \<Rightarrow> (Some (ApiError e), b)
               | Inr ws \<Rightarrow>
                   (case applyToListed env topic t battery ws b of
                      (Some e, b') \<Rightarrow> (Some (ApiError e), b')
                    | (None, b') \<Rightarrow> (None, b')))))"

section \<open>Topics and pings\<close>

text \<open>
  The topics of the listed resources, each once, in the byte order of \<open>sort.Strings\<close>; \<open>None\<close> is
  \<open>errNoTelemetryTopics\<close>.
\<close>

definition telemetryTopics :: "wasmFunction list \<Rightarrow> string list option" where
  "telemetryTopics ws =
    (let topics = remdups (filter (\<lambda>t. t \<noteq> []) (map (\<lambda>w. telemetryTopicForDevice (device w)) ws))
     in if topics = [] then None else Some (sort topics))"

definition missingTopics :: "string list \<Rightarrow> string set \<Rightarrow> string list" where
  "missingTopics topics subscribed = filter (\<lambda>t. t \<notin> subscribed) topics"

text \<open>The topics of a set, for the log.\<close>

definition sortedTopicKeys :: "string set \<Rightarrow> string list" where
  "sortedTopicKeys topics = sorted_list_of_set topics"

definition mqttTelemetryPingInterval :: duration where
  "mqttTelemetryPingInterval = 20 * second"

definition shouldSendTelemetryPing :: "time \<Rightarrow> time \<Rightarrow> bool" where
  "shouldSendTelemetryPing lastClientWrite now \<longleftrightarrow>
     time_sub now lastClientWrite \<ge> mqttTelemetryPingInterval"

end
