(* ===== verification/Telemetry_Props.thy ===== *)
theory Telemetry_Props
  imports Telemetry Drain_Props
begin

text \<open>
  What telemetry does to a resource: normal form and bounds, exactness of the reported changes, the
  fields it never touches, acknowledgement of releases, routing by topic and bounded retries.
\<close>

section \<open>Normal form\<close>

lemma clamp_clamp [simp]: "clampNonNegativeInt32 (clampNonNegativeInt32 v) = clampNonNegativeInt32 v"
  by (simp add: clampNonNegativeInt32_def split: option.split)

interpretation clamp: normaliser clampNonNegativeInt32
  by unfold_locales simp

definition nonneg_option :: "int32 option \<Rightarrow> bool" where
  "nonneg_option v \<longleftrightarrow> (case v of None \<Rightarrow> True | Some x \<Rightarrow> 0 \<le> x)"

lemma clamp_nonneg [simp]: "nonneg_option (clampNonNegativeInt32 v)"
  by (simp add: nonneg_option_def clampNonNegativeInt32_def split: option.split)

definition metrics :: "batteryTelemetry \<Rightarrow> int32 option list" where
  "metrics t = [T_VoltageMV t, T_ExecutionMs t, T_QueueDelayMs t, T_ResourceWakeMs t,
     T_ResourceCollectionMs t, T_NetworkRoundTripMs t, T_EdgeExecutionMs t, T_OutputApplicationMs t]"

lemma map_option_normalize [simp]:
  "map_option normalizeArtifactDigest (map_option normalizeArtifactDigest v) = map_option normalizeArtifactDigest v"
  by (cases v) simp_all

text \<open>Telemetry is used only in normal form.  Normalisation fails exactly when the battery level
  is missing; otherwise the level used lies between 0 and 100, every metric that is present is
  non-negative, and normalising again changes nothing.\<close>

theorem telemetry_normal_form:
  "case normalizeTelemetry t of
     Inl e \<Rightarrow> T_BatteryPercent t = None
   | Inr (t', b) \<Rightarrow> T_BatteryPercent t \<noteq> None \<and> percent b \<and> list_all nonneg_option (metrics t') \<and>
       normalizeTelemetry t' = Inr (t', b)"
  by (cases "T_BatteryPercent t")
    (simp_all add: normalizeTelemetry_def metrics_def percent_def clampBattery_def Let_def)

section \<open>The fields an observation writes\<close>

text \<open>One field update without its condition: an unchanged field is written with its own value.\<close>

lemma applyField_eq:
  "applyField (c, reportable, f) (w, r) =
    (w\<lparr>Status := (if c (Status w) then f (Status w) else Status w)\<rparr>,
     r\<lparr>statusChanged := c (Status w) \<or> statusChanged r,
       reportableInfo := (c (Status w) \<and> reportable) \<or> reportableInfo r\<rparr>)"
  by (simp add: applyField_def)

text \<open>The status after all updates.\<close>

definition observed_status :: "batteryTelemetry \<Rightarrow> int32 \<Rightarrow> wasmFunctionStatus \<Rightarrow> wasmFunctionStatus" where
  "observed_status t battery s = s\<lparr>
     ObservedBatteryPercent := Some battery,
     ObservedMode := (if T_Mode t = [] then ObservedMode s else T_Mode t),
     ObservedAdmissionPaused := (case T_AdmissionPaused t of None \<Rightarrow> ObservedAdmissionPaused s | Some b \<Rightarrow> b),
     ObservedBatterySource := (if T_Source t = [] then ObservedBatterySource s else T_Source t),
     ObservedVoltageMillivolts := (if T_VoltageMV t = None then ObservedVoltageMillivolts s else T_VoltageMV t),
     ObservedArtifactDigest := (if T_ArtifactDigest t = [] then ObservedArtifactDigest s else T_ArtifactDigest t),
     AcknowledgedReleaseGeneration :=
       (case T_ReleaseGeneration t of None \<Rightarrow> AcknowledgedReleaseGeneration s | Some g \<Rightarrow> g),
     DeviceStagedArtifactDigest :=
       (case T_StagedArtifactDigest t of None \<Rightarrow> DeviceStagedArtifactDigest s | Some g \<Rightarrow> g),
     StagedReleaseGeneration :=
       (case T_StagedGeneration t of None \<Rightarrow> StagedReleaseGeneration s | Some g \<Rightarrow> g),
     ObservedFunction := (if T_Function t = [] then ObservedFunction s else T_Function t)\<rparr>"

definition setField :: "fieldUpdate \<Rightarrow> wasmFunctionStatus \<Rightarrow> wasmFunctionStatus" where
  "setField u s = (case u of (c, _, f) \<Rightarrow> if c s then f s else s)"

lemma setField_values:
  "setField (\<lambda>s. ObservedBatteryPercent s \<noteq> Some battery, rep,
     \<lambda>s. s\<lparr>ObservedBatteryPercent := Some battery\<rparr>) s
     = s\<lparr>ObservedBatteryPercent := Some battery\<rparr>"
  "setField (\<lambda>s. T_Mode t \<noteq> [] \<and> ObservedMode s \<noteq> T_Mode t, rep,
     \<lambda>s. s\<lparr>ObservedMode := T_Mode t\<rparr>) s
     = s\<lparr>ObservedMode := (if T_Mode t = [] then ObservedMode s else T_Mode t)\<rparr>"
  "setField (\<lambda>s. T_AdmissionPaused t \<noteq> None \<and> ObservedAdmissionPaused s \<noteq> the (T_AdmissionPaused t), rep,
     \<lambda>s. s\<lparr>ObservedAdmissionPaused := the (T_AdmissionPaused t)\<rparr>) s
     = s\<lparr>ObservedAdmissionPaused := (case T_AdmissionPaused t of None \<Rightarrow> ObservedAdmissionPaused s | Some b \<Rightarrow> b)\<rparr>"
  "setField (\<lambda>s. T_Source t \<noteq> [] \<and> ObservedBatterySource s \<noteq> T_Source t, rep,
     \<lambda>s. s\<lparr>ObservedBatterySource := T_Source t\<rparr>) s
     = s\<lparr>ObservedBatterySource := (if T_Source t = [] then ObservedBatterySource s else T_Source t)\<rparr>"
  "setField (\<lambda>s. T_VoltageMV t \<noteq> None \<and> ObservedVoltageMillivolts s \<noteq> T_VoltageMV t, rep,
     \<lambda>s. s\<lparr>ObservedVoltageMillivolts := T_VoltageMV t\<rparr>) s
     = s\<lparr>ObservedVoltageMillivolts := (if T_VoltageMV t = None then ObservedVoltageMillivolts s else T_VoltageMV t)\<rparr>"
  "setField (\<lambda>s. T_ArtifactDigest t \<noteq> [] \<and> ObservedArtifactDigest s \<noteq> T_ArtifactDigest t, rep,
     \<lambda>s. s\<lparr>ObservedArtifactDigest := T_ArtifactDigest t\<rparr>) s
     = s\<lparr>ObservedArtifactDigest := (if T_ArtifactDigest t = [] then ObservedArtifactDigest s else T_ArtifactDigest t)\<rparr>"
  "setField (\<lambda>s. T_ReleaseGeneration t \<noteq> None \<and> AcknowledgedReleaseGeneration s \<noteq> the (T_ReleaseGeneration t), rep,
     \<lambda>s. s\<lparr>AcknowledgedReleaseGeneration := the (T_ReleaseGeneration t)\<rparr>) s
     = s\<lparr>AcknowledgedReleaseGeneration :=
       (case T_ReleaseGeneration t of None \<Rightarrow> AcknowledgedReleaseGeneration s | Some g \<Rightarrow> g)\<rparr>"
  "setField (\<lambda>s. T_StagedArtifactDigest t \<noteq> None \<and> DeviceStagedArtifactDigest s \<noteq> the (T_StagedArtifactDigest t), rep,
     \<lambda>s. s\<lparr>DeviceStagedArtifactDigest := the (T_StagedArtifactDigest t)\<rparr>) s
     = s\<lparr>DeviceStagedArtifactDigest :=
       (case T_StagedArtifactDigest t of None \<Rightarrow> DeviceStagedArtifactDigest s | Some g \<Rightarrow> g)\<rparr>"
  "setField (\<lambda>s. T_StagedGeneration t \<noteq> None \<and> StagedReleaseGeneration s \<noteq> the (T_StagedGeneration t), rep,
     \<lambda>s. s\<lparr>StagedReleaseGeneration := the (T_StagedGeneration t)\<rparr>) s
     = s\<lparr>StagedReleaseGeneration :=
       (case T_StagedGeneration t of None \<Rightarrow> StagedReleaseGeneration s | Some g \<Rightarrow> g)\<rparr>"
  "setField (\<lambda>s. T_Function t \<noteq> [] \<and> ObservedFunction s \<noteq> T_Function t, rep,
     \<lambda>s. s\<lparr>ObservedFunction := T_Function t\<rparr>) s
     = s\<lparr>ObservedFunction := (if T_Function t = [] then ObservedFunction s else T_Function t)\<rparr>"
  by (auto simp: setField_def split: option.split)

text \<open>The conditions of the updates, on the status they start from.\<close>

definition any_change :: "batteryTelemetry \<Rightarrow> int32 \<Rightarrow> wasmFunctionStatus \<Rightarrow> bool" where
  "any_change t battery s \<longleftrightarrow> (\<exists>(c, _, _) \<in> set (fieldUpdates t battery). c s)"

lemma fold_applyField:
  "fst (fold applyField us (w, r)) = w\<lparr>Status := fold setField us (Status w)\<rparr>"
proof (induction us arbitrary: w r)
  case Nil
  then show ?case by simp
next
  case (Cons u us)
  obtain c rep f where "u = (c, rep, f)" by (cases u)
  with Cons show ?case by (simp add: applyField_eq setField_def)
qed

lemma fieldUpdates_values: "fold setField (fieldUpdates t battery) s = observed_status t battery s"
  by (cases s) (simp only: fieldUpdates_def fold_simps setField_values observed_status_def
      wasmFunctionStatus.select_convs wasmFunctionStatus.update_convs)

text \<open>The updates are independent of each other, so their conditions can be read off the start.\<close>

definition independent :: "fieldUpdate \<Rightarrow> fieldUpdate \<Rightarrow> bool" where
  "independent u v \<longleftrightarrow> (case (u, v) of ((_, _, f), (c, _, _)) \<Rightarrow> \<forall>s. c (f s) = c s)"

lemma fold_changed:
  assumes "sorted_wrt independent us"
  shows "statusChanged (snd (fold applyField us (w, r))) \<longleftrightarrow>
    (\<exists>(c, _, _) \<in> set us. c (Status w)) \<or> statusChanged r"
  using assms
proof (induction us arbitrary: w r)
  case Nil
  then show ?case by simp
next
  case (Cons u us)
  obtain c rep f where u: "u = (c, rep, f)" by (cases u)
  have "(\<exists>(c', _, _) \<in> set us. c' (if c (Status w) then f (Status w) else Status w)) \<longleftrightarrow>
      (\<exists>(c', _, _) \<in> set us. c' (Status w))"
    using Cons.prems u by (intro bex_cong refl) (auto simp: independent_def)
  with Cons u show ?case by (simp add: applyField_eq disj_commute disj_left_commute)
qed

lemma fieldUpdates_independent: "sorted_wrt independent (fieldUpdates t battery)"
  by (simp add: fieldUpdates_def independent_def)

lemma if_same: "(if c then x else y) = x \<longleftrightarrow> c \<or> x = y"
  by auto

lemma case_same: "(case v of None \<Rightarrow> x | Some y \<Rightarrow> y) = x \<longleftrightarrow> v = None \<or> x = the v"
  by (cases v) auto

lemma any_change_iff: "any_change t battery s \<longleftrightarrow> observed_status t battery s \<noteq> s"
proof -
  have "any_change t battery s \<longleftrightarrow> \<not> (ObservedBatteryPercent s = Some battery \<and>
      (T_Mode t = [] \<or> ObservedMode s = T_Mode t) \<and>
      (T_AdmissionPaused t = None \<or> ObservedAdmissionPaused s = the (T_AdmissionPaused t)) \<and>
      (T_Source t = [] \<or> ObservedBatterySource s = T_Source t) \<and>
      (T_VoltageMV t = None \<or> ObservedVoltageMillivolts s = T_VoltageMV t) \<and>
      (T_ArtifactDigest t = [] \<or> ObservedArtifactDigest s = T_ArtifactDigest t) \<and>
      (T_ReleaseGeneration t = None \<or> AcknowledgedReleaseGeneration s = the (T_ReleaseGeneration t)) \<and>
      (T_StagedArtifactDigest t = None \<or> DeviceStagedArtifactDigest s = the (T_StagedArtifactDigest t)) \<and>
      (T_StagedGeneration t = None \<or> StagedReleaseGeneration s = the (T_StagedGeneration t)) \<and>
      (T_Function t = [] \<or> ObservedFunction s = T_Function t))" (is "_ \<longleftrightarrow> \<not> ?same")
    unfolding any_change_def fieldUpdates_def by simp
  moreover have "?same \<longleftrightarrow> observed_status t battery s = s"
    by (cases s) (simp add: observed_status_def if_same case_same eq_commute [of "Some battery"]
        split del: if_split cong: if_cong option.case_cong, simp only: conj_ac)
  ultimately show ?thesis by simp
qed

lemma fieldUpdates_changed:
  "statusChanged (snd (fold applyField (fieldUpdates t battery) (w, r))) \<longleftrightarrow>
     observed_status t battery (Status w) \<noteq> Status w \<or> statusChanged r"
  by (simp add: fold_changed [OF fieldUpdates_independent] any_change_def [symmetric] any_change_iff)

section \<open>One observation\<close>

lemma drain_update:
  obtains d win risky where
    "fst (updateBatteryDeltaStatus key w t b now r tracker) = on_status (drain_status d win risky) w"
    "fst (snd (updateBatteryDeltaStatus key w t b now r tracker)) =
       (if drain_status d win risky (Status w) = Status w then r else r\<lparr>statusChanged := True\<rparr>)"
proof (cases "effectiveBatteryDeltaEnabled w")
  case True
  show ?thesis
    by (rule that [of "delta_of w t b now (tracker key)" "Some (effectiveBatteryDeltaWindowSeconds w)"
          "risky_of w t b now (tracker key)"]) (simp_all add: update_enabled [OF True] Let_def)
next
  case False
  show ?thesis
    by (rule that [of None None 0]) (simp_all add: update_disabled [OF False])
qed

lemma drain_then_observed:
  "observed_status t b (drain_status d win risky s) = s \<longleftrightarrow>
     drain_status d win risky s = s \<and> observed_status t b s = s"
proof
  assume eq: "observed_status t b (drain_status d win risky s) = s"
  have "ObservedBatteryDeltaPercent s = d \<and> ObservedBatteryDeltaWindowSeconds s = win \<and>
      ConsecutiveRiskyWindows s = risky"
    by (subst (1 2 3) eq [symmetric]) (simp add: observed_status_def)
  then have "drain_status d win risky s = s" by (simp add: drain_status_same_iff)
  with eq show "drain_status d win risky s = s \<and> observed_status t b s = s" by simp
qed simp

lemma timed_inject:
  "s1\<lparr>LastTelemetryTime := x\<rparr> = s2\<lparr>LastTelemetryTime := x\<rparr> \<Longrightarrow>
     LastTelemetryTime s1 = LastTelemetryTime s2 \<Longrightarrow> (s1 :: wasmFunctionStatus) = s2"
  by (cases s1; cases s2) simp

lemma timed_iff:
  assumes "observed_status t b s'\<lparr>LastTelemetryTime := x\<rparr> = s\<lparr>LastTelemetryTime := x\<rparr>"
    and "LastTelemetryTime s' = LastTelemetryTime s"
  shows "observed_status t b s' = s"
  using assms(1) by (rule timed_inject) (simp add: observed_status_def assms(2))

text \<open>An observation in closed form.\<close>

lemma observe_cases:
  assumes "observeTelemetry key t battery now w r b = (w', r', b')"
  obtains d win risky where
    "w' = on_status (\<lambda>s. (observed_status t battery (drain_status d win risky s))
       \<lparr>LastTelemetryTime := Some now\<rparr>) w"
    "statusChanged r' \<longleftrightarrow> observed_status t battery (drain_status d win risky (Status w)) \<noteq> Status w \<or>
       statusChanged r"
    "stagedReleaseAcknowledged r' \<longleftrightarrow>
       \<not> deviceReleaseStaged w (normalizeArtifactDigest (R_ArtifactDigest (release w))) \<and>
       deviceReleaseStaged w' (normalizeArtifactDigest (R_ArtifactDigest (release w)))"
    "activatedReleaseAcknowledged r' \<longleftrightarrow>
       \<not> deviceReleaseActive w (normalizeArtifactDigest (R_ArtifactDigest (release w))) \<and>
       deviceReleaseActive w' (normalizeArtifactDigest (R_ArtifactDigest (release w)))"
    "Store b' = Store b" "Calls b' = Calls b"
proof -
  obtain w1 r1 tracker where upd: "updateBatteryDeltaStatus key w t battery now r (Tracker b) = (w1, r1, tracker)"
    by (cases "updateBatteryDeltaStatus key w t battery now r (Tracker b)") auto
  obtain d win risky where w1: "w1 = on_status (drain_status d win risky) w"
    and r1: "r1 = (if drain_status d win risky (Status w) = Status w then r else r\<lparr>statusChanged := True\<rparr>)"
    by (rule drain_update [of key w t battery now r "Tracker b"]) (simp add: upd)
  obtain w2 r2 where fields: "fold applyField (fieldUpdates t battery) (w1, r1) = (w2, r2)"
    by (cases "fold applyField (fieldUpdates t battery) (w1, r1)")
  have w2: "w2 = w1\<lparr>Status := observed_status t battery (Status w1)\<rparr>"
    using fold_applyField [of "fieldUpdates t battery" w1 r1] fields by (simp add: fieldUpdates_values)
  have changed: "statusChanged r2 \<longleftrightarrow> observed_status t battery (Status w1) \<noteq> Status w1 \<or> statusChanged r1"
    using fieldUpdates_changed [of t battery w1 r1] fields by simp
  have spec: "Spec w2 = Spec w" using w1 w2 by simp
  have "w' = on_status (\<lambda>s. s\<lparr>LastTelemetryTime := Some now\<rparr>) w2"
    and r': "r' = r2\<lparr>
        stagedReleaseAcknowledged := \<not> deviceReleaseStaged w (normalizeArtifactDigest (R_ArtifactDigest (release w))) \<and>
          deviceReleaseStaged w2 (normalizeArtifactDigest (R_ArtifactDigest (release w))),
        activatedReleaseAcknowledged := \<not> deviceReleaseActive w (normalizeArtifactDigest (R_ArtifactDigest (release w))) \<and>
          deviceReleaseActive w2 (normalizeArtifactDigest (R_ArtifactDigest (release w)))\<rparr>"
    and b': "Store b' = Store b" "Calls b' = Calls b"
    using assms upd fields by (auto simp: observeTelemetry_def Let_def)
  moreover have "deviceReleaseStaged w' = deviceReleaseStaged w2" "deviceReleaseActive w' = deviceReleaseActive w2"
    using calculation(1) by (simp_all add: fun_eq_iff deviceReleaseStaged_def deviceReleaseActive_def)
  ultimately show ?thesis
    by (intro that [of d win risky]) (auto simp: w2 w1 changed r1 drain_then_observed)
qed

text \<open>The status without the fields telemetry writes.\<close>

definition unobserved :: "wasmFunctionStatus \<Rightarrow> wasmFunctionStatus" where
  "unobserved s = s\<lparr>ObservedBatteryPercent := None, ObservedMode := [], ObservedAdmissionPaused := False,
     ObservedBatterySource := [], ObservedVoltageMillivolts := None, ObservedArtifactDigest := [],
     AcknowledgedReleaseGeneration := 0, DeviceStagedArtifactDigest := [], StagedReleaseGeneration := 0,
     ObservedFunction := [], ObservedBatteryDeltaPercent := None, ObservedBatteryDeltaWindowSeconds := None,
     ConsecutiveRiskyWindows := 0, LastTelemetryTime := None\<rparr>"

lemma unobserved_written [simp]:
  "unobserved (observed_status t b (drain_status d win risky s)\<lparr>LastTelemetryTime := x\<rparr>) = unobserved s"
  by (simp add: unobserved_def observed_status_def drain_status_def)

text \<open>C17: An observation reports its changes exactly and writes only what it observes.  The
  specification and every status field that telemetry does not own stay as they are, the telemetry
  time becomes the time of the observation, and the change flag, starting from false, is set exactly
  when some status field other than that time changed.\<close>

theorem observation_exact:
  assumes "observeTelemetry key t battery now w zeroResult b = (w', r', b')"
  shows "Spec w' = Spec w \<and> key_of w' = key_of w \<and> unobserved (Status w') = unobserved (Status w) \<and>
    LastTelemetryTime (Status w') = Some now \<and>
    (statusChanged r' \<longleftrightarrow> Status w' \<noteq> (Status w)\<lparr>LastTelemetryTime := Some now\<rparr>)"
proof (rule observe_cases [OF assms])
  fix d win risky
  assume w': "w' = on_status (\<lambda>s. (observed_status t battery (drain_status d win risky s))
       \<lparr>LastTelemetryTime := Some now\<rparr>) w"
    and r': "statusChanged r' \<longleftrightarrow>
       observed_status t battery (drain_status d win risky (Status w)) \<noteq> Status w \<or> statusChanged zeroResult"
  have "Status w' = (Status w)\<lparr>LastTelemetryTime := Some now\<rparr> \<longleftrightarrow>
      observed_status t battery (drain_status d win risky (Status w)) = Status w"
    unfolding w' using timed_iff [where t = t and b = battery and x = "Some now" and
        s' = "drain_status d win risky (Status w)" and s = "Status w"]
    by (auto simp: drain_status_def)
  then show ?thesis using w' r' by (simp add: key_of_def zeroResult_def)
qed

definition reportingTelemetry :: batteryTelemetry where
  "reportingTelemetry = zeroTelemetry\<lparr>T_Mode := ''local''\<rparr>"

definition emptyBridge :: bridgeState where
  "emptyBridge = \<lparr>Tracker = newBatteryDrainTracker,
     Est = newDeadlineTelemetryEstimator (loadDeadlineProfiles None), Store = (\<lambda>_. None), Calls = 0\<rparr>"

theorem observation_exact_witness:
  "let (w', r', b') = observeTelemetry (''sif'', ''dht'') reportingTelemetry 50 second zeroWasmFunction
     zeroResult emptyBridge
   in statusChanged r' \<longleftrightarrow> Status w' \<noteq> zeroStatus\<lparr>LastTelemetryTime := Some second\<rparr>"
proof -
  obtain w' r' b' where "observeTelemetry (''sif'', ''dht'') reportingTelemetry 50 second zeroWasmFunction
     zeroResult emptyBridge = (w', r', b')"
    by (cases "observeTelemetry (''sif'', ''dht'') reportingTelemetry 50 second zeroWasmFunction
     zeroResult emptyBridge") auto
  with observation_exact [OF this] show ?thesis by (simp add: zeroWasmFunction_def)
qed

section \<open>Acknowledgements\<close>

text \<open>A device that reports the declared release makes it active.  After an observation that
  carries the declared generation, the declared digest and the selected function, the delivery state
  of the release is Active; the activation is acknowledged in the result exactly when it was not
  Active before.\<close>

theorem telemetry_acknowledges_release:
  assumes "observeTelemetry key t battery now w zeroResult b = (w', r', b')"
    and "T_ReleaseGeneration t = Some (R_Generation (release w))" "0 < R_Generation (release w)"
    and "T_ArtifactDigest t = normalizeArtifactDigest (R_ArtifactDigest (release w))"
    and "normalizeArtifactDigest (R_ArtifactDigest (release w)) \<noteq> []"
    and "T_Function t = trimSpace (FunctionIdentity (release w))"
    and "trimSpace (FunctionIdentity (release w)) \<noteq> []"
  shows "let digest = normalizeArtifactDigest (R_ArtifactDigest (release w)) in
    releaseDeliveryState w' digest = ''Active'' \<and>
    (activatedReleaseAcknowledged r' \<longleftrightarrow> releaseDeliveryState w digest \<noteq> ''Active'')"
proof (rule observe_cases [OF assms(1)])
  let ?digest = "normalizeArtifactDigest (R_ArtifactDigest (release w))"
  fix d win risky
  assume w': "w' = on_status (\<lambda>s. (observed_status t battery (drain_status d win risky s))
       \<lparr>LastTelemetryTime := Some now\<rparr>) w"
    and ack: "activatedReleaseAcknowledged r' \<longleftrightarrow>
       \<not> deviceReleaseActive w ?digest \<and> deviceReleaseActive w' ?digest"
  have "deviceReleaseActive w' ?digest"
    using assms(2-7) by (simp add: w' deviceReleaseActive_def observed_status_def)
  with ack assms(3,5) show ?thesis
    by (simp add: Let_def releaseDeliveryState_iffs) (simp add: w')
qed

definition releasedFunction :: wasmFunction where
  "releasedFunction = zeroWasmFunction\<lparr>Spec := zeroSpec\<lparr>Release := zeroRelease\<lparr>R_Generation := 6,
     R_ArtifactDigest := replicate 64 (CHR ''b''), FunctionIdentity := ''f''\<rparr>\<rparr>\<rparr>"

lemma released_digest [simp]: "normalizeArtifactDigest (replicate 64 (CHR ''b'')) = replicate 64 (CHR ''b'')"
  by (rule normalize_digest) (simp add: is_digest_def is_hex_char_def list_all_iff)

theorem telemetry_acknowledges_release_witness:
  "let (w', r', b') = observeTelemetry (''sif'', ''dht'') (zeroTelemetry\<lparr>T_ReleaseGeneration := Some 6,
     T_ArtifactDigest := replicate 64 (CHR ''b''), T_Function := ''f''\<rparr>) 50 second releasedFunction
     zeroResult emptyBridge
   in releaseDeliveryState w' (replicate 64 (CHR ''b'')) = ''Active''"
proof -
  let ?t = "zeroTelemetry\<lparr>T_ReleaseGeneration := Some 6, T_ArtifactDigest := replicate 64 (CHR ''b''),
     T_Function := ''f''\<rparr>"
  obtain w' r' b' where o: "observeTelemetry (''sif'', ''dht'') ?t 50 second releasedFunction
     zeroResult emptyBridge = (w', r', b')"
    by (cases "observeTelemetry (''sif'', ''dht'') ?t 50 second releasedFunction zeroResult emptyBridge") auto
  have f: "trimSpace ''f'' = ''f''"
    by (rule trimSpace_plain) (simp add: plain_char_def)
  have r: "R_Generation (release releasedFunction) = 6" "FunctionIdentity (release releasedFunction) = ''f''"
    "R_ArtifactDigest (release releasedFunction) = replicate 64 (CHR ''b'')"
    by (simp_all add: releasedFunction_def)
  show ?thesis
    using telemetry_acknowledges_release [OF o] o by (simp add: r f Let_def)
qed

text \<open>Telemetry that says nothing about releases changes nothing about them.  An observation
  without generations, digests and function leaves every release predicate of the device as it was
  and acknowledges nothing.\<close>

theorem silent_telemetry_keeps_release:
  assumes "observeTelemetry key t battery now w zeroResult b = (w', r', b')"
    and "T_ReleaseGeneration t = None" "T_StagedGeneration t = None"
    and "T_ArtifactDigest t = []" "T_StagedArtifactDigest t = None" "T_Function t = []"
  shows "deviceReleaseStaged w' digest = deviceReleaseStaged w digest \<and>
    deviceReleaseActive w' digest = deviceReleaseActive w digest \<and>
    releaseDeliveryState w' digest = releaseDeliveryState w digest \<and>
    \<not> stagedReleaseAcknowledged r' \<and> \<not> activatedReleaseAcknowledged r'"
proof (rule observe_cases [OF assms(1)])
  fix d win risky
  assume w': "w' = on_status (\<lambda>s. (observed_status t battery (drain_status d win risky s))
       \<lparr>LastTelemetryTime := Some now\<rparr>) w"
    and acks: "stagedReleaseAcknowledged r' \<longleftrightarrow>
       \<not> deviceReleaseStaged w (normalizeArtifactDigest (R_ArtifactDigest (release w))) \<and>
       deviceReleaseStaged w' (normalizeArtifactDigest (R_ArtifactDigest (release w)))"
      "activatedReleaseAcknowledged r' \<longleftrightarrow>
       \<not> deviceReleaseActive w (normalizeArtifactDigest (R_ArtifactDigest (release w))) \<and>
       deviceReleaseActive w' (normalizeArtifactDigest (R_ArtifactDigest (release w)))"
  have same: "deviceReleaseStaged w' = deviceReleaseStaged w" "deviceReleaseActive w' = deviceReleaseActive w"
    using assms(2-6)
    by (simp_all add: fun_eq_iff w' deviceReleaseStaged_def deviceReleaseActive_def observed_status_def
        drain_status_def)
  have "LastCommandID (Status w') = LastCommandID (Status w)"
    "LastStageCommandID (Status w') = LastStageCommandID (Status w)"
    by (simp_all add: w' observed_status_def drain_status_def)
  with same acks show ?thesis by (simp add: releaseDeliveryState_def w' Let_def)
qed

theorem silent_telemetry_keeps_release_witness:
  "let (w', r', b') = observeTelemetry (''sif'', ''dht'') reportingTelemetry 50 second releasedFunction
     zeroResult emptyBridge
   in releaseDeliveryState w' [] = releaseDeliveryState releasedFunction []"
proof -
  obtain w' r' b' where o: "observeTelemetry (''sif'', ''dht'') reportingTelemetry 50 second releasedFunction
     zeroResult emptyBridge = (w', r', b')"
    by (cases "observeTelemetry (''sif'', ''dht'') reportingTelemetry 50 second releasedFunction
     zeroResult emptyBridge") auto
  show ?thesis
    using silent_telemetry_keeps_release [OF o, of "[]"] o
    by (simp add: reportingTelemetry_def zeroTelemetry_def)
qed

section \<open>Routing and retries\<close>

text \<open>One resource before and after: absent stays absent, and only observed fields change.\<close>

definition observed_only :: "wasmFunction option \<Rightarrow> wasmFunction option \<Rightarrow> bool" where
  "observed_only before later \<longleftrightarrow>
     (case (before, later) of
        (None, None) \<Rightarrow> True
      | (Some w, Some w') \<Rightarrow> Spec w' = Spec w \<and> unobserved (Status w') = unobserved (Status w)
      | _ \<Rightarrow> False)"

lemma observed_only_refl [simp]: "observed_only v v"
  by (simp add: observed_only_def split: option.split)

lemma observed_only_trans: "observed_only u v \<Longrightarrow> observed_only v w \<Longrightarrow> observed_only u w"
  by (auto simp: observed_only_def split: option.splits)

lemma observe_frame:
  assumes "observeTelemetry key t battery now w r b = (w', r', b')"
  shows "Store b' = Store b" "Calls b' = Calls b" "observed_only (Some w) (Some w')"
proof -
  obtain d win risky where
    w': "w' = on_status (\<lambda>s. (observed_status t battery (drain_status d win risky s))
       \<lparr>LastTelemetryTime := Some now\<rparr>) w"
    and b': "Store b' = Store b" "Calls b' = Calls b"
    by (rule observe_cases [OF assms]) blast
  show "Store b' = Store b" "Calls b' = Calls b" by (fact b')+
  show "observed_only (Some w) (Some w')"
    by (simp add: observed_only_def w')
qed

lemma retry_effect:
  "retryObserved n env key t battery r b = (e, r', b') \<Longrightarrow>
     (\<forall>k. k \<noteq> key \<longrightarrow> Store b' k = Store b k) \<and> observed_only (Store b key) (Store b' key) \<and>
     Calls b \<le> Calls b' \<and> Calls b' \<le> Calls b + n"
proof (induction n arbitrary: r b)
  case 0
  then show ?case by simp
next
  case (Suc n)
  let ?at = "env (Calls b)" and ?b0 = "b\<lparr>Calls := Calls b + 1\<rparr>"
  show ?case
  proof (cases "getResource ?at key b")
    case (Inl err)
    then show ?thesis
      using Suc.prems Suc.IH [of r ?b0] by (cases err) (auto simp: Let_def)
  next
    case (Inr w)
    then have w: "Store b key = Some w"
      by (auto simp: getResource_def split: option.splits)
    obtain w' r1 b1 where o: "observeTelemetry key t battery (AttemptNow ?at) w r ?b0 = (w', r1, b1)"
      by (cases "observeTelemetry key t battery (AttemptNow ?at) w r ?b0") auto
    have frame: "Store b1 = Store b" "Calls b1 = Calls b + 1" "observed_only (Some w) (Some w')"
      using observe_frame [OF o] by simp_all
    show ?thesis
    proof (cases "PatchError ?at")
      case None
      then show ?thesis using Suc.prems Inr o frame w by (auto simp: Let_def)
    next
      case (Some err)
      then show ?thesis
        using Suc.prems Suc.IH [of r1 b1] Inr o frame by (cases err) (auto simp: Let_def)
    qed
  qed
qed

lemma listed_effect:
  "applyToListed env topic t battery ws b = (e, b') \<Longrightarrow>
     (\<forall>k. Store b' k \<noteq> Store b k \<longrightarrow>
        (\<exists>w \<in> set ws. key_of w = k \<and> telemetryTopicForDevice (device w) = topic)) \<and>
     (\<forall>k. observed_only (Store b k) (Store b' k)) \<and> Calls b' \<le> Calls b + 5 * length ws"
proof (induction ws arbitrary: b)
  case Nil
  then show ?case by simp
next
  case (Cons w ws)
  show ?case
  proof (cases "telemetryTopicForDevice (device w) = topic")
    case False
    then show ?thesis using Cons.prems Cons.IH [of b] by auto
  next
    case True
    obtain e1 r1 b1 where u: "updateObservedTelemetry env (key_of w) t battery b = (e1, r1, b1)"
      by (cases "updateObservedTelemetry env (key_of w) t battery b") auto
    then have one: "(\<forall>k. k \<noteq> key_of w \<longrightarrow> Store b1 k = Store b k)"
      "observed_only (Store b (key_of w)) (Store b1 (key_of w))" "Calls b1 \<le> Calls b + 5"
      using retry_effect [of defaultRetrySteps env "key_of w" t battery zeroResult b e1 r1 b1]
      by (simp_all add: updateObservedTelemetry_def defaultRetrySteps_def)
    then have all: "\<forall>k. observed_only (Store b k) (Store b1 k)"
      by (metis observed_only_refl)
    show ?thesis
    proof (cases e1)
      case (Some err)
      then show ?thesis using Cons.prems True u one all by auto
    next
      case None
      then have rest: "applyToListed env topic t battery ws b1 = (e, b')"
        using Cons.prems True u by simp
      note IH = Cons.IH [OF this]
      have "observed_only (Store b k) (Store b' k)" for k
        using IH all observed_only_trans by blast
      moreover have "\<exists>v \<in> set (w # ws). key_of v = k \<and> telemetryTopicForDevice (device v) = topic"
        if "Store b' k \<noteq> Store b k" for k
      proof (cases "k = key_of w")
        case True
        then show ?thesis using \<open>telemetryTopicForDevice (device w) = topic\<close> by auto
      next
        case False
        then have "Store b1 k = Store b k" using one(1) by blast
        then have "Store b' k \<noteq> Store b1 k" using that by metis
        then have "\<exists>v \<in> set ws. key_of v = k \<and> telemetryTopicForDevice (device v) = topic" using IH by blast
        then show ?thesis by (rule bexE) (rule bexI, assumption, simp)
      qed
      ultimately show ?thesis using IH one(3) by auto
    qed
  qed
qed

text \<open>C18: A message reaches only the resources of its topic.  Whatever the payload and however the API
  server answers, applying a message changes only resources that the listing shows with exactly that
  telemetry topic; of those, only fields telemetry owns; no resource appears or disappears; and the
  server is asked in at most five attempts (one read and one patch each) per listed resource.\<close>

theorem telemetry_routed:
  assumes "applyBatteryTelemetry env topic decoded (Inr ws) b = (res, b')"
  shows "(\<forall>k. Store b' k \<noteq> Store b k \<longrightarrow>
      (\<exists>w \<in> set ws. key_of w = k \<and> telemetryTopicForDevice (device w) = topic)) \<and>
    (\<forall>k. observed_only (Store b k) (Store b' k)) \<and> Calls b' \<le> Calls b + 5 * length ws"
proof (cases "\<exists>t0 t battery. decoded = Inr t0 \<and> normalizeTelemetry t0 = Inr (t, battery)")
  case True
  then obtain t0 t battery where "decoded = Inr t0" "normalizeTelemetry t0 = Inr (t, battery)" by blast
  then have "applyToListed env topic t battery ws b = (fst (applyToListed env topic t battery ws b), b')"
    using assms by (auto simp: applyBatteryTelemetry_def split: prod.splits option.splits)
  then show ?thesis by (rule listed_effect)
next
  case False
  then have "b' = b"
    using assms by (auto simp: applyBatteryTelemetry_def split: sum.splits)
  then show ?thesis by simp
qed

definition deviceOn :: "string \<Rightarrow> string \<Rightarrow> wasmFunction" where
  "deviceOn name topic = zeroWasmFunction\<lparr>M_Name := name,
     Spec := zeroSpec\<lparr>Device := zeroDevice\<lparr>TelemetryTopic := topic\<rparr>\<rparr>\<rparr>"

theorem telemetry_routed_witness:
  "Store (snd (applyBatteryTelemetry (\<lambda>_. \<lparr>GetError = None, AttemptNow = 1, PatchError = None\<rparr>) ''a''
      (Inr (zeroTelemetry\<lparr>T_BatteryPercent := Some 50\<rparr>)) (Inr [deviceOn ''x'' ''a'', deviceOn ''y'' ''b''])
      (emptyBridge\<lparr>Store := (\<lambda>_. None)(([], ''y'') := Some (deviceOn ''y'' ''b''))\<rparr>))) ([], ''y'')
    = Some (deviceOn ''y'' ''b'')"
proof -
  let ?env = "\<lambda>_. \<lparr>GetError = None, AttemptNow = 1, PatchError = None\<rparr> :: apiAttempt"
  let ?ws = "[deviceOn ''x'' ''a'', deviceOn ''y'' ''b'']"
  let ?b = "emptyBridge\<lparr>Store := (\<lambda>_. None)(([], ''y'') := Some (deviceOn ''y'' ''b''))\<rparr>"
  let ?tel = "Inr (zeroTelemetry\<lparr>T_BatteryPercent := Some 50\<rparr>) :: string + batteryTelemetry"
  have trim: "trimSpace ''a'' = ''a''" "trimSpace ''b'' = ''b''"
    by (rule trimSpace_plain, simp add: plain_char_def)+
  then have "\<not> (\<exists>w \<in> set ?ws. key_of w = ([], ''y'') \<and> telemetryTopicForDevice (device w) = ''a'')"
    by (simp add: deviceOn_def key_of_def zero_defs telemetryTopicForDevice_def)
  moreover obtain res b' where applied: "applyBatteryTelemetry ?env ''a'' ?tel (Inr ?ws) ?b = (res, b')"
    by (cases "applyBatteryTelemetry ?env ''a'' ?tel (Inr ?ws) ?b")
  ultimately have "Store b' ([], ''y'') = Store ?b ([], ''y'')"
    using telemetry_routed [OF applied] by blast
  then show ?thesis by (simp only: applied snd_conv) simp
qed

section \<open>Topics\<close>

text \<open>A refresh leaves no device unheard.  The topics the bridge subscribes to are sorted, without
  repetition and exactly the non-empty topics of the listed devices, and after subscribing to the
  missing ones every one of them is subscribed; nothing already subscribed is requested again.\<close>

theorem refresh_covers_topics:
  "case telemetryTopics ws of
     None \<Rightarrow> list_all (\<lambda>w. telemetryTopicForDevice (device w) = []) ws
   | Some topics \<Rightarrow>
       sorted topics \<and> distinct topics \<and>
       set topics = {telemetryTopicForDevice (device w) | w. w \<in> set ws} - {[]} \<and>
       set topics \<subseteq> subscribed \<union> set (missingTopics topics subscribed) \<and>
       subscribed \<inter> set (missingTopics topics subscribed) = {}"
  by (auto simp: telemetryTopics_def missingTopics_def Let_def list_all_iff filter_empty_conv)

end
