(* ===== verification/Command_Settling.thy ===== *)
theory Command_Settling
  imports Placement_Props Command_Safety Telemetry_Props
begin

text \<open>
  The command pass comes to rest: once a pass has gone through and the device reports what it was told,
  the next pass makes no external call.
\<close>

section \<open>What a step leaves alone\<close>

text \<open>What the status remembers of the thresholds and of the simulation command that were sent.\<close>

definition applied :: "wasmFunction \<Rightarrow> int32 \<times> int32 \<times> string" where
  "applied w = (LastAppliedLowBatteryThreshold (Status w), LastAppliedHighBatteryThreshold (Status w),
     LastAppliedBatterySimulationCommandID (Status w))"

definition keeps :: "(wasmFunction \<Rightarrow> 'v) \<Rightarrow> 'a step \<Rightarrow> bool" where
  "keeps F f \<longleftrightarrow> (\<forall>st :: operatorState. F (Wf (snd (f st))) = F (Wf st))"

named_theorems keeps_intros

lemma keepsD: "keeps F f \<Longrightarrow> f st = (r, st') \<Longrightarrow> F (Wf st') = F (Wf st)"
  unfolding keeps_def by (metis snd_conv)

lemma keeps_andThen [keeps_intros]: "keeps F f \<Longrightarrow> (\<And>a. keeps F (g a)) \<Longrightarrow> keeps F (andThen f g)"
  by (auto simp: keeps_def andThen_def split: prod.split sum.split) (metis snd_conv)+

lemma keeps_basic [keeps_intros]:
  "keeps F (ret a)" "keeps F (readClock env)" "keeps F (call env e)" "keeps F (publishControl env topic m)"
  by (simp_all add: keeps_def ret_def readClock_def call_def publishControl_def Let_def split: option.split)

lemma keeps_modify [keeps_intros]: "(\<And>st. F (Wf (f st)) = F (Wf st)) \<Longrightarrow> keeps F (modify f)"
  by (simp add: keeps_def modify_def)

lemma keeps_at: "(\<And>st :: operatorState. \<exists>f'. f st = f' st \<and> keeps F f') \<Longrightarrow> keeps F f"
  unfolding keeps_def by metis

lemma keeps_chosen: "f st = f' st \<Longrightarrow> keeps F f' \<Longrightarrow> \<exists>f'. f st = f' st \<and> keeps F f'"
  by blast

lemma keeps_if [keeps_intros]: "(b \<Longrightarrow> keeps F f) \<Longrightarrow> (\<not> b \<Longrightarrow> keeps F g) \<Longrightarrow> keeps F (if b then f else g)"
  by simp

lemma keeps_remember [keeps_intros]: "keeps applied (rememberCommand env c)"
  unfolding rememberCommand_def by (intro keeps_intros) (simp add: applied_def)

lemma keeps_after:
  assumes "\<And>st :: operatorState. F (Wf (snd (h st))) = F (Wf st)" "\<And>b. keeps F (k b)"
  shows "keeps F (\<lambda>st. case h st of (b, st') \<Rightarrow> k b st')"
  unfolding keeps_def
proof
  fix st :: operatorState
  obtain b st' where "h st = (b, st')" by (cases "h st")
  then show "F (Wf (snd (case h st of (b, st') \<Rightarrow> k b st'))) = F (Wf st)"
    using assms(1) [of st] assms(2) [of b] by (simp add: keeps_def)
qed

lemma keeps_stage: "keeps applied (applyReleaseStage env topic a)"
  unfolding keeps_def
proof
  fix st :: operatorState
  let ?w = "Wf st" and ?g = "R_Generation (release (Wf st))" and ?digest = "DesiredDigest a"
  have claim: "applied (Wf (snd (claimReleaseStageAttempt c now s))) = applied (Wf s)" for c now s
    by (simp add: claimReleaseStageAttempt_def applied_def Let_def split: prod.split)
  have "keeps applied (andThen (readClock env) (\<lambda>now s. case claimReleaseStageAttempt (stageCommandID ?g ?digest) now s of
      (b, s') \<Rightarrow> (case b of None \<Rightarrow> ret False
        | Some attempt \<Rightarrow> andThen (publishControl env topic (StageRelease (stageCommandID ?g ?digest) ?g (deviceArtifactURL ?w)
            ?digest (FunctionIdentity (release ?w)) (ResourceContract (release ?w)))) (\<lambda>_. ret True)) s'))"
    by (intro keeps_andThen keeps_after keeps_basic claim) (auto intro!: keeps_intros split: option.split)
  then have "applied (Wf (snd (andThen (readClock env) (\<lambda>now s. case claimReleaseStageAttempt (stageCommandID ?g ?digest) now s of
      (b, s') \<Rightarrow> (case b of None \<Rightarrow> ret False
        | Some attempt \<Rightarrow> andThen (publishControl env topic (StageRelease (stageCommandID ?g ?digest) ?g (deviceArtifactURL ?w)
            ?digest (FunctionIdentity (release ?w)) (ResourceContract (release ?w)))) (\<lambda>_. ret True)) s') st))) = applied ?w"
    unfolding keeps_def by blast
  then show "applied (Wf (snd (applyReleaseStage env topic a st))) = applied ?w"
    by (simp add: applyReleaseStage_def Let_def) (simp add: applied_def)
qed

lemma keeps_rejection: "keeps applied (applyDeadlineRejectionSignal env topic d)"
  unfolding keeps_def
  by (auto simp: applyDeadlineRejectionSignal_def andThen_def publishControl_def call_def modify_def ret_def applied_def
      readClock_def rememberCommand_def Let_def split: prod.split option.split sum.split)

lemma keeps_pause: "keeps applied (applyPauseCommand env topic)"
  unfolding keeps_def
  by (auto simp: applyPauseCommand_def andThen_def publishControl_def call_def modify_def ret_def applied_def
      readClock_def rememberCommand_def Let_def split: prod.split option.split sum.split)

lemma keeps_resume: "keeps applied (applyResumeCommand env topic d a)"
  unfolding keeps_def
  by (auto simp: applyResumeCommand_def andThen_def publishControl_def call_def modify_def ret_def applied_def
      readClock_def rememberCommand_def Let_def split: prod.split option.split sum.split)

lemma keeps_sendActivation [keeps_intros]: "keeps applied (sendActivation env topic c m p r t)"
  unfolding sendActivation_def
  by (intro keeps_intros) (simp_all add: applied_def rememberReleaseActivationSend_def)

lemma keeps_unlessSkipped [keeps_intros]: "keeps applied send \<Longrightarrow> keeps applied (unlessSkipped env c p m digest send)"
proof -
  have "applied (Wf (snd (shouldSkipPlacementCommand c p m g digest now s))) = applied (Wf s)" for g now s
    by (simp add: shouldSkipPlacementCommand_def Let_def)
  then show "keeps applied send \<Longrightarrow> ?thesis"
    unfolding unlessSkipped_def
    by (intro keeps_andThen keeps_after keeps_basic) (auto intro: keeps_intros)
qed

lemma keeps_sends [keeps_intros]:
  "keeps applied (sendActivateLocalCommand env topic t)" "keeps applied (sendRuntimeModeCommand env topic d t)"
  using keeps_sendActivation unfolding keeps_def sendActivateLocalCommand_def sendRuntimeModeCommand_def Let_def by blast+

lemma keeps_host [keeps_intros]: "keeps applied (ensureHostActive env a)"
  unfolding keeps_def
  by (auto simp: ensureHostActive_def activateHostRelease_def andThen_def call_def modify_def ret_def applied_def Let_def
      split: prod.split option.split sum.split)

lemma keeps_command: "keeps applied (applyPlacementCommand env topic d a)"
  unfolding keeps_def
proof
  fix st :: operatorState
  let ?g = "R_Generation (release (Wf st))" and ?t = "Transition d \<longrightarrow> Accepted (PD_Deadline d)"
  let ?local = "unlessSkipped env (activateLocalID ?g) (Desired d) placementLocal (DesiredDigest a)
    (sendActivateLocalCommand env topic ?t)"
  let ?edge = "andThen (ensureHostActive env a) (\<lambda>served. case served of None \<Rightarrow> ret False
    | Some a' \<Rightarrow> if \<not> hostActiveMatches a' (Wf st) then ret False
        else unlessSkipped env (runtimeEdgeID ?g) (Desired d) placementEdge (DesiredDigest a) (sendRuntimeModeCommand env topic d ?t))"
  have "keeps applied ?local" by (intro keeps_intros)
  moreover have "keeps applied ?edge" by (auto intro!: keeps_intros split: option.split)
  ultimately have "applied (Wf (snd (?local st))) = applied (Wf st)" "applied (Wf (snd (?edge st))) = applied (Wf st)"
    unfolding keeps_def by blast+
  moreover have "applyPlacementCommand env topic d a st = (Inr False, st) \<or>
      applyPlacementCommand env topic d a st = ?local st \<or> applyPlacementCommand env topic d a st = ?edge st"
    by (simp add: applyPlacementCommand_def Let_def cong: if_cong)
  ultimately show "applied (Wf (snd (applyPlacementCommand env topic d a st))) = applied (Wf st)" by auto
qed

section \<open>What a pass without an error has recorded\<close>

lemma andThen_InrE:
  assumes "andThen f g st = (Inr b, st')"
  obtains a st1 where "f st = (Inr a, st1)" "g a st1 = (Inr b, st')"
  using assms by (auto simp: andThen_def split: prod.splits sum.splits)

text \<open>The simulation command that the specification asks for, if it asks for one.\<close>

definition wantedSimulation :: "wasmFunction \<Rightarrow> string option" where
  "wantedSimulation w =
    map_option (\<lambda>enabled. simulationID enabled (effectiveSimulationStep (LocalDrainPercent (BatterySimulation (device w))))
      (effectiveSimulationStep (EdgeRecoverPercent (BatterySimulation (device w))))) (BS_Enabled (BatterySimulation (device w)))"

definition simulation_recorded :: "wasmFunction \<Rightarrow> bool" where
  "simulation_recorded w \<longleftrightarrow> (\<forall>c. wantedSimulation w = Some c \<longrightarrow> LastAppliedBatterySimulationCommandID (Status w) = c)"

definition thresholds_recorded :: "placementDecision \<Rightarrow> wasmFunction \<Rightarrow> bool" where
  "thresholds_recorded d w \<longleftrightarrow> (BatteryThresholdEnabled d \<longrightarrow>
     LastAppliedLowBatteryThreshold (Status w) = LowThreshold d \<and> LastAppliedHighBatteryThreshold (Status w) = HighThreshold d)"

lemma simulation_step:
  assumes "applyBatterySimulationUpdate env topic st = (Inr b, st')"
  shows "simulation_recorded (Wf st')"
  using assms
  by (auto simp: applyBatterySimulationUpdate_def simulation_recorded_def wantedSimulation_def andThen_def publishControl_def
      call_def modify_def readClock_def ret_def Let_def split: option.splits if_splits)

lemma thresholds_step:
  assumes "applyThresholdUpdate env topic d st = (Inr b, st')"
  shows "thresholds_recorded d (Wf st')"
    "LastAppliedBatterySimulationCommandID (Status (Wf st')) = LastAppliedBatterySimulationCommandID (Status (Wf st))"
    "device (Wf st') = device (Wf st)"
  using assms
  by (auto simp: applyThresholdUpdate_def thresholds_recorded_def andThen_def publishControl_def
      call_def modify_def ret_def Let_def split: option.splits if_splits)

lemma recorded_applied:
  assumes "applied w' = applied w" "device w' = device w"
  shows "simulation_recorded w' = simulation_recorded w" "thresholds_recorded d w' = thresholds_recorded d w"
  using assms by (simp_all add: applied_def simulation_recorded_def thresholds_recorded_def wantedSimulation_def)

lemma view_device: "same_view w w' \<Longrightarrow> device w' = device w"
  by (simp add: same_viewD(1))

lemma before_records:
  assumes "beforeCommand env (ControlTopic (device (Wf st))) d a st = (Inr u, st')"
  shows "simulation_recorded (Wf st') \<and> thresholds_recorded d (Wf st')"
proof -
  let ?topic = "ControlTopic (device (Wf st))"
  have view: "same_view (Wf st) (Wf st')"
    using emits_before [of "Wf st" d a env] assms unfolding emits_def by (metis same_view_refl snd_conv)
  from assms obtain b1 st1 b2 st2 b3 st3 u4 st4 where
    1: "applyReleaseStage env ?topic a st = (Inr b1, st1)"
    and 2: "applyBatterySimulationUpdate env ?topic st1 = (Inr b2, st2)"
    and 3: "applyThresholdUpdate env ?topic d st2 = (Inr b3, st3)"
    and 4: "applyDeadlineRejectionSignal env ?topic d st3 = (Inr u4, st4)"
    and 5: "(if Hard d \<and> Transition d \<and> \<not> Accepted (PD_Deadline d) then applyPauseCommand env ?topic else ret ()) st4 = (Inr u, st')"
    unfolding beforeCommand_def by (elim andThen_InrE) blast
  let ?pause = "if Hard d \<and> Transition d \<and> \<not> Accepted (PD_Deadline d) then applyPauseCommand env ?topic else ret ()"
  have "keeps applied ?pause" by (intro keeps_if keeps_pause keeps_basic)
  then have same: "applied (Wf st') = applied (Wf st3)"
    using keepsD [OF keeps_rejection 4] keepsD [of applied ?pause st4, OF _ 5] by simp
  have v1: "same_view (Wf st) (Wf st1)"
    using emits_stage [of "Wf st" d a env] 1 unfolding emits_def by (metis same_view_refl snd_conv)
  then have "same_view (Wf st) (Wf st2)"
    using emits_simulation [of "Wf st" d a env] 2 unfolding emits_def by (metis snd_conv)
  note v1 this
  then have dev: "device (Wf st1) = device (Wf st)" "device (Wf st2) = device (Wf st)" "device (Wf st') = device (Wf st)"
    using view view_device by blast+
  have "simulation_recorded (Wf st3)"
    using simulation_step [OF 2] thresholds_step(2,3) [OF 3]
    by (simp add: simulation_recorded_def wantedSimulation_def)
  moreover have "thresholds_recorded d (Wf st3)" by (rule thresholds_step(1) [OF 3])
  moreover have "device (Wf st') = device (Wf st3)" using dev thresholds_step(3) [OF 3] by simp
  ultimately show ?thesis using recorded_applied [OF same] by simp
qed

lemma keeps_afterCommand: "keeps applied (afterCommand env topic d a c)"
  unfolding afterCommand_def
  by (intro keeps_andThen keeps_if keeps_resume keeps_basic keeps_modify) (simp add: applied_def)

lemma stage_has_url:
  assumes "applyReleaseStage env topic a st = (Inr b, st')" "A_Enabled a" "DesiredDigest a \<noteq> []"
    and "0 < R_Generation (release (Wf st))"
  shows "deviceArtifactURL (Wf st) \<noteq> []"
  using assms by (auto simp: applyReleaseStage_def Let_def)

lemma pass_records:
  assumes "applyPlacement env d a st = ((c, None), st')" "ControlTopic (device (Wf st)) \<noteq> []"
  shows "simulation_recorded (Wf st')" "thresholds_recorded d (Wf st')" "Spec (Wf st') = Spec (Wf st)"
    "A_Enabled a \<Longrightarrow> DesiredDigest a \<noteq> [] \<Longrightarrow> 0 < R_Generation (release (Wf st)) \<Longrightarrow> deviceArtifactURL (Wf st) \<noteq> []"
proof -
  let ?topic = "ControlTopic (device (Wf st))"
  let ?pass = "andThen (andThen (beforeCommand env ?topic d a) (\<lambda>_. applyPlacementCommand env ?topic d a))
    (afterCommand env ?topic d a)"
  obtain u where "?pass st = (Inr u, st')"
    using applyPlacement_steps [OF refl assms(2), of env d a] assms(1)
    by (cases "?pass st") (auto split: sum.splits)
  then obtain c1 s1 s2 where before: "beforeCommand env ?topic d a st = (Inr (), s1)"
    and cmd: "applyPlacementCommand env ?topic d a s1 = (Inr c1, s2)" and after: "afterCommand env ?topic d a c1 s2 = (Inr u, st')"
    by (elim andThen_InrE) (metis unit.exhaust)
  have same: "applied (Wf st') = applied (Wf s1)"
    using keepsD [OF keeps_command cmd] keepsD [OF keeps_afterCommand after] by simp
  have v1: "same_view (Wf st) (Wf s1)"
    using emits_before [of "Wf st" d a env] before unfolding emits_def by (metis same_view_refl snd_conv)
  have "same_view (Wf st) (Wf st')"
    using pass_events [of env d a st] assms(1) by (metis snd_conv)
  then show spec: "Spec (Wf st') = Spec (Wf st)" by (rule same_viewD(1))
  with v1 have "device (Wf st') = device (Wf s1)" by (simp add: same_viewD(1))
  from recorded_applied [OF same this] before_records [OF before]
  show "simulation_recorded (Wf st')" "thresholds_recorded d (Wf st')" by simp_all
  obtain b s0 where "applyReleaseStage env ?topic a st = (Inr b, s0)"
    using before unfolding beforeCommand_def by (elim andThen_InrE) blast
  then show "A_Enabled a \<Longrightarrow> DesiredDigest a \<noteq> [] \<Longrightarrow> 0 < R_Generation (release (Wf st)) \<Longrightarrow> deviceArtifactURL (Wf st) \<noteq> []"
    by (rule stage_has_url)
qed

section \<open>Silence\<close>

text \<open>A release is declared and its source known.\<close>

definition release_declared :: "wasmFunction \<Rightarrow> artifactDecision \<Rightarrow> bool" where
  "release_declared w a \<longleftrightarrow> A_Enabled a \<and> DesiredDigest a \<noteq> [] \<and> 0 < R_Generation (release w)"

definition simulation_acknowledged :: "wasmFunction \<Rightarrow> bool" where
  "simulation_acknowledged w \<longleftrightarrow> (\<forall>enabled. BS_Enabled (BatterySimulation (device w)) = Some enabled \<longrightarrow>
     batterySimulationSourceAcknowledged w enabled)"

definition settled :: "wasmFunction \<Rightarrow> placementDecision \<Rightarrow> artifactDecision \<Rightarrow> bool" where
  "settled w d a \<longleftrightarrow> \<not> Transition d \<and> simulation_recorded w \<and> simulation_acknowledged w \<and> thresholds_recorded d w \<and>
     \<not> ObservedAdmissionPaused (Status w) \<and>
     (release_declared w a \<longrightarrow> deviceArtifactURL w \<noteq> [] \<and> deviceReleaseReady w (DesiredDigest a) \<and>
        runsAlready w (runtimeModeForPlacement (Desired d)) (R_Generation (release w)) (DesiredDigest a) \<and>
        (Desired d \<noteq> placementLocal \<longrightarrow> hostActiveMatches a w \<and> runtimeModeForPlacement (Desired d) = placementEdge))"

lemma settled_simulation:
  assumes "simulation_recorded (Wf st)" "simulation_acknowledged (Wf st)"
  shows "applyBatterySimulationUpdate env topic st = (Inr False, st)"
  using assms
  by (auto simp: applyBatterySimulationUpdate_def simulation_recorded_def simulation_acknowledged_def wantedSimulation_def
      Let_def split: option.split)

lemma settled_thresholds: "thresholds_recorded d (Wf st) \<Longrightarrow> applyThresholdUpdate env topic d st = (Inr False, st)"
  by (auto simp: applyThresholdUpdate_def thresholds_recorded_def)

lemma settled_attempts:
  "settled (on_status (\<lambda>s. s\<lparr>StageCommandAttempts := n\<rparr>) w) d a = settled w d a"
proof -
  let ?w = "on_status (\<lambda>s. s\<lparr>StageCommandAttempts := n\<rparr>) w"
  have "simulation_recorded ?w = simulation_recorded w" "thresholds_recorded d ?w = thresholds_recorded d w"
    by (simp_all add: simulation_recorded_def thresholds_recorded_def wantedSimulation_def)
  moreover have "batterySimulationSourceAcknowledged ?w = batterySimulationSourceAcknowledged w"
    by (rule ext) (simp add: batterySimulationSourceAcknowledged_def)
  then have "simulation_acknowledged ?w = simulation_acknowledged w" by (simp add: simulation_acknowledged_def)
  moreover have "release_declared ?w a = release_declared w a" "deviceArtifactURL ?w = deviceArtifactURL w"
    "deviceReleaseReady ?w digest = deviceReleaseReady w digest" "runsAlready ?w p g digest = runsAlready w p g digest"
    "hostActiveMatches a ?w = hostActiveMatches a w" for p g digest
    by (simp_all add: release_declared_def deviceArtifactURL_def deviceReleaseReady_def deviceReleaseStaged_def
        deviceReleaseActive_def runsAlready_def hostActiveMatches_def hostReleaseMatches_def)
  ultimately show ?thesis by (simp add: settled_def)
qed

lemma settled_before:
  assumes "settled (Wf st) d a"
  obtains st1 where "beforeCommand env topic d a st = (Inr (), st1)" "Events st1 = Events st"
    "Wf st1 = Wf st \<or> Wf st1 = on_status (\<lambda>s. s\<lparr>StageCommandAttempts := 0\<rparr>) (Wf st)"
proof -
  let ?w = "Wf st"
  obtain st1 where stage: "applyReleaseStage env topic a st = (Inr False, st1)" "Events st1 = Events st"
    "Wf st1 = ?w \<or> Wf st1 = on_status (\<lambda>s. s\<lparr>StageCommandAttempts := 0\<rparr>) ?w"
  proof (cases "release_declared ?w a")
    case True
    then show thesis
      using assms
      by (intro that [of "(setStatus (\<lambda>s. s\<lparr>StageCommandAttempts := 0\<rparr>) st)
          \<lparr>StageSends := (StageSends st)(key_of (Wf st) := None)\<rparr>"])
        (auto simp: applyReleaseStage_def settled_def release_declared_def Let_def)
  next
    case False
    then show thesis
      by (intro that [of st]) (auto simp: applyReleaseStage_def release_declared_def Let_def)
  qed
  have "settled (Wf st1) d a" using assms stage(3) settled_attempts by metis
  then have "simulation_recorded (Wf st1)" "simulation_acknowledged (Wf st1)" "thresholds_recorded d (Wf st1)"
    by (simp_all add: settled_def)
  note quiet = settled_simulation [OF this(1,2)] settled_thresholds [OF this(3)]
  have "\<not> Transition d" using assms by (simp add: settled_def)
  then have "beforeCommand env topic d a st = (Inr (), st1)"
    by (simp add: beforeCommand_def andThen_def stage(1) quiet applyDeadlineRejectionSignal_def deadlineRejected_def ret_def Let_def)
  then show thesis using stage(2,3) by (rule that)
qed

lemma settled_skip:
  assumes "runsAlready (Wf st) p (R_Generation (release (Wf st))) digest"
  shows "\<exists>st'. unlessSkipped env c d p digest send st = (Inr False, st') \<and> Events st' = Events st \<and> Wf st' = Wf st"
  using assms
  by (simp add: unlessSkipped_def andThen_def readClock_def shouldSkipPlacementCommand_def ret_def Let_def)

lemma settled_command:
  assumes "settled (Wf st) d a"
  shows "\<exists>st'. applyPlacementCommand env topic d a st = (Inr False, st') \<and> Events st' = Events st \<and> Wf st' = Wf st"
proof (cases "release_declared (Wf st) a")
  case False
  then show ?thesis by (auto simp: applyPlacementCommand_def release_declared_def Let_def)
next
  case True
  let ?g = "R_Generation (release (Wf st))" and ?t = "\<not> Transition d \<or> Accepted (PD_Deadline d)"
  have ready: "deviceReleaseReady (Wf st) (DesiredDigest a)"
    and runs: "runsAlready (Wf st) (runtimeModeForPlacement (Desired d)) ?g (DesiredDigest a)"
    and host: "Desired d \<noteq> placementLocal \<Longrightarrow> hostActiveMatches a (Wf st) \<and> runtimeModeForPlacement (Desired d) = placementEdge"
    using assms True by (auto simp: settled_def)
  show ?thesis
  proof (cases "Desired d = placementLocal")
    case local: True
    have "runtimeModeForPlacement placementLocal = placementLocal" by (simp add: runtimeModeForPlacement_def)
    then have "applyPlacementCommand env topic d a st = unlessSkipped env (activateLocalID ?g) (Desired d) placementLocal
        (DesiredDigest a) (sendActivateLocalCommand env topic ?t) st"
      using True ready local by (simp add: applyPlacementCommand_def release_declared_def Let_def)
    then show ?thesis using settled_skip [of st placementLocal "DesiredDigest a"] runs local
      \<open>runtimeModeForPlacement placementLocal = placementLocal\<close> by simp
  next
    case False
    then have "applyPlacementCommand env topic d a st = unlessSkipped env (runtimeEdgeID ?g) (Desired d) placementEdge
        (DesiredDigest a) (sendRuntimeModeCommand env topic d ?t) st"
      using True ready host by (simp add: applyPlacementCommand_def release_declared_def ensureHostActive_def andThen_def Let_def)
    then show ?thesis using settled_skip [of st placementEdge "DesiredDigest a"] runs host False by simp
  qed
qed

lemma settled_silent:
  assumes "settled (Wf st) d a"
  shows "\<exists>st'. applyPlacement env d a st = ((False, None), st') \<and> Events st' = Events st"
proof (cases "ControlTopic (device (Wf st)) = []")
  case True
  then show ?thesis by (simp add: applyPlacement_def)
next
  case False
  let ?topic = "ControlTopic (device (Wf st))"
  obtain st1 where before: "beforeCommand env ?topic d a st = (Inr (), st1)" "Events st1 = Events st"
    "Wf st1 = Wf st \<or> Wf st1 = on_status (\<lambda>s. s\<lparr>StageCommandAttempts := 0\<rparr>) (Wf st)"
    by (rule settled_before [OF assms])
  then have "settled (Wf st1) d a" using assms settled_attempts by metis
  then obtain st2 where cmd: "applyPlacementCommand env ?topic d a st1 = (Inr False, st2)" "Events st2 = Events st1" "Wf st2 = Wf st1"
    using settled_command by blast
  have "\<not> ObservedAdmissionPaused (Status (Wf st2))"
    using \<open>settled (Wf st1) d a\<close> cmd(3) by (simp add: settled_def)
  then have "afterCommand env ?topic d a False st2 = (Inr (), st2)"
    by (simp add: afterCommand_def andThen_def ret_def applyResumeCommand_def Let_def)
  then have "applyPlacement env d a st = ((False, None), st2)"
    using False before(1) cmd(1)
    by (simp add: applyPlacement_def beforeCommand_def [symmetric] afterCommand_def andThen_def Let_def)
  then show ?thesis using before(2) cmd(2) by simp
qed

section \<open>The device answers\<close>

text \<open>
  A normalised message of a device that did what the pass asked for: it runs the declared release in the
  mode of the decided placement, admits calls, and reads its battery from the source the specification
  asks for.
\<close>

definition compliant :: "batteryTelemetry \<Rightarrow> wasmFunction \<Rightarrow> placementDecision \<Rightarrow> bool" where
  "compliant t w d \<longleftrightarrow>
     runtimeModeForPlacement (Desired d) \<noteq> [] \<and> T_Mode t = runtimeModeForPlacement (Desired d) \<and>
     T_AdmissionPaused t = Some False \<and> T_ReleaseGeneration t = Some (R_Generation (release w)) \<and>
     normalizeArtifactDigest (R_ArtifactDigest (release w)) \<noteq> [] \<and>
     T_ArtifactDigest t = normalizeArtifactDigest (R_ArtifactDigest (release w)) \<and>
     trimSpace (FunctionIdentity (release w)) \<noteq> [] \<and> T_Function t = trimSpace (FunctionIdentity (release w)) \<and>
     (\<forall>enabled. BS_Enabled (BatterySimulation (device w)) = Some enabled \<longrightarrow>
        T_Source t = (if enabled then ''simulated'' else ''real''))"

lemma compliant_spec: "Spec w' = Spec w \<Longrightarrow> compliant t w' d = compliant t w d"
  by (simp add: compliant_def)

lemma sources_plain: "toLower (trimSpace ''simulated'') = ''simulated''" "toLower (trimSpace ''real'') = ''real''"
  by code_simp+

lemma compliant_observed:
  assumes obs: "observeTelemetry key t battery now w r b = (w', r', b')"
    and "compliant t w d" "simulation_recorded w" "thresholds_recorded d w"
  shows "Spec w' = Spec w" "simulation_recorded w'" "thresholds_recorded d w'" "simulation_acknowledged w'"
    "\<not> ObservedAdmissionPaused (Status w')" "deviceReleaseReady w' (normalizeArtifactDigest (R_ArtifactDigest (release w)))"
    "runsAlready w' (runtimeModeForPlacement (Desired d)) (R_Generation (release w))
       (normalizeArtifactDigest (R_ArtifactDigest (release w)))"
proof -
  obtain n win risky where
    w': "w' = on_status (\<lambda>s. (observed_status t battery (drain_status n win risky s))\<lparr>LastTelemetryTime := Some now\<rparr>) w"
    by (rule observe_cases [OF obs]) blast
  show spec: "Spec w' = Spec w" by (simp add: w')
  have "applied w' = applied w" by (simp add: w' applied_def observed_status_def drain_status_def)
  moreover have "device w' = device w" using spec by simp
  ultimately have "simulation_recorded w' = simulation_recorded w" "thresholds_recorded d w' = thresholds_recorded d w"
    by (rule recorded_applied)+
  with assms(3,4) show "simulation_recorded w'" "thresholds_recorded d w'"
    by simp_all
  have "ObservedBatterySource (Status w') = (if enabled then ''simulated'' else ''real'')"
    if "BS_Enabled (BatterySimulation (device w)) = Some enabled" for enabled
    using assms(2) that by (simp add: w' compliant_def observed_status_def)
  then show "simulation_acknowledged w'"
    by (simp add: simulation_acknowledged_def batterySimulationSourceAcknowledged_def spec sources_plain)
  show "\<not> ObservedAdmissionPaused (Status w')"
    using assms(2) by (simp add: w' compliant_def observed_status_def)
  have "deviceReleaseActive w' (normalizeArtifactDigest (R_ArtifactDigest (release w)))"
    using assms(2) by (simp add: w' compliant_def observed_status_def deviceReleaseActive_def)
  then show "deviceReleaseReady w' (normalizeArtifactDigest (R_ArtifactDigest (release w)))"
    by (simp add: deviceReleaseReady_def)
  show "runsAlready w' (runtimeModeForPlacement (Desired d)) (R_Generation (release w))
       (normalizeArtifactDigest (R_ArtifactDigest (release w)))"
    using assms(2) by (simp add: w' compliant_def observed_status_def runsAlready_def)
qed

text \<open>C6: The command pass comes to rest.  Take a pass that went through without an error, whatever it
  found and whatever it sent, and a telemetry message of a device that did what the pass asked for.  When
  the next decision is for the same placement with no transition pending and the same thresholds, and for an
  edge or hybrid placement the host is reported to serve the release, the next pass sends nothing: no
  message is published, no activation is requested, and it reports neither a command nor an error.\<close>

theorem commands_settle:
  assumes "applyPlacement env d a st = ((c, None), st1)" "ControlTopic (device (Wf st)) \<noteq> []"
    and "A_Enabled a" "DesiredDigest a = normalizeArtifactDigest (R_ArtifactDigest (release (Wf st)))"
    and "observeTelemetry key t battery now (Wf st1) r b = (w2, r2, b2)" "compliant t (Wf st) d"
    and "Desired d2 = Desired d" "Desired d \<in> {placementLocal, placementEdge, placementHybrid}" "\<not> Transition d2"
    and "BatteryThresholdEnabled d2 = BatteryThresholdEnabled d" "LowThreshold d2 = LowThreshold d"
      "HighThreshold d2 = HighThreshold d"
    and "DesiredDigest a2 = DesiredDigest a" "Desired d \<noteq> placementLocal \<Longrightarrow> hostActiveMatches a2 w2"
    and "Wf st2 = w2"
  shows "\<exists>st3. applyPlacement env2 d2 a2 st2 = ((False, None), st3) \<and> Events st3 = Events st2"
proof (rule settled_silent)
  note recorded = pass_records [OF assms(1,2)]
  have "compliant t (Wf st1) d" using assms(6) compliant_spec [OF recorded(3)] by simp
  note observed = compliant_observed [OF assms(5) this recorded(1,2)]
  have digest: "DesiredDigest a \<noteq> []" using assms(4,6) by (simp add: compliant_def)
  have "thresholds_recorded d2 w2"
    using observed(3) assms(10-12) by (simp add: thresholds_recorded_def)
  moreover have "deviceArtifactURL w2 \<noteq> []" if "0 < R_Generation (release w2)"
    using recorded(3,4) observed(1) assms(3) digest that by (simp add: deviceArtifactURL_def)
  moreover have "runtimeModeForPlacement (Desired d) = placementEdge" if "Desired d \<noteq> placementLocal"
    using assms(8) that by (auto simp: runtimeModeForPlacement_def)
  ultimately show "settled (Wf st2) d2 a2"
    using observed assms(4,7,9,13-15) recorded(3) by (auto simp: settled_def release_declared_def)
qed

definition settlingFunction :: wasmFunction where
  "settlingFunction = zeroWasmFunction\<lparr>
     Spec := zeroSpec\<lparr>Device := zeroDevice\<lparr>ControlTopic := ''device/control'', D_ArtifactURL := ''http://a'',
         BatterySimulation := (BatterySimulation zeroDevice)\<lparr>BS_Enabled := Some True\<rparr>\<rparr>,
       Release := zeroRelease\<lparr>R_Generation := 6, R_ArtifactDigest := sampleDigest, FunctionIdentity := ''f''\<rparr>\<rparr>,
     Status := zeroStatus\<lparr>StagedReleaseGeneration := 6, DeviceStagedArtifactDigest := sampleDigest\<rparr>\<rparr>"

definition settlingArtifact :: artifactDecision where
  "settlingArtifact = zeroArtifact\<lparr>A_Enabled := True, DesiredDigest := sampleDigest\<rparr>"

definition settlingDecision :: placementDecision where
  "settlingDecision = (initialDecision settlingFunction)\<lparr>Desired := ''local''\<rparr>"

definition settlingTelemetry :: batteryTelemetry where
  "settlingTelemetry = zeroTelemetry\<lparr>T_Mode := ''local'', T_AdmissionPaused := Some False, T_ReleaseGeneration := Some 6,
     T_ArtifactDigest := sampleDigest, T_Function := ''f'', T_Source := ''simulated''\<rparr>"

abbreviation settlingEnv :: environment where
  "settlingEnv \<equiv> \<lparr>Clock = (\<lambda>_. second), Outcome = (\<lambda>_. None)\<rparr>"

lemma settling_facts:
  "ControlTopic (device settlingFunction) = ''device/control''" "R_Generation (release settlingFunction) = 6"
  "deviceArtifactURL settlingFunction = ''http://a''" "deviceReleaseReady settlingFunction sampleDigest"
  "\<not> runsAlready settlingFunction ''local'' 6 sampleDigest" "LastCommandID (Status settlingFunction) = []"
  "\<not> ObservedAdmissionPaused (Status settlingFunction)"
  "BS_Enabled (BatterySimulation (device settlingFunction)) = Some True"
  "LastAppliedBatterySimulationCommandID (Status settlingFunction) = []"
  "LastAppliedLowBatteryThreshold (Status settlingFunction) = 0"
proof -
  have "trimSpace ''http://a'' = ''http://a''" by code_simp
  then show "deviceArtifactURL settlingFunction = ''http://a''"
    by (simp add: settlingFunction_def deviceArtifactURL_def zero_defs)
qed (simp_all add: settlingFunction_def zero_defs deviceReleaseReady_def deviceReleaseStaged_def runsAlready_def)

lemma settlingDecision_facts:
  "Desired settlingDecision = ''local''" "\<not> Transition settlingDecision" "\<not> Hard settlingDecision"
  "BatteryThresholdEnabled settlingDecision" "LowThreshold settlingDecision = 20" "HighThreshold settlingDecision = 60"
  by (simp_all add: settlingDecision_def initialDecision_def settlingFunction_def zero_defs effectiveBatteryThresholdEnabled_def
      resolvedLowThreshold_def resolvedHighThreshold_def defaultLowBatteryThreshold_def defaultHighBatteryThreshold_def)

lemma settling_plain: "trimSpace ''http://a'' = ''http://a''" "trimSpace ''f'' = ''f''"
  by code_simp+

lemma settling_pass:
  "fst (applyPlacement settlingEnv settlingDecision settlingArtifact (emptyOperator settlingFunction)) = (True, None)"
  "map fst (Events (snd (applyPlacement settlingEnv settlingDecision settlingArtifact (emptyOperator settlingFunction)))) =
     [Publish ''device/control'' (SetSimulation (simulationID True 10 10) True 10 10),
      Publish ''device/control'' (SetThresholds (thresholdsID 20 60) 20 60),
      Publish ''device/control'' (ActivateLocal (activateLocalID 6) 6)]"
  using is_digest_not_Nil [OF sampleDigest]
  by (simp_all add: applyPlacement_def settlingDecision_facts beforeCommand_def applyReleaseStage_def Let_def andThen_def
     applyBatterySimulationUpdate_def applyThresholdUpdate_def applyDeadlineRejectionSignal_def deadlineRejected_def
     publishControl_def call_def ret_def modify_def readClock_def settlingArtifact_def settlingFunction_def zero_defs
     deviceArtifactURL_def deviceReleaseReady_def deviceReleaseStaged_def settling_plain emptyOperator_def
     simulationID_def applyPlacementCommand_def unlessSkipped_def shouldSkipPlacementCommand_def runsAlready_def
     sendActivateLocalCommand_def sendActivation_def applyResumeCommand_def rememberReleaseActivationSend_def effectiveSimulationStep_def
     activateLocalID_def)

theorem commands_settle_witness:
  "\<exists>st1 st3. applyPlacement settlingEnv settlingDecision settlingArtifact (emptyOperator settlingFunction) = ((True, None), st1) \<and>
     length (Events st1) = 3 \<and>
     (let w2 = fst (observeTelemetry (''sif'', ''f'') settlingTelemetry 50 (2 * second) (Wf st1) zeroResult emptyBridge)
      in applyPlacement settlingEnv settlingDecision settlingArtifact (st1\<lparr>Wf := w2\<rparr>) = ((False, None), st3)) \<and>
     Events st3 = Events st1"
proof -
  let ?pass = "applyPlacement settlingEnv settlingDecision settlingArtifact (emptyOperator settlingFunction)"
  obtain st1 where pass: "?pass = ((True, None), st1)" using settling_pass(1) by (cases ?pass) auto
  have three: "length (Events st1) = 3" using arg_cong [OF settling_pass(2), of length] by (simp add: pass)
  let ?o = "observeTelemetry (''sif'', ''f'') settlingTelemetry 50 (2 * second) (Wf st1) zeroResult emptyBridge"
  obtain w2 r2 b2 where obs: "?o = (w2, r2, b2)" by (cases ?o) auto
  have digest: "sampleDigest = normalizeArtifactDigest (R_ArtifactDigest (release settlingFunction))" "sampleDigest \<noteq> []"
    using normalize_digest [OF sampleDigest] is_digest_not_Nil [OF sampleDigest] by (simp_all add: settlingFunction_def)
  have "compliant settlingTelemetry settlingFunction settlingDecision"
    using digest by (simp add: compliant_def settlingTelemetry_def settlingDecision_facts settling_facts runtimeModeForPlacement_def)
      (simp add: settlingFunction_def settling_plain)
  then obtain st3 where "applyPlacement settlingEnv settlingDecision settlingArtifact (st1\<lparr>Wf := w2\<rparr>) = ((False, None), st3)"
      "Events st3 = Events (st1\<lparr>Wf := w2\<rparr>)"
    using commands_settle [OF pass _ _ _ obs, of settlingDecision settlingArtifact "st1\<lparr>Wf := w2\<rparr>" settlingEnv]
      digest settling_facts(1) by (auto simp: settlingArtifact_def settlingDecision_facts)
  then show ?thesis using pass three obs by (intro exI [of _ st1] exI [of _ st3]) simp
qed

end
