(* ===== verification/Mqtt_Codec.thy ===== *)
theory Mqtt_Codec
  imports Go_Text "HOL-Library.Word"
begin

text \<open>
  The MQTT 3.1.1 packets of the operator (\<open>mqtt_publisher.go\<close> and the second half of
  \<open>mqtt_telemetry.go\<close>): bytes are \<open>8 word\<close>, packet identifiers \<open>16 word\<close>, and a connection is what
  the peer sends, what was written to it and how its writes end.
\<close>

unbundle bit_operations_syntax

type_synonym byte = "8 word"

section \<open>Bytes\<close>

definition byte_of :: "char \<Rightarrow> byte" where
  "byte_of c = word_of_nat (of_char c)"

definition char_at :: "byte \<Rightarrow> char" where
  "char_at b = char_of (unat b)"

text \<open>\<open>binary.BigEndian\<close>.\<close>

definition putUint16 :: "16 word \<Rightarrow> byte list" where
  "putUint16 v = [ucast (drop_bit 8 v), ucast v]"

definition uint16 :: "byte \<Rightarrow> byte \<Rightarrow> 16 word" where
  "uint16 hi lo = push_bit 8 (ucast hi) OR ucast lo"

section \<open>The connection\<close>

text \<open>
  What a read meets next: a byte, the read deadline, or a broken connection.  The end of the list is
  the end of the stream.  A deadline is absolute: once it passed, every read fails at once until a new
  one is set, even with bytes at hand.
\<close>

datatype arrival = Octet byte | DeadlinePassed | Broken string

datatype readError = EOF | UnexpectedEOF | Timeout | ReadFailure string | TooLong

record connection =
  Incoming :: "arrival list"
  Written :: "byte list list"
  WriteErrors :: "string option list"

text \<open>\<open>io.ReadFull\<close> of a buffer of \<open>n\<close> bytes: what was read before an error is gone.\<close>

fun readFull :: "nat \<Rightarrow> arrival list \<Rightarrow> (readError + byte list) \<times> arrival list" where
  "readFull 0 s = (Inr [], s)"
| "readFull (Suc n) [] = (Inl EOF, [])"
| "readFull (Suc n) (Octet b # s) =
    (case readFull n s of
       (Inr bs, s') \<Rightarrow> (Inr (b # bs), s')
     | (Inl EOF, s') \<Rightarrow> (Inl UnexpectedEOF, s')
     | (Inl e, s') \<Rightarrow> (Inl e, s'))"
| "readFull (Suc n) (DeadlinePassed # s) = (Inl Timeout, DeadlinePassed # s)"
| "readFull (Suc n) (Broken e # s) = (Inl (ReadFailure e), Broken e # s)"

fun setReadDeadline :: "arrival list \<Rightarrow> arrival list" where
  "setReadDeadline (DeadlinePassed # s) = s"
| "setReadDeadline s = s"

text \<open>\<open>conn.Write\<close>: the first pending outcome decides; without one the write succeeds.\<close>

definition connWrite :: "byte list \<Rightarrow> connection \<Rightarrow> string option \<times> connection" where
  "connWrite bs c =
    (case WriteErrors c of
       [] \<Rightarrow> (None, c\<lparr>Written := Written c @ [bs]\<rparr>)
     | None # rest \<Rightarrow> (None, c\<lparr>Written := Written c @ [bs], WriteErrors := rest\<rparr>)
     | Some e # rest \<Rightarrow> (Some e, c\<lparr>WriteErrors := rest\<rparr>))"

section \<open>Encoding\<close>

definition mqttString :: "string \<Rightarrow> byte list" where
  "mqttString s = putUint16 (word_of_nat (length s)) @ map byte_of s"

fun remainingLengthBytes :: "nat \<Rightarrow> byte list" where
  "remainingLengthBytes n =
    (if n div 128 > 0 then (word_of_nat (n mod 128) OR 128) # remainingLengthBytes (n div 128)
     else [word_of_nat (n mod 128)])"

declare remainingLengthBytes.simps [simp del]

definition mqttFixedHeader :: "byte \<Rightarrow> nat \<Rightarrow> byte list" where
  "mqttFixedHeader packetType n = packetType # remainingLengthBytes n"

section \<open>Decoding\<close>

text \<open>The loop of \<open>mqttReadRemainingLength\<close>: \<open>fuel\<close> is \<open>4 - i\<close>.\<close>

fun readLengthLoop :: "nat \<Rightarrow> nat \<Rightarrow> nat \<Rightarrow> arrival list \<Rightarrow> (readError + nat) \<times> arrival list" where
  "readLengthLoop 0 multiplier n s = (Inl TooLong, s)"
| "readLengthLoop (Suc fuel) multiplier n s =
    (case readFull 1 s of
       (Inl e, s') \<Rightarrow> (Inl e, s')
     | (Inr bs, s') \<Rightarrow>
         (let b = hd bs; n' = n + unat (b AND 0x7F) * multiplier
          in if b AND 0x80 = 0 then (Inr n', s')
             else readLengthLoop fuel (multiplier * 128) n' s'))"

definition mqttReadRemainingLength :: "arrival list \<Rightarrow> (readError + nat) \<times> arrival list" where
  "mqttReadRemainingLength s = readLengthLoop 4 1 0 s"

definition mqttReadPacket :: "arrival list \<Rightarrow> (readError + byte \<times> byte list) \<times> arrival list" where
  "mqttReadPacket s =
    (case readFull 1 s of
       (Inl e, s1) \<Rightarrow> (Inl e, s1)
     | (Inr header, s1) \<Rightarrow>
         (case mqttReadRemainingLength s1 of
            (Inl e, s2) \<Rightarrow> (Inl e, s2)
          | (Inr remaining, s2) \<Rightarrow>
              (case readFull remaining s2 of
                 (Inl e, s3) \<Rightarrow> (Inl e, s3)
               | (Inr body, s3) \<Rightarrow> (Inr (hd header, body), s3))))"

definition mqttParsePublish :: "byte \<Rightarrow> byte list \<Rightarrow> string + string \<times> byte list" where
  "mqttParsePublish header packet =
    (if length packet < 2 then Inl ''short MQTT PUBLISH packet''
     else let topicLength = unat (uint16 (packet ! 0) (packet ! 1))
          in if length packet < 2 + topicLength then Inl ''truncated MQTT topic in PUBLISH packet''
             else let qos = drop_bit 1 (header AND 0x06)
                  in if qos > 0 \<and> length packet < 2 + topicLength + 2
                     then Inl ''truncated MQTT packet identifier in PUBLISH packet''
                     else Inr (map char_at (take topicLength (drop 2 packet)),
                            drop (2 + topicLength + (if qos > 0 then 2 else 0)) packet))"

section \<open>Exchanges\<close>

record mqttPublishConfig =
  Broker :: string
  Username :: string
  Password :: string
  ClientID :: string

datatype mqttError =
    DialError string string
  | MarshalError string
  | WriteError string string
  | ReadError string readError
  | UnexpectedConnack byte
  | Rejected byte
  | UnexpectedPuback "byte list"
  | UnexpectedSuback byte
  | ShortSuback

definition connectPacket :: "mqttPublishConfig \<Rightarrow> byte list" where
  "connectPacket cfg =
    (let flags0 = 0x02 :: byte;
         flags1 = (if Username cfg \<noteq> [] then flags0 OR 0x80 else flags0);
         flags = (if Password cfg \<noteq> [] then flags1 OR 0x40 else flags1);
         variableHeader = mqttString ''MQTT'' @ [0x04] @ [flags, 0x00, 0x1E];
         payload = mqttString (ClientID cfg) @
           (if Username cfg \<noteq> [] then mqttString (Username cfg) else []) @
           (if Password cfg \<noteq> [] then mqttString (Password cfg) else [])
     in mqttFixedHeader 0x10 (length variableHeader + length payload) @ variableHeader @ payload)"

definition mqttConnect :: "mqttPublishConfig \<Rightarrow> connection \<Rightarrow> mqttError option \<times> connection" where
  "mqttConnect cfg c =
    (case connWrite (connectPacket cfg) c of
       (Some e, c1) \<Rightarrow> (Some (WriteError ''CONNECT'' e), c1)
     | (None, c1) \<Rightarrow>
         (case readFull 2 (Incoming c1) of
            (Inl e, s) \<Rightarrow> (Some (ReadError ''CONNACK header'' e), c1\<lparr>Incoming := s\<rparr>)
          | (Inr header, s) \<Rightarrow>
              if header ! 0 \<noteq> 0x20 then (Some (UnexpectedConnack (header ! 0)), c1\<lparr>Incoming := s\<rparr>)
              else (case readFull (unat (header ! 1)) s of
                      (Inl e, s') \<Rightarrow> (Some (ReadError ''CONNACK body'' e), c1\<lparr>Incoming := s'\<rparr>)
                    | (Inr body, s') \<Rightarrow>
                        (if length body < 2 \<or> body ! 1 \<noteq> 0x00
                         then Some (Rejected (if length body \<ge> 2 then body ! 1 else 0xFF)) else None,
                         c1\<lparr>Incoming := s'\<rparr>))))"

definition publishPacket :: "string \<Rightarrow> byte list \<Rightarrow> byte list" where
  "publishPacket topic payload =
    (let variableHeader = mqttString topic @ putUint16 1
     in mqttFixedHeader 0x32 (length variableHeader + length payload) @ variableHeader @ payload)"

definition mqttPublish :: "string \<Rightarrow> byte list \<Rightarrow> connection \<Rightarrow> mqttError option \<times> connection" where
  "mqttPublish topic payload c =
    (case connWrite (publishPacket topic payload) c of
       (Some e, c1) \<Rightarrow> (Some (WriteError ''PUBLISH'' e), c1)
     | (None, c1) \<Rightarrow>
         (case readFull 4 (Incoming c1) of
            (Inl e, s) \<Rightarrow> (Some (ReadError ''PUBACK'' e), c1\<lparr>Incoming := s\<rparr>)
          | (Inr ack, s) \<Rightarrow>
              (if ack ! 0 \<noteq> 0x40 \<or> ack ! 1 \<noteq> 0x02 \<or> uint16 (ack ! 2) (ack ! 3) \<noteq> 1
               then Some (UnexpectedPuback ack) else None, c1\<lparr>Incoming := s\<rparr>)))"

text \<open>\<open>dial\<close> is what \<open>DialContext\<close> returns; the result has no connection when the dial failed.\<close>

definition publishMQTT :: "mqttPublishConfig \<Rightarrow> string + connection \<Rightarrow> string \<Rightarrow> byte list
    \<Rightarrow> mqttError option \<times> connection option" where
  "publishMQTT cfg dial topic payload =
    (case dial of
       Inl e \<Rightarrow> (Some (DialError (Broker cfg) e), None)
     | Inr c \<Rightarrow>
         (case mqttConnect cfg c of
            (Some e, c1) \<Rightarrow> (Some e, Some c1)
          | (None, c1) \<Rightarrow>
              (case mqttPublish topic payload c1 of
                 (Some e, c2) \<Rightarrow> (Some e, Some c2)
               | (None, c2) \<Rightarrow> (None, Some (snd (connWrite [0xE0, 0x00] c2))))))"

section \<open>Configuration\<close>

definition mqttBrokerAddress :: "string \<Rightarrow> string" where
  "mqttBrokerAddress env =
    (let b0 = (if env = [] then ''mqtt.caps-platform.de:1883'' else env);
         b1 = trimPrefix b0 ''mqtt://'';
         b2 = trimPrefix b1 ''tcp://''
     in if CHR '':'' \<notin> set b2 then b2 @ '':1883'' else b2)"

text \<open>\<open>getenv\<close> is the environment; \<open>clientPrefix\<close> and the clock make the generated client id.\<close>

definition mqttConfig :: "(string \<Rightarrow> string) \<Rightarrow> string \<Rightarrow> int \<Rightarrow> mqttPublishConfig" where
  "mqttConfig getenv clientPrefix nanos =
    (let user = getenv ''SIF_MQTT_USER''; client = getenv ''SIF_MQTT_CLIENT_ID''
     in \<lparr>Broker = mqttBrokerAddress (getenv ''SIF_MQTT_BROKER''),
         Username = (if user = [] then ''JWT'' else user),
         Password = getenv ''SIF_MQTT_TOKEN'',
         ClientID = (if client = [] then clientPrefix @ fmt_d nanos else client)\<rparr>)"

text \<open>\<open>body\<close> is what \<open>json.Marshal\<close> makes of the payload.\<close>

definition publishControlMessage :: "(string \<Rightarrow> string) \<Rightarrow> int \<Rightarrow> (mqttPublishConfig \<Rightarrow> string + connection)
    \<Rightarrow> string \<Rightarrow> string + byte list \<Rightarrow> mqttError option \<times> connection option" where
  "publishControlMessage getenv nanos dialer topic body =
    (case body of
       Inl e \<Rightarrow> (Some (MarshalError e), None)
     | Inr payload \<Rightarrow>
         (let cfg = mqttConfig getenv ''sif-operator-'' nanos
          in publishMQTT cfg (dialer cfg) topic payload))"

section \<open>Subscribing\<close>

definition nextSubscribePacketID :: "16 word \<Rightarrow> 16 word" where
  "nextSubscribePacketID n = (let n1 = n + 1 in if n1 = 0 then 1 else n1)"

definition subscribePacket :: "16 word \<Rightarrow> string list \<Rightarrow> byte list" where
  "subscribePacket packetID topics =
    (let variableHeader = putUint16 packetID;
         payload = concat (map (\<lambda>topic. mqttString topic @ [0x00]) topics)
     in mqttFixedHeader 0x82 (length variableHeader + length payload) @ variableHeader @ payload)"

text \<open>The last component is the bridge's \<open>nextPacketID\<close>.\<close>

definition subscribe :: "string list \<Rightarrow> connection \<Rightarrow> 16 word \<Rightarrow> mqttError option \<times> connection \<times> 16 word" where
  "subscribe topics c n =
    (if topics = [] then (None, c, n)
     else let packetID = nextSubscribePacketID n
          in case connWrite (subscribePacket packetID topics) c of
               (Some e, c1) \<Rightarrow> (Some (WriteError ''SUBSCRIBE'' e), c1, packetID)
             | (None, c1) \<Rightarrow>
                 (case mqttReadPacket (Incoming c1) of
                    (Inl e, s) \<Rightarrow> (Some (ReadError ''SUBACK'' e), c1\<lparr>Incoming := s\<rparr>, packetID)
                  | (Inr (header, ack), s) \<Rightarrow>
                      (if header \<noteq> 0x90 then Some (UnexpectedSuback header)
                       else if length ack < 2 then Some ShortSuback else None,
                       c1\<lparr>Incoming := s\<rparr>, packetID)))"

definition mqttPing :: "connection \<Rightarrow> mqttError option \<times> connection" where
  "mqttPing c =
    (case connWrite [0xC0, 0x00] c of
       (Some e, c1) \<Rightarrow> (Some (WriteError ''PINGREQ'' e), c1)
     | (None, c1) \<Rightarrow> (None, c1))"

end
