(* ===== verification/Telemetry_Session.thy ===== *)
theory Telemetry_Session
  imports Telemetry Mqtt_Codec
begin

text \<open>
  The telemetry bridge's session with the broker (\<open>Start\<close>, \<open>connectAndSubscribe\<close> and
  \<open>consumeTelemetry\<close> in \<open>mqtt_telemetry.go\<close>): one turn of the receive loop at a time, with what the
  turn meets (clock readings, listings, answers of the API server) as its input.
\<close>

section \<open>The session\<close>

record session =
  Conn :: connection
  Subscribed :: "string set"
  LastRefresh :: time
  LastClientWrite :: time
  PacketID :: "16 word"
  Bridge :: bridgeState

text \<open>
  One turn of the loop: whether the context is cancelled, the clock readings in the order they are
  made, the listing for the refresh, and for a message its listing and the answers of the API server.
\<close>

record turn =
  Cancelled :: bool
  RefreshNow :: time
  RefreshListing :: "apiError + wasmFunction list"
  SubscribedAt :: time
  RefreshedAt :: time
  PingNow :: time
  PingedAt :: time
  MessageListing :: "apiError + wasmFunction list"
  Api :: "nat \<Rightarrow> apiAttempt"

datatype sessionError =
    Exchange mqttError
  | Reading readError
  | NoTopics
  | ListError apiError
  | DialFailed string string

datatype turnResult = Running session | Returned "sessionError option" session

definition mqttTelemetryRefreshInterval :: duration where
  "mqttTelemetryRefreshInterval = 15 * second"

section \<open>One turn of \<open>consumeTelemetry\<close>\<close>

text \<open>The refresh at the head of the loop body; an error ends the session.\<close>

definition refreshTopics :: "turn \<Rightarrow> session \<Rightarrow> mqttError option \<times> session" where
  "refreshTopics t s =
    (if time_sub (RefreshNow t) (LastRefresh s) \<ge> mqttTelemetryRefreshInterval then
       (case RefreshListing t of
          Inl e \<Rightarrow> (None, s\<lparr>LastRefresh := RefreshedAt t\<rparr>)
        | Inr ws \<Rightarrow>
            (case telemetryTopics ws of
               None \<Rightarrow> (None, s\<lparr>LastRefresh := RefreshedAt t\<rparr>)
             | Some topics \<Rightarrow>
                 (let missing = missingTopics topics (Subscribed s)
                  in if missing = [] then (None, s\<lparr>LastRefresh := RefreshedAt t\<rparr>)
                     else case subscribe missing (Conn s) (PacketID s) of
                            (Some e, c, n) \<Rightarrow> (Some e, s\<lparr>Conn := c, PacketID := n\<rparr>)
                          | (None, c, n) \<Rightarrow>
                              (None, s\<lparr>Conn := c, PacketID := n, LastClientWrite := SubscribedAt t,
                                 Subscribed := Subscribed s \<union> set missing,
                                 LastRefresh := RefreshedAt t\<rparr>))))
     else (None, s))"

text \<open>A complete packet: only a PUBLISH on a subscribed topic has an effect.\<close>

definition handlePacket ::
    "(byte list \<Rightarrow> string + batteryTelemetry) \<Rightarrow> turn \<Rightarrow> byte \<Rightarrow> byte list \<Rightarrow> session \<Rightarrow> session" where
  "handlePacket decode t header packet s =
    (if header AND 0xF0 = 0x30 then
       (case mqttParsePublish header packet of
          Inl e \<Rightarrow> s
        | Inr (topic, payload) \<Rightarrow>
            if topic \<notin> Subscribed s then s
            else s\<lparr>Bridge := snd (applyBatteryTelemetry (Api t) topic (decode payload)
                   (MessageListing t) (Bridge s))\<rparr>)
     else s)"

definition consumeTurn :: "(byte list \<Rightarrow> string + batteryTelemetry) \<Rightarrow> turn \<Rightarrow> session \<Rightarrow> turnResult" where
  "consumeTurn decode t s =
    (if Cancelled t then Returned None s
     else case refreshTopics t s of
       (Some e, s1) \<Rightarrow> Returned (Some (Exchange e)) s1
     | (None, s1) \<Rightarrow>
         (case mqttReadPacket (setReadDeadline (Incoming (Conn s1))) of
            (outcome, rest) \<Rightarrow>
              (let s2 = s1\<lparr>Conn := (Conn s1)\<lparr>Incoming := rest\<rparr>\<rparr>
               in case outcome of
                    Inl Timeout \<Rightarrow>
                      (if shouldSendTelemetryPing (LastClientWrite s2) (PingNow t) then
                         (case mqttPing (Conn s2) of
                            (Some e, c) \<Rightarrow> Returned (Some (Exchange e)) (s2\<lparr>Conn := c\<rparr>)
                          | (None, c) \<Rightarrow> Running (s2\<lparr>Conn := c, LastClientWrite := PingedAt t\<rparr>))
                       else Running s2)
                  | Inl e \<Rightarrow> Returned (Some (Reading e)) s2
                  | Inr (header, packet) \<Rightarrow> Running (handlePacket decode t header packet s2))))"

text \<open>The loop over the turns that happen; it is still running when they are used up.\<close>

fun consumeTelemetry ::
    "(byte list \<Rightarrow> string + batteryTelemetry) \<Rightarrow> turn list \<Rightarrow> session \<Rightarrow> turnResult" where
  "consumeTelemetry decode [] s = Running s"
| "consumeTelemetry decode (t # ts) s =
    (case consumeTurn decode t s of
       Running s' \<Rightarrow> consumeTelemetry decode ts s'
     | Returned e s' \<Rightarrow> Returned e s')"

section \<open>Connecting\<close>

definition connectAndSubscribe ::
    "mqttPublishConfig \<Rightarrow> apiError + wasmFunction list \<Rightarrow> string + connection \<Rightarrow> 16 word
       \<Rightarrow> (sessionError + connection \<times> string set) \<times> 16 word" where
  "connectAndSubscribe cfg listing dial n =
    (case listing of
       Inl e \<Rightarrow> (Inl (ListError e), n)
     | Inr ws \<Rightarrow>
         (case telemetryTopics ws of
            None \<Rightarrow> (Inl NoTopics, n)
          | Some topics \<Rightarrow>
              (case dial of
                 Inl e \<Rightarrow> (Inl (DialFailed (Broker cfg) e), n)
               | Inr c \<Rightarrow>
                   (case mqttConnect cfg c of
                      (Some e, c1) \<Rightarrow> (Inl (Exchange e), n)
                    | (None, c1) \<Rightarrow>
                        (case subscribe topics c1 n of
                           (Some e, c2, n') \<Rightarrow> (Inl (Exchange e), n')
                         | (None, c2, n') \<Rightarrow>
                             (Inr (c2\<lparr>Incoming := setReadDeadline (Incoming c2)\<rparr>, set topics), n'))))))"

text \<open>
  One pass of \<open>Start\<close>: cancelled, or an attempt to connect and, when it succeeds, a session; then the
  wait, which says whether to go on.
\<close>

record cycle =
  Stopped :: bool
  CycleListing :: "apiError + wasmFunction list"
  Dial :: "string + connection"
  ConnectedAt :: time
  Turns :: "turn list"
  StoppedAfter :: bool
  WaitCompleted :: bool

record bridge =
  NextPacketID :: "16 word"
  Telemetry :: bridgeState

text \<open>The result of a pass: whether \<open>Start\<close> goes on, and the bridge.\<close>

definition startCycle ::
    "(byte list \<Rightarrow> string + batteryTelemetry) \<Rightarrow> mqttPublishConfig \<Rightarrow> cycle \<Rightarrow> bridge \<Rightarrow> bool \<times> bridge" where
  "startCycle decode cfg y b =
    (if Stopped y then (False, b)
     else case connectAndSubscribe cfg (CycleListing y) (Dial y) (NextPacketID b) of
       (Inl e, n) \<Rightarrow> (WaitCompleted y, b\<lparr>NextPacketID := n\<rparr>)
     | (Inr (c, topics), n) \<Rightarrow>
         (let s0 = \<lparr>Conn = c, Subscribed = topics, LastRefresh = 0, LastClientWrite = ConnectedAt y,
                PacketID = n, Bridge = Telemetry b\<rparr>
          in case consumeTelemetry decode (Turns y) s0 of
               Running s \<Rightarrow> (False, \<lparr>NextPacketID = PacketID s, Telemetry = Bridge s\<rparr>)
             | Returned e s \<Rightarrow> (\<not> StoppedAfter y \<and> WaitCompleted y,
                 \<lparr>NextPacketID = PacketID s, Telemetry = Bridge s\<rparr>)))"

fun startBridge ::
    "(byte list \<Rightarrow> string + batteryTelemetry) \<Rightarrow> mqttPublishConfig \<Rightarrow> cycle list \<Rightarrow> bridge \<Rightarrow> bridge" where
  "startBridge decode cfg [] b = b"
| "startBridge decode cfg (y # ys) b =
    (case startCycle decode cfg y b of
       (True, b') \<Rightarrow> startBridge decode cfg ys b'
     | (False, b') \<Rightarrow> b')"

end
