(* ===== verification/Mqtt_Props.thy ===== *)
theory Mqtt_Props
  imports Mqtt_Codec
begin

text \<open>
  The wire format: byte and length encodings and their inverses, framing as a contract between the
  packet writers and \<open>mqttReadPacket\<close>, and what each exchange with the broker accepts.
\<close>

section \<open>Bytes\<close>

lemma char_at_byte_of [simp]: "char_at (byte_of c) = c"
  by (simp add: char_at_def byte_of_def unat_of_nat)

lemma byte_of_char_at [simp]: "byte_of (char_at b) = b"
proof -
  have "unat b < 256" using unsigned_less [of b, where 'a = nat] by simp
  then show ?thesis by (simp add: char_at_def byte_of_def)
qed

lemma map_byte_of_inverse [simp]: "map char_at (map byte_of s) = s"
  by (simp add: comp_def)

lemma length_putUint16 [simp]: "length (putUint16 v) = 2"
  by (simp add: putUint16_def)

lemma uint16_putUint16 [simp]: "uint16 (ucast (drop_bit 8 v)) (ucast v) = v"
  unfolding uint16_def by (rule bit_word_eqI) (auto simp: bit_simps dest: bit_imp_le_length)

lemma uint16_nth [simp]: "uint16 (putUint16 v ! 0) (putUint16 v ! Suc 0) = v"
  by (simp add: putUint16_def)

section \<open>Lengths\<close>

lemma mask_bytes: "(0x7F :: byte) = mask 7" "(0x80 :: byte) = 2 ^ 7"
  by (simp_all add: mask_eq_exp_minus_1)

lemma marked_iff: "(b :: byte) AND 0x80 = 0 \<longleftrightarrow> \<not> bit b 7"
  unfolding mask_bytes by (rule and_exp_eq_0_iff_not_bit)

lemma low7: "unat ((word_of_nat k :: byte) AND 0x7F) = k mod 128"
  unfolding mask_bytes
  by (simp only: take_bit_eq_mask [symmetric] unsigned_take_bit_eq unsigned_of_nat)
    (simp add: take_bit_eq_mod mod_mod_cancel)

lemma high_clear: "k < 128 \<Longrightarrow> (word_of_nat k :: byte) AND 0x80 = 0"
  unfolding marked_iff using bit_unsigned_iff [of "word_of_nat k :: byte" 7, where ?'a = nat]
  by (simp add: unsigned_of_nat take_bit_nat_eq_self bit_iff_odd)

lemma high_set: "((word_of_nat k :: byte) OR 128) AND 0x80 \<noteq> 0"
  unfolding marked_iff mask_bytes by (simp add: bit_or_iff bit_exp_iff)

lemma low7_marked: "unat (((word_of_nat k :: byte) OR 128) AND 0x7F) = k mod 128"
proof -
  have "((word_of_nat k :: byte) OR 128) AND 0x7F = word_of_nat k AND 0x7F"
    by (simp only: bit.conj_disj_distrib2) simp
  then show ?thesis by (simp only: low7)
qed

text \<open>The number of length bytes, and what reading them back gives.\<close>

lemma remainingLengthBytes_more:
  "n div 128 > 0 \<Longrightarrow>
     remainingLengthBytes n = (word_of_nat (n mod 128) OR 128) # remainingLengthBytes (n div 128)"
  by (subst remainingLengthBytes.simps) (rule if_P)

lemma length_remaining_pos: "remainingLengthBytes n \<noteq> []"
  by (simp add: remainingLengthBytes.simps [of n])

lemma readFull_octets [simp]:
  "readFull n (map Octet bs @ s) =
     (if n \<le> length bs then (Inr (take n bs), map Octet (drop n bs) @ s)
      else case readFull (n - length bs) s of
             (Inr rest, s') \<Rightarrow> (Inr (bs @ rest), s')
           | (Inl e, s') \<Rightarrow> (Inl (if e = EOF \<and> bs \<noteq> [] then UnexpectedEOF else e), s'))"
proof (induction bs arbitrary: n)
  case Nil
  then show ?case by (cases n) (auto split: prod.splits sum.splits)
next
  case (Cons b bs)
  then show ?case
    by (cases n) (auto split: prod.splits sum.splits readError.splits)
qed

lemma readLength_step:
  "readLengthLoop (Suc fuel) m v (Octet b # s) =
     (if b AND 0x80 = 0 then (Inr (v + unat (b AND 0x7F) * m), s)
      else readLengthLoop fuel (m * 128) (v + unat (b AND 0x7F) * m) s)"
  by (simp add: Let_def)

lemma readLengthLoop_bytes:
  "n < 128 ^ Suc fuel \<Longrightarrow>
     readLengthLoop (Suc fuel) m v (map Octet (remainingLengthBytes n) @ s) = (Inr (v + n * m), s)"
proof (induction n arbitrary: fuel m v rule: remainingLengthBytes.induct)
  case (1 n)
  show ?case
  proof (cases "n div 128 > 0")
    case True
    obtain fuel' where fuel: "fuel = Suc fuel'" using 1(2) True by (cases fuel) auto
    have "n div 128 < 128 ^ Suc fuel'"
      using 1(2) by (simp add: fuel less_mult_imp_div_less)
    note IH = 1(1) [OF True this, of "m * 128" "v + n mod 128 * m"]
    have "n * m = (n mod 128 + n div 128 * 128) * m" by simp
    then have "v + n mod 128 * m + n div 128 * (m * 128) = v + n * m"
      by (simp only: distrib_right mult.assoc mult.commute [of m 128] add.assoc)
    then have "readLengthLoop (Suc fuel') (m * 128) (v + n mod 128 * m)
        (map Octet (remainingLengthBytes (n div 128)) @ s) = (Inr (v + n * m), s)"
      using IH by argo
    then show ?thesis
      unfolding remainingLengthBytes_more [OF True] list.map append_Cons readLength_step
      by (simp only: low7_marked high_set if_False mod_mod_trivial fuel)
  next
    case False
    then have "n < 128" by auto
    then show ?thesis
      by (simp add: remainingLengthBytes.simps [of n] readLength_step low7 high_clear del: readLengthLoop.simps)
  qed
qed

lemma length_remaining_le: "n < 128 ^ Suc k \<longleftrightarrow> length (remainingLengthBytes n) \<le> Suc k"
proof (induction n arbitrary: k rule: remainingLengthBytes.induct)
  case (1 n)
  show ?case
  proof (cases "n div 128 > 0")
    case True
    show ?thesis
    proof (cases k)
      case 0
      with True show ?thesis using length_remaining_pos [of "n div 128"]
        by (auto simp: remainingLengthBytes.simps [of n] Suc_le_eq)
    next
      case (Suc k')
      have "n < 128 ^ Suc k \<longleftrightarrow> n div 128 < 128 ^ Suc k'"
        by (simp add: Suc div_less_iff_less_mult mult.commute)
      with 1 [OF True, of k'] True show ?thesis
        by (simp add: remainingLengthBytes.simps [of n] Suc)
    qed
  next
    case False
    then have "n < 128" by auto
    then have "n < 128 ^ Suc k" by (rule less_le_trans) simp
    with False show ?thesis by (simp add: remainingLengthBytes.simps [of n])
  qed
qed

section \<open>Framing\<close>

text \<open>
  A reader inverts a writer when it gives back the item and leaves the rest of the stream.  Then a
  stream of written items is read back in order, and no two streams of items have the same bytes.
\<close>

lemma inj_Octet: "inj Octet"
  by (simp add: inj_def)

locale framing =
  fixes good :: "'a \<Rightarrow> bool"
    and enc :: "'a \<Rightarrow> byte list"
    and dec :: "arrival list \<Rightarrow> (readError + 'a) \<times> arrival list"
  assumes dec_enc: "good x \<Longrightarrow> dec (map Octet (enc x) @ s) = (Inr x, s)"
begin

fun readMany :: "nat \<Rightarrow> arrival list \<Rightarrow> (readError + 'a list) \<times> arrival list" where
  "readMany 0 s = (Inr [], s)"
| "readMany (Suc n) s =
    (case dec s of
       (Inl e, s') \<Rightarrow> (Inl e, s')
     | (Inr x, s') \<Rightarrow> (case readMany n s' of (Inl e, s'') \<Rightarrow> (Inl e, s'') | (Inr xs, s'') \<Rightarrow> (Inr (x # xs), s'')))"

lemma stream_read:
  "list_all good xs \<Longrightarrow> readMany (length xs) (map Octet (concat (map enc xs)) @ s) = (Inr xs, s)"
  by (induction xs) (simp_all add: dec_enc)

lemma stream_inject:
  assumes "list_all good xs" "list_all good ys" "length xs = length ys"
    and "map Octet (concat (map enc xs)) @ s = map Octet (concat (map enc ys)) @ s'"
  shows "xs = ys \<and> s = s'"
  using stream_read [OF assms(1), of s] unfolding assms(3,4) stream_read [OF assms(2), of s'] by simp

lemma enc_inject: "good x \<Longrightarrow> good y \<Longrightarrow> enc x @ bs = enc y @ bs' \<Longrightarrow> x = y \<and> bs = bs'"
proof -
  assume good: "good x" "good y" and same: "enc x @ bs = enc y @ bs'"
  have "(Inr x, map Octet bs) = dec (map Octet (enc x @ bs))"
    by (simp add: dec_enc [OF good(1)])
  also have "\<dots> = (Inr y, map Octet bs')"
    by (simp add: same dec_enc [OF good(2)])
  finally have "x = y" "map Octet bs = map Octet bs'" by (rule prod.inject [THEN iffD1, THEN conjE], simp)+
  then show "x = y \<and> bs = bs'"
    by (simp only: inj_map_eq_map [OF inj_Octet])
qed

end

definition framed :: "byte \<times> byte list \<Rightarrow> byte list" where
  "framed p = mqttFixedHeader (fst p) (length (snd p)) @ snd p"

definition frameable :: "byte \<times> byte list \<Rightarrow> bool" where
  "frameable p \<longleftrightarrow> length (snd p) < 128 ^ 4"

lemma read_length_back:
  "n < 128 ^ 4 \<Longrightarrow> mqttReadRemainingLength (map Octet (remainingLengthBytes n) @ s) = (Inr n, s)"
proof -
  assume "n < 128 ^ 4"
  moreover have four: "(4 :: nat) = Suc 3" by simp
  ultimately show ?thesis
    unfolding mqttReadRemainingLength_def
    using readLengthLoop_bytes [of n 3 1 0] by (simp only: four add_0 mult_1_right)
qed

lemma read_framed:
  assumes "frameable p"
  shows "mqttReadPacket (map Octet (framed p) @ s) = (Inr p, s)"
proof -
  have "readFull 1 (map Octet (framed p) @ s) =
      (Inr [fst p], map Octet (remainingLengthBytes (length (snd p))) @ map Octet (snd p) @ s)"
    by (simp add: framed_def mqttFixedHeader_def)
  moreover have "mqttReadRemainingLength
      (map Octet (remainingLengthBytes (length (snd p))) @ map Octet (snd p) @ s) =
      (Inr (length (snd p)), map Octet (snd p) @ s)"
    using assms by (intro read_length_back) (simp add: frameable_def)
  ultimately show ?thesis by (simp add: mqttReadPacket_def)
qed

interpretation packets: framing frameable framed mqttReadPacket
  by unfold_locales (rule read_framed)

text \<open>A length that needs more than four bytes is rejected after the fourth.\<close>

lemma readLengthLoop_too_long:
  "128 ^ fuel \<le> n \<Longrightarrow>
     readLengthLoop fuel m v (map Octet (remainingLengthBytes n) @ s) =
       (Inl TooLong, map Octet (drop fuel (remainingLengthBytes n)) @ s)"
proof (induction fuel arbitrary: n m v)
  case 0
  then show ?case by simp
next
  case (Suc fuel)
  then have "128 \<le> n" using order_trans [of 128 "128 ^ Suc fuel" n] by simp
  then have digits: "n div 128 > 0" by (simp add: div_greater_zero_iff)
  have "128 ^ fuel \<le> n div 128"
    using Suc.prems by (simp add: less_eq_div_iff_mult_less_eq mult.commute)
  note IH = Suc.IH [OF this]
  show ?case
    unfolding remainingLengthBytes_more [OF digits] list.map append_Cons readLength_step
    by (simp only: high_set if_False low7_marked IH drop_Suc_Cons)
qed

text \<open>The length field is read back exactly when it fits in four bytes.  The writer encodes every
  length; the reader returns it with the rest of the stream untouched when it is below 128 to the
  fourth, and stops with an error after four bytes otherwise.\<close>

theorem remaining_length_roundtrip:
  "mqttReadRemainingLength (map Octet (remainingLengthBytes n) @ s) =
     (if n < 128 ^ 4 then (Inr n, s)
      else (Inl TooLong, map Octet (drop 4 (remainingLengthBytes n)) @ s))"
proof (cases "n < 128 ^ 4")
  case True
  then show ?thesis by (simp only: read_length_back if_True)
next
  case False
  show ?thesis
    by (simp only: mqttReadRemainingLength_def readLengthLoop_too_long [OF leI [OF False]] False if_False)
qed

section \<open>PUBLISH\<close>

lemma length_mqttString [simp]: "length (mqttString s) = 2 + length s"
  by (simp add: mqttString_def)

lemma uint16_mqttString:
  "uint16 (mqttString t ! 0) (mqttString t ! Suc 0) = word_of_nat (length t)"
  by (simp add: mqttString_def nth_append)

lemma putUint16_uint16: "putUint16 (uint16 a b) = [a, b]"
proof -
  have "ucast (drop_bit 8 (push_bit 8 (ucast a) OR ucast b :: 16 word)) = a"
    by (rule bit_word_eqI) (auto simp: bit_simps dest: bit_imp_le_length)
  moreover have "ucast (push_bit 8 (ucast a) OR ucast b :: 16 word) = b"
    by (rule bit_word_eqI) (auto simp: bit_simps dest: bit_imp_le_length)
  ultimately show ?thesis by (simp add: putUint16_def uint16_def)
qed

lemma drop_bit_Suc_0_eq_0:
  fixes x :: byte
  assumes "drop_bit 1 x = 0" "\<not> bit x 0"
  shows "x = 0"
proof (rule bit_word_eqI)
  fix n assume "n < LENGTH(8)"
  show "bit x n = bit (0 :: byte) n"
  proof (cases n)
    case 0
    with assms show ?thesis by simp
  next
    case (Suc k)
    have "bit (drop_bit 1 x) k = bit x (1 + k)"
      by (simp only: bit_drop_bit_eq comp_def)
    with assms(1) Suc show ?thesis by simp
  qed
qed

lemma uint16_eq_iff: "uint16 a b = v \<longleftrightarrow> putUint16 v = [a, b]"
proof
  show "uint16 a b = v \<Longrightarrow> putUint16 v = [a, b]" using putUint16_uint16 [of a b] by simp
  show "putUint16 v = [a, b] \<Longrightarrow> uint16 a b = v" using uint16_nth [of v] by simp
qed

lemma qos_positive: "drop_bit 1 ((h :: byte) AND 0x06) > 0 \<longleftrightarrow> h AND 0x06 \<noteq> 0"
proof -
  have "drop_bit 1 (h AND 0x06) = 0 \<longleftrightarrow> h AND 0x06 = 0"
    using drop_bit_Suc_0_eq_0 [of "h AND 0x06"] by (auto simp only: bit_and_iff) simp_all
  then show ?thesis by (simp only: word_neq_0_conv [symmetric])
qed

lemma split_packet:
  "p = a # b # r \<Longrightarrow> p = ([a, b] @ take n r) @ take k (drop n r) @ drop (n + k) r"
  by (simp add: drop_drop [symmetric] add.commute [of n k] del: drop_drop)

lemma parsePublish_eq:
  "mqttParsePublish h p =
    (if length p < 2 then Inl ''short MQTT PUBLISH packet''
     else if length p < 2 + unat (uint16 (p ! 0) (p ! 1)) then Inl ''truncated MQTT topic in PUBLISH packet''
     else if h AND 0x06 \<noteq> 0 \<and> length p < 2 + unat (uint16 (p ! 0) (p ! 1)) + 2
       then Inl ''truncated MQTT packet identifier in PUBLISH packet''
     else Inr (map char_at (take (unat (uint16 (p ! 0) (p ! 1))) (drop 2 p)),
       drop (2 + unat (uint16 (p ! 0) (p ! 1)) + (if h AND 0x06 \<noteq> 0 then 2 else 0)) p))"
  unfolding mqttParsePublish_def Let_def qos_positive by (rule refl)

text \<open>C19: A PUBLISH body is decoded exactly.  Decoding succeeds with a topic and a payload exactly when
  the body is the length-prefixed topic, a packet identifier if and only if the header asks for
  quality of service 1 or 2, and the payload.\<close>

theorem publish_decoded_exactly:
  "mqttParsePublish h p = Inr (topic, payload) \<longleftrightarrow>
     length topic < 65536 \<and>
     (\<exists>pid. length pid = (if h AND 0x06 = 0 then 0 else 2) \<and> p = mqttString topic @ pid @ payload)"
    (is "_ \<longleftrightarrow> ?packet")
proof
  let ?n = "unat (uint16 (p ! 0) (p ! 1))" and ?k = "if h AND 0x06 = 0 then 0 else 2 :: nat"
  assume "mqttParsePublish h p = Inr (topic, payload)"
  then have long: "2 + ?n + ?k \<le> length p" "2 \<le> length p"
    and t: "topic = map char_at (take ?n (drop 2 p))" and pl: "payload = drop (2 + ?n + ?k) p"
    unfolding parsePublish_eq by (auto split: if_splits)
  obtain a b r where p: "p = a # b # r"
    using long(2) by (cases p rule: list.exhaust [case_names Nil Cons]; cases "tl p") auto
  have len: "length topic = ?n" using long(1) by (simp add: t)
  have "word_of_nat ?n = uint16 a b" by (simp add: p)
  then have "mqttString topic = [a, b] @ take ?n r"
    unfolding mqttString_def len by (simp add: putUint16_uint16 t p del: One_nat_def) (simp add: comp_def)
  moreover have "p = ([a, b] @ take ?n r) @ take ?k (drop ?n r) @ drop (?n + ?k) r"
    by (rule split_packet [OF p])
  moreover have "drop (?n + ?k) r = payload" by (simp add: pl p)
  ultimately have "p = mqttString topic @ take ?k (drop ?n r) @ payload" by metis
  moreover have "length (take ?k (drop ?n r)) = ?k" using long(1) by (simp add: p)
  moreover have "?n < 65536" using unsigned_less [of "uint16 (p ! 0) (p ! 1)", where 'a = nat] by simp
  ultimately show ?packet using len by metis
next
  assume ?packet
  then obtain pid where short: "length topic < 65536" and
    pid: "length pid = (if h AND 0x06 = 0 then 0 else 2)" "p = mqttString topic @ pid @ payload" by blast
  have nth: "p ! 0 = mqttString topic ! 0" "p ! Suc 0 = mqttString topic ! Suc 0"
    by (simp_all add: pid(2) nth_append)
  have "unat (uint16 (p ! 0) (p ! 1)) = length topic"
    using short by (simp add: nth uint16_mqttString unsigned_of_nat take_bit_nat_eq_self)
  then show "mqttParsePublish h p = Inr (topic, payload)"
    unfolding parsePublish_eq using pid by simp (simp add: mqttString_def comp_def)
qed

text \<open>The packets the operator writes are framed, and a PUBLISH comes back as written.\<close>

definition publishBody :: "string \<Rightarrow> byte list \<Rightarrow> byte list" where
  "publishBody topic payload = mqttString topic @ putUint16 1 @ payload"

lemma publishPacket_framed: "publishPacket topic payload = framed (0x32, publishBody topic payload)"
  by (simp add: publishPacket_def framed_def publishBody_def Let_def add.commute)

text \<open>C32: A published message arrives as sent.  The packet the operator writes for a topic shorter than
  65536 bytes and a body that fits the length field is read back as one QoS 1 PUBLISH packet, leaves
  the rest of the stream untouched and decodes to the same topic and payload.\<close>

theorem publish_roundtrip:
  assumes "length topic < 65536" and "length topic + length payload < 268435452"
  shows "mqttReadPacket (map Octet (publishPacket topic payload) @ s) =
      (Inr (0x32, publishBody topic payload), s) \<and>
    mqttParsePublish 0x32 (publishBody topic payload) = Inr (topic, payload)"
proof
  have "frameable (0x32, publishBody topic payload)"
    using assms(2) by (simp add: frameable_def publishBody_def)
  then show "mqttReadPacket (map Octet (publishPacket topic payload) @ s) =
      (Inr (0x32, publishBody topic payload), s)"
    unfolding publishPacket_framed by (rule read_framed)
  show "mqttParsePublish 0x32 (publishBody topic payload) = Inr (topic, payload)"
    unfolding publish_decoded_exactly publishBody_def using assms(1)
    by (intro conjI exI [of _ "putUint16 1"]) simp_all
qed

theorem publish_roundtrip_witness:
  "mqttReadPacket (map Octet (publishPacket ''dht/control'' [0x7B, 0x7D])) =
      (Inr (0x32, publishBody ''dht/control'' [0x7B, 0x7D]), []) \<and>
    mqttParsePublish 0x32 (publishBody ''dht/control'' [0x7B, 0x7D]) = Inr (''dht/control'', [0x7B, 0x7D])"
  using publish_roundtrip [of "''dht/control''" "[0x7B, 0x7D]" "[]"] by simp

text \<open>A stream of frames is read frame by frame; two streams of frames never share their bytes.\<close>

lemma frames_read:
  "list_all frameable ps \<Longrightarrow>
     packets.readMany (length ps) (map Octet (concat (map framed ps)) @ s) = (Inr ps, s)"
  by (rule packets.stream_read)

section \<open>Exchanges with the broker\<close>

definition writes_ok :: "connection \<Rightarrow> bool" where
  "writes_ok c \<longleftrightarrow> WriteErrors c = [] \<or> hd (WriteErrors c) = None"

lemma connWrite_eq:
  "connWrite bs c =
    (if writes_ok c
     then (None, c\<lparr>Written := Written c @ [bs], WriteErrors := tl (WriteErrors c)\<rparr>)
     else (Some (the (hd (WriteErrors c))), c\<lparr>WriteErrors := tl (WriteErrors c)\<rparr>))"
proof (cases "WriteErrors c")
  case Nil
  then show ?thesis by (cases c) (simp add: connWrite_def writes_ok_def)
next
  case (Cons e es)
  then show ?thesis by (cases e) (simp_all add: connWrite_def writes_ok_def)
qed

lemma readFull_Inr_iff: "readFull n s = (Inr bs, s') \<longleftrightarrow> s = map Octet bs @ s' \<and> length bs = n"
proof
  show "readFull n s = (Inr bs, s') \<Longrightarrow> s = map Octet bs @ s' \<and> length bs = n"
    by (induction n s arbitrary: bs rule: readFull.induct)
      (auto split: prod.splits sum.splits readError.splits)
next
  assume "s = map Octet bs @ s' \<and> length bs = n"
  then show "readFull n s = (Inr bs, s')" by simp
qed

text \<open>C33: A publication succeeds exactly on its acknowledgement.  \<open>mqttPublish\<close> reports success if and
  only if its write succeeds and the next four bytes from the broker are the PUBACK of packet 1; it
  then wrote exactly one packet and read exactly those bytes.\<close>

theorem publish_acknowledged_exactly:
  "fst (mqttPublish topic payload c) = None \<longleftrightarrow>
     writes_ok c \<and> (\<exists>s. Incoming c = map Octet [0x40, 0x02, 0x00, 0x01] @ s \<and>
       snd (mqttPublish topic payload c) = c\<lparr>Incoming := s,
         Written := Written c @ [publishPacket topic payload], WriteErrors := tl (WriteErrors c)\<rparr>)"
proof (cases "writes_ok c \<and> (\<exists>bs s. readFull 4 (Incoming c) = (Inr bs, s))")
  case True
  then obtain bs s where r: "readFull 4 (Incoming c) = (Inr bs, s)" and ok: "writes_ok c" by blast
  then obtain x0 x1 x2 x3 where bs: "bs = [x0, x1, x2, x3]" "Incoming c = map Octet bs @ s"
    by (auto simp: readFull_Inr_iff numeral_eq_Suc length_Suc_conv)
  have "uint16 x2 x3 = 1 \<longleftrightarrow> x2 = 0 \<and> x3 = 1"
    unfolding uint16_eq_iff by (simp add: putUint16_def)
  with ok r show ?thesis
    by (auto simp: mqttPublish_def connWrite_eq bs eval_nat_numeral)
next
  case False
  then have "fst (mqttPublish topic payload c) \<noteq> None"
    by (cases "readFull 4 (Incoming c)"; cases "fst (readFull 4 (Incoming c))")
      (auto simp: mqttPublish_def connWrite_eq)
  moreover have "\<not> (writes_ok c \<and> (\<exists>s. Incoming c = map Octet [0x40, 0x02, 0x00, 0x01] @ s))"
  proof
    assume "writes_ok c \<and> (\<exists>s. Incoming c = map Octet [0x40, 0x02, 0x00, 0x01] @ s)"
    then obtain s where "writes_ok c" "Incoming c = map Octet [0x40, 0x02, 0x00, 0x01] @ s" by blast
    moreover from this(2) have "readFull 4 (Incoming c) = (Inr [0x40, 0x02, 0x00, 0x01], s)"
      by (simp only: readFull_Inr_iff) simp
    ultimately show False using False by blast
  qed
  ultimately show ?thesis by blast
qed

text \<open>The operator sends only over an accepted connection.  \<open>mqttConnect\<close> reports success if and only if
  its write succeeds and the broker's next bytes are a CONNACK whose length byte says how many bytes
  follow, at least two, with return code 0.\<close>

theorem connect_accepted_exactly:
  "fst (mqttConnect cfg c) = None \<longleftrightarrow>
     writes_ok c \<and> (\<exists>n flags rest s. Incoming c = map Octet (0x20 # n # flags # 0x00 # rest) @ s \<and>
       unat n = 2 + length rest)"
proof (cases "writes_ok c \<and> (\<exists>h body s s'. readFull 2 (Incoming c) = (Inr h, s) \<and> h ! 0 = 0x20 \<and>
    readFull (unat (h ! 1)) s = (Inr body, s'))")
  case True
  then obtain h body s s' where ok: "writes_ok c" and h: "readFull 2 (Incoming c) = (Inr h, s)" "h ! 0 = 0x20"
    and b: "readFull (unat (h ! 1)) s = (Inr body, s')" by blast
  from h(1) obtain x n where xs: "h = [x, n]" "Incoming c = map Octet [x, n] @ s"
    by (auto simp: readFull_Inr_iff numeral_eq_Suc length_Suc_conv)
  have body: "s = map Octet body @ s'" "length body = unat n"
    using b by (simp_all add: readFull_Inr_iff xs)
  have "fst (mqttConnect cfg c) = None \<longleftrightarrow> \<not> (length body < 2 \<or> body ! 1 \<noteq> 0)"
    using ok h b by (simp add: mqttConnect_def connWrite_eq)
  also have "\<dots> \<longleftrightarrow> (\<exists>flags rest. body = flags # 0 # rest)"
    by (cases body; cases "tl body") auto
  also have "\<dots> \<longleftrightarrow> (\<exists>n' flags rest s0. Incoming c = map Octet (0x20 # n' # flags # 0x00 # rest) @ s0 \<and>
       unat n' = 2 + length rest)"
  proof
    assume "\<exists>flags rest. body = flags # 0 # rest"
    then show "\<exists>n' flags rest s0. Incoming c = map Octet (0x20 # n' # flags # 0x00 # rest) @ s0 \<and>
       unat n' = 2 + length rest"
    proof (elim exE)
      fix flags rest assume "body = flags # 0 # rest"
      then have "Incoming c = map Octet (0x20 # n # flags # 0x00 # rest) @ s'" "unat n = 2 + length rest"
        using h(2) xs body by auto
      then show ?thesis by blast
    qed
  next
    assume "\<exists>n' flags rest s0. Incoming c = map Octet (0x20 # n' # flags # 0x00 # rest) @ s0 \<and>
       unat n' = 2 + length rest"
    then obtain flags rest s0 where "s = map Octet (flags # 0 # rest) @ s0" "unat n = 2 + length rest"
      using xs by auto
    then have "readFull (unat n) s = (Inr (flags # 0 # rest), s0)"
      by (simp only: readFull_Inr_iff) simp
    then show "\<exists>flags rest. body = flags # 0 # rest"
      using b xs by auto
  qed
  finally show ?thesis using ok by blast
next
  case False
  have "fst (mqttConnect cfg c) \<noteq> None"
    using False by (auto simp: mqttConnect_def connWrite_eq split: prod.splits sum.splits)
  moreover have "\<not> (writes_ok c \<and> (\<exists>n flags rest s. Incoming c = map Octet (0x20 # n # flags # 0x00 # rest) @ s \<and>
       unat n = 2 + length rest))"
  proof
    assume "writes_ok c \<and> (\<exists>n flags rest s. Incoming c = map Octet (0x20 # n # flags # 0x00 # rest) @ s \<and>
       unat n = 2 + length rest)"
    then obtain n flags rest s where w: "writes_ok c" and
      i: "Incoming c = map Octet [0x20, n] @ (map Octet (flags # 0x00 # rest) @ s)" "unat n = 2 + length rest"
      by auto
    have "readFull 2 (Incoming c) = (Inr [0x20, n], map Octet (flags # 0x00 # rest) @ s)"
      unfolding i(1) by (simp only: readFull_Inr_iff) simp
    moreover have "readFull (unat ([0x20, n] ! 1)) (map Octet (flags # 0x00 # rest) @ s) = (Inr (flags # 0 # rest), s)"
      by (simp only: readFull_Inr_iff) (simp add: i(2))
    ultimately show False using False w by (metis nth_Cons_0)
  qed
  ultimately show ?thesis by blast
qed

section \<open>Packet identifiers\<close>

lemma nextSubscribePacketID_nonzero [simp]: "nextSubscribePacketID n \<noteq> 0"
  by (simp add: nextSubscribePacketID_def Let_def)

text \<open>The identifier after \<open>k\<close> steps, as a number.\<close>

lemma nextSubscribePacketID_unat:
  "unat (nextSubscribePacketID n) = (if unat n = 65535 then 1 else unat n + 1)"
proof -
  have "n + 1 = 0 \<longleftrightarrow> unat n = 65535"
    by (simp add: eq_neg_iff_add_eq_0 [symmetric] word_unat_eq_iff [of n] unsigned_minus_1_eq_mask mask_eq_exp_minus_1)
  moreover have "n + 1 \<noteq> 0 \<Longrightarrow> unat (n + 1) = Suc (unat n)"
    using unatSuc [of n] by (simp add: add.commute)
  ultimately show ?thesis by (simp add: nextSubscribePacketID_def Let_def)
qed

text \<open>Packet identifiers are never zero and repeat only after all of them were used.  The identifier of
  the bridge's \<open>k\<close>-th subscription is \<open>(k - 1) mod 65535 + 1\<close>, across the wrap-around of its 16 bits.\<close>

theorem packet_identifiers_cycle:
  "unat ((nextSubscribePacketID ^^ Suc k) 0) = k mod 65535 + 1"
proof (induction k)
  case 0
  show ?case by (simp add: nextSubscribePacketID_unat)
next
  case (Suc k)
  have "unat ((nextSubscribePacketID ^^ Suc (Suc k)) 0) =
      unat (nextSubscribePacketID ((nextSubscribePacketID ^^ Suc k) 0))"
    by (simp only: funpow.simps comp_apply)
  also have "\<dots> = (if k mod 65535 + 1 = 65535 then 1 else k mod 65535 + 1 + 1)"
    unfolding nextSubscribePacketID_unat Suc ..
  also have "\<dots> = Suc k mod 65535 + 1" by (simp add: mod_Suc)
  finally show ?case .
qed

section \<open>Subscribing\<close>

definition subscribed_ack :: "connection \<Rightarrow> bool" where
  "subscribed_ack c \<longleftrightarrow>
     (case mqttReadPacket (Incoming c) of (Inr (h, ack), s) \<Rightarrow> h = 0x90 \<and> 2 \<le> length ack | _ \<Rightarrow> False)"

lemma subscribe_success_iff:
  "topics \<noteq> [] \<Longrightarrow> fst (subscribe topics c n) = None \<longleftrightarrow> writes_ok c \<and> subscribed_ack c"
  by (auto simp: subscribe_def subscribed_ack_def connWrite_eq Let_def
      split: prod.splits sum.splits)

lemma length_subscribe_payload:
  "length (concat (map (\<lambda>topic. mqttString topic @ [0x00]) topics)) = (\<Sum>t\<leftarrow>topics. 3 + length t)"
  by (induction topics) simp_all

text \<open>A subscription is refused or ignored by what the broker happens to send next.  After a
  successful write, a message of another topic that arrives before the SUBACK fails the subscription
  (and with it the session), while a SUBACK that refuses every topic with return code 128 counts as
  success: neither its return codes nor its packet identifier are looked at.\<close>

theorem subscribe_misreads_broker:
  assumes "topics \<noteq> []" "writes_ok c" "frameable (h, body)"
    and "Incoming c = map Octet (framed (h, body)) @ s"
  shows "(h \<noteq> 0x90 \<longrightarrow> fst (subscribe topics c n) = Some (UnexpectedSuback h)) \<and>
    (h = 0x90 \<and> body = putUint16 packetID @ replicate (length topics) 0x80 \<longrightarrow>
      fst (subscribe topics c n) = None)"
  using assms read_framed [OF assms(3), of s]
  by (auto simp: subscribe_def connWrite_eq Let_def)

theorem subscribe_misreads_broker_witness:
  "fst (subscribe [''dht/telemetry''] \<lparr>Incoming = map Octet (framed (0x30, publishBody ''a'' [])), Written = [],
      WriteErrors = []\<rparr> 0) = Some (UnexpectedSuback 0x30) \<and>
   fst (subscribe [''dht/telemetry''] \<lparr>Incoming = map Octet (framed (0x90, putUint16 9 @ [0x80])),
      Written = [], WriteErrors = []\<rparr> 0) = None"
  using subscribe_misreads_broker [of "[''dht/telemetry'']" "\<lparr>Incoming = map Octet (framed (0x30, publishBody ''a'' [])),
      Written = [], WriteErrors = []\<rparr>" "0x30" "publishBody ''a'' []" "[]" 0 0]
    subscribe_misreads_broker [of "[''dht/telemetry'']" "\<lparr>Incoming = map Octet (framed (0x90, putUint16 9 @ [0x80])),
      Written = [], WriteErrors = []\<rparr>" "0x90" "putUint16 9 @ [0x80]" "[]" 0 9]
  by (simp add: writes_ok_def frameable_def publishBody_def)

end
