(* ===== verification/Session_Props.thy ===== *)
theory Session_Props
  imports Telemetry_Session Mqtt_Props Telemetry_Props
begin

text \<open>
  The receive loop: when it writes to the broker and when it does not, which bytes it loses, and
  which messages reach the resources.
\<close>

section \<open>A refresh that finds nothing new\<close>

definition nothing_new :: "turn \<Rightarrow> string set \<Rightarrow> bool" where
  "nothing_new t subscribed \<longleftrightarrow>
     (case RefreshListing t of
        Inl e \<Rightarrow> True
      | Inr ws \<Rightarrow> (case telemetryTopics ws of None \<Rightarrow> True | Some topics \<Rightarrow> missingTopics topics subscribed = []))"

lemma refresh_nothing_new:
  assumes "nothing_new t (Subscribed s)"
  obtains r where "refreshTopics t s = (None, s\<lparr>LastRefresh := r\<rparr>)"
proof (cases "time_sub (RefreshNow t) (LastRefresh s) \<ge> mqttTelemetryRefreshInterval")
  case True
  then have "refreshTopics t s = (None, s\<lparr>LastRefresh := RefreshedAt t\<rparr>)"
    using assms by (auto simp: refreshTopics_def nothing_new_def Let_def split: sum.splits option.splits)
  then show ?thesis by (rule that)
next
  case False
  then have "refreshTopics t s = (None, s\<lparr>LastRefresh := LastRefresh s\<rparr>)"
    by (simp add: refreshTopics_def)
  then show ?thesis by (rule that)
qed

section \<open>Keep-alive\<close>

text \<open>What a session shows of its writes.\<close>

definition wire_view :: "session \<Rightarrow> byte list list \<times> string option list \<times> time \<times> string set" where
  "wire_view s = (Written (Conn s), WriteErrors (Conn s), LastClientWrite s, Subscribed s)"

lemma handlePacket_view [simp]:
  "wire_view (handlePacket decode t h p s) = wire_view s"
  "Conn (handlePacket decode t h p s) = Conn s"
  "Subscribed (handlePacket decode t h p s) = Subscribed s"
  "LastClientWrite (handlePacket decode t h p s) = LastClientWrite s"
  by (simp_all add: handlePacket_def wire_view_def split: sum.split)

lemma setReadDeadline_octets [simp]: "bs \<noteq> [] \<Longrightarrow> setReadDeadline (map Octet bs @ s) = map Octet bs @ s"
  by (cases bs) simp_all

lemma framed_not_Nil [simp]: "framed p \<noteq> []"
  by (simp add: framed_def mqttFixedHeader_def)

lemma packet_turn:
  assumes "\<not> Cancelled t" "nothing_new t (Subscribed s)"
    and "frameable p" "Incoming (Conn s) = map Octet (framed p) @ rest"
  obtains s' where "consumeTurn decode t s = Running s'" "wire_view s' = wire_view s"
    "Incoming (Conn s') = rest" "Subscribed s' = Subscribed s"
proof -
  obtain r where r: "refreshTopics t s = (None, s\<lparr>LastRefresh := r\<rparr>)"
    by (rule refresh_nothing_new [OF assms(2)])
  have "consumeTurn decode t s =
      Running (handlePacket decode t (fst p) (snd p) (s\<lparr>LastRefresh := r, Conn := (Conn s)\<lparr>Incoming := rest\<rparr>\<rparr>))"
    by (simp add: consumeTurn_def assms(1,4) r read_framed [OF assms(3)] Let_def split: prod.split)
  then show ?thesis by (rule that) (simp_all add: wire_view_def)
qed

text \<open>A busy session never sends a keep-alive.  However long the turns take, as long as every read
  finds a whole packet and no new topic appears, the session writes nothing to the broker and does not
  even move the time of its last write, although it promised the broker a packet every 30 seconds.\<close>

theorem busy_session_writes_nothing:
  assumes "length ts = length ps" "list_all frameable ps"
    and "Incoming (Conn s) = map Octet (concat (map framed ps)) @ rest"
    and "list_all (\<lambda>t. \<not> Cancelled t \<and> nothing_new t (Subscribed s)) ts"
  shows "\<exists>s'. consumeTelemetry decode ts s = Running s' \<and> Written (Conn s') = Written (Conn s) \<and>
    LastClientWrite s' = LastClientWrite s \<and> Incoming (Conn s') = rest"
  using assms
proof (induction ts ps arbitrary: s rule: list_induct2)
  case Nil
  then show ?case by simp
next
  case (Cons t ts p ps)
  obtain s1 where s1: "consumeTurn decode t s = Running s1" "wire_view s1 = wire_view s"
    "Incoming (Conn s1) = map Octet (concat (map framed ps)) @ rest" "Subscribed s1 = Subscribed s"
    by (rule packet_turn [of t s p "map Octet (concat (map framed ps)) @ rest" decode])
      (use Cons.prems in simp_all)
  have "\<exists>s'. consumeTelemetry decode ts s1 = Running s' \<and> Written (Conn s') = Written (Conn s1) \<and>
    LastClientWrite s' = LastClientWrite s1 \<and> Incoming (Conn s') = rest"
    by (rule Cons.IH) (use Cons.prems s1 in simp_all)
  then show ?case using s1(1,2) by (simp add: wire_view_def)
qed

definition emptySession :: "arrival list \<Rightarrow> session" where
  "emptySession incoming = \<lparr>Conn = \<lparr>Incoming = incoming, Written = [], WriteErrors = []\<rparr>,
     Subscribed = {''a''}, LastRefresh = 0, LastClientWrite = 0, PacketID = 1, Bridge = emptyBridge\<rparr>"

definition lateTurn :: "time \<Rightarrow> turn" where
  "lateTurn now = \<lparr>Cancelled = False, RefreshNow = now, RefreshListing = Inl NotFound, SubscribedAt = now,
     RefreshedAt = now, PingNow = now, PingedAt = now, MessageListing = Inl NotFound,
     Api = (\<lambda>_. \<lparr>GetError = None, AttemptNow = now, PatchError = None\<rparr>)\<rparr>"

theorem busy_session_writes_nothing_witness:
  "\<exists>s'. consumeTelemetry (\<lambda>_. Inl []) [lateTurn (100 * second), lateTurn (200 * second)]
      (emptySession (map Octet (concat (map framed [(0x30, publishBody ''a'' []), (0xD0, [])])) @ [])) = Running s' \<and>
    Written (Conn s') = [] \<and> LastClientWrite s' = 0 \<and> Incoming (Conn s') = []"
  using busy_session_writes_nothing [of "[lateTurn (100 * second), lateTurn (200 * second)]"
      "[(0x30, publishBody ''a'' []), (0xD0, [])]"
      "emptySession (map Octet (concat (map framed [(0x30, publishBody ''a'' []), (0xD0, [])])) @ [])" "[]" "\<lambda>_. Inl []"]
  by (simp add: emptySession_def lateTurn_def nothing_new_def frameable_def publishBody_def)

text \<open>The other way round, an idle session does keep its promise.\<close>

lemma timeout_turn:
  assumes "\<not> Cancelled t" "nothing_new t (Subscribed s)" "writes_ok (Conn s)"
    and "mqttReadPacket (setReadDeadline (Incoming (Conn s))) = (Inl Timeout, rest)"
  obtains s' where "consumeTurn decode t s = Running s'" "Incoming (Conn s') = rest"
    "Subscribed s' = Subscribed s" "Bridge s' = Bridge s"
    "Written (Conn s') = Written (Conn s) @
      (if shouldSendTelemetryPing (LastClientWrite s) (PingNow t) then [[0xC0, 0x00]] else [])"
    "LastClientWrite s' =
      (if shouldSendTelemetryPing (LastClientWrite s) (PingNow t) then PingedAt t else LastClientWrite s)"
proof -
  obtain r where r: "refreshTopics t s = (None, s\<lparr>LastRefresh := r\<rparr>)"
    by (rule refresh_nothing_new [OF assms(2)])
  have ok: "writes_ok ((Conn s)\<lparr>Incoming := rest\<rparr>)"
    using assms(3) by (simp add: writes_ok_def)
  show ?thesis
  proof (cases "shouldSendTelemetryPing (LastClientWrite s) (PingNow t)")
    case True
    then have "consumeTurn decode t s = Running (s\<lparr>LastRefresh := r, Conn := (Conn s)\<lparr>Incoming := rest,
        Written := Written (Conn s) @ [[0xC0, 0x00]], WriteErrors := tl (WriteErrors (Conn s))\<rparr>,
        LastClientWrite := PingedAt t\<rparr>)"
      using ok by (simp add: consumeTurn_def assms(1,4) r Let_def mqttPing_def connWrite_eq)
    then show ?thesis by (rule that) (simp_all add: True)
  next
    case False
    then have "consumeTurn decode t s = Running (s\<lparr>LastRefresh := r, Conn := (Conn s)\<lparr>Incoming := rest\<rparr>\<rparr>)"
      by (simp add: consumeTurn_def assms(1,4) r Let_def)
    then show ?thesis by (rule that) (simp_all add: False)
  qed
qed

section \<open>Deadlines and partial packets\<close>

lemma readFull_deadline:
  "length bs < n \<Longrightarrow>
     readFull n (map Octet bs @ DeadlinePassed # s) = (Inl Timeout, DeadlinePassed # s)"
  by (cases "n - length bs") simp_all

lemma readLength_deadline:
  "k < length (remainingLengthBytes n) \<Longrightarrow> k \<le> fuel \<Longrightarrow>
     readLengthLoop (Suc fuel) m v (map Octet (take k (remainingLengthBytes n)) @ DeadlinePassed # s) =
       (Inl Timeout, DeadlinePassed # s)"
proof (induction k arbitrary: n fuel m v)
  case 0
  then show ?case by simp
next
  case (Suc k)
  then obtain fuel' where fuel: "fuel = Suc fuel'" "k \<le> fuel'" by (cases fuel) auto
  have digits: "n div 128 > 0"
    using Suc.prems(1) by (auto simp: remainingLengthBytes.simps [of n] split: if_splits)
  have "k < length (remainingLengthBytes (n div 128))"
    using Suc.prems(1) by (simp add: remainingLengthBytes_more [OF digits])
  note IH = Suc.IH [OF this fuel(2)]
  show ?case
    unfolding fuel(1) remainingLengthBytes_more [OF digits] take_Suc_Cons list.map append_Cons readLength_step
    by (simp only: high_set if_False IH)
qed

text \<open>A packet cut off by the deadline: what was read of it is gone.\<close>

lemma read_cut_off:
  assumes "frameable p" "k < length (framed p)"
  shows "mqttReadPacket (map Octet (take k (framed p)) @ DeadlinePassed # s) = (Inl Timeout, DeadlinePassed # s)"
proof (cases k)
  case 0
  then show ?thesis by (simp add: mqttReadPacket_def)
next
  case (Suc j)
  let ?l = "remainingLengthBytes (length (snd p))"
  have four: "length ?l \<le> 4"
    using length_remaining_le [of "length (snd p)" 3] assms(1) by (simp add: frameable_def)
  have first: "readFull 1 (map Octet (take k (framed p)) @ DeadlinePassed # s) =
      (Inr [fst p], map Octet (take j (?l @ snd p)) @ DeadlinePassed # s)"
    by (simp add: Suc framed_def mqttFixedHeader_def)
  show ?thesis
  proof (cases "j < length ?l")
    case True
    then have "mqttReadRemainingLength (map Octet (take j (?l @ snd p)) @ DeadlinePassed # s) =
        (Inl Timeout, DeadlinePassed # s)"
      using readLength_deadline [of j "length (snd p)" 3 1 0 s] four
      by (simp add: mqttReadRemainingLength_def eval_nat_numeral del: readLengthLoop.simps)
    then show ?thesis unfolding mqttReadPacket_def first by simp
  next
    case False
    then have "take j (?l @ snd p) = ?l @ take (j - length ?l) (snd p)" by simp
    then have len: "mqttReadRemainingLength (map Octet (take j (?l @ snd p)) @ DeadlinePassed # s) =
        (Inr (length (snd p)), map Octet (take (j - length ?l) (snd p)) @ DeadlinePassed # s)"
      using read_length_back [of "length (snd p)"] assms(1) by (simp add: frameable_def)
    have "j - length ?l < length (snd p)"
      using assms(2) False by (simp add: Suc framed_def mqttFixedHeader_def)
    then have "readFull (length (snd p)) (map Octet (take (j - length ?l) (snd p)) @ DeadlinePassed # s) =
        (Inl Timeout, DeadlinePassed # s)"
      by (intro readFull_deadline) simp
    then show ?thesis
      unfolding mqttReadPacket_def first by (simp only: prod.case sum.case len)
  qed
qed

text \<open>A slow packet destroys the framing.  When the read deadline passes in the middle of a packet,
  the turn reports nothing and goes on, but the bytes it had read are dropped: the next turn starts
  reading in the middle of the packet.\<close>

theorem slow_packet_loses_bytes:
  assumes "frameable p" "0 < k" "k < length (framed p)"
    and "Incoming (Conn s) = map Octet (take k (framed p)) @ DeadlinePassed # later"
    and "\<not> Cancelled t" "nothing_new t (Subscribed s)" "writes_ok (Conn s)"
  shows "\<exists>s'. consumeTurn decode t s = Running s' \<and> Bridge s' = Bridge s \<and>
    setReadDeadline (Incoming (Conn s')) = later"
proof -
  have "take k (framed p) \<noteq> []" using assms(2) by simp
  then have "mqttReadPacket (setReadDeadline (Incoming (Conn s))) = (Inl Timeout, DeadlinePassed # later)"
    by (simp add: assms(4) read_cut_off [OF assms(1,3)])
  from timeout_turn [OF assms(5-7) this, of decode] show ?thesis by (metis setReadDeadline.simps(1))
qed

text \<open>A telemetry message that arrives in two halves is lost, and the second half is read as packets.\<close>

theorem slow_packet_loses_bytes_witness:
  "\<exists>s'. consumeTurn (\<lambda>_. Inl []) (lateTurn second)
      (emptySession (map Octet (take 3 (framed (0x30, publishBody ''a'' []))) @ DeadlinePassed #
         map Octet (drop 3 (framed (0x30, publishBody ''a'' []))))) = Running s' \<and> Bridge s' = emptyBridge \<and>
    setReadDeadline (Incoming (Conn s')) = map Octet (drop 3 (framed (0x30, publishBody ''a'' [])))"
  using slow_packet_loses_bytes [of "(0x30, publishBody ''a'' [])" 3
      "emptySession (map Octet (take 3 (framed (0x30, publishBody ''a'' []))) @ DeadlinePassed #
         map Octet (drop 3 (framed (0x30, publishBody ''a'' []))))" _ "lateTurn second" "\<lambda>_. Inl []"]
  by (simp add: emptySession_def lateTurn_def nothing_new_def frameable_def publishBody_def writes_ok_def
      framed_def mqttFixedHeader_def length_remaining_pos Suc_less_eq)

text \<open>A subscription after an idle turn always fails.  A turn that timed out leaves its deadline
  passed; when the next turn finds a new topic, it sends the SUBSCRIBE and then fails at once to read
  the answer, whatever the broker sends, and the session ends.\<close>

theorem subscription_after_timeout_fails:
  assumes "Incoming (Conn s) = DeadlinePassed # later" "\<not> Cancelled t" "writes_ok (Conn s)"
    and "mqttTelemetryRefreshInterval \<le> time_sub (RefreshNow t) (LastRefresh s)"
    and "RefreshListing t = Inr ws" "telemetryTopics ws = Some topics"
    and "missingTopics topics (Subscribed s) \<noteq> []"
  shows "\<exists>s'. consumeTurn decode t s = Returned (Some (Exchange (ReadError ''SUBACK'' Timeout))) s' \<and>
    Written (Conn s') = Written (Conn s) @
      [subscribePacket (nextSubscribePacketID (PacketID s)) (missingTopics topics (Subscribed s))] \<and>
    Subscribed s' = Subscribed s"
  using assms
  by (simp add: consumeTurn_def refreshTopics_def subscribe_def connWrite_eq mqttReadPacket_def Let_def)

theorem subscription_after_timeout_fails_witness:
  "\<exists>s'. consumeTurn (\<lambda>_. Inl []) ((lateTurn (20 * second))\<lparr>RefreshListing := Inr [deviceOn ''x'' ''b'']\<rparr>)
      (emptySession (DeadlinePassed # map Octet (framed (0x90, [0, 2, 0])))) =
        Returned (Some (Exchange (ReadError ''SUBACK'' Timeout))) s' \<and> Subscribed s' = {''a''}"
proof -
  have "trimSpace ''b'' = ''b''" by (rule trimSpace_plain) (simp add: plain_char_def)
  then have "telemetryTopics [deviceOn ''x'' ''b''] = Some [''b'']"
    by (simp add: telemetryTopics_def telemetryTopicForDevice_def deviceOn_def zero_defs)
  then show ?thesis
    using subscription_after_timeout_fails [of "emptySession (DeadlinePassed # map Octet (framed (0x90, [0, 2, 0])))"
        "map Octet (framed (0x90, [0, 2, 0]))" "(lateTurn (20 * second))\<lparr>RefreshListing := Inr [deviceOn ''x'' ''b'']\<rparr>"
        "[deviceOn ''x'' ''b'']" "[''b'']" "\<lambda>_. Inl []"]
    by (auto simp: emptySession_def lateTurn_def writes_ok_def missingTopics_def second_def
        mqttTelemetryRefreshInterval_def time_sub_def)
qed

section \<open>Which messages count\<close>

text \<open>Only a decodable PUBLISH on a subscribed topic reaches the resources, and then exactly once.  Every
  other packet leaves the bridge's state as it was.\<close>

theorem only_subscribed_messages_apply:
  assumes "\<not> Cancelled t" "nothing_new t (Subscribed s)" "frameable (h, body)"
    and "Incoming (Conn s) = map Octet (framed (h, body)) @ rest"
  shows "\<exists>s'. consumeTurn decode t s = Running s' \<and> Incoming (Conn s') = rest \<and>
    Bridge s' =
      (case mqttParsePublish h body of
         Inr (topic, payload) \<Rightarrow>
           if h AND 0xF0 = 0x30 \<and> topic \<in> Subscribed s
           then snd (applyBatteryTelemetry (Api t) topic (decode payload) (MessageListing t) (Bridge s))
           else Bridge s
       | Inl e \<Rightarrow> Bridge s)"
proof -
  obtain r where r: "refreshTopics t s = (None, s\<lparr>LastRefresh := r\<rparr>)"
    by (rule refresh_nothing_new [OF assms(2)])
  have "consumeTurn decode t s =
      Running (handlePacket decode t h body (s\<lparr>LastRefresh := r, Conn := (Conn s)\<lparr>Incoming := rest\<rparr>\<rparr>))"
    by (simp add: consumeTurn_def assms(1,4) r read_framed [OF assms(3)] Let_def)
  then show ?thesis
    by (auto simp: handlePacket_def split: sum.split)
qed

theorem only_subscribed_messages_apply_witness:
  "\<exists>s'. consumeTurn (\<lambda>_. Inl []) (lateTurn second) (emptySession (map Octet (framed (0xD0, [])) @ [])) = Running s' \<and>
    Bridge s' = emptyBridge"
  using only_subscribed_messages_apply [of "lateTurn second" "emptySession (map Octet (framed (0xD0, [])) @ [])"
      "0xD0" "[]" "[]" "\<lambda>_. Inl []"]
  by (auto simp: emptySession_def lateTurn_def nothing_new_def frameable_def mqttParsePublish_def)

section \<open>Subscriptions are backed by a request\<close>

text \<open>Every topic the session counts as subscribed was asked for on this connection.\<close>

definition requested :: "session \<Rightarrow> bool" where
  "requested s \<longleftrightarrow> (\<forall>topic \<in> Subscribed s. \<exists>n topics. topic \<in> set topics \<and>
     subscribePacket n topics \<in> set (Written (Conn s)))"

lemma subscribe_grows: "set (Written c) \<subseteq> set (Written (fst (snd (subscribe topics c n))))"
  by (auto simp: subscribe_def connWrite_eq Let_def split: prod.split sum.split)

lemma subscribe_written:
  assumes "subscribe topics c n = (None, c', n')" "topics \<noteq> []"
  shows "subscribePacket n' topics \<in> set (Written c')"
  using assms by (auto simp: subscribe_def connWrite_eq Let_def split: if_splits prod.splits sum.splits)

lemma requested_mono:
  "requested s \<Longrightarrow> set (Written (Conn s)) \<subseteq> set (Written (Conn s')) \<Longrightarrow> Subscribed s' \<subseteq> Subscribed s \<Longrightarrow>
     requested s'"
  unfolding requested_def by blast

lemma requested_refresh:
  assumes "requested s" "refreshTopics t s = (e, s')"
  shows "requested s'"
proof (cases "time_sub (RefreshNow t) (LastRefresh s) \<ge> mqttTelemetryRefreshInterval \<and>
    (\<exists>ws topics. RefreshListing t = Inr ws \<and> telemetryTopics ws = Some topics \<and>
       missingTopics topics (Subscribed s) \<noteq> [])")
  case True
  then obtain ws topics where new: "RefreshListing t = Inr ws" "telemetryTopics ws = Some topics"
    "missingTopics topics (Subscribed s) \<noteq> []" by blast
  let ?missing = "missingTopics topics (Subscribed s)"
  obtain err c n where sub: "subscribe ?missing (Conn s) (PacketID s) = (err, c, n)"
    by (cases "subscribe ?missing (Conn s) (PacketID s)") auto
  have grows: "set (Written (Conn s)) \<subseteq> set (Written c)"
    using subscribe_grows [of "Conn s" ?missing "PacketID s"] by (simp add: sub)
  show ?thesis
  proof (cases err)
    case None
    then have "s' = s\<lparr>Conn := c, PacketID := n, LastClientWrite := SubscribedAt t,
        Subscribed := Subscribed s \<union> set ?missing, LastRefresh := RefreshedAt t\<rparr>"
      using assms(2) True new sub by (simp add: refreshTopics_def)
    moreover have "subscribePacket n ?missing \<in> set (Written c)"
      using subscribe_written [OF _ new(3)] sub None by simp
    ultimately show ?thesis
      using assms(1) grows by (auto simp: requested_def) blast+
  next
    case (Some e)
    then have "s' = s\<lparr>Conn := c, PacketID := n\<rparr>"
      using assms(2) True new sub by (simp add: refreshTopics_def)
    then show ?thesis using grows by (intro requested_mono [OF assms(1)]) simp_all
  qed
next
  case False
  then have "Subscribed s' = Subscribed s" "Conn s' = Conn s"
    using assms(2) by (auto simp: refreshTopics_def Let_def split: if_splits sum.splits option.splits)
  with assms(1) show ?thesis by (simp add: requested_def)
qed

definition final_session :: "turnResult \<Rightarrow> session" where
  "final_session r = (case r of Running s \<Rightarrow> s | Returned e s \<Rightarrow> s)"

lemma requested_turn:
  assumes "requested s"
  shows "requested (final_session (consumeTurn decode t s))"
proof -
  obtain e s1 where ref: "refreshTopics t s = (e, s1)" by (cases "refreshTopics t s")
  have s1: "requested s1" by (rule requested_refresh [OF assms ref])
  show ?thesis
  proof (cases "Cancelled t \<or> e \<noteq> None")
    case True
    then show ?thesis using assms s1 by (auto simp: consumeTurn_def final_session_def ref)
  next
    case False
    obtain outcome rest where read: "mqttReadPacket (setReadDeadline (Incoming (Conn s1))) = (outcome, rest)"
      by (cases "mqttReadPacket (setReadDeadline (Incoming (Conn s1)))")
    let ?s2 = "s1\<lparr>Conn := (Conn s1)\<lparr>Incoming := rest\<rparr>\<rparr>"
    obtain err c where ping: "mqttPing (Conn ?s2) = (err, c)" by (cases "mqttPing (Conn ?s2)")
    then have grows: "set (Written (Conn s1)) \<subseteq> set (Written c)"
      by (auto simp: mqttPing_def connWrite_eq split: if_splits)
    let ?final = "final_session (consumeTurn decode t s)"
    have "set (Written (Conn s1)) \<subseteq> set (Written (Conn ?final)) \<and> Subscribed ?final = Subscribed s1"
      using False grows
      by (cases outcome; cases "projl outcome"; cases err)
        (auto simp: consumeTurn_def final_session_def ref read ping [simplified] Let_def)
    then show ?thesis by (intro requested_mono [OF s1]) simp_all
  qed
qed

lemma requested_run: "requested s \<Longrightarrow> requested (final_session (consumeTelemetry decode ts s))"
proof (induction ts arbitrary: s)
  case Nil
  then show ?case by (simp add: final_session_def)
next
  case (Cons t ts)
  then show ?case
    using requested_turn [OF Cons.prems, of decode t]
    by (cases "consumeTurn decode t s") (auto simp: final_session_def)
qed

lemma sort_not_Nil: "xs \<noteq> [] \<Longrightarrow> sort (xs :: string list) \<noteq> []"
  by (metis length_0_conv length_sort)

lemma telemetryTopics_not_Nil: "telemetryTopics ws = Some ts \<Longrightarrow> ts \<noteq> []"
  using sort_not_Nil [of "remdups (filter (\<lambda>t. t \<noteq> []) (map (\<lambda>w. telemetryTopicForDevice (device w)) ws))"]
  by (auto simp only: telemetryTopics_def Let_def split: if_splits)

text \<open>A session counts a topic as subscribed only if it asked for it.  From a connection that was just
  made, after any number of turns and however they end, every topic counted as subscribed occurs in a
  SUBSCRIBE packet written on this very connection.\<close>

theorem subscriptions_are_requested:
  "case connectAndSubscribe cfg listing dial n of
     (Inl e, n') \<Rightarrow> True
   | (Inr (c, topics), n') \<Rightarrow> requested (final_session (consumeTelemetry decode ts
       \<lparr>Conn = c, Subscribed = topics, LastRefresh = 0, LastClientWrite = t0, PacketID = n', Bridge = b\<rparr>))"
proof (cases "connectAndSubscribe cfg listing dial n")
  case (Pair res n')
  show ?thesis
  proof (cases res)
    case (Inl e)
    with Pair show ?thesis by simp
  next
    case (Inr ct)
    obtain c topics where ct: "ct = (c, topics)" by (cases ct)
    obtain ws ts' c1 c2 where "telemetryTopics ws = Some ts'" "subscribe ts' c1 n = (None, c2, n')"
      "c = c2\<lparr>Incoming := setReadDeadline (Incoming c2)\<rparr>" "topics = set ts'"
      using Pair unfolding connectAndSubscribe_def Inr ct
      by (auto split: sum.splits option.splits prod.splits)
    moreover from this(1) have "ts' \<noteq> []" by (rule telemetryTopics_not_Nil)
    ultimately have "\<forall>topic \<in> topics. topic \<in> set ts' \<and> subscribePacket n' ts' \<in> set (Written c)"
      using subscribe_written [of ts' c1 n c2 n'] by simp
    then have "requested \<lparr>Conn = c, Subscribed = topics, LastRefresh = 0, LastClientWrite = t0,
        PacketID = n', Bridge = b\<rparr>"
      unfolding requested_def by (simp, blast)
    from requested_run [OF this] show ?thesis by (simp add: Pair Inr ct)
  qed
qed

end
