(* ===== verification/Release_Slots.thy ===== *)
theory Release_Slots
  imports Sif_Prelude
begin

text \<open>
  The contract between the operator and a runtime that keeps an active and a staged release, and the
  abstract machine such a runtime implements.
\<close>

section \<open>The contract\<close>

text \<open>
  A store is offered a release and told to switch to a generation.  It may refuse both; what it
  accepts is there afterwards, an offer leaves the active release alone, and the staged release is
  newer than the active one.
\<close>

locale release_slots =
  fixes inv :: "'s \<Rightarrow> bool"
    and active :: "'s \<Rightarrow> 'r" and staged :: "'s \<Rightarrow> 'r option" and gen :: "'r \<Rightarrow> int64"
    and offer :: "'q \<Rightarrow> 's \<Rightarrow> bool \<times> 's" and names :: "'q \<Rightarrow> 'r"
    and switch :: "int64 \<Rightarrow> 's \<Rightarrow> bool \<times> 's"
  assumes staged_newer: "inv s \<Longrightarrow> staged s = Some r \<Longrightarrow> gen (active s) < gen r"
    and offer_inv: "inv s \<Longrightarrow> inv (snd (offer q s))"
    and switch_inv: "inv s \<Longrightarrow> inv (snd (switch g s))"
    and offer_active: "inv s \<Longrightarrow> active (snd (offer q s)) = active s"
    and offer_accepted: "inv s \<Longrightarrow> offer q s = (True, s') \<Longrightarrow> active s' = names q \<or> staged s' = Some (names q)"
    and switch_accepted: "inv s \<Longrightarrow> switch g s = (True, s') \<Longrightarrow>
      gen (active s') = g \<and> (active s' = active s \<or> staged s = Some (active s'))"
    and switch_refused: "inv s \<Longrightarrow> switch g s = (False, s') \<Longrightarrow> active s' = active s"
begin

text \<open>An accepted offer followed by an accepted switch to it makes it the active release.\<close>

lemma delivered:
  assumes "inv s" "offer q s = (True, s1)" "switch (gen (names q)) s1 = (True, s2)"
  shows "active s2 = names q"
proof -
  have s1: "inv s1" using offer_inv [OF assms(1), of q] assms(2) by simp
  note sw = switch_accepted [OF s1 assms(3)]
  from offer_accepted [OF assms(1,2)] show ?thesis
  proof
    assume "active s1 = names q"
    with sw staged_newer [OF s1] show ?thesis by fastforce
  next
    assume "staged s1 = Some (names q)"
    with sw staged_newer [OF s1] show ?thesis by fastforce
  qed
qed

text \<open>The generation in use never decreases.\<close>

lemma offer_keeps_generation: "inv s \<Longrightarrow> gen (active (snd (offer q s))) = gen (active s)"
  by (simp add: offer_active)

lemma switch_monotone: "inv s \<Longrightarrow> gen (active s) \<le> gen (active (snd (switch g s)))"
proof (cases "switch g s")
  case (Pair ok s')
  assume "inv s"
  with Pair show ?thesis
    using switch_accepted [of s g s'] switch_refused [of s g s'] staged_newer [of s "active s'"]
    by (cases ok) auto
qed

end

section \<open>The abstract machine\<close>

text \<open>Two slots: a newer release may be staged, replacing an older staged one, and the staged release may
  become the active one.\<close>

inductive slotStep :: "('r \<Rightarrow> int64) \<Rightarrow> 'r \<times> 'r option \<Rightarrow> 'r \<times> 'r option \<Rightarrow> bool" for gen where
  stage: "gen a < gen r \<Longrightarrow> (case st of None \<Rightarrow> True | Some old \<Rightarrow> gen old < gen r) \<Longrightarrow>
    slotStep gen (a, st) (a, Some r)"
| promote: "slotStep gen (a, Some r) (r, None)"

inductive_cases slotStepE: "slotStep gen (a, st) t"

inductive_simps slotStep_active_iff: "slotStep gen (a, st) (b, None)"

text \<open>Reachable slots: from a machine whose staged release, if any, is newer, both facts persist.\<close>

lemma slotStep_newer:
  assumes "slotStep gen s t" "\<forall>r \<in> set_option (snd s). gen (fst s) < gen r"
  shows "(\<forall>r \<in> set_option (snd t). gen (fst t) < gen r) \<and> gen (fst s) \<le> gen (fst t)"
  using assms by (cases rule: slotStep.cases) auto

lemma slotSteps_newer:
  assumes "(slotStep gen)\<^sup>*\<^sup>* s t" "\<forall>r \<in> set_option (snd s). gen (fst s) < gen r"
  shows "(\<forall>r \<in> set_option (snd t). gen (fst t) < gen r) \<and> gen (fst s) \<le> gen (fst t)"
  using assms
proof (induction rule: rtranclp_induct)
  case base
  then show ?case by simp
next
  case (step t u)
  then show ?case using slotStep_newer [OF step(2)] by fastforce
qed

end
