(* ===== verification/Artifact_Sync.thy ===== *)
theory Artifact_Sync
  imports Placement_Policy
begin

text \<open>
  Staging a release on the edge host (\<open>artifact_sync.go\<close>): probing the authoritative source, probing
  the host, downloading and uploading, and the condition that reports it.

  HTTP is an environment that answers each request; its answer may depend on the requests made before.
  A transport error is \<open>Inl\<close>, an answer carries its status code, the two digest headers and its body.
  The SHA-256 digest is the parameter \<open>sha\<close>.
\<close>

section \<open>HTTP\<close>

record hostReleaseStatus =
  ActiveGeneration :: int64
  ActiveDigest :: string
  ActiveFunction :: string
  StagedGeneration :: int64
  StagedDigest :: string
  StagedFunction :: string

record httpRequest =
  Method :: string
  URL :: string
  ReqDigest :: string
  ReqGeneration :: string
  ReqFunction :: string
  ReqActivate :: "int64 option"
  ReqBody :: string

text \<open>
  \<open>HStatusJSON\<close> is what \<open>json.Decoder\<close> makes of the first 4096 bytes of the body, \<open>HBody\<close> the bytes
  of the body or the error that ends reading them.
\<close>

record httpResponse =
  HCode :: int
  HStatusText :: string
  HDigest :: string
  HETag :: string
  HBody :: "string + string"
  HStatusJSON :: "string + hostReleaseStatus"

type_synonym webEnv = "httpRequest list \<Rightarrow> httpRequest \<Rightarrow> string + httpResponse"

definition send :: "webEnv \<Rightarrow> httpRequest \<Rightarrow> httpRequest list \<Rightarrow> (string + httpResponse) \<times> httpRequest list" where
  "send env r h = (env h r, h @ [r])"

definition plainRequest :: "string \<Rightarrow> string \<Rightarrow> httpRequest" where
  "plainRequest m url = \<lparr>Method = m, URL = url, ReqDigest = [], ReqGeneration = [], ReqFunction = [],
     ReqActivate = None, ReqBody = []\<rparr>"

definition success :: "httpResponse \<Rightarrow> bool" where
  "success resp \<longleftrightarrow> \<not> (HCode resp < 200 \<or> HCode resp \<ge> 300)"

definition maxArtifactDownloadBytes :: nat where "maxArtifactDownloadBytes = 8388608"
definition maxArtifactErrorBodyBytes :: nat where "maxArtifactErrorBodyBytes = 4096"

text \<open>The text of an error answer: its status, and its trimmed body when there is one.\<close>

definition errorMessage :: "httpResponse \<Rightarrow> string" where
  "errorMessage resp =
     trimSpace (take maxArtifactErrorBodyBytes (case HBody resp of Inl e \<Rightarrow> [] | Inr body \<Rightarrow> body))"

definition refusal :: "string \<Rightarrow> string \<Rightarrow> httpResponse \<Rightarrow> string" where
  "refusal m url resp =
    (if errorMessage resp = [] then m @ '' '' @ url @ '' returned '' @ HStatusText resp
     else m @ '' '' @ url @ '' returned '' @ HStatusText resp @ '': '' @ errorMessage resp)"

section \<open>The authoritative source\<close>

definition artifactDigestFromHeaders :: "httpResponse \<Rightarrow> string" where
  "artifactDigestFromHeaders resp =
    (let digest = normalizeArtifactDigest (HDigest resp)
     in if digest \<noteq> [] then digest
        else let etag0 = trimSpace (HETag resp);
                 etag1 = trimPrefix etag0 ''W/'';
                 etag2 = trimChar (CHR 0x22) etag1;
                 etag3 = trimPrefix (toLower etag2) ''sha256:''
             in normalizeArtifactDigest etag3)"

definition fetchArtifact :: "(string \<Rightarrow> string) \<Rightarrow> webEnv \<Rightarrow> string \<Rightarrow> httpRequest list
    \<Rightarrow> (string + string \<times> string) \<times> httpRequest list" where
  "fetchArtifact sha env url h =
    (case send env (plainRequest ''GET'' url) h of
       (Inl e, h1) \<Rightarrow> (Inl (''GET '' @ url @ '' failed: '' @ e), h1)
     | (Inr resp, h1) \<Rightarrow>
         (if \<not> success resp then Inl (refusal ''GET'' url resp)
          else case HBody resp of
            Inl e \<Rightarrow> Inl (''read GET '' @ url @ '' body: '' @ e)
          | Inr body \<Rightarrow>
              (let data = take (maxArtifactDownloadBytes + 1) body
               in if data = [] then Inl (''GET '' @ url @ '' returned an empty artifact'')
                  else if length data > maxArtifactDownloadBytes
                    then Inl (''GET '' @ url @ '' exceeded '' @ fmt_d (int maxArtifactDownloadBytes) @ '' bytes'')
                  else let headerDigest = artifactDigestFromHeaders resp; actualDigest = sha data
                       in if headerDigest \<noteq> [] \<and> headerDigest \<noteq> actualDigest
                          then Inl (''GET '' @ url @ '' digest header '' @ headerDigest @
                            '' did not match body digest '' @ actualDigest)
                          else Inr (data, if headerDigest = [] then actualDigest else headerDigest)), h1))"

text \<open>HEAD first; GET when HEAD fails, is not supported, or names no digest.\<close>

definition fetchArtifactDigest :: "(string \<Rightarrow> string) \<Rightarrow> webEnv \<Rightarrow> string \<Rightarrow> httpRequest list
    \<Rightarrow> (string + string) \<times> httpRequest list" where
  "fetchArtifactDigest sha env url h =
    (case send env (plainRequest ''HEAD'' url) h of
       (headResult, h1) \<Rightarrow>
         (let fallback = (case fetchArtifact sha env url h1 of
              (Inl getErr, h2) \<Rightarrow>
                (Inl (case headResult of
                   Inl headErr \<Rightarrow> ''HEAD '' @ url @ '' failed: '' @ headErr @ ''; GET fallback failed: '' @ getErr
                 | Inr resp \<Rightarrow> getErr), h2)
            | (Inr (data, digest), h2) \<Rightarrow> (Inr digest, h2))
          in case headResult of
               Inl headErr \<Rightarrow> fallback
             | Inr resp \<Rightarrow>
                 if success resp then
                   (if artifactDigestFromHeaders resp \<noteq> [] then (Inr (artifactDigestFromHeaders resp), h1)
                    else fallback)
                 else if HCode resp \<noteq> 405 \<and> HCode resp \<noteq> 501
                   then (Inl (''HEAD '' @ url @ '' returned '' @ HStatusText resp), h1)
                 else fallback))"

section \<open>The edge host\<close>

definition effectivePort :: "wasmFunction \<Rightarrow> int32" where
  "effectivePort w = (if Port (Spec w) \<noteq> 0 then Port (Spec w) else 8080)"

definition hostWasmURL :: "(wasmFunction \<Rightarrow> string) option \<Rightarrow> wasmFunction \<Rightarrow> string" where
  "hostWasmURL resolver w =
    (case resolver of
       Some f \<Rightarrow> f w
     | None \<Rightarrow> ''http://'' @ M_Name w @ ''.'' @ M_Namespace w @ '':'' @ fmt_d (effectivePort w) @ ''/wasm'')"

definition releaseURL :: "string \<Rightarrow> string" where
  "releaseURL wasmURL = trimSuffix wasmURL ''/wasm'' @ ''/release''"

definition fetchHostReleaseStatus :: "webEnv \<Rightarrow> string \<Rightarrow> httpRequest list
    \<Rightarrow> (string + hostReleaseStatus) \<times> httpRequest list" where
  "fetchHostReleaseStatus env wasmURL h =
    (let url = releaseURL wasmURL
     in case send env (plainRequest ''GET'' url) h of
          (Inl e, h1) \<Rightarrow> (Inl (''GET '' @ url @ '' failed: '' @ e), h1)
        | (Inr resp, h1) \<Rightarrow>
            (if \<not> success resp then Inl (''GET '' @ url @ '' returned '' @ HStatusText resp)
             else case HStatusJSON resp of
               Inl e \<Rightarrow> Inl (''decode GET '' @ url @ '': '' @ e)
             | Inr status \<Rightarrow> Inr status, h1))"

definition uploadArtifact :: "webEnv \<Rightarrow> string \<Rightarrow> string \<Rightarrow> wasmFunction \<Rightarrow> httpRequest list
    \<Rightarrow> string option \<times> httpRequest list" where
  "uploadArtifact env url artifact w h =
    (case send env ((plainRequest ''PUT'' url)\<lparr>ReqDigest := R_ArtifactDigest (release w),
        ReqGeneration := fmt_d (R_Generation (release w)), ReqFunction := FunctionIdentity (release w),
        ReqBody := artifact\<rparr>) h of
       (Inl e, h1) \<Rightarrow> (Some (''PUT '' @ url @ '' failed: '' @ e), h1)
     | (Inr resp, h1) \<Rightarrow> (if \<not> success resp then Some (refusal ''PUT'' url resp) else None, h1))"

text \<open>\<open>activateHostRelease\<close>, the HTTP side of the activation that the command pass asks for.\<close>

definition postHostActivation :: "webEnv \<Rightarrow> (wasmFunction \<Rightarrow> string) option \<Rightarrow> wasmFunction \<Rightarrow> httpRequest list
    \<Rightarrow> string option \<times> httpRequest list" where
  "postHostActivation env resolver w h =
    (let url = releaseURL (hostWasmURL resolver w)
     in case send env ((plainRequest ''POST'' url)\<lparr>ReqActivate := Some (R_Generation (release w))\<rparr>) h of
          (Inl e, h1) \<Rightarrow> (Some (''POST '' @ url @ '' failed: '' @ e), h1)
        | (Inr resp, h1) \<Rightarrow>
            (if \<not> success resp
             then Some (''POST '' @ url @ '' returned '' @ HStatusText resp @ '': '' @ errorMessage resp)
             else None, h1))"

section \<open>Synchronisation\<close>

datatype syncError = SourceTransition string | SyncError string

definition errorText :: "syncError \<Rightarrow> string" where
  "errorText e = (case e of SourceTransition m \<Rightarrow> m | SyncError m \<Rightarrow> m)"

definition artifactSourceDigestTransitionPending :: "syncError \<Rightarrow> bool" where
  "artifactSourceDigestTransitionPending e \<longleftrightarrow> (case e of SourceTransition m \<Rightarrow> True | SyncError m \<Rightarrow> False)"

text \<open>The decision after the host's status was read.\<close>

definition withHostStatus :: "hostReleaseStatus \<Rightarrow> artifactDecision \<Rightarrow> artifactDecision" where
  "withHostStatus s a = a\<lparr>HostDigest := normalizeArtifactDigest (ActiveDigest s),
     HostStagedDigest := normalizeArtifactDigest (StagedDigest s),
     HostActiveGeneration := ActiveGeneration s, HostStagedGeneration := StagedGeneration s,
     HostActiveFunction := trimSpace (ActiveFunction s), HostStagedFunction := trimSpace (StagedFunction s)\<rparr>"

definition stageOnHost :: "(string \<Rightarrow> string) \<Rightarrow> webEnv \<Rightarrow> wasmFunction \<Rightarrow> artifactDecision \<Rightarrow> httpRequest list
    \<Rightarrow> (artifactDecision \<times> syncError option) \<times> httpRequest list" where
  "stageOnHost sha env w a h =
    (case fetchArtifact sha env (SourceURL a) h of
       (Inl e, h1) \<Rightarrow> ((a, Some (SyncError (''download desired artifact from '' @ SourceURL a @ '': '' @ e))), h1)
     | (Inr (artifactBytes, actualDigest), h1) \<Rightarrow>
         if actualDigest \<noteq> DesiredDigest a then
           ((a, Some (SyncError (''desired artifact digest changed during sync: resolved '' @ DesiredDigest a @
              '', downloaded '' @ actualDigest))), h1)
         else case uploadArtifact env (HostURL a) artifactBytes w h1 of
           (Some e, h2) \<Rightarrow> ((a, Some (SyncError (''upload desired artifact to host '' @ HostURL a @ '': '' @ e))), h2)
         | (None, h2) \<Rightarrow>
             ((a\<lparr>HostStagedDigest := actualDigest, HostStagedGeneration := R_Generation (release w),
                 HostStagedFunction := FunctionIdentity (release w), UpdatedHost := True\<rparr>, None), h2))"

definition syncWithHost :: "(string \<Rightarrow> string) \<Rightarrow> webEnv \<Rightarrow> wasmFunction \<Rightarrow> artifactDecision \<Rightarrow> httpRequest list
    \<Rightarrow> (artifactDecision \<times> syncError option) \<times> httpRequest list" where
  "syncWithHost sha env w a h =
    (case fetchHostReleaseStatus env (HostURL a) h of
       (Inl e, h1) \<Rightarrow> ((a, Some (SyncError (''probe host release status from '' @ HostURL a @ '': '' @ e))), h1)
     | (Inr status, h1) \<Rightarrow>
         (let a1 = withHostStatus status a
          in if hostActiveMatches a1 w \<or> hostStagedMatches a1 w then ((a1, None), h1)
             else stageOnHost sha env w a1 h1))"

definition reconcileArtifact :: "(string \<Rightarrow> string) \<Rightarrow> webEnv \<Rightarrow> (wasmFunction \<Rightarrow> string) option \<Rightarrow> wasmFunction
    \<Rightarrow> httpRequest list \<Rightarrow> (artifactDecision \<times> syncError option) \<times> httpRequest list" where
  "reconcileArtifact sha env resolver w h =
    (let sourceURL = operatorArtifactURL w
     in if sourceURL = [] then ((zeroArtifact, None), h)
        else let a0 = zeroArtifact\<lparr>A_Enabled := True, SourceURL := sourceURL, HostURL := hostWasmURL resolver w,
                   HostDigest := normalizeArtifactDigest (HostArtifactDigest (Status w))\<rparr>
             in case fetchArtifactDigest sha env sourceURL h of
                  (Inl e, h1) \<Rightarrow>
                    ((a0, Some (SyncError (''resolve desired artifact digest from '' @ sourceURL @ '': '' @ e))), h1)
                | (Inr desiredDigest, h1) \<Rightarrow>
                    (let declaredDigest = normalizeArtifactDigest (R_ArtifactDigest (release w))
                     in if declaredDigest = [] then
                          ((a0, Some (SyncError ''spec.release.artifactDigest is required when device.operatorWasmURL is configured'')), h1)
                        else if desiredDigest \<noteq> declaredDigest then
                          ((a0, Some (SourceTransition (''artifact source digest transition pending: authoritative source digest '' @
                             desiredDigest @ '' does not match declared release digest '' @ declaredDigest))), h1)
                        else syncWithHost sha env w (a0\<lparr>DesiredDigest := desiredDigest\<rparr>) h1))"

section \<open>The condition\<close>

definition artifactStatusCondition :: "time \<Rightarrow> wasmFunction \<Rightarrow> artifactDecision \<Rightarrow> syncError option \<Rightarrow> condition" where
  "artifactStatusCondition now w a err =
    (let cond = (\<lambda>status reason message. \<lparr>C_Type = ''ArtifactSynchronized'', C_Status = status,
           C_Reason = reason, C_Message = message, C_LastTransitionTime = now\<rparr>)
     in if \<not> A_Enabled a then
          cond ConditionUnknown ''ArtifactSourceMissing'' ''device.operatorWasmURL is not configured''
        else case err of
          Some e \<Rightarrow>
            (if artifactSourceDigestTransitionPending e then cond ConditionUnknown ''SourceUpdatePending'' (errorText e)
             else cond ConditionFalse ''SyncFailed'' (errorText e))
        | None \<Rightarrow>
            (let host = hostReady a w; deviceReady = deviceReleaseReady w (DesiredDigest a)
             in if \<not> host \<or> \<not> deviceReady then
                  cond ConditionUnknown ''StagingPending''
                    (''release staging pending: hostReady='' @ fmt_t host @ '' deviceReady='' @ fmt_t deviceReady @
                     '' sha256='' @ DesiredDigest a)
                else if UpdatedHost a then
                  cond ConditionTrue ''HostStaged'' (''host staged release sha256='' @ DesiredDigest a)
                else cond ConditionTrue ''HostReady''
                  (''host active or staged release matches sha256='' @ DesiredDigest a)))"

end
