(* ===== verification/Edge_Host.thy ===== *)
theory Edge_Host
  imports Go_Text
begin

text \<open>
  The edge host (\<open>edge/host/main.go\<close>): the active release, the staged release, and the HTTP handlers
  that stage, activate and run them.

  The host's package variables are a record passed from step to step.  A compiled module (engine,
  module and linker of wasmtime) is determined by the bytes it was compiled from and is represented
  by them.  Two functions are parameters: \<open>sha\<close>, the hexadecimal SHA-256 digest, and \<open>wasm\<close>,
  wasmtime, which accepts some bytes as a module that exports \<open>process_event\<close> and runs it.  What the
  operating system answers is an input of each step.
\<close>

section \<open>State\<close>

type_synonym bytes = string

record compiledRelease =
  C_Module :: bytes
  C_Digest :: string
  C_Generation :: int64
  C_Function :: string
  C_Path :: string

record hostState =
  hostModule :: bytes
  wasmPath :: string
  wasmDigest :: string
  activeGeneration :: int64
  activeFunction :: string
  stagedRelease :: "compiledRelease option"
  files :: "string \<Rightarrow> bytes option"

text \<open>What wasmtime makes of a module: an error when it is loaded, and the outcome of a run.\<close>

record ('input, 'output) wasmtime =
  LoadError :: "bytes \<Rightarrow> string option"
  RunModule :: "bytes \<Rightarrow> 'input \<Rightarrow> string + 'output"

datatype response =
    HttpError nat string
  | UploadAnswer string int64 string string
  | ActivateAnswer int64
  | StatusAnswer int64 string string "(int64 \<times> string \<times> string) option"

section \<open>Files\<close>

definition removeFile :: "string \<Rightarrow> hostState \<Rightarrow> hostState" where
  "removeFile p st = st\<lparr>files := (files st)(p := None)\<rparr>"

definition renameFile :: "string \<Rightarrow> string \<Rightarrow> hostState \<Rightarrow> hostState" where
  "renameFile p q st = st\<lparr>files := (files st)(p := None, q := files st p)\<rparr>"

definition tmpPath :: "hostState \<Rightarrow> string" where
  "tmpPath st = wasmPath st @ ''.staged.upload''"

definition stagedPath :: "hostState \<Rightarrow> string" where
  "stagedPath st = wasmPath st @ ''.staged''"

definition backupPath :: "hostState \<Rightarrow> string" where
  "backupPath st = wasmPath st @ ''.previous''"

section \<open>Staging a release\<close>

record uploadRequest =
  GenerationHeader :: string
  FunctionHeader :: string
  DigestHeader :: string
  Body :: bytes

text \<open>The failures the operating system can answer with during an upload.\<close>

record uploadFaults =
  MkdirFails :: bool
  CreateFails :: bool
  CopyFails :: bool
  CloseFails :: bool
  StageRenameFails :: bool

text \<open>
  \<open>handleWasmUpload\<close> in the five pieces between which another request can run: the body is checked
  and stored, the module compiled, the slots checked under the lock, the file renamed, and the slot
  written under the lock.
\<close>

datatype upload =
    Received uploadRequest
  | Stored int64 string string
  | Compiled int64 string string bytes
  | Checked int64 string string bytes
  | Renamed int64 string string bytes
  | Answered response

definition storeUpload :: "(bytes \<Rightarrow> string) \<Rightarrow> uploadFaults \<Rightarrow> uploadRequest \<Rightarrow> hostState \<Rightarrow> upload \<times> hostState" where
  "storeUpload sha io r st =
    (case parse_int64 (trimSpace (GenerationHeader r)) of
       None \<Rightarrow> (Answered (HttpError 400 ''missing or invalid release generation''), st)
     | Some generation \<Rightarrow>
         if generation \<le> 0 then (Answered (HttpError 400 ''missing or invalid release generation''), st)
         else let function = trimSpace (FunctionHeader r);
                  declaredDigest = toLower (trimSpace (DigestHeader r))
              in if function = [] then (Answered (HttpError 400 ''missing function identity''), st)
                 else if length declaredDigest \<noteq> 64
                   then (Answered (HttpError 400 ''missing or invalid release digest''), st)
                 else if MkdirFails io
                   then (Answered (HttpError 500 ''failed to prepare wasm directory''), st)
                 else if CreateFails io
                   then (Answered (HttpError 500 ''failed to create temp wasm file''), st)
                 else if CopyFails io
                   then (Answered (HttpError 400 ''failed to write wasm upload''), removeFile (tmpPath st) st)
                 else if CloseFails io
                   then (Answered (HttpError 500 ''failed to finalize wasm upload''), removeFile (tmpPath st) st)
                 else if Body r = []
                   then (Answered (HttpError 400 ''empty wasm upload''), removeFile (tmpPath st) st)
                 else if sha (Body r) \<noteq> declaredDigest
                   then (Answered (HttpError 400 ''uploaded bytes do not match declared release digest''),
                         removeFile (tmpPath st) st)
                 else (Stored generation function (sha (Body r)),
                       st\<lparr>files := (files st)(tmpPath st := Some (Body r))\<rparr>))"

definition compileUpload :: "('input, 'output) wasmtime \<Rightarrow> int64 \<Rightarrow> string \<Rightarrow> string \<Rightarrow> hostState \<Rightarrow> upload \<times> hostState" where
  "compileUpload wasm generation function digest st =
    (case files st (tmpPath st) of
       None \<Rightarrow> (Answered (HttpError 400 (''invalid wasm upload: failed to load wasm module '' @ tmpPath st)),
                 removeFile (tmpPath st) st)
     | Some bytes \<Rightarrow>
         (case LoadError wasm bytes of
            Some e \<Rightarrow> (Answered (HttpError 400 (''invalid wasm upload: '' @ e)), removeFile (tmpPath st) st)
          | None \<Rightarrow> (Compiled generation function digest bytes, st)))"

definition stagedBefore :: "hostState \<Rightarrow> int64 \<Rightarrow> bool" where
  "stagedBefore st generation \<longleftrightarrow>
     (case stagedRelease st of None \<Rightarrow> False | Some r \<Rightarrow> generation < C_Generation r)"

definition checkUpload :: "int64 \<Rightarrow> string \<Rightarrow> string \<Rightarrow> bytes \<Rightarrow> hostState \<Rightarrow> upload \<times> hostState" where
  "checkUpload generation function digest bytes st =
    (let gone = removeFile (tmpPath st) st
     in if generation < activeGeneration st \<or> stagedBefore st generation then
          (Answered (HttpError 409 ''stale release generation''), gone)
        else if generation = activeGeneration st then
          (if \<not> (digest = wasmDigest st \<and> function = activeFunction st)
           then (Answered (HttpError 409 ''release generation conflicts with active metadata''), gone)
           else (Answered (UploadAnswer ''active'' generation function digest), gone))
        else case stagedRelease st of
               Some r \<Rightarrow>
                 if generation = C_Generation r then
                   (if \<not> (digest = C_Digest r \<and> function = C_Function r)
                    then (Answered (HttpError 409 ''release generation conflicts with staged metadata''), gone)
                    else (Answered (UploadAnswer ''staged'' generation function digest), gone))
                 else (Checked generation function digest bytes, st)
             | None \<Rightarrow> (Checked generation function digest bytes, st))"

definition renameUpload :: "uploadFaults \<Rightarrow> int64 \<Rightarrow> string \<Rightarrow> string \<Rightarrow> bytes \<Rightarrow> hostState \<Rightarrow> upload \<times> hostState" where
  "renameUpload io generation function digest bytes st =
    (let st1 = removeFile (stagedPath st) st
     in if StageRenameFails io \<or> files st1 (tmpPath st) = None
        then (Answered (HttpError 500 ''failed to stage uploaded wasm''), removeFile (tmpPath st) st1)
        else (Renamed generation function digest bytes, renameFile (tmpPath st) (stagedPath st) st1))"

definition commitUpload :: "int64 \<Rightarrow> string \<Rightarrow> string \<Rightarrow> bytes \<Rightarrow> hostState \<Rightarrow> upload \<times> hostState" where
  "commitUpload generation function digest bytes st =
    (Answered (UploadAnswer ''staged'' generation function digest),
     st\<lparr>stagedRelease := Some \<lparr>C_Module = bytes, C_Digest = digest, C_Generation = generation,
       C_Function = function, C_Path = stagedPath st\<rparr>\<rparr>)"

fun uploadStep :: "(bytes \<Rightarrow> string) \<Rightarrow> ('input, 'output) wasmtime \<Rightarrow> uploadFaults \<Rightarrow> upload \<times> hostState \<Rightarrow> upload \<times> hostState" where
  "uploadStep sha wasm io (Received r, st) = storeUpload sha io r st"
| "uploadStep sha wasm io (Stored g f d, st) = compileUpload wasm g f d st"
| "uploadStep sha wasm io (Compiled g f d m, st) = checkUpload g f d m st"
| "uploadStep sha wasm io (Checked g f d m, st) = renameUpload io g f d m st"
| "uploadStep sha wasm io (Renamed g f d m, st) = commitUpload g f d m st"
| "uploadStep sha wasm io (Answered a, st) = (Answered a, st)"

text \<open>The handler when no other request runs in between.\<close>

definition handleWasmUpload :: "(bytes \<Rightarrow> string) \<Rightarrow> ('input, 'output) wasmtime \<Rightarrow> uploadFaults \<Rightarrow> uploadRequest
    \<Rightarrow> hostState \<Rightarrow> upload \<times> hostState" where
  "handleWasmUpload sha wasm io r st = (uploadStep sha wasm io ^^ 5) (Received r, st)"

section \<open>Activating a release\<close>

datatype renameResult = RenameOk | RenameFailed

record activateFaults =
  BackupRename :: renameResult
  ActivateRename :: renameResult
  RollbackRename :: renameResult

text \<open>\<open>os.Rename\<close> of a file that does not exist fails by itself.\<close>

definition rename :: "renameResult \<Rightarrow> string \<Rightarrow> string \<Rightarrow> hostState \<Rightarrow> bool \<times> hostState" where
  "rename io p q st =
    (if io = RenameFailed \<or> files st p = None then (False, st) else (True, renameFile p q st))"

text \<open>
  The activation as one step, which it is for every request that takes the lock.  \<open>http.ServeFile\<close> does not;
  the states in between, which a download can see, are \<open>activationStates\<close> in \<open>Host_Service\<close>.
\<close>

definition activateStagedRelease :: "activateFaults \<Rightarrow> int64 \<Rightarrow> hostState \<Rightarrow> string option \<times> hostState" where
  "activateStagedRelease io generation st =
    (if generation = activeGeneration st then (None, st)
     else case stagedRelease st of
       None \<Rightarrow> (Some (''release generation '' @ fmt_d generation @ '' is not staged''), st)
     | Some r \<Rightarrow>
         if C_Generation r \<noteq> generation
         then (Some (''release generation '' @ fmt_d generation @ '' is not staged''), st)
         else let st1 = removeFile (backupPath st) st;
                  missing = (files st1 (wasmPath st) = None);
                  (saved, st2) = rename (BackupRename io) (wasmPath st) (backupPath st) st1
              in if \<not> saved \<and> \<not> missing then (Some ''backup active wasm'', st2)
                 else case rename (ActivateRename io) (C_Path r) (wasmPath st) st2 of
                   (False, st3) \<Rightarrow>
                     (Some ''activate staged wasm'',
                      snd (rename (RollbackRename io) (backupPath st) (wasmPath st) st3))
                 | (True, st3) \<Rightarrow>
                     (None, (removeFile (backupPath st) st3)\<lparr>hostModule := C_Module r,
                        wasmDigest := C_Digest r, activeGeneration := C_Generation r,
                        activeFunction := C_Function r, stagedRelease := None\<rparr>))"

text \<open>\<open>decoded\<close> is the generation of the activation request, if it could be decoded.\<close>

definition releaseStatus :: "hostState \<Rightarrow> response" where
  "releaseStatus st = StatusAnswer (activeGeneration st) (wasmDigest st) (activeFunction st)
     (map_option (\<lambda>r. (C_Generation r, C_Digest r, C_Function r)) (stagedRelease st))"

definition handleRelease :: "activateFaults \<Rightarrow> string \<Rightarrow> int64 option \<Rightarrow> hostState \<Rightarrow> response \<times> hostState" where
  "handleRelease io method decoded st =
    (if method = ''GET'' then (releaseStatus st, st)
     else if method = ''POST'' then
       (case decoded of
          None \<Rightarrow> (HttpError 400 ''invalid activation request'', st)
        | Some generation \<Rightarrow>
            if generation \<le> 0 then (HttpError 400 ''invalid activation request'', st)
            else case activateStagedRelease io generation st of
                   (Some e, st') \<Rightarrow> (HttpError 409 e, st')
                 | (None, st') \<Rightarrow> (ActivateAnswer generation, st'))
     else (HttpError 405 ''method not allowed'', st))"

section \<open>Running a release\<close>

record 'input processRequest =
  P_Function :: string
  P_ReleaseGeneration :: int64
  P_Inputs :: 'input

record 'output processResponse =
  PR_Result :: 'output
  PR_Millis :: int32
  PR_Function :: string
  PR_Generation :: int64
  PR_Digest :: string

text \<open>Go's integer division truncates; the sum wraps around only within a millisecond of the largest
  duration.\<close>

definition durationMillisCeil :: "duration \<Rightarrow> int32" where
  "durationMillisCeil d =
    (if d \<le> 0 then 0
     else let n = wrap64 (d + millisecond - 1)
          in wrap32 (if n < 0 then - ((- n) div millisecond) else n div millisecond))"

definition runWasm :: "('input, 'output) wasmtime \<Rightarrow> duration \<Rightarrow> 'input processRequest \<Rightarrow> hostState
    \<Rightarrow> string + 'output processResponse" where
  "runWasm wasm elapsed req st =
    (if P_Function req \<noteq> activeFunction st \<or> P_ReleaseGeneration req \<noteq> activeGeneration st
     then Inl (''release mismatch: active function='' @ activeFunction st @ '' generation='' @
       fmt_d (activeGeneration st) @ '', request function='' @ P_Function req @ '' generation='' @
       fmt_d (P_ReleaseGeneration req))
     else case RunModule wasm (hostModule st) (P_Inputs req) of
            Inl e \<Rightarrow> Inl e
          | Inr out \<Rightarrow> Inr \<lparr>PR_Result = out, PR_Millis = durationMillisCeil elapsed,
              PR_Function = activeFunction st, PR_Generation = activeGeneration st,
              PR_Digest = wasmDigest st\<rparr>)"

datatype 'output processAnswer = ProcessError nat string | ProcessOk "'output processResponse"

text \<open>\<open>decoded\<close> is the request body as decoded from JSON, or why it could not be.\<close>

definition handleProcess :: "('input, 'output) wasmtime \<Rightarrow> duration \<Rightarrow> string \<Rightarrow> string + 'input processRequest
    \<Rightarrow> hostState \<Rightarrow> 'output processAnswer" where
  "handleProcess wasm elapsed method decoded st =
    (if method \<noteq> ''POST'' then ProcessError 405 ''method not allowed''
     else case decoded of
       Inl e \<Rightarrow> ProcessError 400 e
     | Inr req \<Rightarrow>
         (case runWasm wasm elapsed req st of
            Inl e \<Rightarrow> ProcessError 500 e
          | Inr answer \<Rightarrow> ProcessOk answer))"

section \<open>Serving the artifact\<close>

text \<open>The digest headers: \<open>X-Wasm-Sha256\<close> and \<open>ETag\<close>, absent without a digest.\<close>

definition setWasmDigestHeaders :: "string \<Rightarrow> (string \<times> string) option" where
  "setWasmDigestHeaders digest =
    (if digest = [] then None else Some (digest, [CHR 0x22] @ ''sha256:'' @ digest @ [CHR 0x22]))"

text \<open>
  GET and HEAD of \<open>/wasm\<close> when no other request runs in between: the headers and the file.  Without a file
  the answer is 404, and \<open>http.ServeFile\<close> takes the \<open>ETag\<close> back.  \<open>downloadStep\<close> in \<open>Host_Service\<close> is the same
  handler in its two pieces.
\<close>

definition handleWasm :: "string \<Rightarrow> hostState \<Rightarrow> ((string \<times> string) option \<times> bytes option) option" where
  "handleWasm method st =
    (if method = ''GET'' \<or> method = ''HEAD''
     then Some (setWasmDigestHeaders (wasmDigest st), files st (wasmPath st)) else None)"

definition requestArtifactCaller :: "string \<Rightarrow> string \<Rightarrow> string" where
  "requestArtifactCaller callerHeader userAgent =
    (if trimSpace callerHeader \<noteq> [] then trimSpace callerHeader
     else if trimSpace userAgent \<noteq> [] then trimSpace userAgent else ''unknown'')"

definition shouldLogWasmArtifactAccess :: "string \<Rightarrow> string \<Rightarrow> bool" where
  "shouldLogWasmArtifactAccess method caller \<longleftrightarrow>
     \<not> (method = ''HEAD'' \<and> caller = ''operator-artifact-sync'')"

section \<open>Starting up\<close>

definition reloadWasmModule :: "(bytes \<Rightarrow> string) \<Rightarrow> ('input, 'output) wasmtime \<Rightarrow> string \<Rightarrow> hostState \<Rightarrow> string option \<times> hostState" where
  "reloadWasmModule sha wasm path st =
    (case files st path of
       None \<Rightarrow> (Some ''failed to load wasm module'', st)
     | Some bytes \<Rightarrow>
         (case LoadError wasm bytes of
            Some e \<Rightarrow> (Some e, st)
          | None \<Rightarrow> (None, st\<lparr>hostModule := bytes, wasmDigest := sha bytes\<rparr>)))"

text \<open>\<open>fmt.Sscanf\<close> with \<open>%d\<close>: a sign and the digits that follow; anything else leaves the variable alone.\<close>

definition scan_d :: "string \<Rightarrow> int64 option" where
  "scan_d s =
    (let sign = takeWhile (\<lambda>c. c = CHR ''-'' \<or> c = CHR ''+'') (take 1 s);
         digits = takeWhile is_digit (drop (length sign) s)
     in if digits = [] then None else parse_int64 (sign @ digits))"

definition initWasm :: "(bytes \<Rightarrow> string) \<Rightarrow> ('input, 'output) wasmtime \<Rightarrow> (string \<Rightarrow> string) \<Rightarrow> hostState
    \<Rightarrow> string option \<times> hostState" where
  "initWasm sha wasm getenv st0 =
    (let path = (if getenv ''WASM_PATH'' = [] then ''dht_reader.wasm'' else getenv ''WASM_PATH'')
     in case reloadWasmModule sha wasm path (st0\<lparr>wasmPath := path\<rparr>) of
          (Some e, st1) \<Rightarrow> (Some e, st1)
        | (None, st1) \<Rightarrow>
            (let identity = trimSpace (getenv ''FUNCTION_IDENTITY'')
             in (None, st1\<lparr>activeFunction := (if identity = [] then ''dht-reader'' else identity),
                   activeGeneration := (case scan_d (trimSpace (getenv ''RELEASE_GENERATION'')) of
                     None \<Rightarrow> activeGeneration st1 | Some g \<Rightarrow> g)\<rparr>)))"

end
