(* ===== verification/Host_Props.thy ===== *)
theory Host_Props
  imports Edge_Host
begin

text \<open>
  The edge host: integrity of its two slots over any sequence of requests and failures, the outcome of
  staging and activating, and what concurrent uploads can do to it.
\<close>

section \<open>Paths\<close>

lemma paths_distinct [simp]:
  "tmpPath st \<noteq> stagedPath st" "stagedPath st \<noteq> tmpPath st"
  "tmpPath st \<noteq> wasmPath st" "wasmPath st \<noteq> tmpPath st"
  "stagedPath st \<noteq> wasmPath st" "wasmPath st \<noteq> stagedPath st"
  "backupPath st \<noteq> wasmPath st" "wasmPath st \<noteq> backupPath st"
  "backupPath st \<noteq> stagedPath st" "stagedPath st \<noteq> backupPath st"
  "backupPath st \<noteq> tmpPath st" "tmpPath st \<noteq> backupPath st"
  by (simp_all add: tmpPath_def stagedPath_def backupPath_def)

lemma path_updates [simp]:
  "tmpPath (st\<lparr>files := f\<rparr>) = tmpPath st" "stagedPath (st\<lparr>files := f\<rparr>) = stagedPath st"
  "backupPath (st\<lparr>files := f\<rparr>) = backupPath st"
  "stagedPath (st\<lparr>stagedRelease := s\<rparr>) = stagedPath st" "tmpPath (st\<lparr>stagedRelease := s\<rparr>) = tmpPath st"
  "backupPath (st\<lparr>stagedRelease := s\<rparr>) = backupPath st"
  by (simp_all add: tmpPath_def stagedPath_def backupPath_def)

text \<open>What memory holds of a state: all of it but the files.\<close>

definition memory :: "hostState \<Rightarrow> hostState" where
  "memory st = st\<lparr>files := (\<lambda>_. None)\<rparr>"

lemma memory_files [simp]: "memory (st\<lparr>files := f\<rparr>) = memory st"
  by (simp add: memory_def)

lemma memory_removeFile [simp]: "memory (removeFile p st) = memory st"
  by (simp add: removeFile_def)

lemma memory_renameFile [simp]: "memory (renameFile p q st) = memory st"
  by (simp add: renameFile_def)

lemma memory_rename [simp]: "memory (snd (rename io p q st)) = memory st"
  by (simp add: rename_def)

lemma memory_cong:
  assumes "memory st = memory st'"
  shows "hostModule st = hostModule st'" "wasmPath st = wasmPath st'" "wasmDigest st = wasmDigest st'"
    "activeGeneration st = activeGeneration st'" "activeFunction st = activeFunction st'"
    "stagedRelease st = stagedRelease st'"
  using assms by (cases st; cases st'; simp add: memory_def)+

section \<open>Integrity\<close>

text \<open>
  The digests in memory are those of the modules in memory, and the staged release is newer than the
  active one.
\<close>

definition slots_ok :: "(bytes \<Rightarrow> string) \<Rightarrow> hostState \<Rightarrow> bool" where
  "slots_ok sha st \<longleftrightarrow> sha (hostModule st) = wasmDigest st \<and>
     (case stagedRelease st of
        None \<Rightarrow> True
      | Some r \<Rightarrow> sha (C_Module r) = C_Digest r \<and> activeGeneration st < C_Generation r \<and>
          C_Path r = stagedPath st)"

lemma slots_ok_memory: "memory st = memory st' \<Longrightarrow> slots_ok sha st = slots_ok sha st'"
  by (cases st; cases st') (auto simp: memory_def slots_ok_def stagedPath_def split: option.split)

text \<open>Only the temporary file may differ.\<close>

definition same_files :: "hostState \<Rightarrow> hostState \<Rightarrow> bool" where
  "same_files st st' \<longleftrightarrow> (\<forall>p. p \<noteq> tmpPath st \<longrightarrow> files st' p = files st p)"

text \<open>The release an answer speaks of is in one of the slots.\<close>

definition names_slot :: "hostState \<Rightarrow> int64 \<Rightarrow> string \<Rightarrow> string \<Rightarrow> bool" where
  "names_slot st g f d \<longleftrightarrow>
     (g = activeGeneration st \<and> f = activeFunction st \<and> d = wasmDigest st) \<or>
     (\<exists>r. stagedRelease st = Some r \<and> g = C_Generation r \<and> f = C_Function r \<and> d = C_Digest r)"

text \<open>The pieces of an upload, each in closed form: either an answer and memory unchanged, or the next piece.\<close>

lemma storeUpload_cases:
  assumes "storeUpload sha io r st = (u, st')"
  obtains (refused) c e where "u = Answered (HttpError c e)" "memory st' = memory st" "same_files st st'"
  | (stored) g f where "u = Stored g f (sha (Body r))" "st' = st\<lparr>files := (files st)(tmpPath st := Some (Body r))\<rparr>"
      "parse_int64 (trimSpace (GenerationHeader r)) = Some g" "0 < g" "f = trimSpace (FunctionHeader r)"
  using assms by (auto simp: storeUpload_def Let_def same_files_def removeFile_def split: option.splits if_splits)

lemma checkUpload_cases:
  assumes "checkUpload g f d m st = (u, st')"
  obtains (refused) a where "u = Answered a" "memory st' = memory st" "same_files st st'"
      "\<And>s g' f' d'. a = UploadAnswer s g' f' d' \<Longrightarrow> g' = g \<and> f' = f \<and> d' = d \<and> names_slot st g f d"
  | (checked) "u = Checked g f d m" "st' = st" "activeGeneration st < g"
      "\<And>s. stagedRelease st = Some s \<Longrightarrow> C_Generation s < g"
  using assms by (auto simp: checkUpload_def stagedBefore_def Let_def same_files_def removeFile_def names_slot_def
      split: option.splits if_splits)

lemma handleWasmUpload_unfold:
  "handleWasmUpload sha wasm io r st =
     uploadStep sha wasm io (uploadStep sha wasm io (uploadStep sha wasm io (uploadStep sha wasm io
       (storeUpload sha io r st))))"
  by (simp add: handleWasmUpload_def eval_nat_numeral)

text \<open>An upload that ran alone: either memory is unchanged, or the slot now holds the body.\<close>

lemma upload_alone:
  assumes "handleWasmUpload sha wasm io r st = (u, st')"
  obtains (refused) a where "u = Answered a" "memory st' = memory st" "StageRenameFails io \<or> same_files st st'"
      "\<And>s g f d. a = UploadAnswer s g f d \<Longrightarrow> parse_int64 (trimSpace (GenerationHeader r)) = Some g \<and>
         f = trimSpace (FunctionHeader r) \<and> d = sha (Body r) \<and> names_slot st g f d"
  | (staged) g f where "u = Answered (UploadAnswer ''staged'' g f (sha (Body r)))"
      "parse_int64 (trimSpace (GenerationHeader r)) = Some g" "0 < g" "f = trimSpace (FunctionHeader r)"
      "activeGeneration st < g" "\<And>s. stagedRelease st = Some s \<Longrightarrow> C_Generation s < g"
      "LoadError wasm (Body r) = None" "\<not> StageRenameFails io"
      "st' = st\<lparr>stagedRelease := Some \<lparr>C_Module = Body r, C_Digest = sha (Body r), C_Generation = g,
           C_Function = f, C_Path = stagedPath st\<rparr>,
         files := (files st)(tmpPath st := None, stagedPath st := Some (Body r))\<rparr>"
proof (cases "storeUpload sha io r st")
  case (Pair u1 st1)
  note run = assms [unfolded handleWasmUpload_unfold Pair]
  from Pair show ?thesis
  proof (cases rule: storeUpload_cases)
    case (refused c e)
    with run show ?thesis by (intro that(1)) auto
  next
    case (stored g f)
    show ?thesis
    proof (cases "LoadError wasm (Body r)")
      case (Some e)
      with run show ?thesis by (intro that(1)) (auto simp: stored compileUpload_def removeFile_def same_files_def)
    next
      case None
      obtain u2 st2 where check: "checkUpload g f (sha (Body r)) (Body r) st1 = (u2, st2)"
        by (cases "checkUpload g f (sha (Body r)) (Body r) st1")
      with run None have rest: "uploadStep sha wasm io (uploadStep sha wasm io (u2, st2)) = (u, st')"
        by (simp add: stored compileUpload_def)
      from check show ?thesis
      proof (cases rule: checkUpload_cases)
        case (refused a)
        have "u = Answered a" "memory st' = memory st" "same_files st st'"
          using rest refused(1-3) by (auto simp: stored same_files_def)
        moreover have "names_slot st g f d" if "names_slot st1 g f d" for g f d
          using that by (simp add: stored names_slot_def)
        moreover have "parse_int64 (trimSpace (GenerationHeader r)) = Some g' \<and>
            f' = trimSpace (FunctionHeader r) \<and> d' = sha (Body r) \<and> names_slot st g' f' d'"
          if "a = UploadAnswer s g' f' d'" for s g' f' d'
          using refused(4) [OF that] calculation(4) stored(3,5) by simp
        ultimately show ?thesis by (intro that(1)) simp_all
      next
        case checked
        show ?thesis
        proof (cases "StageRenameFails io")
          case True
          with rest show ?thesis
            by (intro that(1)) (auto simp: checked stored renameUpload_def Let_def)
        next
          case False
          have "activeGeneration st < g" "\<And>s. stagedRelease st = Some s \<Longrightarrow> C_Generation s < g"
            using checked(3,4) by (simp_all add: stored)
          moreover have "st' = st\<lparr>stagedRelease := Some \<lparr>C_Module = Body r, C_Digest = sha (Body r),
              C_Generation = g, C_Function = f, C_Path = stagedPath st\<rparr>,
              files := (files st)(tmpPath st := None, stagedPath st := Some (Body r))\<rparr>"
            "u = Answered (UploadAnswer ''staged'' g f (sha (Body r)))"
            using rest False
            by (auto simp: checked stored renameUpload_def Let_def commitUpload_def removeFile_def
                renameFile_def fun_upd_twist)
          ultimately show ?thesis using that(2) stored(3-5) None False by blast
        qed
      qed
    qed
  qed
qed

text \<open>An activation: either memory is unchanged, or the staged release is now the active one.\<close>

lemma activate_cases:
  assumes "activateStagedRelease io g st = (e, st')"
  obtains (kept) "memory st' = memory st" "e = None \<longrightarrow> g = activeGeneration st"
  | (activated) r where "e = None" "stagedRelease st = Some r" "C_Generation r = g" "g \<noteq> activeGeneration st"
      "memory st' = (memory st)\<lparr>hostModule := C_Module r, wasmDigest := C_Digest r,
         activeGeneration := g, activeFunction := C_Function r, stagedRelease := None\<rparr>"
proof (cases "g = activeGeneration st \<or> stagedRelease st = None \<or> C_Generation (the (stagedRelease st)) \<noteq> g")
  case True
  then show ?thesis
    using assms that(1) by (auto simp: activateStagedRelease_def split: option.splits if_splits)
next
  case False
  then obtain r where r: "stagedRelease st = Some r" "C_Generation r = g" "g \<noteq> activeGeneration st" by auto
  obtain saved st2 where s2: "rename (BackupRename io) (wasmPath st) (backupPath st) (removeFile (backupPath st) st)
      = (saved, st2)" by (cases "rename (BackupRename io) (wasmPath st) (backupPath st) (removeFile (backupPath st) st)")
  obtain moved st3 where s3: "rename (ActivateRename io) (C_Path r) (wasmPath st) st2 = (moved, st3)"
    by (cases "rename (ActivateRename io) (C_Path r) (wasmPath st) st2")
  have m2: "memory st2 = memory st" using memory_rename [of _ _ _ "removeFile (backupPath st) st"] s2 by (metis memory_removeFile snd_conv)
  have m3: "memory st3 = memory st" using memory_rename [of _ _ _ st2] s3 m2 by (metis snd_conv)
  show ?thesis
  proof (cases "moved \<and> (saved \<or> files (removeFile (backupPath st) st) (wasmPath st) = None)")
    case True
    then have "e = None" "st' = (removeFile (backupPath st) st3)\<lparr>hostModule := C_Module r, wasmDigest := C_Digest r,
        activeGeneration := C_Generation r, activeFunction := C_Function r, stagedRelease := None\<rparr>"
      using assms r s2 s3 by (auto simp: activateStagedRelease_def Let_def)
    then show ?thesis
      using r m3 by (intro that(2) [of r]; cases st3; cases st) (simp_all add: memory_def removeFile_def)
  next
    case False
    then have "memory st' = memory st \<and> e \<noteq> None"
      using assms r s2 s3 m2 m3 by (auto simp: activateStagedRelease_def Let_def split: if_splits)
    then show ?thesis by (intro that(1)) auto
  qed
qed

section \<open>Any sequence of requests\<close>

text \<open>Requests that change the host, each with the faults it meets, run one after the other.\<close>

datatype hostRequest = Upload uploadFaults uploadRequest | Activate activateFaults int64

fun hostStep :: "(bytes \<Rightarrow> string) \<Rightarrow> ('input, 'output) wasmtime \<Rightarrow> hostRequest \<Rightarrow> hostState \<Rightarrow> hostState" where
  "hostStep sha wasm (Upload io r) st = snd (handleWasmUpload sha wasm io r st)"
| "hostStep sha wasm (Activate io g) st = snd (activateStagedRelease io g st)"

lemma hostStep_ok:
  assumes "slots_ok sha st"
  shows "slots_ok sha (hostStep sha wasm q st) \<and> activeGeneration st \<le> activeGeneration (hostStep sha wasm q st)"
proof (cases q)
  case (Upload io r)
  obtain u st' where run: "handleWasmUpload sha wasm io r st = (u, st')"
    by (cases "handleWasmUpload sha wasm io r st")
  then show ?thesis
  proof (cases rule: upload_alone)
    case (refused a)
    then show ?thesis
      using assms run Upload slots_ok_memory [OF refused(2)] memory_cong(4) [OF refused(2)] by simp
  next
    case (staged g f)
    then show ?thesis
      using assms run Upload by (simp add: slots_ok_def stagedPath_def)
  qed
next
  case (Activate io g)
  obtain e st' where run: "activateStagedRelease io g st = (e, st')"
    by (cases "activateStagedRelease io g st")
  then show ?thesis
  proof (cases rule: activate_cases)
    case kept
    then show ?thesis
      using assms run Activate slots_ok_memory [OF kept(1)] memory_cong(4) [OF kept(1)] by simp
  next
    case (activated r)
    let ?new = "st\<lparr>hostModule := C_Module r, wasmDigest := C_Digest r,
         activeGeneration := g, activeFunction := C_Function r, stagedRelease := None\<rparr>"
    have m: "memory st' = memory ?new" using activated(5) by (simp add: memory_def)
    then show ?thesis
      using assms run Activate activated(2,3) slots_ok_memory [OF m] memory_cong(4) [OF m]
      by (simp add: slots_ok_def)
  qed
qed

text \<open>The host runs what it says it runs.  Whatever uploads and activations it serves one after the
  other, and whatever file operations fail, the active generation never decreases, and an answer of
  \<open>/process\<close> names the requested function and generation and the digest of the very bytes it ran.\<close>

theorem answers_name_the_bytes_run:
  assumes "slots_ok sha st0" and "st = fold (hostStep sha wasm) qs st0"
  shows "activeGeneration st0 \<le> activeGeneration st \<and>
    (case runWasm wasm elapsed req st of
       Inl e \<Rightarrow> True
     | Inr answer \<Rightarrow> PR_Function answer = P_Function req \<and> PR_Generation answer = P_ReleaseGeneration req \<and>
         (\<exists>m. PR_Digest answer = sha m \<and> RunModule wasm m (P_Inputs req) = Inr (PR_Result answer)))"
proof -
  have "slots_ok sha (fold (hostStep sha wasm) qs s) \<and>
      activeGeneration s \<le> activeGeneration (fold (hostStep sha wasm) qs s)" if "slots_ok sha s" for s
    using that
  proof (induction qs arbitrary: s)
    case (Cons q qs)
    from Cons.IH [of "hostStep sha wasm q s"] hostStep_ok [OF Cons.prems, of wasm q]
    show ?case by simp
  qed simp
  from this [OF assms(1)] have "wasmDigest st = sha (hostModule st)" "activeGeneration st0 \<le> activeGeneration st"
    by (simp_all add: assms(2) slots_ok_def)
  then show ?thesis
    by (auto simp: runWasm_def split: sum.split)
qed

definition freshHost :: hostState where
  "freshHost = \<lparr>hostModule = ''m0'', wasmPath = ''/w'', wasmDigest = ''d:m0'', activeGeneration = 5,
     activeFunction = ''f'', stagedRelease = None, files = [''/w'' \<mapsto> ''m0'']\<rparr>"

definition toyWasm :: "(string, string) wasmtime" where
  "toyWasm = \<lparr>LoadError = (\<lambda>_. None), RunModule = (\<lambda>m x. Inr (m @ x))\<rparr>"

theorem answers_name_the_bytes_run_witness:
  "activeGeneration freshHost \<le> activeGeneration (fold (hostStep ((@) ''d:'') toyWasm)
      [Activate \<lparr>BackupRename = RenameOk, ActivateRename = RenameOk, RollbackRename = RenameOk\<rparr> 7] freshHost)"
  using answers_name_the_bytes_run [of "(@) ''d:''" freshHost _ toyWasm
      "[Activate \<lparr>BackupRename = RenameOk, ActivateRename = RenameOk, RollbackRename = RenameOk\<rparr> 7]"]
  by (simp add: slots_ok_def freshHost_def)

section \<open>Files\<close>

text \<open>The served file is the active module, the staged file the staged one.\<close>

definition files_ok :: "hostState \<Rightarrow> bool" where
  "files_ok st \<longleftrightarrow> files st (wasmPath st) = Some (hostModule st) \<and>
     (case stagedRelease st of None \<Rightarrow> True | Some r \<Rightarrow> files st (stagedPath st) = Some (C_Module r))"

lemma files_ok_same:
  assumes "memory st' = memory st" "same_files st st'" "files_ok st"
  shows "files_ok st'"
proof -
  have "stagedPath st' = stagedPath st" using memory_cong(2) [OF assms(1)] by (simp add: stagedPath_def)
  moreover have "files st' (wasmPath st) = files st (wasmPath st)" "files st' (stagedPath st) = files st (stagedPath st)"
    using assms(2) by (simp_all add: same_files_def)
  ultimately show ?thesis
    using assms(3) memory_cong [OF assms(1)] by (simp add: files_ok_def cong: option.case_cong)
qed

lemma activate_files:
  assumes "activateStagedRelease io g st = (e, st')" "files_ok st" "slots_ok sha st"
    and "RollbackRename io = RenameOk"
  shows "files_ok st'"
proof (cases "g = activeGeneration st \<or> stagedRelease st = None \<or> C_Generation (the (stagedRelease st)) \<noteq> g")
  case True
  then have "st' = st"
    using assms(1) by (auto simp: activateStagedRelease_def split: option.splits if_splits)
  with assms(2) show ?thesis by simp
next
  case False
  then obtain r where r: "stagedRelease st = Some r" "C_Generation r = g" "g \<noteq> activeGeneration st" by auto
  have f: "files st (wasmPath st) = Some (hostModule st)" "files st (stagedPath st) = Some (C_Module r)"
    "C_Path r = stagedPath st"
    using assms(2,3) r by (simp_all add: files_ok_def slots_ok_def)
  show ?thesis
    using assms(1,4) r f
    by (cases "BackupRename io"; cases "ActivateRename io")
      (auto simp: activateStagedRelease_def Let_def rename_def removeFile_def renameFile_def files_ok_def)
qed

definition benign_request :: "hostRequest \<Rightarrow> bool" where
  "benign_request q \<longleftrightarrow>
     (case q of Upload io r \<Rightarrow> \<not> StageRenameFails io | Activate io g \<Rightarrow> RollbackRename io = RenameOk)"

lemma hostStep_files:
  assumes "slots_ok sha st" "files_ok st" "benign_request q"
  shows "files_ok (hostStep sha wasm q st)"
proof (cases q)
  case (Upload io r)
  obtain u st' where run: "handleWasmUpload sha wasm io r st = (u, st')"
    by (cases "handleWasmUpload sha wasm io r st")
  then show ?thesis
  proof (cases rule: upload_alone)
    case (refused a)
    then show ?thesis
      using assms(2,3) run Upload files_ok_same [OF refused(2)] by (simp add: benign_request_def)
  next
    case (staged g f)
    then show ?thesis
      using assms(2) run Upload by (simp add: files_ok_def stagedPath_def tmpPath_def)
  qed
next
  case (Activate io g)
  obtain e st' where run: "activateStagedRelease io g st = (e, st')"
    by (cases "activateStagedRelease io g st")
  show ?thesis
    using activate_files [OF run assms(2,1)] assms(3) Activate run by (simp add: benign_request_def)
qed

text \<open>The host serves the bytes of its active release.  After any sequence of uploads and activations,
  with any failure but that of the staging rename and of a rollback, a GET of the artifact returns a
  file whose digest is the one in its headers.\<close>

theorem served_artifact_matches_digest:
  assumes "slots_ok sha st0" "files_ok st0" "list_all benign_request qs"
  shows "\<exists>m. handleWasm ''GET'' (fold (hostStep sha wasm) qs st0) =
    Some (setWasmDigestHeaders (sha m), Some m)"
proof -
  have "slots_ok sha (fold (hostStep sha wasm) qs s) \<and> files_ok (fold (hostStep sha wasm) qs s)"
    if "slots_ok sha s" "files_ok s" for s
    using that assms(3)
  proof (induction qs arbitrary: s)
    case (Cons q qs)
    then show ?case
      using hostStep_ok [of sha s wasm q] hostStep_files [of sha s q wasm] by simp
  qed simp
  from this [OF assms(1,2)] show ?thesis
    by (simp add: handleWasm_def slots_ok_def files_ok_def)
qed

theorem served_artifact_matches_digest_witness:
  "\<exists>m. handleWasm ''GET'' (fold (hostStep ((@) ''d:'') toyWasm)
      [Activate \<lparr>BackupRename = RenameOk, ActivateRename = RenameOk, RollbackRename = RenameOk\<rparr> 7] freshHost) =
    Some (setWasmDigestHeaders (''d:'' @ m), Some m)"
  by (rule served_artifact_matches_digest)
    (simp_all add: slots_ok_def files_ok_def freshHost_def benign_request_def)

section \<open>Staging and then activating\<close>

definition noUploadFaults :: uploadFaults where
  "noUploadFaults = \<lparr>MkdirFails = False, CreateFails = False, CopyFails = False, CloseFails = False,
     StageRenameFails = False\<rparr>"

definition noActivateFaults :: activateFaults where
  "noActivateFaults = \<lparr>BackupRename = RenameOk, ActivateRename = RenameOk, RollbackRename = RenameOk\<rparr>"

definition acceptable_upload :: "(bytes \<Rightarrow> string) \<Rightarrow> ('input, 'output) wasmtime \<Rightarrow> uploadRequest \<Rightarrow> int64 \<Rightarrow> bool" where
  "acceptable_upload sha wasm r g \<longleftrightarrow>
     parse_int64 (trimSpace (GenerationHeader r)) = Some g \<and> 0 < g \<and> trimSpace (FunctionHeader r) \<noteq> [] \<and>
     toLower (trimSpace (DigestHeader r)) = sha (Body r) \<and> length (sha (Body r)) = 64 \<and> Body r \<noteq> [] \<and>
     LoadError wasm (Body r) = None"

lemma store_accepted:
  assumes "acceptable_upload sha wasm r g"
  shows "storeUpload sha noUploadFaults r st = (Stored g (trimSpace (FunctionHeader r)) (sha (Body r)),
    st\<lparr>files := (files st)(tmpPath st := Some (Body r))\<rparr>)"
  using assms by (simp add: acceptable_upload_def storeUpload_def noUploadFaults_def Let_def)

lemma check_accepted:
  assumes "activeGeneration st < g" "\<forall>s \<in> set_option (stagedRelease st). C_Generation s < g"
  shows "checkUpload g f d m st = (Checked g f d m, st)"
  using assms by (auto simp: checkUpload_def stagedBefore_def Let_def cong: option.case_cong split: option.split)

lemma rename_accepted:
  assumes "files st (tmpPath st) = Some m'"
  shows "renameUpload noUploadFaults g f d m st = (Renamed g f d m,
    st\<lparr>files := (files st)(tmpPath st := None, stagedPath st := Some m')\<rparr>)"
  using assms by (simp add: renameUpload_def noUploadFaults_def removeFile_def renameFile_def Let_def fun_upd_twist)

lemma upload_accepted:
  assumes "acceptable_upload sha wasm r g" "activeGeneration st < g"
    and "\<And>s. stagedRelease st = Some s \<Longrightarrow> C_Generation s < g"
  shows "handleWasmUpload sha wasm noUploadFaults r st =
    (Answered (UploadAnswer ''staged'' g (trimSpace (FunctionHeader r)) (sha (Body r))),
     st\<lparr>stagedRelease := Some \<lparr>C_Module = Body r, C_Digest = sha (Body r), C_Generation = g,
          C_Function = trimSpace (FunctionHeader r), C_Path = stagedPath st\<rparr>,
        files := (files st)(tmpPath st := None, stagedPath st := Some (Body r))\<rparr>)"
  using assms(1) unfolding handleWasmUpload_unfold store_accepted [OF assms(1)]
  by (simp add: compileUpload_def acceptable_upload_def check_accepted assms rename_accepted commitUpload_def
      fun_upd_twist)

lemma activate_accepted:
  assumes "stagedRelease st = Some r" "C_Generation r = g" "g \<noteq> activeGeneration st"
    and "files st (wasmPath st) \<noteq> None" "files st (C_Path r) \<noteq> None"
    and "C_Path r \<noteq> wasmPath st" "C_Path r \<noteq> backupPath st"
  obtains st' where "activateStagedRelease noActivateFaults g st = (None, st')"
    "memory st' = (memory st)\<lparr>hostModule := C_Module r, wasmDigest := C_Digest r,
       activeGeneration := g, activeFunction := C_Function r, stagedRelease := None\<rparr>"
proof (cases "activateStagedRelease noActivateFaults g st")
  case (Pair e st')
  have e: "e = None"
    using Pair assms by (auto simp: activateStagedRelease_def noActivateFaults_def Let_def rename_def
        removeFile_def renameFile_def)
  from Pair show ?thesis
  proof (cases rule: activate_cases)
    case kept
    then show ?thesis using e assms(3) by simp
  next
    case (activated r')
    then show ?thesis using that [of st'] Pair e assms(1) by simp
  qed
qed

text \<open>What is staged and activated is what runs.  If an acceptable upload is newer than both slots and
  nothing fails, then uploading it and activating its generation succeed, and a request for its
  function and generation runs the uploaded bytes and reports their digest.\<close>

theorem staged_release_runs:
  assumes "acceptable_upload sha wasm r g" "activeGeneration st < g"
    and "\<forall>s \<in> set_option (stagedRelease st). C_Generation s < g"
    and "files st (wasmPath st) \<noteq> None"
    and "P_Function req = trimSpace (FunctionHeader r)" "P_ReleaseGeneration req = g"
    and "RunModule wasm (Body r) (P_Inputs req) = Inr out"
  shows "let staged = snd (handleWasmUpload sha wasm noUploadFaults r st);
             (e, active) = activateStagedRelease noActivateFaults g staged
         in e = None \<and> (\<exists>answer. runWasm wasm elapsed req active = Inr answer \<and>
              PR_Result answer = out \<and> PR_Digest answer = sha (Body r))"
proof -
  let ?r = "\<lparr>C_Module = Body r, C_Digest = sha (Body r), C_Generation = g,
       C_Function = trimSpace (FunctionHeader r), C_Path = stagedPath st\<rparr>"
  let ?st = "st\<lparr>stagedRelease := Some ?r,
       files := (files st)(tmpPath st := None, stagedPath st := Some (Body r))\<rparr>"
  have up: "snd (handleWasmUpload sha wasm noUploadFaults r st) = ?st"
    using upload_accepted [OF assms(1,2)] assms(3) by simp
  obtain st' where act: "activateStagedRelease noActivateFaults g ?st = (None, st')"
    and m: "memory st' = (memory ?st)\<lparr>hostModule := Body r, wasmDigest := sha (Body r),
         activeGeneration := g, activeFunction := trimSpace (FunctionHeader r), stagedRelease := None\<rparr>"
    by (rule activate_accepted [of ?st ?r g])
      (use assms(2,4) in simp_all)
  have "hostModule st' = Body r" "wasmDigest st' = sha (Body r)" "activeGeneration st' = g"
    "activeFunction st' = trimSpace (FunctionHeader r)"
    using memory_cong [of st' "?st\<lparr>hostModule := Body r, wasmDigest := sha (Body r), activeGeneration := g,
        activeFunction := trimSpace (FunctionHeader r), stagedRelease := None\<rparr>"] m
    by (simp_all add: memory_def)
  then show ?thesis
    unfolding up Let_def act using assms(5-7) by (simp add: runWasm_def)
qed

definition hex64 :: "bytes \<Rightarrow> string" where
  "hex64 m = replicate 64 (if m = ''m1'' then CHR ''a'' else CHR ''b'')"

definition newUpload :: "bytes \<Rightarrow> string \<Rightarrow> uploadRequest" where
  "newUpload m g = \<lparr>GenerationHeader = g, FunctionHeader = ''f'', DigestHeader = hex64 m, Body = m\<rparr>"

lemma newUpload_acceptable:
  assumes "g = ''6'' \<and> n = 6 \<or> g = ''7'' \<and> n = 7" "m \<noteq> []"
  shows "acceptable_upload hex64 toyWasm (newUpload m g) n"
proof -
  have plain: "list_all plain_char g" "list_all plain_char ''f''" "list_all plain_char (hex64 m)"
    using assms(1) by (auto simp: plain_char_def hex64_def list_all_iff)
  have "toLower (hex64 m) = hex64 m"
    by (simp add: toLower_def hex64_def lower_char_def)
  moreover have "parse_int64 g = Some n"
    using assms(1) by (elim disjE conjE; hypsubst; code_simp)
  ultimately show ?thesis
    using assms plain by (auto simp: acceptable_upload_def newUpload_def trimSpace_plain hex64_def toyWasm_def)
qed

theorem staged_release_runs_witness:
  "let staged = snd (handleWasmUpload hex64 toyWasm noUploadFaults (newUpload ''m1'' ''6'') freshHost);
       (e, active) = activateStagedRelease noActivateFaults 6 staged
   in e = None \<and> (\<exists>answer. runWasm toyWasm 1 \<lparr>P_Function = ''f'', P_ReleaseGeneration = 6, P_Inputs = ''!''\<rparr> active =
        Inr answer \<and> PR_Result answer = ''m1!'' \<and> PR_Digest answer = hex64 ''m1'')"
proof -
  have f: "trimSpace ''f'' = ''f''"
    by (rule trimSpace_plain) (simp add: plain_char_def)
  show ?thesis
    using staged_release_runs [OF newUpload_acceptable [of "''6''" 6 "''m1''"], of freshHost
        "\<lparr>P_Function = ''f'', P_ReleaseGeneration = 6, P_Inputs = ''!''\<rparr>" "''m1!''" 1]
    by (simp add: newUpload_def freshHost_def f toyWasm_def)
qed

section \<open>Concurrent uploads\<close>

text \<open>Requests run interleaved: a new upload arrives, one upload makes a step, or a release is activated.\<close>

inductive serve :: "(bytes \<Rightarrow> string) \<Rightarrow> ('input, 'output) wasmtime \<Rightarrow> upload list \<times> hostState
    \<Rightarrow> upload list \<times> hostState \<Rightarrow> bool" for sha wasm where
  arrive: "serve sha wasm (us, st) (us @ [Received r], st)"
| progress: "i < length us \<Longrightarrow> uploadStep sha wasm io (us ! i, st) = (u, st') \<Longrightarrow>
     serve sha wasm (us, st) (us[i := u], st')"
| activate: "serve sha wasm (us, st) (us, snd (activateStagedRelease io g st))"

lemma progress_two:
  "uploadStep sha wasm io (u, st) = (u', st') \<Longrightarrow> serve sha wasm ([u, v], st) ([u', v], st')"
  "uploadStep sha wasm io (v, st) = (v', st') \<Longrightarrow> serve sha wasm ([u, v], st) ([u, v'], st')"
  using progress [of 0 "[u, v]" sha wasm io st u' st'] progress [of 1 "[u, v]" sha wasm io st v' st'] by simp_all

text \<open>C40: Two concurrent uploads can make the host run one program under the digest of another.  Both
  write the same temporary file outside the lock: if the second is stored before the first is
  compiled, the first release is staged and activated with the digest of its own body and the module
  of the other.\<close>

theorem concurrent_uploads_mix:
  assumes "acceptable_upload sha wasm r1 g1" "acceptable_upload sha wasm r2 g2"
    and "activeGeneration st < g1" "stagedRelease st = None" "files st (wasmPath st) \<noteq> None"
  shows "\<exists>us st'. (serve sha wasm)\<^sup>*\<^sup>* ([], st) (us, st') \<and> activeGeneration st' = g1 \<and>
    wasmDigest st' = sha (Body r1) \<and> hostModule st' = Body r2"
proof -
  let ?f1 = "trimSpace (FunctionHeader r1)" and ?f2 = "trimSpace (FunctionHeader r2)"
  let ?d1 = "sha (Body r1)" and ?d2 = "sha (Body r2)"
  let ?s1 = "st\<lparr>files := (files st)(tmpPath st := Some (Body r1))\<rparr>"
  let ?s2 = "st\<lparr>files := (files st)(tmpPath st := Some (Body r2))\<rparr>"
  let ?s3 = "st\<lparr>files := (files st)(tmpPath st := None, stagedPath st := Some (Body r2))\<rparr>"
  let ?r = "\<lparr>C_Module = Body r2, C_Digest = ?d1, C_Generation = g1, C_Function = ?f1, C_Path = stagedPath st\<rparr>"
  let ?s4 = "?s3\<lparr>stagedRelease := Some ?r\<rparr>"
  have steps: "uploadStep sha wasm noUploadFaults (Received r1, st) = (Stored g1 ?f1 ?d1, ?s1)"
    "uploadStep sha wasm noUploadFaults (Received r2, ?s1) = (Stored g2 ?f2 ?d2, ?s2)"
    "uploadStep sha wasm noUploadFaults (Stored g1 ?f1 ?d1, ?s2) = (Compiled g1 ?f1 ?d1 (Body r2), ?s2)"
    "uploadStep sha wasm noUploadFaults (Compiled g1 ?f1 ?d1 (Body r2), ?s2) = (Checked g1 ?f1 ?d1 (Body r2), ?s2)"
    "uploadStep sha wasm noUploadFaults (Checked g1 ?f1 ?d1 (Body r2), ?s2) = (Renamed g1 ?f1 ?d1 (Body r2), ?s3)"
    "uploadStep sha wasm noUploadFaults (Renamed g1 ?f1 ?d1 (Body r2), ?s3) =
       (Answered (UploadAnswer ''staged'' g1 ?f1 ?d1), ?s4)"
    using assms(2) by (simp_all add: store_accepted [OF assms(1)] store_accepted [OF assms(2)] compileUpload_def
        check_accepted assms(3,4) rename_accepted commitUpload_def acceptable_upload_def fun_upd_twist)
  obtain st' where act: "activateStagedRelease noActivateFaults g1 ?s4 = (None, st')"
    and m: "memory st' = (memory ?s4)\<lparr>hostModule := Body r2, wasmDigest := ?d1,
         activeGeneration := g1, activeFunction := ?f1, stagedRelease := None\<rparr>"
    by (rule activate_accepted [of ?s4 ?r g1]) (use assms(3,5) in simp_all)
  let ?answer = "Answered (UploadAnswer ''staged'' g1 ?f1 ?d1)" and ?u2 = "Stored g2 ?f2 ?d2"
  note join = rtranclp_trans [of "serve sha wasm"] r_into_rtranclp [of "serve sha wasm"]
  have "(serve sha wasm)\<^sup>*\<^sup>* ([], st) ([Received r1, Received r2], st)"
    using arrive [of sha wasm "[]" st r1] arrive [of sha wasm "[Received r1]" st r2]
    by (simp add: rtranclp.rtrancl_into_rtrancl)
  moreover have "(serve sha wasm)\<^sup>*\<^sup>* ([Received r1, Received r2], st) ([Stored g1 ?f1 ?d1, ?u2], ?s2)"
    by (rule join(1) [OF join(2) join(2)], rule progress_two(1) [OF steps(1)], rule progress_two(2) [OF steps(2)])
  moreover have "(serve sha wasm)\<^sup>*\<^sup>* ([Stored g1 ?f1 ?d1, ?u2], ?s2) ([Checked g1 ?f1 ?d1 (Body r2), ?u2], ?s2)"
    by (rule join(1) [OF join(2) join(2)], rule progress_two(1) [OF steps(3)], rule progress_two(1) [OF steps(4)])
  moreover have "(serve sha wasm)\<^sup>*\<^sup>* ([Checked g1 ?f1 ?d1 (Body r2), ?u2], ?s2) ([?answer, ?u2], ?s4)"
    by (rule join(1) [OF join(2) join(2)], rule progress_two(1) [OF steps(5)], rule progress_two(1) [OF steps(6)])
  moreover have "(serve sha wasm)\<^sup>*\<^sup>* ([?answer, ?u2], ?s4) ([?answer, ?u2], st')"
    using join(2) [OF serve.activate [of sha wasm "[?answer, ?u2]" ?s4 noActivateFaults g1]] act by simp
  ultimately have "(serve sha wasm)\<^sup>*\<^sup>* ([], st) ([?answer, ?u2], st')"
    by (blast intro: join(1))
  then show ?thesis
    using memory_cong [of st' "?s4\<lparr>hostModule := Body r2, wasmDigest := ?d1, activeGeneration := g1,
        activeFunction := ?f1, stagedRelease := None\<rparr>"] m by (auto simp: memory_def)
qed

theorem concurrent_uploads_mix_witness:
  "\<exists>us st'. (serve hex64 toyWasm)\<^sup>*\<^sup>* ([], freshHost) (us, st') \<and> activeGeneration st' = 6 \<and>
    wasmDigest st' = replicate 64 (CHR ''a'') \<and> hostModule st' = ''m2''"
  using concurrent_uploads_mix [OF newUpload_acceptable [of "''6''" 6 "''m1''"]
      newUpload_acceptable [of "''7''" 7 "''m2''"], of freshHost]
  by (simp add: freshHost_def newUpload_def hex64_def)

section \<open>A failed staging\<close>

text \<open>A staging that fails at its rename strands the release staged before.  The slot still advertises
  that release, but its file is gone: activating it fails under all circumstances, and uploading it
  again is answered as staged without bringing the file back.\<close>

theorem failed_staging_strands_release:
  assumes "acceptable_upload sha wasm r g" "activeGeneration st < g"
    and "stagedRelease st = Some old" "C_Generation old < g" "activeGeneration st < C_Generation old"
    and "C_Path old = stagedPath st" "files st (wasmPath st) \<noteq> None"
    and "acceptable_upload sha wasm again (C_Generation old)" "sha (Body again) = C_Digest old"
    and "trimSpace (FunctionHeader again) = C_Function old"
  shows "let (u, st1) = handleWasmUpload sha wasm (noUploadFaults\<lparr>StageRenameFails := True\<rparr>) r st;
             (u', st2) = handleWasmUpload sha wasm noUploadFaults again st1
         in u = Answered (HttpError 500 ''failed to stage uploaded wasm'') \<and>
            u' = Answered (UploadAnswer ''staged'' (C_Generation old) (C_Function old) (C_Digest old)) \<and>
            stagedRelease st2 = Some old \<and> files st2 (C_Path old) = None \<and>
            fst (activateStagedRelease io (C_Generation old) st2) \<noteq> None"
proof -
  let ?st1 = "st\<lparr>files := (files st)(tmpPath st := None, stagedPath st := None)\<rparr>"
  have store: "storeUpload sha (noUploadFaults\<lparr>StageRenameFails := True\<rparr>) r st =
      (Stored g (trimSpace (FunctionHeader r)) (sha (Body r)), st\<lparr>files := (files st)(tmpPath st := Some (Body r))\<rparr>)"
    using assms(1) by (simp add: acceptable_upload_def storeUpload_def noUploadFaults_def Let_def)
  have "\<forall>s \<in> set_option (stagedRelease st). C_Generation s < g" using assms(3,4) by simp
  then have first: "handleWasmUpload sha wasm (noUploadFaults\<lparr>StageRenameFails := True\<rparr>) r st =
      (Answered (HttpError 500 ''failed to stage uploaded wasm''), ?st1)"
    using assms(1) unfolding handleWasmUpload_unfold store
    by (simp add: compileUpload_def acceptable_upload_def check_accepted assms(2) renameUpload_def
        removeFile_def Let_def fun_upd_twist)
  have again: "handleWasmUpload sha wasm noUploadFaults again ?st1 =
      (Answered (UploadAnswer ''staged'' (C_Generation old) (C_Function old) (C_Digest old)), ?st1)"
    using assms(3,5,8-10) unfolding handleWasmUpload_unfold store_accepted [OF assms(8)]
    by (simp add: compileUpload_def acceptable_upload_def checkUpload_def stagedBefore_def removeFile_def Let_def
        fun_upd_twist)
  have "fst (activateStagedRelease io (C_Generation old) ?st1) \<noteq> None"
    using assms(3,5,6,7)
    by (cases "BackupRename io") (auto simp: activateStagedRelease_def rename_def removeFile_def renameFile_def Let_def)
  then show ?thesis
    unfolding first Let_def prod.case again using assms(3,6) by simp
qed

definition stagedHost :: hostState where
  "stagedHost = freshHost\<lparr>stagedRelease := Some \<lparr>C_Module = ''m1'', C_Digest = hex64 ''m1'', C_Generation = 6,
     C_Function = ''f'', C_Path = ''/w.staged''\<rparr>, files := [''/w'' \<mapsto> ''m0'', ''/w.staged'' \<mapsto> ''m1'']\<rparr>"

theorem failed_staging_strands_release_witness:
  "let (u, st1) = handleWasmUpload hex64 toyWasm (noUploadFaults\<lparr>StageRenameFails := True\<rparr>)
         (newUpload ''m2'' ''7'') stagedHost;
       (u', st2) = handleWasmUpload hex64 toyWasm noUploadFaults (newUpload ''m1'' ''6'') st1
   in fst (activateStagedRelease noActivateFaults 6 st2) \<noteq> None"
proof -
  have f: "trimSpace ''f'' = ''f''"
    by (rule trimSpace_plain) (simp add: plain_char_def)
  have old: "stagedRelease stagedHost = Some \<lparr>C_Module = ''m1'', C_Digest = hex64 ''m1'', C_Generation = 6,
     C_Function = ''f'', C_Path = ''/w.staged''\<rparr>"
    by (simp add: stagedHost_def)
  show ?thesis
    using failed_staging_strands_release [OF newUpload_acceptable [of "''7''" 7 "''m2''"] _ old, where
        again = "newUpload ''m1'' ''6''" and io = noActivateFaults]
      newUpload_acceptable [of "''6''" 6 "''m1''"]
    by (simp add: stagedHost_def freshHost_def stagedPath_def newUpload_def f case_prod_beta Let_def)
qed

section \<open>Reported durations\<close>

text \<open>The reported execution time is the time in whole milliseconds, rounded up.  For every duration of
  at most \<open>2 ^ 31 - 1\<close> milliseconds the result is the least number of milliseconds that covers it,
  and negative durations count as zero.\<close>

theorem durationMillisCeil_exact:
  assumes "d \<le> (2 ^ 31 - 1) * millisecond"
  shows "0 \<le> durationMillisCeil d \<and> d \<le> durationMillisCeil d * millisecond \<and>
    (0 < d \<longrightarrow> (durationMillisCeil d - 1) * millisecond < d)"
proof (cases "d \<le> 0")
  case True
  then show ?thesis by (simp add: durationMillisCeil_def)
next
  case False
  let ?n = "(d + millisecond - 1) div millisecond"
  have ms: "millisecond = 1000000" by (simp add: millisecond_def)
  have range: "0 \<le> ?n" "?n \<le> 2 ^ 31 - 1" using False assms by (simp_all add: ms)
  have "wrap64 (d + millisecond - 1) = d + millisecond - 1"
    by (rule wrap64_id) (use False assms in \<open>simp add: in_int64_def ms\<close>)
  moreover have "wrap32 ?n = ?n" by (rule wrap32_id) (use range in \<open>simp add: in_int32_def\<close>)
  ultimately have "durationMillisCeil d = ?n"
    using False by (simp add: durationMillisCeil_def Let_def ms)
  then show ?thesis using range(1) False by (simp add: ms) linarith
qed

theorem durationMillisCeil_exact_witness:
  "durationMillisCeil 1000001 * millisecond \<ge> 1000001"
  using durationMillisCeil_exact [of 1000001] by (simp add: millisecond_def)

end
