(* ===== verification/Artifact_Props.thy ===== *)
theory Artifact_Props
  imports Artifact_Sync Host_Props
begin

text \<open>
  Artifact synchronisation: only verified bytes are uploaded, a success means that the host holds the
  declared release, and the same for the operator and the host model together.
\<close>

section \<open>What is downloaded\<close>

lemma fetchArtifact_cases:
  assumes "fetchArtifact sha env url h = (res, h')"
  shows "h' = h @ [plainRequest ''GET'' url] \<and>
    (case res of Inl e \<Rightarrow> True
     | Inr (data, digest) \<Rightarrow> digest = sha data \<and> data \<noteq> [] \<and> length data \<le> maxArtifactDownloadBytes)"
proof (cases "env h (plainRequest ''GET'' url)")
  case (Inl e)
  then show ?thesis using assms by (auto simp: fetchArtifact_def send_def)
next
  case (Inr resp)
  show ?thesis
  proof (cases "HBody resp")
    case (Inl e)
    with Inr show ?thesis using assms by (auto simp: fetchArtifact_def send_def)
  next
    case body: (Inr b)
    with Inr show ?thesis
      using assms by (auto simp: fetchArtifact_def send_def Let_def split: if_splits)
  qed
qed

lemma fetchArtifactDigest_log:
  assumes "fetchArtifactDigest sha env url h = (res, h')"
  shows "h' = h @ [plainRequest ''HEAD'' url] \<or>
    h' = h @ [plainRequest ''HEAD'' url, plainRequest ''GET'' url]"
proof -
  obtain r2 h2 where get: "fetchArtifact sha env url (h @ [plainRequest ''HEAD'' url]) = (r2, h2)"
    by (cases "fetchArtifact sha env url (h @ [plainRequest ''HEAD'' url])")
  have "h2 = h @ [plainRequest ''HEAD'' url, plainRequest ''GET'' url]"
    using fetchArtifact_cases [OF get] by simp
  with assms get show ?thesis
    by (auto simp: fetchArtifactDigest_def send_def Let_def split: sum.splits prod.splits if_splits)
qed

section \<open>Synchronisation in cases\<close>

definition declaredDigest :: "wasmFunction \<Rightarrow> string" where
  "declaredDigest w = normalizeArtifactDigest (R_ArtifactDigest (release w))"

definition putRequest :: "string \<Rightarrow> string \<Rightarrow> wasmFunction \<Rightarrow> httpRequest" where
  "putRequest url artifact w = (plainRequest ''PUT'' url)\<lparr>ReqDigest := R_ArtifactDigest (release w),
     ReqGeneration := fmt_d (R_Generation (release w)), ReqFunction := FunctionIdentity (release w),
     ReqBody := artifact\<rparr>"

text \<open>The requests of a synchronisation: probes of the source, a probe of the host, and at most one upload
  of bytes with the declared digest.\<close>

definition probe :: "wasmFunction \<Rightarrow> string \<Rightarrow> httpRequest \<Rightarrow> bool" where
  "probe w hostURL r \<longleftrightarrow> r = plainRequest ''HEAD'' (operatorArtifactURL w) \<or>
     r = plainRequest ''GET'' (operatorArtifactURL w) \<or> r = plainRequest ''GET'' (releaseURL hostURL)"

lemma stageOnHost_cases:
  assumes "stageOnHost sha env w a h = ((a', err), h')" "SourceURL a = operatorArtifactURL w"
  obtains (failed) e where "err = Some e" "a' = a"
      "h' = h @ [plainRequest ''GET'' (operatorArtifactURL w)] \<or>
       (\<exists>m. sha m = DesiredDigest a \<and> h' = h @ [plainRequest ''GET'' (operatorArtifactURL w), putRequest (HostURL a) m w])"
  | (staged) m resp where "err = None" "sha m = DesiredDigest a"
      "h' = h @ [plainRequest ''GET'' (operatorArtifactURL w), putRequest (HostURL a) m w]"
      "env (h @ [plainRequest ''GET'' (operatorArtifactURL w)]) (putRequest (HostURL a) m w) = Inr resp" "success resp"
      "a' = a\<lparr>HostStagedDigest := DesiredDigest a, HostStagedGeneration := R_Generation (release w),
         HostStagedFunction := FunctionIdentity (release w), UpdatedHost := True\<rparr>"
proof -
  let ?src = "operatorArtifactURL w"
  obtain res h1 where get: "fetchArtifact sha env ?src h = (res, h1)" by (cases "fetchArtifact sha env ?src h")
  note got = fetchArtifact_cases [OF get]
  show ?thesis
  proof (cases res)
    case (Inl e)
    then show ?thesis using assms get got failed by (auto simp: stageOnHost_def)
  next
    case (Inr dd)
    obtain m digest where dd: "dd = (m, digest)" by (cases dd)
    show ?thesis
    proof (cases "digest = DesiredDigest a")
      case False
      then show ?thesis using assms get got failed Inr dd by (auto simp: stageOnHost_def)
    next
      case True
      then have m: "sha m = DesiredDigest a" using got Inr dd by simp
      show ?thesis
      proof (cases "env h1 (putRequest (HostURL a) m w)")
        case (Inl e)
        then show ?thesis
          using assms get got failed Inr dd True m
          by (auto simp: stageOnHost_def uploadArtifact_def send_def putRequest_def [symmetric])
      next
        case put: (Inr resp)
        let ?a = "a\<lparr>HostStagedDigest := DesiredDigest a, HostStagedGeneration := R_Generation (release w),
          HostStagedFunction := FunctionIdentity (release w), UpdatedHost := True\<rparr>"
        have run: "stageOnHost sha env w a h = ((if success resp then (?a, None)
            else (a, Some (SyncError (''upload desired artifact to host '' @ HostURL a @ '': '' @
              refusal ''PUT'' (HostURL a) resp)))), h1 @ [putRequest (HostURL a) m w])"
          using get put by (simp add: stageOnHost_def uploadArtifact_def send_def putRequest_def [symmetric]
              assms(2) Inr dd True)
        have h1: "h1 = h @ [plainRequest ''GET'' ?src]" using got by simp
        show ?thesis
        proof (cases "success resp")
          case True
          then show ?thesis using run assms(1) put h1 by (intro staged [of m resp]) (simp_all add: m)
        next
          case False
          then show ?thesis using run assms(1) h1 m by (intro failed) auto
        qed
      qed
    qed
  qed
qed

text \<open>The whole synchronisation: nothing to do, failed before the host was asked, or the host was asked.\<close>

lemma reconcile_cases:
  assumes "reconcileArtifact sha env resolver w h = ((a, err), h')" "operatorArtifactURL w \<noteq> []"
  obtains (early) e where "err = Some e" "A_Enabled a" "DesiredDigest a = []"
      "\<exists>rs. h' = h @ rs \<and> length rs \<le> 2 \<and> list_all (probe w (hostWasmURL resolver w)) rs"
      "HostActiveGeneration a = 0" "HostStagedGeneration a = 0"
  | (unprobed) e where "err = Some e" "A_Enabled a" "DesiredDigest a = declaredDigest w" "declaredDigest w \<noteq> []"
      "\<exists>rs. h' = h @ rs \<and> length rs \<le> 3 \<and> list_all (probe w (hostWasmURL resolver w)) rs"
      "HostActiveGeneration a = 0" "HostStagedGeneration a = 0"
  | (probed) rs resp status a2 where "length rs \<le> 2" "list_all (probe w (hostWasmURL resolver w)) rs"
      "env (h @ rs) (plainRequest ''GET'' (releaseURL (hostWasmURL resolver w))) = Inr resp"
      "HStatusJSON resp = Inr status" "declaredDigest w \<noteq> []"
      "DesiredDigest a2 = declaredDigest w" "A_Enabled a2" "SourceURL a2 = operatorArtifactURL w"
      "HostURL a2 = hostWasmURL resolver w"
      "hostActiveMatches a2 w \<longleftrightarrow> hostReleaseMatches (ActiveDigest status) (ActiveGeneration status) (ActiveFunction status) w"
      "hostStagedMatches a2 w \<longleftrightarrow> hostReleaseMatches (StagedDigest status) (StagedGeneration status) (StagedFunction status) w"
      "if hostActiveMatches a2 w \<or> hostStagedMatches a2 w
       then a = a2 \<and> err = None \<and> h' = h @ rs @ [plainRequest ''GET'' (releaseURL (hostWasmURL resolver w))]
       else stageOnHost sha env w a2 (h @ rs @ [plainRequest ''GET'' (releaseURL (hostWasmURL resolver w))]) = ((a, err), h')"
proof -
  let ?url = "operatorArtifactURL w" and ?host = "hostWasmURL resolver w"
  let ?get = "plainRequest ''GET'' (releaseURL ?host)"
  let ?a0 = "zeroArtifact\<lparr>A_Enabled := True, SourceURL := ?url, HostURL := ?host,
       HostDigest := normalizeArtifactDigest (HostArtifactDigest (Status w))\<rparr>"
  let ?a1 = "?a0\<lparr>DesiredDigest := declaredDigest w\<rparr>"
  obtain res h1 where fetch: "fetchArtifactDigest sha env ?url h = (res, h1)"
    by (cases "fetchArtifactDigest sha env ?url h")
  obtain rs where h1: "h1 = h @ rs" and rs: "length rs \<le> 2" "list_all (probe w ?host) rs"
    using fetchArtifactDigest_log [OF fetch]
  proof (elim disjE)
    assume "h1 = h @ [plainRequest ''HEAD'' ?url]"
    then show ?thesis by (rule that) (simp_all add: probe_def)
  next
    assume "h1 = h @ [plainRequest ''HEAD'' ?url, plainRequest ''GET'' ?url]"
    then show ?thesis by (rule that) (simp_all add: probe_def)
  qed
  have probes: "list_all (probe w ?host) (rs @ [?get])" using rs by (simp add: probe_def)
  show ?thesis
  proof (cases "declaredDigest w \<noteq> [] \<and> res = Inr (declaredDigest w)")
    case False
    then show ?thesis
      using assms fetch h1 rs
      by (intro early [of "the err"])
        (auto simp: reconcileArtifact_def Let_def declaredDigest_def [symmetric] zeroArtifact_def split: sum.splits if_splits)
  next
    case True
    then have rest: "syncWithHost sha env w ?a1 h1 = ((a, err), h')"
      using assms fetch by (simp add: reconcileArtifact_def Let_def declaredDigest_def [symmetric])
    show ?thesis
    proof (cases "\<exists>resp status. env h1 ?get = Inr resp \<and> success resp \<and> HStatusJSON resp = Inr status")
      case False
      then have "err \<noteq> None" "a = ?a1" "h' = h1 @ [?get]"
        using rest by (auto simp: syncWithHost_def fetchHostReleaseStatus_def send_def zeroArtifact_def Let_def
            split: sum.splits if_splits)
      then show ?thesis
        using True h1 rs probes by (intro unprobed [of "the err"]) (auto simp: zeroArtifact_def)
    next
      case ok: True
      then obtain resp status where resp: "env h1 ?get = Inr resp" "success resp" "HStatusJSON resp = Inr status"
        by blast
      have "fetchHostReleaseStatus env ?host h1 = (Inr status, h1 @ [?get])"
        using resp by (simp add: fetchHostReleaseStatus_def send_def)
      with rest have "if hostActiveMatches (withHostStatus status ?a1) w \<or> hostStagedMatches (withHostStatus status ?a1) w
          then a = withHostStatus status ?a1 \<and> err = None \<and> h' = h @ rs @ [?get]
          else stageOnHost sha env w (withHostStatus status ?a1) (h @ rs @ [?get]) = ((a, err), h')"
        by (auto simp: syncWithHost_def zeroArtifact_def h1 Let_def split: if_splits)
      then show ?thesis
        using True rs resp h1
        by (intro probed [of rs resp status "withHostStatus status ?a1"])
          (simp_all add: withHostStatus_def hostActiveMatches_def hostStagedMatches_def hostReleaseMatches_def)
    qed
  qed
qed

section \<open>What a success means\<close>

lemma matches_declared:
  "hostReleaseMatches (declaredDigest w) (R_Generation (release w)) (FunctionIdentity (release w)) w"
  by (simp add: hostReleaseMatches_def declaredDigest_def)

text \<open>Synchronisation succeeds only with a verified release on the host.  If an enabled synchronisation
  reports no error, the source vouches for the declared digest, and the decision says that the host
  holds the declared release in one of its slots.\<close>

theorem synchronised_decision_is_ready:
  assumes "reconcileArtifact sha env resolver w h = ((a, None), h')" "operatorArtifactURL w \<noteq> []"
  shows "A_Enabled a \<and> DesiredDigest a = declaredDigest w \<and> declaredDigest w \<noteq> [] \<and> hostReady a w"
  using assms
proof (cases rule: reconcile_cases)
  case (probed rs resp status a2)
  show ?thesis
  proof (cases "hostActiveMatches a2 w \<or> hostStagedMatches a2 w")
    case True
    then show ?thesis using probed by (simp add: hostReady_def)
  next
    case False
    then have "stageOnHost sha env w a2 (h @ rs @ [plainRequest ''GET'' (releaseURL (hostWasmURL resolver w))]) = ((a, None), h')"
      using probed(12) by simp
    then show ?thesis using probed(8)
    proof (cases rule: stageOnHost_cases)
      case (staged m resp')
      then show ?thesis
        using probed(5-9) matches_declared [of w] by (simp add: hostReady_def hostStagedMatches_def)
    qed simp
  qed
qed simp_all

text \<open>C23: The operator uploads only what it verified, and at most once.  Whatever the source and the host
  answer, a synchronisation makes at most four requests that probe the source or the host, and then
  either none or exactly one upload, its last request, whose body has the declared digest and which
  names the declared release.\<close>

theorem uploads_are_verified:
  "\<exists>probes puts. snd (reconcileArtifact sha env resolver w h) = h @ probes @ puts \<and> length probes \<le> 4 \<and>
    list_all (probe w (hostWasmURL resolver w)) probes \<and>
    (puts = [] \<or> (\<exists>m. puts = [putRequest (hostWasmURL resolver w) m w] \<and> sha m = declaredDigest w \<and> declaredDigest w \<noteq> []))"
proof (cases "operatorArtifactURL w = []")
  case True
  then show ?thesis by (simp add: reconcileArtifact_def)
next
  case False
  obtain a err h' where run: "reconcileArtifact sha env resolver w h = ((a, err), h')" by (metis prod.collapse)
  let ?probe = "probe w (hostWasmURL resolver w)"
  have no_put: "\<exists>probes puts. h' = h @ probes @ puts \<and> length probes \<le> 4 \<and> list_all ?probe probes \<and>
      (puts = [] \<or> (\<exists>m. puts = [putRequest (hostWasmURL resolver w) m w] \<and> sha m = declaredDigest w \<and> declaredDigest w \<noteq> []))"
    if "h' = h @ rs" "length rs \<le> 4" "list_all ?probe rs" for rs
    using that by (intro exI [of _ rs] exI [of _ "[]"]) simp
  from run False have "\<exists>probes puts. h' = h @ probes @ puts \<and> length probes \<le> 4 \<and> list_all ?probe probes \<and>
      (puts = [] \<or> (\<exists>m. puts = [putRequest (hostWasmURL resolver w) m w] \<and> sha m = declaredDigest w \<and> declaredDigest w \<noteq> []))"
  proof (cases rule: reconcile_cases)
    case (early e)
    then obtain rs where "h' = h @ rs" "length rs \<le> 2" "list_all ?probe rs" by blast
    then show ?thesis by (intro no_put) simp_all
  next
    case (unprobed e)
    then obtain rs where "h' = h @ rs" "length rs \<le> 3" "list_all ?probe rs" by blast
    then show ?thesis by (intro no_put) simp_all
  next
    case (probed rs resp status a2)
    let ?get = "plainRequest ''GET'' (releaseURL (hostWasmURL resolver w))"
      and ?src = "plainRequest ''GET'' (operatorArtifactURL w)"
    have rs: "list_all ?probe (rs @ [?get, ?src])" "list_all ?probe (rs @ [?get])"
      using probed(2) by (simp_all add: probe_def)
    show ?thesis
    proof (cases "hostActiveMatches a2 w \<or> hostStagedMatches a2 w")
      case True
      then show ?thesis using probed(1,12) rs(2) by (intro no_put [of "rs @ [?get]"]) simp_all
    next
      case False
      then have "stageOnHost sha env w a2 (h @ rs @ [?get]) = ((a, err), h')" using probed(12) by simp
      then have "h' = h @ (rs @ [?get, ?src]) \<or> (\<exists>m. sha m = declaredDigest w \<and>
          h' = h @ (rs @ [?get, ?src]) @ [putRequest (hostWasmURL resolver w) m w])"
        using probed(8) by (cases rule: stageOnHost_cases) (use probed(6,9) in auto)
      then show ?thesis
      proof (elim disjE exE conjE)
        assume "h' = h @ (rs @ [?get, ?src])"
        then show ?thesis using probed(1) rs(1) by (intro no_put [of "rs @ [?get, ?src]"]) simp_all
      next
        fix m assume "sha m = declaredDigest w" "h' = h @ (rs @ [?get, ?src]) @ [putRequest (hostWasmURL resolver w) m w]"
        then show ?thesis using probed(1,5) rs(1)
          by (intro exI [of _ "rs @ [?get, ?src]"] exI [of _ "[putRequest (hostWasmURL resolver w) m w]"]) auto
      qed
    qed
  qed
  then show ?thesis by (simp add: run)
qed

text \<open>A host counts as ready only after a synchronisation without an error: for a declared release, a
  decision whose host slots match it carries the declared digest, and no decision carries another one.\<close>

lemma ready_decision:
  assumes "reconcileArtifact sha env resolver w h = ((a, err), h')" "0 < R_Generation (release w)"
  shows "DesiredDigest a \<in> {[], declaredDigest w}"
    and "hostReady a w \<Longrightarrow> err = None \<and> DesiredDigest a = declaredDigest w \<and> declaredDigest w \<noteq> []"
proof -
  have "DesiredDigest a \<in> {[], declaredDigest w} \<and>
      (hostReady a w \<longrightarrow> err = None \<and> DesiredDigest a = declaredDigest w \<and> declaredDigest w \<noteq> [])"
  proof (cases "operatorArtifactURL w = []")
    case True
    then show ?thesis
      using assms by (auto simp: reconcileArtifact_def zeroArtifact_def hostReady_def hostActiveMatches_def
          hostStagedMatches_def hostReleaseMatches_def)
  next
    case False
    have idle: "\<not> hostReady a w" if "HostActiveGeneration a = 0" "HostStagedGeneration a = 0"
      using that assms(2) by (simp add: hostReady_def hostActiveMatches_def hostStagedMatches_def hostReleaseMatches_def)
    from assms(1) False show ?thesis
    proof (cases rule: reconcile_cases)
      case (probed rs resp status a2)
      then show ?thesis
      proof (cases "hostActiveMatches a2 w \<or> hostStagedMatches a2 w")
        case False
        then have "stageOnHost sha env w a2 (h @ rs @ [plainRequest ''GET'' (releaseURL (hostWasmURL resolver w))]) = ((a, err), h')"
          using probed(12) by simp
        then show ?thesis using probed(8)
          by (cases rule: stageOnHost_cases) (use probed(5,6) False in \<open>auto simp: hostReady_def\<close>)
      qed auto
    qed (use idle in auto)
  qed
  then show "DesiredDigest a \<in> {[], declaredDigest w}"
    "hostReady a w \<Longrightarrow> err = None \<and> DesiredDigest a = declaredDigest w \<and> declaredDigest w \<noteq> []" by auto
qed

section \<open>A host that has the release\<close>

definition syncedFunction :: wasmFunction where
  "syncedFunction = zeroWasmFunction\<lparr>Spec := zeroSpec\<lparr>Device := zeroDevice\<lparr>OperatorWasmURL := ''http://s/a''\<rparr>,
     Release := zeroRelease\<lparr>R_Generation := 5, R_ArtifactDigest := hex64 ''m0'', FunctionIdentity := ''f''\<rparr>\<rparr>\<rparr>"

definition statusAnswer :: hostReleaseStatus where
  "statusAnswer = \<lparr>ActiveGeneration = 5, ActiveDigest = hex64 ''m0'', ActiveFunction = ''f'', StagedGeneration = 0,
     StagedDigest = [], StagedFunction = []\<rparr>"

text \<open>Every address vouches for the digest and reports the release.\<close>

definition vouching :: webEnv where
  "vouching h r = Inr \<lparr>HCode = 200, HStatusText = [], HDigest = hex64 ''m0'', HETag = [], HBody = Inr [],
     HStatusJSON = Inr statusAnswer\<rparr>"

lemma hex64_digest [simp]: "normalizeArtifactDigest (hex64 m) = hex64 m" "hex64 m \<noteq> []"
proof -
  have "is_digest (hex64 m)" by (simp add: is_digest_def hex64_def is_hex_char_def list_all_iff)
  then show "normalizeArtifactDigest (hex64 m) = hex64 m" by simp
  show "hex64 m \<noteq> []" by (simp add: hex64_def)
qed

lemma synced_urls [simp]:
  "operatorArtifactURL syncedFunction = ''http://s/a''" "trimSpace ''f'' = ''f''"
  "declaredDigest syncedFunction = hex64 ''m0''"
  "R_Generation (release syncedFunction) = 5" "FunctionIdentity (release syncedFunction) = ''f''"
proof -
  have plain: "trimSpace ''http://s/a'' = ''http://s/a''" "trimSpace ''f'' = ''f''"
    by (rule trimSpace_plain, simp add: plain_char_def)+
  then show "operatorArtifactURL syncedFunction = ''http://s/a''" "trimSpace ''f'' = ''f''"
    "declaredDigest syncedFunction = hex64 ''m0''"
    "R_Generation (release syncedFunction) = 5" "FunctionIdentity (release syncedFunction) = ''f''"
    by (simp_all add: operatorArtifactURL_def syncedFunction_def declaredDigest_def)
qed

lemma synced_fetch:
  assumes "env h (plainRequest ''HEAD'' url) = Inr resp" "HCode resp = 200" "HDigest resp = hex64 m"
  shows "fetchArtifactDigest sha env url h = (Inr (hex64 m), h @ [plainRequest ''HEAD'' url])"
  using assms by (simp add: fetchArtifactDigest_def send_def success_def artifactDigestFromHeaders_def)

lemma synced_like:
  assumes "operatorArtifactURL w = ''http://s/a''" "release w = release syncedFunction"
    and "env h (plainRequest ''HEAD'' ''http://s/a'') = Inr resp" "HCode resp = 200" "HDigest resp = hex64 ''m0''"
    and "env (h @ [plainRequest ''HEAD'' ''http://s/a'']) (plainRequest ''GET'' (releaseURL (hostWasmURL resolver w)))
      = Inr resp'" "HCode resp' = 200" "HStatusJSON resp' = Inr statusAnswer"
  shows "\<exists>a. A_Enabled a \<and> DesiredDigest a = hex64 ''m0'' \<and> hostActiveMatches a w \<and>
    reconcileArtifact sha env resolver w h = ((a, None),
      h @ [plainRequest ''HEAD'' ''http://s/a'', plainRequest ''GET'' (releaseURL (hostWasmURL resolver w))])"
proof -
  have digest: "normalizeArtifactDigest (R_ArtifactDigest (release w)) = hex64 ''m0''"
    using synced_urls(3) by (simp add: declaredDigest_def assms(2))
  then have "hostActiveMatches (withHostStatus statusAnswer a) w" for a
    by (simp add: hostActiveMatches_def withHostStatus_def statusAnswer_def hostReleaseMatches_def assms(2))
  moreover have "fetchArtifactDigest sha env ''http://s/a'' h = (Inr (hex64 ''m0''), h @ [plainRequest ''HEAD'' ''http://s/a''])"
    using assms(3-5) by (rule synced_fetch)
  ultimately show ?thesis
    using assms digest
    by (simp add: reconcileArtifact_def syncWithHost_def fetchHostReleaseStatus_def send_def success_def Let_def
        withHostStatus_def)
qed

lemma synced_run:
  assumes "env h (plainRequest ''HEAD'' ''http://s/a'') = Inr resp" "HCode resp = 200" "HDigest resp = hex64 ''m0''"
    and "env (h @ [plainRequest ''HEAD'' ''http://s/a'']) (plainRequest ''GET'' (releaseURL (hostWasmURL resolver syncedFunction)))
      = Inr resp'" "HCode resp' = 200" "HStatusJSON resp' = Inr statusAnswer"
  shows "\<exists>a. A_Enabled a \<and> reconcileArtifact sha env resolver syncedFunction h = ((a, None),
    h @ [plainRequest ''HEAD'' ''http://s/a'', plainRequest ''GET'' (releaseURL (hostWasmURL resolver syncedFunction))])"
  using synced_like [OF synced_urls(1) refl assms] by blast

theorem synchronised_decision_is_ready_witness:
  "\<exists>a h'. reconcileArtifact hex64 vouching None syncedFunction [] = ((a, None), h') \<and> hostReady a syncedFunction"
proof -
  obtain a h' where run: "reconcileArtifact hex64 vouching None syncedFunction [] = ((a, None), h')"
    using synced_run [of vouching "[]" _ None _ hex64] by (auto simp: vouching_def)
  from synchronised_decision_is_ready [OF this] show ?thesis using run by auto
qed

section \<open>The digest headers\<close>

text \<open>The operator reads back the digest the host announces.  From the two headers the host sets for a
  digest, and from either of them alone, the operator recovers exactly that digest.\<close>

theorem digest_headers_roundtrip:
  assumes "is_digest d" "setWasmDigestHeaders d = Some (sha256, etag)"
    and "HDigest resp = sha256 \<or> HDigest resp = []" "HETag resp = etag \<or> HETag resp = [] \<and> HDigest resp = sha256"
  shows "artifactDigestFromHeaders resp = d"
proof (cases "HDigest resp = []")
  case False
  then show ?thesis
    using assms by (auto simp: artifactDigestFromHeaders_def setWasmDigestHeaders_def is_digest_not_Nil split: if_splits)
next
  case True
  let ?q = "CHR 0x22"
  have d: "d \<noteq> []" "list_all is_hex_char d" using assms(1) is_digest_not_Nil by (auto simp: is_digest_def)
  have etag: "HETag resp = [?q] @ ''sha256:'' @ d @ [?q]"
    using assms(2-4) True d(1) by (auto simp: setWasmDigestHeaders_def)
  have "list_all plain_char d" using d(2) by (auto simp: list_all_iff intro: is_hex_char_plain)
  then have "list_all plain_char (HETag resp)" by (simp add: etag plain_char_def [of "CHR 0x22"] plain_char_def [of "CHR ''s''"]
        plain_char_def [of "CHR ''h''"] plain_char_def [of "CHR ''a''"] plain_char_def [of "CHR ''2''"]
        plain_char_def [of "CHR ''5''"] plain_char_def [of "CHR ''6''"] plain_char_def [of "CHR '':''"])
  then have trim: "trimSpace (HETag resp) = HETag resp" by (rule trimSpace_plain)
  have "trimChar ?q (HETag resp) = ''sha256:'' @ d"
    using d by (cases d rule: rev_cases) (auto simp: etag trimChar_def trimRightChar_def is_hex_char_def)
  moreover have "toLower (''sha256:'' @ d) = ''sha256:'' @ d"
    using is_digest_lower [OF assms(1)] by (simp add: toLower_def lower_char_def)
  moreover have "trimPrefix (HETag resp) ''W/'' = HETag resp" by (simp add: etag trimPrefix_def)
  ultimately show ?thesis
    using assms(1) True by (simp add: artifactDigestFromHeaders_def trim trimPrefix_def Let_def)
qed

theorem digest_headers_roundtrip_witness:
  "artifactDigestFromHeaders \<lparr>HCode = 200, HStatusText = [], HDigest = [],
      HETag = [CHR 0x22] @ ''sha256:'' @ hex64 ''m0'' @ [CHR 0x22], HBody = Inr [], HStatusJSON = Inl []\<rparr> = hex64 ''m0''"
proof -
  have "is_digest (hex64 ''m0'')" by (simp add: is_digest_def hex64_def is_hex_char_def list_all_iff)
  then show ?thesis
    by (rule digest_headers_roundtrip) (simp_all add: setWasmDigestHeaders_def)
qed

end
