(* ===== verification/Sync_Host.thy ===== *)
theory Sync_Host
  imports Release_Slots Artifact_Props
begin

text \<open>
  The operator's synchronisation against the edge host: the host as a store with two slots, the HTTP
  environment it provides, and what a successful synchronisation leaves on it.
\<close>

section \<open>The host refines the two-slot machine\<close>

text \<open>A slot of the host: digest, generation, function and the bytes.\<close>

type_synonym slot = "string \<times> int64 \<times> string \<times> bytes"

definition slot_gen :: "slot \<Rightarrow> int64" where
  "slot_gen s = fst (snd s)"

definition activeSlot :: "hostState \<Rightarrow> slot" where
  "activeSlot st = (wasmDigest st, activeGeneration st, activeFunction st, hostModule st)"

definition stagedSlot :: "hostState \<Rightarrow> slot option" where
  "stagedSlot st = map_option (\<lambda>r. (C_Digest r, C_Generation r, C_Function r, C_Module r)) (stagedRelease st)"

definition slots_of :: "hostState \<Rightarrow> slot \<times> slot option" where
  "slots_of st = (activeSlot st, stagedSlot st)"

lemma slots_of_memory: "memory st = memory st' \<Longrightarrow> slots_of st = slots_of st'"
  using memory_cong [of st st'] by (simp add: slots_of_def activeSlot_def stagedSlot_def)

lemma hostStep_refines: "(slotStep slot_gen)\<^sup>*\<^sup>* (slots_of st) (slots_of (hostStep sha wasm q st))"
proof (cases q)
  case (Upload io r)
  obtain u st' where run: "handleWasmUpload sha wasm io r st = (u, st')"
    by (cases "handleWasmUpload sha wasm io r st")
  then show ?thesis
  proof (cases rule: upload_alone)
    case (refused a)
    then show ?thesis using run Upload slots_of_memory [OF refused(2)] by simp
  next
    case (staged g f)
    have "slotStep slot_gen (slots_of st) (activeSlot st, Some (sha (Body r), g, f, Body r))"
      unfolding slots_of_def using staged(5,6)
      by (intro slotStep.stage) (auto simp: slot_gen_def activeSlot_def stagedSlot_def split: option.split)
    moreover have "slots_of st' = (activeSlot st, Some (sha (Body r), g, f, Body r))"
      by (simp add: staged(9) slots_of_def activeSlot_def stagedSlot_def)
    ultimately show ?thesis using run Upload by auto
  qed
next
  case (Activate io g)
  obtain e st' where run: "activateStagedRelease io g st = (e, st')"
    by (cases "activateStagedRelease io g st")
  then show ?thesis
  proof (cases rule: activate_cases)
    case kept
    then show ?thesis using run Activate slots_of_memory [OF kept(1)] by simp
  next
    case (activated r)
    let ?new = "st\<lparr>hostModule := C_Module r, wasmDigest := C_Digest r,
         activeGeneration := g, activeFunction := C_Function r, stagedRelease := None\<rparr>"
    have "memory st' = memory ?new" using activated(5) by (simp add: memory_def)
    then have "slots_of st' = ((C_Digest r, C_Generation r, C_Function r, C_Module r), None)"
      using slots_of_memory [of st' ?new] activated(3)
      by (simp add: slots_of_def activeSlot_def stagedSlot_def)
    then have "slotStep slot_gen (slots_of st) (slots_of st')"
      using activated(2) slotStep.promote by (simp add: slots_of_def stagedSlot_def)
    then show ?thesis using run Activate by auto
  qed
qed

text \<open>C7: The host is a two-slot machine.  Whatever uploads and activations it serves one after the other,
  and whatever file operations fail, every change of its slots is a step of the abstract machine: a
  strictly newer release is staged, or the staged release becomes active.\<close>

theorem host_refines_slots:
  "(slotStep slot_gen)\<^sup>*\<^sup>* (slots_of st) (slots_of (fold (hostStep sha wasm) qs st))"
proof (induction qs arbitrary: st)
  case Nil
  then show ?case by simp
next
  case (Cons q qs)
  have "(slotStep slot_gen)\<^sup>*\<^sup>* (slots_of st) (slots_of (hostStep sha wasm q st))" by (rule hostStep_refines)
  also have "(slotStep slot_gen)\<^sup>*\<^sup>* \<dots> (slots_of (fold (hostStep sha wasm) (q # qs) st))"
    using Cons.IH [of "hostStep sha wasm q st"] by simp
  finally show ?case .
qed

section \<open>The host keeps the contract\<close>

type_synonym slotName = "string \<times> int64 \<times> string"

definition name_gen :: "slotName \<Rightarrow> int64" where
  "name_gen n = fst (snd n)"

definition activeName :: "hostState \<Rightarrow> slotName" where
  "activeName st = (wasmDigest st, activeGeneration st, activeFunction st)"

definition stagedName :: "hostState \<Rightarrow> slotName option" where
  "stagedName st = map_option (\<lambda>r. (C_Digest r, C_Generation r, C_Function r)) (stagedRelease st)"

definition hostOffer :: "(bytes \<Rightarrow> string) \<Rightarrow> ('input, 'output) wasmtime \<Rightarrow> uploadFaults \<times> uploadRequest
    \<Rightarrow> hostState \<Rightarrow> bool \<times> hostState" where
  "hostOffer sha wasm q st =
    (case handleWasmUpload sha wasm (fst q) (snd q) st of
       (u, st') \<Rightarrow> ((case u of Answered (UploadAnswer s g f d) \<Rightarrow> True | _ \<Rightarrow> False), st'))"

definition offered :: "(bytes \<Rightarrow> string) \<Rightarrow> uploadFaults \<times> uploadRequest \<Rightarrow> slotName" where
  "offered sha q = (sha (Body (snd q)), the (parse_int64 (trimSpace (GenerationHeader (snd q)))),
     trimSpace (FunctionHeader (snd q)))"

definition hostSwitch :: "activateFaults \<Rightarrow> int64 \<Rightarrow> hostState \<Rightarrow> bool \<times> hostState" where
  "hostSwitch io g st = (case activateStagedRelease io g st of (e, st') \<Rightarrow> (e = None, st'))"

lemma names_memory:
  "memory st = memory st' \<Longrightarrow> activeName st = activeName st' \<and> stagedName st = stagedName st'"
  using memory_cong [of st st'] by (simp add: activeName_def stagedName_def)

lemma offer_slots:
  assumes "hostOffer sha wasm q st = (ok, st')"
  shows "activeName st' = activeName st" "ok \<Longrightarrow> activeName st' = offered sha q \<or> stagedName st' = Some (offered sha q)"
proof -
  obtain io r where q: "q = (io, r)" by (cases q)
  obtain u where run: "handleWasmUpload sha wasm io r st = (u, st')"
    using assms by (auto simp: hostOffer_def q split: prod.splits)
  have "activeName st' = activeName st \<and> (ok \<longrightarrow> activeName st' = offered sha q \<or> stagedName st' = Some (offered sha q))"
    using run
  proof (cases rule: upload_alone)
    case (refused a)
    have "activeName st = offered sha q \<or> stagedName st = Some (offered sha q)" if "a = UploadAnswer s g f d" for s g f d
      using refused(4) [OF that] by (auto simp: names_slot_def activeName_def stagedName_def offered_def q)
    then have "ok \<longrightarrow> activeName st = offered sha q \<or> stagedName st = Some (offered sha q)"
      using assms run refused(1) by (auto simp: hostOffer_def q split: response.splits)
    then show ?thesis using names_memory [OF refused(2)] by simp
  next
    case (staged g f)
    then show ?thesis by (simp add: activeName_def stagedName_def offered_def q)
  qed
  then show "activeName st' = activeName st" "ok \<Longrightarrow> activeName st' = offered sha q \<or> stagedName st' = Some (offered sha q)"
    by blast+
qed

lemma switch_slots:
  assumes "hostSwitch io g st = (ok, st')"
  shows "ok \<Longrightarrow> name_gen (activeName st') = g \<and> (activeName st' = activeName st \<or> stagedName st = Some (activeName st'))"
    "\<not> ok \<Longrightarrow> activeName st' = activeName st"
proof -
  obtain e where run: "activateStagedRelease io g st = (e, st')" and ok: "ok \<longleftrightarrow> e = None"
    using assms by (auto simp: hostSwitch_def split: prod.splits)
  have "(ok \<longrightarrow> name_gen (activeName st') = g \<and> (activeName st' = activeName st \<or> stagedName st = Some (activeName st'))) \<and>
      (\<not> ok \<longrightarrow> activeName st' = activeName st)"
    using run
  proof (cases rule: activate_cases)
    case kept
    then show ?thesis using names_memory [OF kept(1)] ok by (auto simp: activeName_def name_gen_def)
  next
    case (activated r)
    let ?new = "st\<lparr>hostModule := C_Module r, wasmDigest := C_Digest r,
         activeGeneration := g, activeFunction := C_Function r, stagedRelease := None\<rparr>"
    have "memory st' = memory ?new" using activated(5) by (simp add: memory_def)
    then have "activeName st' = (C_Digest r, g, C_Function r)"
      using names_memory [of st' ?new] by (simp add: activeName_def)
    then show ?thesis using activated ok by (simp add: name_gen_def stagedName_def)
  qed
  then show "ok \<Longrightarrow> name_gen (activeName st') = g \<and> (activeName st' = activeName st \<or> stagedName st = Some (activeName st'))"
    "\<not> ok \<Longrightarrow> activeName st' = activeName st" by blast+
qed

interpretation host: release_slots "slots_ok sha" activeName stagedName name_gen "hostOffer sha wasm" "offered sha"
  "hostSwitch io" for sha wasm io
proof
  show "name_gen (activeName s) < name_gen r" if "slots_ok sha s" "stagedName s = Some r" for s r
    using that by (auto simp: slots_ok_def stagedName_def activeName_def name_gen_def)
  show "slots_ok sha (snd (hostOffer sha wasm q s))" if "slots_ok sha s" for q s
    using hostStep_ok [OF that, of wasm "Upload (fst q) (snd q)"]
    by (cases "handleWasmUpload sha wasm (fst q) (snd q) s") (simp add: hostOffer_def)
  show "slots_ok sha (snd (hostSwitch io g s))" if "slots_ok sha s" for g s
    using hostStep_ok [OF that, of wasm "Activate io g"]
    by (cases "activateStagedRelease io g s") (simp add: hostSwitch_def)
  show "activeName (snd (hostOffer sha wasm q s)) = activeName s" for q s
    by (rule offer_slots(1) [of sha wasm q s "fst (hostOffer sha wasm q s)"]) simp
  show "activeName s' = offered sha q \<or> stagedName s' = Some (offered sha q)"
    if "hostOffer sha wasm q s = (True, s')" for q s s'
    using offer_slots(2) [OF that] by simp
  show "name_gen (activeName s') = g \<and> (activeName s' = activeName s \<or> stagedName s = Some (activeName s'))"
    if "hostSwitch io g s = (True, s')" for g s s'
    using switch_slots(1) [OF that] by simp
  show "activeName s' = activeName s" if "hostSwitch io g s = (False, s')" for g s s'
    using switch_slots(2) [OF that] by simp
qed

text \<open>An accepted upload and an accepted activation deliver the release.  Whatever file operations
  fail, if the host answers an upload with success and then the activation of its generation, the
  active digest, generation and function are those of the upload.\<close>

theorem accepted_release_is_delivered:
  assumes "slots_ok sha st" "handleWasmUpload sha wasm io r st = (Answered (UploadAnswer s g f d), st1)"
    and "activateStagedRelease io' (the (parse_int64 (trimSpace (GenerationHeader r)))) st1 = (None, st2)"
  shows "wasmDigest st2 = sha (Body r) \<and> Some (activeGeneration st2) = parse_int64 (trimSpace (GenerationHeader r)) \<and>
    activeFunction st2 = trimSpace (FunctionHeader r)"
proof -
  have "hostOffer sha wasm (io, r) st = (True, st1)"
    using assms(2) by (simp add: hostOffer_def)
  moreover have "hostSwitch io' (name_gen (offered sha (io, r))) st1 = (True, st2)"
    using assms(3) by (simp add: hostSwitch_def offered_def name_gen_def)
  ultimately have "activeName st2 = offered sha (io, r)"
    using host.delivered [OF assms(1)] by blast
  moreover have "parse_int64 (trimSpace (GenerationHeader r)) \<noteq> None"
    using assms(2) by (cases rule: upload_alone) auto
  ultimately show ?thesis by (auto simp: activeName_def offered_def)
qed

definition servingHost :: hostState where
  "servingHost = freshHost\<lparr>wasmDigest := hex64 ''m0''\<rparr>"

lemma servingHost_ok: "slots_ok hex64 servingHost"
  by (simp add: slots_ok_def servingHost_def freshHost_def)

theorem accepted_release_is_delivered_witness:
  "\<exists>st1 st2. handleWasmUpload hex64 toyWasm noUploadFaults (newUpload ''m1'' ''6'') servingHost =
       (Answered (UploadAnswer ''staged'' 6 ''f'' (hex64 ''m1'')), st1) \<and>
     activateStagedRelease noActivateFaults 6 st1 = (None, st2) \<and> wasmDigest st2 = hex64 ''m1''"
proof -
  have f: "trimSpace ''f'' = ''f''"
    by (rule trimSpace_plain) (simp add: plain_char_def)
  have acc: "acceptable_upload hex64 toyWasm (newUpload ''m1'' ''6'') 6"
    by (rule newUpload_acceptable) simp_all
  obtain st1 where up: "handleWasmUpload hex64 toyWasm noUploadFaults (newUpload ''m1'' ''6'') servingHost =
       (Answered (UploadAnswer ''staged'' 6 ''f'' (hex64 ''m1'')), st1)"
    and st1: "stagedRelease st1 = Some \<lparr>C_Module = ''m1'', C_Digest = hex64 ''m1'', C_Generation = 6,
      C_Function = ''f'', C_Path = stagedPath servingHost\<rparr>" "activeGeneration st1 = 5"
      "files st1 (stagedPath servingHost) = Some ''m1''" "files st1 ''/w'' = Some ''m0''" "wasmPath st1 = ''/w''"
    using upload_accepted [OF acc, of servingHost]
    by (simp add: newUpload_def servingHost_def freshHost_def f stagedPath_def tmpPath_def)
  obtain st2 where act: "activateStagedRelease noActivateFaults 6 st1 = (None, st2)"
    by (rule activate_accepted [OF st1(1), of 6])
      (use st1 in \<open>simp_all add: stagedPath_def backupPath_def servingHost_def freshHost_def\<close>)
  have "parse_int64 (trimSpace (GenerationHeader (newUpload ''m1'' ''6''))) = Some 6"
    using acc by (simp add: acceptable_upload_def)
  then show ?thesis
    using accepted_release_is_delivered [OF servingHost_ok up, of noActivateFaults st2] up act
    by (simp add: newUpload_def)
qed

section \<open>The host over HTTP\<close>

text \<open>
  The routes of the host's \<open>main\<close> that the operator uses, and the HTTP environment they make: the
  state of the host is what the requests so far have made of it, every other address is answered by
  \<open>source\<close>.
\<close>

definition httpAnswer :: "response \<Rightarrow> httpResponse" where
  "httpAnswer r =
    (case r of
       HttpError c e \<Rightarrow> \<lparr>HCode = int c, HStatusText = fmt_d (int c), HDigest = [], HETag = [], HBody = Inr e,
         HStatusJSON = Inl ''not a release status''\<rparr>
     | StatusAnswer g d f st \<Rightarrow> \<lparr>HCode = 200, HStatusText = ''200 OK'', HDigest = [], HETag = [], HBody = Inr [],
         HStatusJSON = Inr \<lparr>ActiveGeneration = g, ActiveDigest = d, ActiveFunction = f,
           StagedGeneration = (case st of None \<Rightarrow> 0 | Some (g', d', f') \<Rightarrow> g'),
           StagedDigest = (case st of None \<Rightarrow> [] | Some (g', d', f') \<Rightarrow> d'),
           StagedFunction = (case st of None \<Rightarrow> [] | Some (g', d', f') \<Rightarrow> f')\<rparr>\<rparr>
     | _ \<Rightarrow> \<lparr>HCode = 200, HStatusText = ''200 OK'', HDigest = [], HETag = [], HBody = Inr [],
         HStatusJSON = Inl ''not a release status''\<rparr>)"

definition hostAnswer :: "(bytes \<Rightarrow> string) \<Rightarrow> ('input, 'output) wasmtime \<Rightarrow> uploadFaults \<Rightarrow> activateFaults
    \<Rightarrow> httpRequest \<Rightarrow> hostState \<Rightarrow> httpResponse \<times> hostState" where
  "hostAnswer sha wasm io ioa r st =
    (if Method r = ''PUT'' then
       (case handleWasmUpload sha wasm io \<lparr>GenerationHeader = ReqGeneration r, FunctionHeader = ReqFunction r,
            DigestHeader = ReqDigest r, Body = ReqBody r\<rparr> st of
          (u, st') \<Rightarrow> (case u of Answered a \<Rightarrow> httpAnswer a | _ \<Rightarrow> httpAnswer (HttpError 500 []), st'))
     else case handleRelease ioa (Method r) (ReqActivate r) st of (a, st') \<Rightarrow> (httpAnswer a, st'))"

definition toHost :: "string \<Rightarrow> httpRequest \<Rightarrow> bool" where
  "toHost url r \<longleftrightarrow> URL r = url \<and> Method r = ''PUT'' \<or> URL r = releaseURL url \<and> Method r \<noteq> ''PUT''"

definition hostAfter :: "(bytes \<Rightarrow> string) \<Rightarrow> ('input, 'output) wasmtime \<Rightarrow> uploadFaults \<Rightarrow> activateFaults \<Rightarrow> string
    \<Rightarrow> hostState \<Rightarrow> httpRequest list \<Rightarrow> hostState" where
  "hostAfter sha wasm io ioa url st h =
     fold (\<lambda>r s. if toHost url r then snd (hostAnswer sha wasm io ioa r s) else s) h st"

definition hostWeb :: "(bytes \<Rightarrow> string) \<Rightarrow> ('input, 'output) wasmtime \<Rightarrow> uploadFaults \<Rightarrow> activateFaults \<Rightarrow> string
    \<Rightarrow> hostState \<Rightarrow> webEnv \<Rightarrow> webEnv" where
  "hostWeb sha wasm io ioa url st source h r =
    (if toHost url r then Inr (fst (hostAnswer sha wasm io ioa r (hostAfter sha wasm io ioa url st h)))
     else source h r)"

text \<open>An upload is answered by an error status or by the release it is about.\<close>

definition upload_answer :: "response \<Rightarrow> bool" where
  "upload_answer a \<longleftrightarrow> (case a of HttpError c e \<Rightarrow> 400 \<le> c | UploadAnswer s g f d \<Rightarrow> True | _ \<Rightarrow> False)"

lemma upload_answers:
  assumes "handleWasmUpload sha wasm io r st = (Answered a, st')"
  shows "upload_answer a"
proof -
  have store: "upload_answer a" if "storeUpload sha io r' s = (Answered a, s')" for r' s s'
    using that by (auto simp: storeUpload_def upload_answer_def Let_def split: option.splits if_splits)
  have compile: "upload_answer a" if "compileUpload wasm g f d s = (Answered a, s')" for g f d s s'
    using that by (auto simp: compileUpload_def upload_answer_def split: option.splits)
  have check: "upload_answer a" if "checkUpload g f d m s = (Answered a, s')" for g f d m s s'
    using that by (auto simp: checkUpload_def upload_answer_def Let_def split: option.splits if_splits)
  have ren: "upload_answer a" if "renameUpload io g f d m s = (Answered a, s')" for g f d m s s'
    using that by (auto simp: renameUpload_def upload_answer_def Let_def split: if_splits)
  have commit: "upload_answer a" if "commitUpload g f d m s = (Answered a, s')" for g f d m s s'
    using that by (auto simp: commitUpload_def upload_answer_def)
  have step: "(\<exists>s. v = (Answered a, s)) \<or> upload_answer a" if "uploadStep sha wasm io v = (Answered a, s')" for v s'
    using that
    by (cases "(sha, wasm, io, v)" rule: uploadStep.cases) (auto dest: store compile check ren commit)
  obtain v where v: "storeUpload sha io r st = v" by blast
  from assms show ?thesis
    unfolding handleWasmUpload_unfold v using step store [of r st] v by metis
qed

lemma hostAnswer_probe: "Method r = ''GET'' \<Longrightarrow> snd (hostAnswer sha wasm io ioa r st) = st"
  by (simp add: hostAnswer_def handleRelease_def)

lemma hostAfter_probes:
  assumes "list_all (probe w url) rs" "operatorArtifactURL w \<noteq> releaseURL url"
  shows "hostAfter sha wasm io ioa url st (rs @ h) = hostAfter sha wasm io ioa url st h"
  using assms(1)
proof (induction rs)
  case (Cons r rs)
  have "(if toHost url r then snd (hostAnswer sha wasm io ioa r st) else st) = st"
    using Cons.prems assms(2) by (auto simp: probe_def toHost_def plainRequest_def hostAnswer_probe)
  then show ?case using Cons by (simp add: hostAfter_def)
qed simp

text \<open>The slot that holds the declared release.\<close>

definition holds_release :: "hostState \<Rightarrow> wasmFunction \<Rightarrow> bool" where
  "holds_release st w \<longleftrightarrow> hostReleaseMatches (wasmDigest st) (activeGeneration st) (activeFunction st) w \<or>
     (\<exists>r. stagedRelease st = Some r \<and> hostReleaseMatches (C_Digest r) (C_Generation r) (C_Function r) w)"

lemma holds_named:
  assumes "activeName st = n \<or> stagedName st = Some n"
    and "n = (declaredDigest w, R_Generation (release w), trimSpace (FunctionIdentity (release w)))"
  shows "holds_release st w"
  using assms by (auto simp: holds_release_def activeName_def stagedName_def hostReleaseMatches_def declaredDigest_def)

lemma hostAnswer_ok:
  assumes "slots_ok sha st"
  shows "slots_ok sha (snd (hostAnswer sha wasm io ioa r st))"
proof (cases "Method r = ''PUT''")
  case True
  let ?r = "\<lparr>GenerationHeader = ReqGeneration r, FunctionHeader = ReqFunction r, DigestHeader = ReqDigest r, Body = ReqBody r\<rparr>"
  show ?thesis
    using True hostStep_ok [OF assms, of wasm "Upload io ?r"]
    by (cases "handleWasmUpload sha wasm io ?r st") (simp add: hostAnswer_def)
next
  case False
  have "slots_ok sha (snd (activateStagedRelease ioa g st))" for g
    using hostStep_ok [OF assms, of wasm "Activate ioa g"] by (cases "activateStagedRelease ioa g st") simp
  then show ?thesis
    using False assms by (auto simp: hostAnswer_def handleRelease_def split: prod.splits option.splits) (metis snd_conv)+
qed

lemma hostAfter_ok: "slots_ok sha st \<Longrightarrow> slots_ok sha (hostAfter sha wasm io ioa url st h)"
  unfolding hostAfter_def by (induction h arbitrary: st) (simp_all add: hostAnswer_ok)

text \<open>What the operator's view of the host, after a synchronisation, says of the host itself.\<close>

definition host_serves :: "hostState \<Rightarrow> wasmFunction \<Rightarrow> bool" where
  "host_serves st w \<longleftrightarrow> hostReleaseMatches (wasmDigest st) (activeGeneration st) (activeFunction st) w"

lemma synced_slots:
  assumes "slots_ok sha st" "operatorArtifactURL w \<noteq> []" "in_int64 (R_Generation (release w))"
    and "operatorArtifactURL w \<noteq> releaseURL (hostWasmURL resolver w)"
    and "reconcileArtifact sha (hostWeb sha wasm io ioa (hostWasmURL resolver w) st source) resolver w [] = ((a, err), h)"
    and "err = None \<or> 0 < R_Generation (release w) \<and> DesiredDigest a \<noteq> []"
  shows "(hostActiveMatches a w \<longrightarrow> host_serves (hostAfter sha wasm io ioa (hostWasmURL resolver w) st h) w) \<and>
    (hostStagedMatches a w \<longrightarrow> holds_release (hostAfter sha wasm io ioa (hostWasmURL resolver w) st h) w) \<and>
    (err = None \<longrightarrow> hostActiveMatches a w \<or> hostStagedMatches a w)"
  using assms(5,2)
proof (cases rule: reconcile_cases)
  case (probed rs resp status a2)
  let ?url = "hostWasmURL resolver w" and ?src = "plainRequest ''GET'' (operatorArtifactURL w)"
  let ?get = "plainRequest ''GET'' (releaseURL ?url)"
  let ?after = "hostAfter sha wasm io ioa ?url st"
  have probes: "list_all (probe w ?url) (rs @ [?get])" "list_all (probe w ?url) (rs @ [?get, ?src])"
    using probed(2) by (simp_all add: probe_def)
  have quiet: "?after rs = st" "?after (rs @ [?get]) = st" "?after (rs @ [?get, ?src]) = st"
    using hostAfter_probes [OF probed(2) assms(4), of sha wasm io ioa st "[]"]
      hostAfter_probes [OF probes(1) assms(4), of sha wasm io ioa st "[]"]
      hostAfter_probes [OF probes(2) assms(4), of sha wasm io ioa st "[]"] by (simp_all add: hostAfter_def)
  have "resp = httpAnswer (releaseStatus st)"
    using probed(3) by (simp add: hostWeb_def toHost_def quiet hostAnswer_def handleRelease_def plainRequest_def)
  then have status: "ActiveDigest status = wasmDigest st" "ActiveGeneration status = activeGeneration st"
    "ActiveFunction status = activeFunction st"
    "stagedRelease st = None \<Longrightarrow> StagedDigest status = []"
    "stagedRelease st = Some r \<Longrightarrow> StagedDigest status = C_Digest r \<and> StagedGeneration status = C_Generation r \<and>
       StagedFunction status = C_Function r" for r
    using probed(4) by (auto simp: httpAnswer_def releaseStatus_def)
  show ?thesis
  proof (cases "hostActiveMatches a2 w \<or> hostStagedMatches a2 w")
    case True
    have "hostStagedMatches a2 w \<Longrightarrow> stagedRelease st \<noteq> None"
      using probed(5,11) status(4)
      by (cases "stagedRelease st") (auto simp: hostReleaseMatches_def declaredDigest_def)
    then have "hostStagedMatches a2 w \<Longrightarrow> holds_release st w" "hostActiveMatches a2 w \<Longrightarrow> host_serves st w"
      using probed(10,11) status by (auto simp: holds_release_def host_serves_def)
    then show ?thesis using probed(12) True quiet by simp
  next
    case False
    then have "stageOnHost sha (hostWeb sha wasm io ioa ?url st source) w a2 (rs @ [?get]) = ((a, err), h)"
      using probed(12) by simp
    then show ?thesis using probed(8)
    proof (cases rule: stageOnHost_cases)
      case (staged m resp')
      let ?put = "putRequest ?url m w"
      let ?r = "\<lparr>GenerationHeader = fmt_d (R_Generation (release w)), FunctionHeader = FunctionIdentity (release w),
        DigestHeader = R_ArtifactDigest (release w), Body = m\<rparr>"
      obtain u st' where up: "handleWasmUpload sha wasm io ?r st = (u, st')"
        by (cases "handleWasmUpload sha wasm io ?r st")
      have ans: "hostAnswer sha wasm io ioa ?put st = (case u of Answered x \<Rightarrow> httpAnswer x | _ \<Rightarrow> httpAnswer (HttpError 500 []), st')"
        using up by (simp add: hostAnswer_def putRequest_def plainRequest_def)
      have host: "toHost ?url ?put" by (simp add: toHost_def putRequest_def plainRequest_def)
      have after: "?after h = st'"
        using quiet(3) host ans by (simp add: staged(3) probed(9) hostAfter_def)
      have resp': "resp' = fst (hostAnswer sha wasm io ioa ?put st)"
        using staged(4) host quiet(3) by (simp add: probed(9) hostWeb_def)
      obtain x where x: "u = Answered x" using up by (cases rule: upload_alone) auto
      have "upload_answer x" using upload_answers up x by blast
      then have "\<exists>s g f d. x = UploadAnswer s g f d"
        using x staged(5) resp' ans
        by (cases x) (auto simp: upload_answer_def success_def httpAnswer_def)
      then have offer: "hostOffer sha wasm (io, ?r) st = (True, st')"
        using up x by (auto simp: hostOffer_def)
      have "offered sha (io, ?r) = (declaredDigest w, R_Generation (release w), trimSpace (FunctionIdentity (release w)))"
        using parse_int64_fmt_d [OF assms(3)] trimSpace_plain [OF fmt_d_plain]
        by (simp add: offered_def staged(2) probed(6))
      then have "holds_release st' w"
        using offer_slots(2) [OF offer] by (intro holds_named) simp_all
      then show ?thesis
        using False staged(6) matches_declared [of w] by (simp add: after probed(6) hostActiveMatches_def hostStagedMatches_def)
    qed (use False in simp)
  qed
next
  case early
  then show ?thesis using assms(6) by simp
next
  case unprobed
  then show ?thesis using assms(6) by (simp add: hostActiveMatches_def hostStagedMatches_def hostReleaseMatches_def)
qed

text \<open>C3: A successful synchronisation leaves the declared release on the host.  Operator and host
  together, against any source and with any failing file operation: if the synchronisation of an
  enabled resource reports no error, one of the host's slots holds the declared digest, generation and
  function, and the digests of its slots are still those of its modules.\<close>

theorem synchronised_host_holds_release:
  assumes "slots_ok sha st" "operatorArtifactURL w \<noteq> []" "in_int64 (R_Generation (release w))"
    and "operatorArtifactURL w \<noteq> releaseURL (hostWasmURL resolver w)"
    and "reconcileArtifact sha (hostWeb sha wasm io ioa (hostWasmURL resolver w) st source) resolver w [] = ((a, None), h)"
  shows "slots_ok sha (hostAfter sha wasm io ioa (hostWasmURL resolver w) st h) \<and>
    holds_release (hostAfter sha wasm io ioa (hostWasmURL resolver w) st h) w"
proof -
  let ?after = "hostAfter sha wasm io ioa (hostWasmURL resolver w) st h"
  have "host_serves ?after w \<or> holds_release ?after w" using synced_slots [OF assms] by blast
  then have "holds_release ?after w" by (auto simp: host_serves_def holds_release_def)
  then show ?thesis using hostAfter_ok [OF assms(1)] by blast
qed

theorem synchronised_host_holds_release_witness:
  "\<exists>h. holds_release (hostAfter hex64 toyWasm noUploadFaults noActivateFaults ''http://h/wasm'' servingHost h) syncedFunction"
proof -
  let ?resolver = "Some (\<lambda>_. ''http://h/wasm'')"
  let ?web = "hostWeb hex64 toyWasm noUploadFaults noActivateFaults ''http://h/wasm'' servingHost vouching"
  have url: "hostWasmURL ?resolver syncedFunction = ''http://h/wasm''" "releaseURL ''http://h/wasm'' = ''http://h/release''"
    by (simp_all add: hostWasmURL_def releaseURL_def trimSuffix_def suffix_def)
  have head: "?web [] (plainRequest ''HEAD'' ''http://s/a'') = vouching [] (plainRequest ''HEAD'' ''http://s/a'')"
    by (simp add: hostWeb_def toHost_def plainRequest_def url)
  have get: "?web [plainRequest ''HEAD'' ''http://s/a''] (plainRequest ''GET'' ''http://h/release'') =
    Inr (httpAnswer (releaseStatus servingHost))"
    by (simp add: hostWeb_def toHost_def plainRequest_def url hostAnswer_def handleRelease_def hostAfter_def)
  have status: "HCode (httpAnswer (releaseStatus servingHost)) = 200"
    "HStatusJSON (httpAnswer (releaseStatus servingHost)) = Inr statusAnswer"
    by (simp_all add: httpAnswer_def releaseStatus_def servingHost_def freshHost_def statusAnswer_def)
  obtain a h where "reconcileArtifact hex64 ?web ?resolver syncedFunction [] = ((a, None), h)"
    using synced_run [of ?web "[]" _ ?resolver "httpAnswer (releaseStatus servingHost)" hex64]
    using head get status url by (auto simp: vouching_def)
  then show ?thesis
    using synchronised_host_holds_release [OF servingHost_ok, of syncedFunction ?resolver toyWasm noUploadFaults
        noActivateFaults vouching a h]
    by (auto simp: url in_int64_def)
qed

end
