(* ===== verification/Cluster.thy ===== *)
theory Cluster
  imports Telemetry Artifact_Sync
begin

text \<open>
  The Kubernetes objects of a \<open>WasmFunction\<close> (\<open>desiredDeployment\<close>, \<open>desiredService\<close>) and the operations
  that bring the cluster to them (\<open>ensureDeployment\<close>, \<open>ensureService\<close>) of \<open>wasmfunction_controller.go\<close>.

  The API client is a parameter: it answers the \<open>n\<close>-th call, and every write is logged with its answer.
\<close>

section \<open>Objects\<close>

text \<open>
  The fields the program sets.  \<open>T_Others\<close> and \<open>SP_Others\<close> stand for the fields of the Kubernetes types it
  leaves at their zero value, by name; they are empty when all of them are zero.
\<close>

type_synonym labels = "string \<Rightarrow> string option"

record healthProbe =
  ProbePath :: string
  ProbePort :: int32
  InitialDelaySeconds :: int32
  PeriodSeconds :: int32

record container =
  Co_Name :: string
  Co_Image :: string
  ContainerPort :: int32
  Co_Env :: "envVar list"
  Requests :: "string \<Rightarrow> string option"
  Limits :: "string \<Rightarrow> string option"
  LivenessProbe :: "healthProbe option"
  ReadinessProbe :: "healthProbe option"

record podTemplate =
  T_Labels :: labels
  Containers :: "container list"
  T_Others :: "(string \<times> string) list"

record deploymentSpec =
  Dp_Replicas :: "int32 option"
  Dp_Selector :: labels
  Dp_Template :: podTemplate

record deployment =
  Dp_Key :: namespacedName
  Dp_Labels :: labels
  Dp_Owner :: "string option"
  Dp_Spec :: deploymentSpec
  Dp_Available :: int32

record servicePort =
  SP_Port :: int32
  SP_TargetPort :: int32
  SP_Protocol :: string
  SP_NodePort :: int32

record serviceSpec =
  Sv_Type :: string
  Sv_Selector :: labels
  Sv_Ports :: "servicePort list"
  SP_Others :: "(string \<times> string) list"

record service =
  Sv_Key :: namespacedName
  Sv_Labels :: labels
  Sv_Owner :: "string option"
  Sv_Spec :: serviceSpec

section \<open>The desired objects\<close>

definition defaultEdgeHostImage :: string where
  "defaultEdgeHostImage = ''localhost:30500/sif-edge-host:latest''"

definition effectiveImage :: "wasmFunction \<Rightarrow> string" where
  "effectiveImage w = (if trimSpace (Image (Spec w)) \<noteq> [] then Image (Spec w) else defaultEdgeHostImage)"

definition hostLabels :: "wasmFunction \<Rightarrow> labels" where
  "hostLabels w = [''app.kubernetes.io/name'' \<mapsto> ''sif-edge-host'', ''app.kubernetes.io/instance'' \<mapsto> M_Name w,
     ''app.kubernetes.io/managed-by'' \<mapsto> ''sif-operator'']"

definition desiredReplicas :: "wasmFunction \<Rightarrow> int32" where
  "desiredReplicas w = (case Replicas (Spec w) of Some n \<Rightarrow> n | None \<Rightarrow> 1)"

definition desiredWasmPath :: "wasmFunction \<Rightarrow> string" where
  "desiredWasmPath w = (if WasmPath (Spec w) \<noteq> [] then WasmPath (Spec w) else ''/app/dht_reader.wasm'')"

definition desiredEnv :: "wasmFunction \<Rightarrow> envVar list" where
  "desiredEnv w =
     [\<lparr>EV_Name = ''WASM_PATH'', EV_Value = desiredWasmPath w\<rparr>, \<lparr>EV_Name = ''PORT'', EV_Value = fmt_d (effectivePort w)\<rparr>]
     @ map (\<lambda>e. \<lparr>EV_Name = EV_Name e, EV_Value = EV_Value e\<rparr>) (Env (Spec w))"

definition desiredContainer :: "wasmFunction \<Rightarrow> container" where
  "desiredContainer w =
    \<lparr>Co_Name = ''wasm-host'', Co_Image = effectiveImage w, ContainerPort = effectivePort w, Co_Env = desiredEnv w,
     Requests = [''memory'' \<mapsto> ''64Mi'', ''cpu'' \<mapsto> ''50m''], Limits = [''memory'' \<mapsto> ''128Mi'', ''cpu'' \<mapsto> ''200m''],
     LivenessProbe = Some \<lparr>ProbePath = ''/health'', ProbePort = effectivePort w, InitialDelaySeconds = 5, PeriodSeconds = 10\<rparr>,
     ReadinessProbe = Some \<lparr>ProbePath = ''/health'', ProbePort = effectivePort w, InitialDelaySeconds = 3, PeriodSeconds = 5\<rparr>\<rparr>"

definition desiredDeployment :: "wasmFunction \<Rightarrow> deployment" where
  "desiredDeployment w =
    \<lparr>Dp_Key = key_of w, Dp_Labels = hostLabels w, Dp_Owner = None,
     Dp_Spec = \<lparr>Dp_Replicas = Some (desiredReplicas w), Dp_Selector = hostLabels w,
       Dp_Template = \<lparr>T_Labels = hostLabels w, Containers = [desiredContainer w], T_Others = []\<rparr>\<rparr>,
     Dp_Available = 0\<rparr>"

definition desiredService :: "wasmFunction \<Rightarrow> service" where
  "desiredService w =
    \<lparr>Sv_Key = key_of w, Sv_Labels = hostLabels w, Sv_Owner = None,
     Sv_Spec = \<lparr>Sv_Type = ''NodePort'', Sv_Selector = hostLabels w,
       Sv_Ports = [\<lparr>SP_Port = effectivePort w, SP_TargetPort = effectivePort w, SP_Protocol = ''TCP'', SP_NodePort = 0\<rparr>],
       SP_Others = []\<rparr>\<rparr>"

definition deploymentNeedsUpdate :: "deployment \<Rightarrow> deployment \<Rightarrow> bool" where
  "deploymentNeedsUpdate found desired \<longleftrightarrow>
     \<not> Dp_Template (Dp_Spec found) = Dp_Template (Dp_Spec desired) \<or>
     \<not> Dp_Replicas (Dp_Spec found) = Dp_Replicas (Dp_Spec desired)"

definition serviceNeedsUpdate :: "service \<Rightarrow> service \<Rightarrow> bool" where
  "serviceNeedsUpdate found desired \<longleftrightarrow>
     \<not> Sv_Ports (Sv_Spec found) = Sv_Ports (Sv_Spec desired) \<or>
     \<not> Sv_Selector (Sv_Spec found) = Sv_Selector (Sv_Spec desired)"

section \<open>The API client\<close>

datatype apiWrite =
    CreateDeployment deployment
  | UpdateDeployment deployment
  | CreateService service
  | UpdateService service
  | UpdateStatus wasmFunction

text \<open>
  The answers of \<open>client.Client\<close> to the \<open>n\<close>-th call, the owner reference that
  \<open>ctrl.SetControllerReference\<close> computes, and the condition helpers of \<open>k8s.io/apimachinery/pkg/api/meta\<close>.
\<close>

record apiServer =
  GetFunction :: "nat \<Rightarrow> namespacedName \<Rightarrow> apiError + wasmFunction"
  GetDeployment :: "nat \<Rightarrow> namespacedName \<Rightarrow> apiError + deployment"
  GetService :: "nat \<Rightarrow> namespacedName \<Rightarrow> apiError + service"
  WriteError :: "nat \<Rightarrow> apiWrite \<Rightarrow> apiError option"
  OwnerRef :: "wasmFunction \<Rightarrow> apiError + string"
  SetStatusCondition :: "condition list \<Rightarrow> condition \<Rightarrow> condition list"
  RemoveStatusCondition :: "condition list \<Rightarrow> string \<Rightarrow> condition list"

record apiTrace =
  ApiCalls :: nat
  Writes :: "(apiWrite \<times> apiError option) list"

definition apiGet :: "(nat \<Rightarrow> namespacedName \<Rightarrow> apiError + 'a) \<Rightarrow> namespacedName \<Rightarrow> apiTrace \<Rightarrow> (apiError + 'a) \<times> apiTrace" where
  "apiGet get key t = (get (ApiCalls t) key, t\<lparr>ApiCalls := ApiCalls t + 1\<rparr>)"

definition sendWrite :: "apiServer \<Rightarrow> apiWrite \<Rightarrow> apiTrace \<Rightarrow> apiError option \<times> apiTrace" where
  "sendWrite api x t =
    (let answer = WriteError api (ApiCalls t) x
     in (answer, t\<lparr>ApiCalls := ApiCalls t + 1, Writes := Writes t @ [(x, answer)]\<rparr>))"

text \<open>\<open>retry.RetryOnConflict\<close> with the number of attempts left.\<close>

fun retryOnConflict :: "nat \<Rightarrow> ('s \<Rightarrow> apiError option \<times> 's) \<Rightarrow> 's \<Rightarrow> apiError option \<times> 's" where
  "retryOnConflict 0 f s = (Some Conflict, s)"
| "retryOnConflict (Suc n) f s =
    (case f s of
       (Some Conflict, s') \<Rightarrow> retryOnConflict n f s'
     | (answer, s') \<Rightarrow> (answer, s'))"

lemma retryOnConflict_Suc:
  "retryOnConflict (Suc n) f s = (if fst (f s) = Some Conflict then retryOnConflict n f (snd (f s)) else f s)"
  by (cases "f s") (auto split: option.split apiError.split)

declare retryOnConflict.simps(2) [simp del]

lemma retry_default:
  "retryOnConflict defaultRetrySteps f s = (if fst (f s) = Some Conflict then retryOnConflict 4 f (snd (f s)) else f s)"
proof -
  have steps: "defaultRetrySteps = Suc 4" by (simp add: defaultRetrySteps_def)
  show ?thesis unfolding steps by (rule retryOnConflict_Suc)
qed

section \<open>Bringing the cluster to the desired objects\<close>

definition rewriteDeployment :: "apiServer \<Rightarrow> deployment \<Rightarrow> apiTrace \<Rightarrow> apiError option \<times> apiTrace" where
  "rewriteDeployment api deploy t =
    (case apiGet (GetDeployment api) (Dp_Key deploy) t of
       (Inl e, t1) \<Rightarrow> (Some e, t1)
     | (Inr found, t1) \<Rightarrow> sendWrite api (UpdateDeployment (found\<lparr>Dp_Spec := Dp_Spec deploy\<rparr>)) t1)"

definition ensureDeployment :: "apiServer \<Rightarrow> wasmFunction \<Rightarrow> apiTrace \<Rightarrow> (apiError + deployment) \<times> apiTrace" where
  "ensureDeployment api w t =
    (case OwnerRef api w of
       Inl e \<Rightarrow> (Inl e, t)
     | Inr owner \<Rightarrow>
         let deploy = (desiredDeployment w)\<lparr>Dp_Owner := Some owner\<rparr>;
             result = (\<lambda>(err, t'). (case err of Some e \<Rightarrow> Inl e | None \<Rightarrow> Inr deploy, t'))
         in case apiGet (GetDeployment api) (Dp_Key deploy) t of
              (Inl NotFound, t1) \<Rightarrow> result (sendWrite api (CreateDeployment deploy) t1)
            | (Inl e, t1) \<Rightarrow> (Inl e, t1)
            | (Inr found, t1) \<Rightarrow>
                if deploymentNeedsUpdate found deploy
                then result (retryOnConflict defaultRetrySteps (rewriteDeployment api deploy) t1)
                else (Inr deploy, t1))"

definition rewriteService :: "apiServer \<Rightarrow> service \<Rightarrow> apiTrace \<Rightarrow> apiError option \<times> apiTrace" where
  "rewriteService api svc t =
    (case apiGet (GetService api) (Sv_Key svc) t of
       (Inl e, t1) \<Rightarrow> (Some e, t1)
     | (Inr found, t1) \<Rightarrow> sendWrite api (UpdateService (found\<lparr>Sv_Spec := Sv_Spec svc\<rparr>)) t1)"

definition ensureService :: "apiServer \<Rightarrow> wasmFunction \<Rightarrow> apiTrace \<Rightarrow> apiError option \<times> apiTrace" where
  "ensureService api w t =
    (case OwnerRef api w of
       Inl e \<Rightarrow> (Some e, t)
     | Inr owner \<Rightarrow>
         let svc = (desiredService w)\<lparr>Sv_Owner := Some owner\<rparr>
         in case apiGet (GetService api) (Sv_Key svc) t of
              (Inl NotFound, t1) \<Rightarrow> sendWrite api (CreateService svc) t1
            | (Inl e, t1) \<Rightarrow> (Some e, t1)
            | (Inr found, t1) \<Rightarrow>
                if serviceNeedsUpdate found svc
                then retryOnConflict defaultRetrySteps (rewriteService api svc) t1
                else (None, t1))"

definition availableReplicasForDeployment :: "apiServer \<Rightarrow> deployment \<Rightarrow> apiTrace \<Rightarrow> int32 \<times> apiTrace" where
  "availableReplicasForDeployment api deploy t =
    (case apiGet (GetDeployment api) (Dp_Key deploy) t of
       (Inr current, t1) \<Rightarrow> (Dp_Available current, t1)
     | (Inl e, t1) \<Rightarrow> (0, t1))"

end
