(* ===== verification/Reconcile.thy ===== *)
theory Reconcile
  imports Cluster Commands
begin

text \<open>
  One pass of the reconciler (\<open>Reconcile\<close> of \<open>wasmfunction_controller.go\<close>): its status write, its retry
  bookkeeping, the requeue decisions, and the composition of all components in the order of the code.
\<close>

section \<open>The status a pass writes\<close>

record reconcileStatusUpdate =
  U_AvailableReplicas :: int32
  U_Endpoint :: string
  U_Decision :: placementDecision
  U_Available :: condition
  U_Artifact :: condition
  U_Placement :: condition

definition availableStatusCondition :: "time \<Rightarrow> condition" where
  "availableStatusCondition now =
    \<lparr>C_Type = ''Available'', C_Status = ConditionTrue, C_Reason = ''Reconciled'',
     C_Message = ''Deployment and Service are reconciled'', C_LastTransitionTime = now\<rparr>"

definition copyBatteryPercent :: "int32 option \<Rightarrow> int32 option" where
  "copyBatteryPercent v = (case v of None \<Rightarrow> None | Some observedBattery \<Rightarrow> Some observedBattery)"

definition copyInt32Ptr :: "int32 option \<Rightarrow> int32 option" where
  "copyInt32Ptr v = (case v of None \<Rightarrow> None | Some x \<Rightarrow> Some x)"

text \<open>
  The assignments of the closure of \<open>updateStatus\<close> to the fields of the status, in their order: \<open>s\<close> is
  the status just read, \<open>own\<close> the one the pass has worked on.
\<close>

definition reconciledFields ::
    "wasmFunctionSpec \<Rightarrow> wasmFunctionStatus \<Rightarrow> reconcileStatusUpdate \<Rightarrow> wasmFunctionStatus \<Rightarrow> wasmFunctionStatus" where
  "reconciledFields spec own u s = s\<lparr>
     AvailableReplicas := U_AvailableReplicas u,
     Endpoint := U_Endpoint u,
     DesiredArtifactDigest := DesiredArtifactDigest own,
     HostArtifactDigest := HostArtifactDigest own,
     HostStagedArtifactDigest := HostStagedArtifactDigest own,
     ArtifactSyncStartedAt := ArtifactSyncStartedAt own,
     ArtifactSyncRetryCount := ArtifactSyncRetryCount own,
     ArtifactReadinessReason := ArtifactReadinessReason own,
     SelectedFunctionIdentity := trimSpace (FunctionIdentity (Release spec)),
     DesiredReleaseGeneration := R_Generation (Release spec),
     DesiredPlacement := Desired (U_Decision u),
     PlacementReason := PD_Reason (U_Decision u),
     ProposalSource := PD_ProposalSource (U_Decision u),
     ProposedPlacement := Candidate (U_Decision u),
     PredictedCandidateCostMs := copyInt32Ptr (CostMs (PD_Deadline (U_Decision u))),
     PredictedCandidateSlackMs := copyInt32Ptr (SlackMs (PD_Deadline (U_Decision u))),
     LastAppliedLowBatteryThreshold := LastAppliedLowBatteryThreshold own,
     LastAppliedHighBatteryThreshold := LastAppliedHighBatteryThreshold own,
     LastCommandedPlacement := LastCommandedPlacement own,
     LastCommandedRuntimeMode := LastCommandedRuntimeMode own,
     LastCommandID := LastCommandID own,
     LastCommandTime := LastCommandTime own,
     LastStageCommandID := LastStageCommandID own,
     LastStageCommandTime := LastStageCommandTime own,
     StageCommandAttempts := StageCommandAttempts own,
     LastDeadlineDecisionID := LastDeadlineDecisionID own,
     LastSignaledDeadlineDecisionID := LastSignaledDeadlineDecisionID own,
     LastAppliedBatterySimulationCommandID := LastAppliedBatterySimulationCommandID own,
     LastBatterySimulationCommandTime := LastBatterySimulationCommandTime own,
     ObservedBatteryPercent := copyBatteryPercent (PD_BatteryPercent (U_Decision u))\<rparr>"

definition reconciledConditions :: "apiServer \<Rightarrow> reconcileStatusUpdate \<Rightarrow> condition list \<Rightarrow> condition list" where
  "reconciledConditions api u cs =
    (let cs1 = SetStatusCondition api (SetStatusCondition api (SetStatusCondition api cs (U_Available u))
           (U_Artifact u)) (U_Placement u);
         cs2 = RemoveStatusCondition api (RemoveStatusCondition api cs1 ''DeadlineReady'') ''DeadlineRisk''
     in case E_Condition (PD_Deadline (U_Decision u)) of
          Some c \<Rightarrow> SetStatusCondition api cs2 c
        | None \<Rightarrow> RemoveStatusCondition api cs2 ''DeadlineAdmission'')"

definition reconciledStatus :: "apiServer \<Rightarrow> wasmFunction \<Rightarrow> reconcileStatusUpdate \<Rightarrow> wasmFunction \<Rightarrow> wasmFunction" where
  "reconciledStatus api w u current =
    (let current1 = on_status (reconciledFields (Spec current) (Status w) u) current;
         state = releaseDeliveryState current1 (DesiredArtifactDigest (Status current1))
     in on_status (\<lambda>s. s\<lparr>ReleaseDeliveryState := state, Conditions := reconciledConditions api u (Conditions s)\<rparr>) current1)"

definition updateStatusOnce ::
    "apiServer \<Rightarrow> namespacedName \<Rightarrow> wasmFunction \<Rightarrow> reconcileStatusUpdate \<Rightarrow> apiTrace \<Rightarrow> apiError option \<times> apiTrace" where
  "updateStatusOnce api key w u t =
    (case apiGet (GetFunction api) key t of
       (Inl e, t1) \<Rightarrow> (Some e, t1)
     | (Inr current, t1) \<Rightarrow> sendWrite api (UpdateStatus (reconciledStatus api w u current)) t1)"

definition updateStatus ::
    "apiServer \<Rightarrow> namespacedName \<Rightarrow> wasmFunction \<Rightarrow> reconcileStatusUpdate \<Rightarrow> apiTrace \<Rightarrow> apiError option \<times> apiTrace" where
  "updateStatus api key w u t = retryOnConflict defaultRetrySteps (updateStatusOnce api key w u) t"

section \<open>Retry bookkeeping and requeue\<close>

text \<open>\<open>now\<close> is the reading that stamps a new synchronisation, \<open>later\<close> the one of \<open>time.Since\<close>.\<close>

definition updateArtifactRetryState :: "time \<Rightarrow> time \<Rightarrow> 'e option \<Rightarrow> wasmFunctionStatus \<Rightarrow> wasmFunctionStatus" where
  "updateArtifactRetryState now later artifactErr s =
    (case artifactErr of
       None \<Rightarrow> s\<lparr>ArtifactSyncStartedAt := None, ArtifactSyncRetryCount := 0\<rparr>
     | Some e \<Rightarrow>
         (let started = (case ArtifactSyncStartedAt s of None \<Rightarrow> now | Some t \<Rightarrow> t);
              s1 = s\<lparr>ArtifactSyncStartedAt := Some started,
                ArtifactSyncRetryCount := wrap32 (ArtifactSyncRetryCount s + 1)\<rparr>
          in if time_sub later started \<ge> 60 * second then s1\<lparr>ArtifactReadinessReason := ''SyncFailed''\<rparr> else s1))"

definition requeueOnError :: "wasmFunction \<Rightarrow> 'e option \<Rightarrow> 'f option \<Rightarrow> duration option" where
  "requeueOnError w artifactErr placementErr =
    (if artifactErr \<noteq> None \<or> placementErr \<noteq> None then
       (let retries = (if ArtifactSyncRetryCount (Status w) < 1 then 1 else ArtifactSyncRetryCount (Status w));
            delay = 5 * second * 2 ^ nat (min (retries - 1) 3)
        in Some (if delay > 60 * second then 60 * second else delay))
     else None)"

definition requeueAt :: "time \<Rightarrow> time \<Rightarrow> duration option" where
  "requeueAt retryAt now = (let delay = time_sub retryAt now in Some (if delay \<le> 0 then second else delay))"

definition requeuePendingRelease :: "wasmFunction \<Rightarrow> time \<Rightarrow> duration option" where
  "requeuePendingRelease w now =
    (let s = Status w; state = releaseDeliveryState w (normalizeArtifactDigest (R_ArtifactDigest (release w)))
     in if state = ''AwaitingStageAck'' then
          (case LastStageCommandTime s of
             None \<Rightarrow> Some second
           | Some t \<Rightarrow> requeueAt (t + releaseStageRetryDelay
               (if StageCommandAttempts s < 1 then 1 else StageCommandAttempts s)) now)
        else if state = ''AwaitingActivationAck'' then
          (case LastCommandTime s of
             None \<Rightarrow> Some second
           | Some t \<Rightarrow> requeueAt (t + releaseStageRetryBase) now)
        else None)"

section \<open>The pass\<close>

text \<open>
  The reconciler's fields and the outside world; the state of the reconciler with the requests it has
  sent.  The clock and the answers to the control messages are those of the command side.
\<close>

record passEnv =
  Api :: apiServer
  Sha :: "string \<Rightarrow> string"
  Web :: webEnv
  HostWasmURLResolver :: "(wasmFunction \<Rightarrow> string) option"
  Cmd :: environment
  DeadlineEstimator :: "deadlineTelemetryEstimator option"
  EdgeRuntimeAvailable :: "(wasmFunction \<Rightarrow> bool) option"

record passState =
  Operator :: operatorState
  Http :: "httpRequest list"
  Trace :: apiTrace

text \<open>The result of a pass: the requeue delay if there is one, or the error; or a panic of the estimator.\<close>

datatype passResult = Finished "duration option" | Failed apiError | Panicked

abbreviation passWf :: "passState \<Rightarrow> wasmFunction" where
  "passWf st \<equiv> Wf (Operator st)"

abbreviation onPassWf :: "(wasmFunction \<Rightarrow> wasmFunction) \<Rightarrow> passState \<Rightarrow> passState" where
  "onPassWf f st \<equiv> st\<lparr>Operator := (Operator st)\<lparr>Wf := f (passWf st)\<rparr>\<rparr>"

definition passClock :: "passEnv \<Rightarrow> passState \<Rightarrow> time \<times> passState" where
  "passClock env st =
    (Clock (Cmd env) (Ticks (Operator st)), st\<lparr>Operator := (Operator st)\<lparr>Ticks := Ticks (Operator st) + 1\<rparr>\<rparr>)"

text \<open>Step 4: the artifact decision, and the three digests it leaves on the status.\<close>

definition artifactStage :: "passEnv \<Rightarrow> passState \<Rightarrow> (artifactDecision \<times> syncError option) \<times> passState" where
  "artifactStage env st =
    (case reconcileArtifact (Sha env) (Web env) (HostWasmURLResolver env) (passWf st) (Http st) of
       ((artifact, err), h) \<Rightarrow>
         ((artifact, err), onPassWf (on_status (\<lambda>s. s\<lparr>DesiredArtifactDigest := DesiredDigest artifact,
            HostArtifactDigest := HostDigest artifact, HostStagedArtifactDigest := HostStagedDigest artifact\<rparr>))
            (st\<lparr>Http := h\<rparr>)))"

definition replicasStage :: "passEnv \<Rightarrow> deployment \<Rightarrow> passState \<Rightarrow> (int32 \<times> bool) \<times> passState" where
  "replicasStage env deploy st =
    (case availableReplicasForDeployment (Api env) deploy (Trace st) of
       (n, t) \<Rightarrow> ((n, case EdgeRuntimeAvailable env of None \<Rightarrow> n > 0 | Some f \<Rightarrow> f (passWf st)), st\<lparr>Trace := t\<rparr>))"

text \<open>Step 5: the decision, its readiness gate and the retry state, then the commands.\<close>

definition decisionStage ::
    "passEnv \<Rightarrow> artifactDecision \<Rightarrow> syncError option \<Rightarrow> bool \<Rightarrow> passState \<Rightarrow> placementDecision option \<times> passState" where
  "decisionStage env artifact artifactErr edgeAvailable st =
    (case deadlineEstimate (DeadlineEstimator env) (passWf st) of
       None \<Rightarrow> (None, st)
     | Some estimates \<Rightarrow>
         (case passClock env st of
            (now, st1) \<Rightarrow>
              (case applyDestinationReadiness (passWf st1) (resolvePlacementWithEstimates now (passWf st1) estimates)
                  artifact edgeAvailable of
                 (w, d) \<Rightarrow>
                   (case passClock env (onPassWf (\<lambda>_. w) st1) of
                      (now1, st2) \<Rightarrow>
                        (case passClock env st2 of
                           (now2, st3) \<Rightarrow>
                             (Some d, onPassWf (on_status (updateArtifactRetryState now1 now2 artifactErr)) st3))))))"

definition commandStage ::
    "passEnv \<Rightarrow> placementDecision \<Rightarrow> artifactDecision \<Rightarrow> passState \<Rightarrow> (bool \<times> string option) \<times> passState" where
  "commandStage env d artifact st =
    (if PD_Enabled d then
       (case applyPlacement (Cmd env) d artifact (Operator st) of (r, op) \<Rightarrow> (r, st\<lparr>Operator := op\<rparr>))
     else ((False, None), st))"

text \<open>Step 6: the status.\<close>

definition processEndpoint :: "wasmFunction \<Rightarrow> string" where
  "processEndpoint w =
     ''http://'' @ M_Name w @ ''.'' @ M_Namespace w @ '':'' @ fmt_d (effectivePort w) @ ''/process''"

definition statusInput ::
    "int32 \<Rightarrow> placementDecision \<Rightarrow> artifactDecision \<Rightarrow> syncError option \<Rightarrow> bool \<Rightarrow> string option
       \<Rightarrow> time \<Rightarrow> time \<Rightarrow> time \<Rightarrow> wasmFunction \<Rightarrow> reconcileStatusUpdate" where
  "statusInput n d artifact artifactErr commanded placementErr now1 now2 now3 w =
    \<lparr>U_AvailableReplicas = n, U_Endpoint = processEndpoint w, U_Decision = d,
     U_Available = availableStatusCondition now1,
     U_Artifact = artifactStatusCondition now2 w artifact artifactErr,
     U_Placement = placementStatusCondition now3 d commanded placementErr\<rparr>"

definition reportStage ::
    "passEnv \<Rightarrow> namespacedName \<Rightarrow> int32 \<Rightarrow> placementDecision \<Rightarrow> artifactDecision \<Rightarrow> syncError option
       \<Rightarrow> bool \<Rightarrow> string option \<Rightarrow> passState \<Rightarrow> apiError option \<times> passState" where
  "reportStage env key n d artifact artifactErr commanded placementErr st =
    (case passClock env st of (now1, st1) \<Rightarrow>
     (case passClock env st1 of (now2, st2) \<Rightarrow>
     (case passClock env st2 of (now3, st3) \<Rightarrow>
        (case updateStatus (Api env) key (passWf st3)
            (statusInput n d artifact artifactErr commanded placementErr now1 now2 now3 (passWf st3)) (Trace st3) of
           (err, t) \<Rightarrow> (err, st3\<lparr>Trace := t\<rparr>)))))"

definition requeueStage :: "passEnv \<Rightarrow> syncError option \<Rightarrow> string option \<Rightarrow> passState \<Rightarrow> passResult \<times> passState" where
  "requeueStage env artifactErr placementErr st =
    (case requeueOnError (passWf st) artifactErr placementErr of
       Some delay \<Rightarrow> (Finished (Some delay), st)
     | None \<Rightarrow>
         (case passClock env st of
            (now, st1) \<Rightarrow> (Finished (requeuePendingRelease (passWf st1) now), st1)))"

text \<open>Everything after the Deployment and the Service.\<close>

definition releaseStages :: "passEnv \<Rightarrow> namespacedName \<Rightarrow> deployment \<Rightarrow> passState \<Rightarrow> passResult \<times> passState" where
  "releaseStages env key deploy st =
    (case artifactStage env st of ((artifact, artifactErr), st1) \<Rightarrow>
     (case replicasStage env deploy st1 of ((n, edgeAvailable), st2) \<Rightarrow>
     (case decisionStage env artifact artifactErr edgeAvailable st2 of
        (None, st3) \<Rightarrow> (Panicked, st3)
      | (Some d, st3) \<Rightarrow>
          (case commandStage env d artifact st3 of ((commanded, placementErr), st4) \<Rightarrow>
          (case reportStage env key n d artifact artifactErr commanded placementErr st4 of
             (Some e, st5) \<Rightarrow> (Failed e, st5)
           | (None, st5) \<Rightarrow> requeueStage env artifactErr placementErr st5)))))"

definition reconcile :: "passEnv \<Rightarrow> namespacedName \<Rightarrow> passState \<Rightarrow> passResult \<times> passState" where
  "reconcile env key st =
    (case apiGet (GetFunction (Api env)) key (Trace st) of
       (Inl NotFound, t) \<Rightarrow> (Finished None, st\<lparr>Trace := t\<rparr>)
     | (Inl e, t) \<Rightarrow> (Failed e, st\<lparr>Trace := t\<rparr>)
     | (Inr w, t) \<Rightarrow>
         (case ensureDeployment (Api env) w t of
            (Inl e, t1) \<Rightarrow> (Failed e, onPassWf (\<lambda>_. w) (st\<lparr>Trace := t1\<rparr>))
          | (Inr deploy, t1) \<Rightarrow>
              (case ensureService (Api env) w t1 of
                 (Some e, t2) \<Rightarrow> (Failed e, onPassWf (\<lambda>_. w) (st\<lparr>Trace := t2\<rparr>))
               | (None, t2) \<Rightarrow> releaseStages env key deploy (onPassWf (\<lambda>_. w) (st\<lparr>Trace := t2\<rparr>)))))"

end
