(* ===== verification/Cluster_Props.thy ===== *)
theory Cluster_Props
  imports Cluster Artifact_Props
begin

text \<open>
  What \<open>ensureDeployment\<close> and \<open>ensureService\<close> leave in the cluster, whatever the API server answers.
\<close>

section \<open>Retries\<close>

text \<open>
  A retried operation as a contract: every attempt keeps an invariant and makes at most \<open>cost\<close> API
  calls.  Retrying keeps both, and its answer is the answer of some attempt, or a conflict.
\<close>

locale retried =
  fixes attempt :: "'s \<Rightarrow> apiError option \<times> 's"
    and inv :: "'s \<Rightarrow> bool" and used :: "'s \<Rightarrow> nat" and cost :: nat
  assumes attempt_inv: "\<And>s. inv s \<Longrightarrow> inv (snd (attempt s))"
    and attempt_cost: "\<And>s. used (snd (attempt s)) \<le> used s + cost"
begin

lemma retry_inv: "inv s \<Longrightarrow> inv (snd (retryOnConflict n attempt s))"
proof (induction n arbitrary: s)
  case (Suc n)
  then show ?case using attempt_inv [of s] by (simp add: retryOnConflict_Suc)
qed simp

lemma retry_cost: "used (snd (retryOnConflict n attempt s)) \<le> used s + n * cost"
proof (induction n arbitrary: s)
  case (Suc n)
  show ?case
    using Suc.IH [of "snd (attempt s)"] attempt_cost [of s] by (simp add: retryOnConflict_Suc)
qed simp

text \<open>A successful retry ends with a successful attempt that started in the invariant.\<close>

lemma retry_success:
  assumes "retryOnConflict n attempt s = (None, s')" "inv s"
  obtains s0 where "inv s0" "attempt s0 = (None, s')"
  using assms
proof (induction n arbitrary: s)
  case (Suc n)
  show ?case
  proof (cases "fst (attempt s) = Some Conflict")
    case True
    then show ?thesis
      using Suc.IH [where s = "snd (attempt s)"] Suc.prems attempt_inv [of s]
      by (simp add: retryOnConflict_Suc)
  next
    case False
    then show ?thesis using Suc.prems by (simp add: retryOnConflict_Suc)
  qed
qed simp

end

section \<open>The log\<close>

abbreviation tick :: "apiTrace \<Rightarrow> apiTrace" where
  "tick t \<equiv> t\<lparr>ApiCalls := Suc (ApiCalls t)\<rparr>"

declare apiGet_def [simp]

text \<open>All writes since \<open>before\<close>, with their answers, are of the kind \<open>P\<close>.\<close>

definition logs :: "(apiWrite \<times> apiError option \<Rightarrow> bool) \<Rightarrow> apiTrace \<Rightarrow> apiTrace \<Rightarrow> bool" where
  "logs P before t \<longleftrightarrow> (\<exists>ws. Writes t = Writes before @ ws \<and> (\<forall>x \<in> set ws. P x))"

lemma logs_refl [simp]: "logs P t t"
  by (simp add: logs_def)

lemma logs_tick [simp]: "logs P before (tick t) = logs P before t" "logs P (tick t) t' = logs P t t'"
  by (simp_all add: logs_def)

lemma logs_send:
  "logs P before t \<Longrightarrow> P (x, WriteError api (ApiCalls t) x) \<Longrightarrow> logs P before (snd (sendWrite api x t))"
  by (auto simp: logs_def sendWrite_def Let_def)

lemma logs_trans: "logs P a b \<Longrightarrow> logs P b c \<Longrightarrow> logs P a c"
  by (fastforce simp: logs_def)

lemma logs_mono: "logs P a b \<Longrightarrow> (\<And>x. P x \<Longrightarrow> Q x) \<Longrightarrow> logs Q a b"
  by (fastforce simp: logs_def)

section \<open>The Deployment\<close>

text \<open>A write of a Deployment that carries the desired specification.\<close>

definition deploymentWrite :: "deployment \<Rightarrow> apiWrite \<Rightarrow> bool" where
  "deploymentWrite d x \<longleftrightarrow> x = CreateDeployment d \<or> (\<exists>found. x = UpdateDeployment (found\<lparr>Dp_Spec := Dp_Spec d\<rparr>))"

definition serviceWrite :: "service \<Rightarrow> apiWrite \<Rightarrow> bool" where
  "serviceWrite s x \<longleftrightarrow> x = CreateService s \<or> (\<exists>found. x = UpdateService (found\<lparr>Sv_Spec := Sv_Spec s\<rparr>))"

abbreviation failedWrite :: "(apiWrite \<Rightarrow> bool) \<Rightarrow> apiWrite \<times> apiError option \<Rightarrow> bool" where
  "failedWrite P x \<equiv> P (fst x) \<and> snd x \<noteq> None"

lemma rewriteDeployment_steps:
  "rewriteDeployment api d t =
    (case GetDeployment api (ApiCalls t) (Dp_Key d) of
       Inl e \<Rightarrow> (Some e, tick t)
     | Inr found \<Rightarrow> sendWrite api (UpdateDeployment (found\<lparr>Dp_Spec := Dp_Spec d\<rparr>))
         (tick t))"
  by (simp add: rewriteDeployment_def apiGet_def split: sum.split)

lemma rewriteService_steps:
  "rewriteService api v t =
    (case GetService api (ApiCalls t) (Sv_Key v) of
       Inl e \<Rightarrow> (Some e, tick t)
     | Inr found \<Rightarrow> sendWrite api (UpdateService (found\<lparr>Sv_Spec := Sv_Spec v\<rparr>))
         (tick t))"
  by (simp add: rewriteService_def apiGet_def split: sum.split)

lemma sendWrite_calls [simp]: "ApiCalls (snd (sendWrite api x t)) = ApiCalls t + 1"
  "fst (sendWrite api x t) = WriteError api (ApiCalls t) x"
  "Writes (snd (sendWrite api x t)) = Writes t @ [(x, WriteError api (ApiCalls t) x)]"
  by (simp_all add: sendWrite_def Let_def)

text \<open>Both rewrites log writes of the desired object only, and at most two calls an attempt.\<close>

interpretation deploymentRetry: retried "rewriteDeployment api d" "\<lambda>t. logs (\<lambda>x. deploymentWrite d (fst x)) before t"
  ApiCalls 2 for api d before
  by unfold_locales
    (auto simp: rewriteDeployment_steps deploymentWrite_def intro!: logs_send split: sum.split)

interpretation serviceRetry: retried "rewriteService api v" "\<lambda>t. logs (\<lambda>x. serviceWrite v (fst x)) before t"
  ApiCalls 2 for api v before
  by unfold_locales
    (auto simp: rewriteService_steps serviceWrite_def intro!: logs_send split: sum.split)

section \<open>The desired objects reach the cluster\<close>


definition confirmedService :: "apiServer \<Rightarrow> wasmFunction \<Rightarrow> service \<Rightarrow> apiTrace \<Rightarrow> apiTrace \<Rightarrow> bool" where
  "confirmedService api w obj t t' \<longleftrightarrow>
     Writes t' = Writes t \<and> GetService api (ApiCalls t) (key_of w) = Inr obj \<or>
     (\<exists>fs x. Writes t' = Writes t @ fs @ [(x, None)] \<and> x \<in> {CreateService obj, UpdateService obj})"

lemma desired_keys [simp]: "Dp_Key (desiredDeployment w) = key_of w" "Sv_Key (desiredService w) = key_of w"
  by (simp_all add: desiredDeployment_def desiredService_def)

lemma logs_last:
  assumes "logs P before t1" "sendWrite api x t1 = (None, t2)"
  shows "\<exists>fs. Writes t2 = Writes before @ fs @ [(x, None)]"
proof -
  have "Writes t2 = Writes t1 @ [(x, None)]" using assms(2) sendWrite_calls(2,3) [of api x t1] by simp
  then show ?thesis using assms(1) by (auto simp: logs_def)
qed

lemma ensureDeployment_cases:
  assumes "ensureDeployment api w t = (r, t')"
  obtains (no_owner) e where "OwnerRef api w = Inl e" "r = Inl e" "t' = t"
    | (created) owner where "OwnerRef api w = Inr owner" "GetDeployment api (ApiCalls t) (key_of w) = Inl NotFound"
        "sendWrite api (CreateDeployment ((desiredDeployment w)\<lparr>Dp_Owner := Some owner\<rparr>))
           (tick t) = (case r of Inl e \<Rightarrow> Some e | Inr d \<Rightarrow> None, t')"
        "\<And>d. r = Inr d \<Longrightarrow> d = (desiredDeployment w)\<lparr>Dp_Owner := Some owner\<rparr>"
    | (unreadable) owner e where "OwnerRef api w = Inr owner" "r = Inl e"
        "GetDeployment api (ApiCalls t) (key_of w) = Inl e" "t' = tick t"
    | (rewritten) owner found where "OwnerRef api w = Inr owner" "GetDeployment api (ApiCalls t) (key_of w) = Inr found"
        "deploymentNeedsUpdate found (desiredDeployment w)"
        "retryOnConflict defaultRetrySteps (rewriteDeployment api ((desiredDeployment w)\<lparr>Dp_Owner := Some owner\<rparr>))
           (tick t) = (case r of Inl e \<Rightarrow> Some e | Inr d \<Rightarrow> None, t')"
        "\<And>d. r = Inr d \<Longrightarrow> d = (desiredDeployment w)\<lparr>Dp_Owner := Some owner\<rparr>"
    | (in_order) owner found where "OwnerRef api w = Inr owner" "GetDeployment api (ApiCalls t) (key_of w) = Inr found"
        "\<not> deploymentNeedsUpdate found (desiredDeployment w)" "r = Inr ((desiredDeployment w)\<lparr>Dp_Owner := Some owner\<rparr>)"
        "t' = tick t"
proof (cases "OwnerRef api w")
  case (Inl e)
  then show ?thesis using assms that(1) by (simp add: ensureDeployment_def)
next
  case (Inr owner)
  have needs: "deploymentNeedsUpdate f ((desiredDeployment w)\<lparr>Dp_Owner := x\<rparr>) = deploymentNeedsUpdate f (desiredDeployment w)"
    for f x by (simp add: deploymentNeedsUpdate_def)
  let ?d = "(desiredDeployment w)\<lparr>Dp_Owner := Some owner\<rparr>"
  obtain a1 t1 where create: "sendWrite api (CreateDeployment ?d) (tick t) = (a1, t1)"
    by (cases "sendWrite api (CreateDeployment ?d) (tick t)")
  obtain a2 t2 where rewrite: "retryOnConflict defaultRetrySteps (rewriteDeployment api ?d) (tick t) = (a2, t2)"
    by (cases "retryOnConflict defaultRetrySteps (rewriteDeployment api ?d) (tick t)")
  show ?thesis
  proof (cases "GetDeployment api (ApiCalls t) (key_of w)")
    case get: (Inl e)
    show ?thesis
    proof (cases "e = NotFound")
      case True
      then show ?thesis
        using assms Inr get create
        by (intro that(2) [of owner]) (auto simp: ensureDeployment_def split: option.splits)
    next
      case False
      then show ?thesis
        using assms Inr get
        by (intro that(3) [of owner e]; cases e) (auto simp: ensureDeployment_def Let_def)
    qed
  next
    case get: (Inr found)
    show ?thesis
    proof (cases "deploymentNeedsUpdate found (desiredDeployment w)")
      case True
      then show ?thesis
        using assms Inr get rewrite
        by (intro that(4) [of owner found]) (auto simp: ensureDeployment_def needs split: option.splits)
    next
      case False
      then show ?thesis
        using assms Inr get
        by (intro that(5) [of owner found]) (auto simp: ensureDeployment_def needs)
    qed
  qed
qed



lemma ensureService_cases:
  assumes "ensureService api w t = (r, t')"
  obtains (no_owner) e where "OwnerRef api w = Inl e" "r = Some e" "t' = t"
    | (created) owner where "OwnerRef api w = Inr owner" "GetService api (ApiCalls t) (key_of w) = Inl NotFound"
        "sendWrite api (CreateService ((desiredService w)\<lparr>Sv_Owner := Some owner\<rparr>))
           (tick t) = (r, t')"
    | (unreadable) owner e where "OwnerRef api w = Inr owner" "r = Some e"
        "GetService api (ApiCalls t) (key_of w) = Inl e" "t' = tick t"
    | (rewritten) owner found where "OwnerRef api w = Inr owner" "GetService api (ApiCalls t) (key_of w) = Inr found"
        "serviceNeedsUpdate found (desiredService w)"
        "retryOnConflict defaultRetrySteps (rewriteService api ((desiredService w)\<lparr>Sv_Owner := Some owner\<rparr>))
           (tick t) = (r, t')"
    | (in_order) owner found where "OwnerRef api w = Inr owner" "GetService api (ApiCalls t) (key_of w) = Inr found"
        "\<not> serviceNeedsUpdate found (desiredService w)" "r = None"
        "t' = tick t"
proof (cases "OwnerRef api w")
  case (Inl e)
  then show ?thesis using assms that(1) by (simp add: ensureService_def)
next
  case (Inr owner)
  have needs: "serviceNeedsUpdate f ((desiredService w)\<lparr>Sv_Owner := x\<rparr>) = serviceNeedsUpdate f (desiredService w)"
    for f x by (simp add: serviceNeedsUpdate_def)
  let ?d = "(desiredService w)\<lparr>Sv_Owner := Some owner\<rparr>"
  obtain a1 t1 where create: "sendWrite api (CreateService ?d) (tick t) = (a1, t1)"
    by (cases "sendWrite api (CreateService ?d) (tick t)")
  obtain a2 t2 where rewrite: "retryOnConflict defaultRetrySteps (rewriteService api ?d) (tick t) = (a2, t2)"
    by (cases "retryOnConflict defaultRetrySteps (rewriteService api ?d) (tick t)")
  show ?thesis
  proof (cases "GetService api (ApiCalls t) (key_of w)")
    case get: (Inl e)
    show ?thesis
    proof (cases "e = NotFound")
      case True
      then show ?thesis
        using assms Inr get create
        by (intro that(2) [of owner]) (auto simp: ensureService_def split: option.splits)
    next
      case False
      then show ?thesis
        using assms Inr get
        by (intro that(3) [of owner e]; cases e) (auto simp: ensureService_def Let_def)
    qed
  next
    case get: (Inr found)
    show ?thesis
    proof (cases "serviceNeedsUpdate found (desiredService w)")
      case True
      then show ?thesis
        using assms Inr get rewrite
        by (intro that(4) [of owner found]) (auto simp: ensureService_def needs split: option.splits)
    next
      case False
      then show ?thesis
        using assms Inr get
        by (intro that(5) [of owner found]) (auto simp: ensureService_def needs)
    qed
  qed
qed

lemma retry_confirms_service:
  assumes "retryOnConflict n (rewriteService api d) t1 = (None, t')" "logs (\<lambda>x. serviceWrite d (fst x)) t t1"
  shows "\<exists>found fs. Writes t' = Writes t @ fs @ [(UpdateService (found\<lparr>Sv_Spec := Sv_Spec d\<rparr>), None)]"
proof -
  obtain s0 where s0: "logs (\<lambda>x. serviceWrite d (fst x)) t s0" "rewriteService api d s0 = (None, t')"
    by (rule serviceRetry.retry_success [OF assms])
  then obtain found where
    "sendWrite api (UpdateService (found\<lparr>Sv_Spec := Sv_Spec d\<rparr>)) (tick s0) = (None, t')"
    by (auto simp: rewriteService_steps split: sum.splits)
  then show ?thesis using logs_last [of _ t "tick s0"] s0(1) by fastforce
qed

text \<open>What \<open>ensureService\<close> leaves in the cluster.\<close>

theorem service_reaches_cluster:
  assumes "ensureService api w t = (None, t')" "OwnerRef api w = Inr owner"
  shows "\<exists>obj. confirmedService api w obj t t' \<and> \<not> serviceNeedsUpdate obj (desiredService w)"
  using assms(1)
proof (cases rule: ensureService_cases)
  case (created owner')
  let ?v = "(desiredService w)\<lparr>Sv_Owner := Some owner'\<rparr>"
  have "Writes t' = Writes t @ [(CreateService ?v, None)]"
    using created(3) sendWrite_calls(2,3) [of api "CreateService ?v" "tick t"] by simp
  then show ?thesis by (auto simp: confirmedService_def serviceNeedsUpdate_def)
next
  case (rewritten owner' found)
  show ?thesis
    using retry_confirms_service [OF rewritten(4), of t] by (fastforce simp: confirmedService_def serviceNeedsUpdate_def)
next
  case (in_order owner' found)
  then show ?thesis by (auto simp: confirmedService_def)
qed simp_all

section \<open>Budget, and a Service that never settles\<close>

text \<open>Each of the two operations makes at most eleven API calls.\<close>

theorem ensure_call_budget:
  "ApiCalls (snd (ensureDeployment api w t)) \<le> ApiCalls t + 11 \<and> ApiCalls (snd (ensureService api w t)) \<le> ApiCalls t + 11"
proof
  obtain r t' where run: "ensureDeployment api w t = (r, t')" by (cases "ensureDeployment api w t")
  then have "ApiCalls t' \<le> ApiCalls t + 11"
  proof (cases rule: ensureDeployment_cases)
    case (created owner)
    then show ?thesis
      using sendWrite_calls(1) [of api "CreateDeployment ((desiredDeployment w)\<lparr>Dp_Owner := Some owner\<rparr>)" "tick t"] by simp
  next
    case (rewritten owner found)
    then show ?thesis
      using deploymentRetry.retry_cost [of defaultRetrySteps api "(desiredDeployment w)\<lparr>Dp_Owner := Some owner\<rparr>" "tick t"]
      by (simp add: defaultRetrySteps_def)
  qed simp_all
  then show "ApiCalls (snd (ensureDeployment api w t)) \<le> ApiCalls t + 11" by (simp add: run)
next
  obtain r t' where run: "ensureService api w t = (r, t')" by (cases "ensureService api w t")
  then have "ApiCalls t' \<le> ApiCalls t + 11"
  proof (cases rule: ensureService_cases)
    case (created owner)
    then show ?thesis
      using sendWrite_calls(1) [of api "CreateService ((desiredService w)\<lparr>Sv_Owner := Some owner\<rparr>)" "tick t"] by simp
  next
    case (rewritten owner found)
    then show ?thesis
      using serviceRetry.retry_cost [of defaultRetrySteps api "(desiredService w)\<lparr>Sv_Owner := Some owner\<rparr>" "tick t"]
      by (simp add: defaultRetrySteps_def)
  qed simp_all
  then show "ApiCalls (snd (ensureService api w t)) \<le> ApiCalls t + 11" by (simp add: run)
qed

text \<open>A Service with an allocated node port is rewritten on every pass.  The Service the program asks for
  is of type \<open>NodePort\<close> and leaves the port number to the cluster.  Once the cluster has allocated one, the
  comparison never succeeds, and every pass updates the Service, asking again for no particular port.\<close>

theorem allocated_service_is_rewritten:
  assumes "OwnerRef api w = Inr owner" "GetService api (ApiCalls t) (key_of w) = Inr found"
    and "\<exists>p \<in> set (Sv_Ports (Sv_Spec found)). SP_NodePort p \<noteq> 0"
    and "GetService api (Suc (ApiCalls t)) (key_of w) = Inr found'"
  shows "\<exists>answer rest. Writes (snd (ensureService api w t)) =
      Writes t @ (UpdateService (found'\<lparr>Sv_Spec := Sv_Spec (desiredService w)\<rparr>), answer) # rest"
proof -
  have needs: "serviceNeedsUpdate found v" if "Sv_Spec v = Sv_Spec (desiredService w)" for v
    using assms(3) that by (auto simp: serviceNeedsUpdate_def desiredService_def)
  let ?v = "(desiredService w)\<lparr>Sv_Owner := Some owner\<rparr>"
  let ?x = "UpdateService (found'\<lparr>Sv_Spec := Sv_Spec (desiredService w)\<rparr>)"
  have first: "rewriteService api ?v (tick t) = sendWrite api ?x (tick (tick t))"
    using assms(4) by (simp add: rewriteService_steps)
  have run: "ensureService api w t = retryOnConflict defaultRetrySteps (rewriteService api ?v) (tick t)"
    using assms(1,2) needs [of ?v] by (simp add: ensureService_def Let_def)
  let ?sent = "snd (sendWrite api ?x (tick (tick t)))"
  have "logs (\<lambda>_. True) ?sent (snd (retryOnConflict 4 (rewriteService api ?v) ?sent))"
    using serviceRetry.retry_inv [of ?v ?sent ?sent 4 api] by (auto elim: logs_mono)
  then have "\<exists>rest. Writes (snd (retryOnConflict defaultRetrySteps (rewriteService api ?v) (tick t))) = Writes ?sent @ rest"
    unfolding retry_default by (auto simp: first logs_def)
  then show ?thesis by (auto simp: run)
qed

section \<open>A concrete API server\<close>

text \<open>The documented behaviour of the condition helpers: update the entry of that type or append it; remove it.\<close>

definition updateCondition :: "condition \<Rightarrow> condition \<Rightarrow> condition" where
  "updateCondition c old =
     c\<lparr>C_LastTransitionTime := if C_Status c = C_Status old then C_LastTransitionTime old else C_LastTransitionTime c\<rparr>"

definition setCondition :: "condition list \<Rightarrow> condition \<Rightarrow> condition list" where
  "setCondition cs c =
    (if \<exists>old \<in> set cs. C_Type old = C_Type c
     then map (\<lambda>old. if C_Type old = C_Type c then updateCondition c old else old) cs else cs @ [c])"

definition removeCondition :: "condition list \<Rightarrow> string \<Rightarrow> condition list" where
  "removeCondition cs ty = filter (\<lambda>c. C_Type c \<noteq> ty) cs"

text \<open>A server that knows one resource and no Deployment, and whose Service has a node port.\<close>

definition allocatedService :: service where
  "allocatedService = (let v = desiredService syncedFunction in v\<lparr>Sv_Spec := (Sv_Spec v)\<lparr>Sv_Ports :=
     map (\<lambda>p. p\<lparr>SP_NodePort := 30080\<rparr>) (Sv_Ports (Sv_Spec v))\<rparr>\<rparr>)"

definition demoServer :: apiServer where
  "demoServer = \<lparr>GetFunction = (\<lambda>n key. Inr syncedFunction), GetDeployment = (\<lambda>n key. Inl NotFound),
     GetService = (\<lambda>n key. Inr allocatedService), WriteError = (\<lambda>n x. None), OwnerRef = (\<lambda>w. Inr ''uid''),
     SetStatusCondition = setCondition, RemoveStatusCondition = removeCondition\<rparr>"

definition noCalls :: apiTrace where
  "noCalls = \<lparr>ApiCalls = 0, Writes = []\<rparr>"


lemma allocated: "\<exists>p \<in> set (Sv_Ports (Sv_Spec allocatedService)). SP_NodePort p \<noteq> 0"
  by (simp add: allocatedService_def Let_def desiredService_def)

theorem allocated_service_is_rewritten_witness:
  "\<exists>answer rest. Writes (snd (ensureService demoServer syncedFunction noCalls)) =
     (UpdateService (allocatedService\<lparr>Sv_Spec := Sv_Spec (desiredService syncedFunction)\<rparr>), answer) # rest"
  using allocated_service_is_rewritten [of demoServer syncedFunction "''uid''" noCalls allocatedService allocatedService]
    allocated by (simp add: demoServer_def noCalls_def)

theorem service_reaches_cluster_witness:
  "\<exists>t' obj. ensureService demoServer syncedFunction noCalls = (None, t') \<and>
     confirmedService demoServer syncedFunction obj noCalls t' \<and> \<not> serviceNeedsUpdate obj (desiredService syncedFunction)"
proof -
  have needs: "serviceNeedsUpdate allocatedService v" if "Sv_Spec v = Sv_Spec (desiredService syncedFunction)" for v
    using allocated that by (auto simp: serviceNeedsUpdate_def desiredService_def)
  obtain t' where run: "ensureService demoServer syncedFunction noCalls = (None, t')"
    by (simp add: ensureService_def needs demoServer_def Let_def retry_default rewriteService_steps sendWrite_def)
  then show ?thesis using service_reaches_cluster [OF run, of "''uid''"] by (auto simp: demoServer_def)
qed

end
