(* ===== verification/Reconcile_Props.thy ===== *)
theory Reconcile_Props
  imports Reconcile Cluster_Props Command_Safety Placement_Props Estimator_Props
begin

text \<open>
  Properties of the whole reconcile pass: the order of its effects, the status it writes, and when it
  runs again.
\<close>

section \<open>What each stage touches\<close>

text \<open>The fields the reconciler owns, forgotten; what is left belongs to the specification and the telemetry.\<close>

definition forget_own :: "wasmFunction \<Rightarrow> wasmFunction" where
  "forget_own w = on_status (\<lambda>s. (forget_status s)\<lparr>DesiredArtifactDigest := [], ArtifactReadinessReason := [],
     ArtifactSyncStartedAt := None, ArtifactSyncRetryCount := 0\<rparr>) w"

definition same_input :: "wasmFunction \<Rightarrow> wasmFunction \<Rightarrow> bool" where
  "same_input w w' \<longleftrightarrow> forget_own w = forget_own w'"

lemma same_input_refl [simp]: "same_input w w"
  by (simp add: same_input_def)

lemma same_input_trans: "same_input a b \<Longrightarrow> same_input b c \<Longrightarrow> same_input a c"
  by (simp add: same_input_def)

lemma forget_own_fields:
  "Spec (forget_own w) = Spec w" "M_Name (forget_own w) = M_Name w" "M_Namespace (forget_own w) = M_Namespace w"
  "ObservedBatteryPercent (Status (forget_own w)) = ObservedBatteryPercent (Status w)"
  "DesiredPlacement (Status (forget_own w)) = DesiredPlacement (Status w)"
  by (simp_all add: forget_own_def forget_status_def)

lemma same_inputD:
  assumes "same_input w w'"
  shows "Spec w' = Spec w" "M_Name w' = M_Name w" "M_Namespace w' = M_Namespace w"
    "ObservedBatteryPercent (Status w') = ObservedBatteryPercent (Status w)"
    "DesiredPlacement (Status w') = DesiredPlacement (Status w)"
  using assms unfolding same_input_def by (metis forget_own_fields)+

lemma same_view_input: "same_view w w' \<Longrightarrow> same_input w w'"
proof -
  have "forget_own (forget v) = forget_own v" for v by (simp add: forget_own_def forget_def forget_status_def)
  then show "same_view w w' \<Longrightarrow> same_input w w'" unfolding same_view_def same_input_def by metis
qed

lemma same_input_status:
  assumes "\<And>s. forget_own (w\<lparr>Status := f s\<rparr>) = forget_own (w\<lparr>Status := s\<rparr>)"
  shows "same_input w (on_status f w)"
  using assms [of "Status w"] by (simp add: same_input_def)

lemma artifactStage_frame:
  assumes "artifactStage env st = ((artifact, err), st')"
  shows "same_input (passWf st) (passWf st')" "Trace st' = Trace st" "Events (Operator st') = Events (Operator st)"
    "DesiredArtifactDigest (Status (passWf st')) = DesiredDigest artifact"
    "\<exists>h. reconcileArtifact (Sha env) (Web env) (HostWasmURLResolver env) (passWf st) (Http st) = ((artifact, err), h)"
  using assms by (auto simp: artifactStage_def same_input_def forget_own_def forget_status_def split: prod.splits)

lemma replicasStage_frame:
  assumes "replicasStage env deploy st = ((n, av), st')"
  shows "Operator st' = Operator st" "Http st' = Http st" "Writes (Trace st') = Writes (Trace st)"
  using assms by (auto simp: replicasStage_def availableReplicasForDeployment_def split: sum.splits)

text \<open>The gate and the retry state write four fields of the resource.\<close>

definition gated :: "string \<Rightarrow> time \<Rightarrow> time \<Rightarrow> syncError option \<Rightarrow> wasmFunction \<Rightarrow> wasmFunction" where
  "gated reason now1 now2 err w =
     on_status (\<lambda>s. updateArtifactRetryState now1 now2 err (s\<lparr>ArtifactReadinessReason := reason\<rparr>)) w"

lemma gated_input [simp]: "same_input w (gated reason now1 now2 err w)"
  "DesiredArtifactDigest (Status (gated reason now1 now2 err w)) = DesiredArtifactDigest (Status w)"
  by (simp_all add: gated_def same_input_def forget_own_def forget_status_def updateArtifactRetryState_def Let_def
      split: option.split)

lemma decisionStage_eq:
  "decisionStage env artifact err av st =
    (case deadlineEstimate (DeadlineEstimator env) (passWf st) of
       None \<Rightarrow> (None, st)
     | Some e \<Rightarrow>
        (let clock = Clock (Cmd env); t = Ticks (Operator st);
             d = snd (applyDestinationReadiness (passWf st) (resolvePlacementWithEstimates (clock t) (passWf st) e) artifact av)
         in (Some d, st\<lparr>Operator := (Operator st)\<lparr>Wf := gated (ReadinessReason d) (clock (t + 1)) (clock (t + 2)) err (passWf st),
              Ticks := t + 3\<rparr>\<rparr>)))"
proof (cases "deadlineEstimate (DeadlineEstimator env) (passWf st)")
  case (Some e)
  let ?r = "applyDestinationReadiness (passWf st) (resolvePlacementWithEstimates (Clock (Cmd env) (Ticks (Operator st))) (passWf st) e) artifact av"
  have "?r = (on_status (\<lambda>s. s\<lparr>ArtifactReadinessReason := ReadinessReason (snd ?r)\<rparr>) (passWf st), snd ?r)"
    using readiness_resource [of "passWf st" _ artifact av] by (metis prod.collapse)
  then obtain d where r: "?r = (on_status (\<lambda>s. s\<lparr>ArtifactReadinessReason := ReadinessReason d\<rparr>) (passWf st), d)"
    by blast
  then show ?thesis
    by (simp add: decisionStage_def passClock_def Some Let_def gated_def)
qed (simp add: decisionStage_def)

lemma decisionStage_frame:
  assumes "decisionStage env artifact err av st = (r, st')"
  shows "same_input (passWf st) (passWf st')" "Http st' = Http st" "Trace st' = Trace st"
    "Events (Operator st') = Events (Operator st)"
    "DesiredArtifactDigest (Status (passWf st')) = DesiredArtifactDigest (Status (passWf st))"
    "r = None \<Longrightarrow> deadlineEstimate (DeadlineEstimator env) (passWf st) = None"
    "r = Some d \<Longrightarrow> \<exists>now e. d = snd (applyDestinationReadiness (passWf st) (resolvePlacementWithEstimates now (passWf st) e) artifact av)"
  using assms by (auto simp: decisionStage_eq Let_def split: option.splits)

lemma applyPlacement_no_topic:
  "ControlTopic (device (Wf st)) = [] \<Longrightarrow> applyPlacement env d a st = ((False, None), st)"
  by (simp add: applyPlacement_def Let_def)

lemma commandStage_frame:
  assumes "commandStage env d artifact st = (r, st')"
  shows "same_view (passWf st) (passWf st')" "Http st' = Http st" "Trace st' = Trace st"
    "DesiredArtifactDigest (Status (passWf st')) = DesiredArtifactDigest (Status (passWf st))"
proof -
  show view: "same_view (passWf st) (passWf st')"
  proof (cases "PD_Enabled d \<and> ControlTopic (device (passWf st)) \<noteq> []")
    case True
    then have "st' = st\<lparr>Operator := snd (applyPlacement (Cmd env) d artifact (Operator st))\<rparr>"
      using assms by (auto simp: commandStage_def split: prod.splits)
    then show ?thesis
      using True emits_pass [of "passWf st" d artifact "Cmd env"] applyPlacement_steps [of "Operator st" _ "Cmd env" d artifact]
      by (simp add: emits_def)
  next
    case False
    then show ?thesis using assms by (auto simp: commandStage_def applyPlacement_no_topic split: if_splits)
  qed
  show "Http st' = Http st" "Trace st' = Trace st"
    using assms by (auto simp: commandStage_def split: prod.splits if_splits)
  have "DesiredArtifactDigest (Status (forget v)) = DesiredArtifactDigest (Status v)" for v
    by (simp add: forget_def forget_status_def)
  with view show "DesiredArtifactDigest (Status (passWf st')) = DesiredArtifactDigest (Status (passWf st))"
    unfolding same_view_def by metis
qed

lemma statusInput_fields [simp]:
  "U_AvailableReplicas (statusInput n d a aerr c perr t1 t2 t3 w) = n"
  "U_Endpoint (statusInput n d a aerr c perr t1 t2 t3 w) = processEndpoint w"
  "U_Decision (statusInput n d a aerr c perr t1 t2 t3 w) = d"
  "C_Type (U_Available (statusInput n d a aerr c perr t1 t2 t3 w)) = ''Available''"
  "C_Type (U_Artifact (statusInput n d a aerr c perr t1 t2 t3 w)) = ''ArtifactSynchronized''"
  "C_Type (U_Placement (statusInput n d a aerr c perr t1 t2 t3 w)) = ''PlacementCommanded''"
  by (auto simp: statusInput_def availableStatusCondition_def artifactStatusCondition_def placementStatusCondition_def
      Let_def split: option.split)

lemma reportStage_frame:
  assumes "reportStage env key n d artifact aerr commanded perr st = (r, st')"
  shows "passWf st' = passWf st" "Http st' = Http st" "Events (Operator st') = Events (Operator st)"
    "\<exists>t1 t2 t3. updateStatus (Api env) key (passWf st)
       (statusInput n d artifact aerr commanded perr t1 t2 t3 (passWf st)) (Trace st) = (r, Trace st')"
  using assms by (auto simp: reportStage_def passClock_def split: prod.splits) blast

lemma requeueStage_frame:
  assumes "requeueStage env aerr perr st = (r, st')"
  shows "passWf st' = passWf st" "Http st' = Http st" "Trace st' = Trace st" "Events (Operator st') = Events (Operator st)"
    "\<exists>delay. r = Finished delay"
  using assms by (auto simp: requeueStage_def passClock_def split: option.splits)

section \<open>The pass in two halves\<close>

definition objectWrite :: "apiWrite \<Rightarrow> bool" where
  "objectWrite x \<longleftrightarrow> (\<forall>w. x \<noteq> UpdateStatus w)"

lemma ensureDeployment_log:
  assumes "ensureDeployment api w t = (r, t')"
  shows "logs (\<lambda>x. objectWrite (fst x)) t t'"
  using assms
proof (cases rule: ensureDeployment_cases)
  case (created owner)
  then show ?thesis
    using logs_send [of "\<lambda>x. objectWrite (fst x)" t "tick t"
        "CreateDeployment ((desiredDeployment w)\<lparr>Dp_Owner := Some owner\<rparr>)" api] by (simp add: objectWrite_def)
next
  case (rewritten owner found)
  let ?d = "(desiredDeployment w)\<lparr>Dp_Owner := Some owner\<rparr>"
  have "logs (\<lambda>x. deploymentWrite ?d (fst x)) t t'"
    using deploymentRetry.retry_inv [of ?d t "tick t" defaultRetrySteps api] rewritten(4) by simp
  then show ?thesis by (rule logs_mono) (auto simp: deploymentWrite_def objectWrite_def)
qed simp_all

lemma ensureService_log:
  assumes "ensureService api w t = (r, t')"
  shows "logs (\<lambda>x. objectWrite (fst x)) t t'"
  using assms
proof (cases rule: ensureService_cases)
  case (created owner)
  then show ?thesis
    using logs_send [of "\<lambda>x. objectWrite (fst x)" t "tick t"
        "CreateService ((desiredService w)\<lparr>Sv_Owner := Some owner\<rparr>)" api] by (simp add: objectWrite_def)
next
  case (rewritten owner found)
  let ?v = "(desiredService w)\<lparr>Sv_Owner := Some owner\<rparr>"
  have "logs (\<lambda>x. serviceWrite ?v (fst x)) t t'"
    using serviceRetry.retry_inv [of ?v t "tick t" defaultRetrySteps api] rewritten(4) by simp
  then show ?thesis by (rule logs_mono) (auto simp: serviceWrite_def objectWrite_def)
qed simp_all

text \<open>Bringing the Deployment and then the Service in order fails with an error.\<close>

definition objectsFail :: "apiServer \<Rightarrow> wasmFunction \<Rightarrow> apiTrace \<Rightarrow> apiError \<Rightarrow> bool" where
  "objectsFail api w t e \<longleftrightarrow>
     (case ensureDeployment api w t of
        (Inl e', t1) \<Rightarrow> e' = e
      | (Inr deploy, t1) \<Rightarrow> fst (ensureService api w t1) = Some e)"

text \<open>Either the pass stops before it does anything but write objects, or it reaches the release stages.\<close>

lemma reconcile_halves:
  assumes "reconcile env key st = (r, st')"
  obtains (stopped) "Http st' = Http st" "Events (Operator st') = Events (Operator st)"
      "logs (\<lambda>x. objectWrite (fst x)) (Trace st) (Trace st')"
      "GetFunction (Api env) (ApiCalls (Trace st)) key = Inl NotFound \<and> r = Finished None \<or>
       (\<exists>e. GetFunction (Api env) (ApiCalls (Trace st)) key = Inl e \<and> e \<noteq> NotFound \<and> r = Failed e) \<or>
       (\<exists>w e. GetFunction (Api env) (ApiCalls (Trace st)) key = Inr w \<and> objectsFail (Api env) w (tick (Trace st)) e \<and> r = Failed e)"
  | (reached) w deploy t1 t2 where "GetFunction (Api env) (ApiCalls (Trace st)) key = Inr w"
      "ensureDeployment (Api env) w (tick (Trace st)) = (Inr deploy, t1)" "ensureService (Api env) w t1 = (None, t2)"
      "logs (\<lambda>x. objectWrite (fst x)) (Trace st) t2"
      "releaseStages env key deploy (st\<lparr>Trace := t2, Operator := (Operator st)\<lparr>Wf := w\<rparr>\<rparr>) = (r, st')"
proof (cases "GetFunction (Api env) (ApiCalls (Trace st)) key")
  case (Inl e)
  then show ?thesis using assms
    by (intro that(1)) (auto simp: reconcile_def split: apiError.splits)
next
  case (Inr w)
  obtain rd t1 where d: "ensureDeployment (Api env) w (tick (Trace st)) = (rd, t1)"
    by (cases "ensureDeployment (Api env) w (tick (Trace st))")
  obtain rs t2 where v: "ensureService (Api env) w t1 = (rs, t2)" by (cases "ensureService (Api env) w t1")
  have log1: "logs (\<lambda>x. objectWrite (fst x)) (Trace st) t1" using ensureDeployment_log [OF d] by simp
  have log2: "logs (\<lambda>x. objectWrite (fst x)) (Trace st) t2" using log1 ensureService_log [OF v] by (rule logs_trans)
  show ?thesis
  proof (cases rd)
    case (Inl e)
    then show ?thesis using assms Inr d log1 by (intro that(1)) (auto simp: reconcile_def objectsFail_def)
  next
    case deploy: (Inr deploy)
    show ?thesis
    proof (cases rs)
      case None
      then show ?thesis using assms Inr d v deploy log2 by (intro that(2) [of w deploy t1 t2]) (auto simp: reconcile_def)
    next
      case (Some e)
      then show ?thesis using assms Inr d v deploy log2 by (intro that(1)) (auto simp: reconcile_def objectsFail_def)
    qed
  qed
qed

text \<open>The release stages: a panic of the estimator, or a decision whose status write decides the rest.\<close>

lemma releaseStages_cases:
  assumes "releaseStages env key deploy st = (r, st')"
  obtains (panicked) w where "r = Panicked" "same_input (passWf st) w" "deadlineEstimate (DeadlineEstimator env) w = None"
      "Writes (Trace st') = Writes (Trace st)" "Events (Operator st') = Events (Operator st)"
  | (reported) artifact aerr h wa n av d now e st3 commanded perr st4 st5 t1 t2 t3 rs where
      "reconcileArtifact (Sha env) (Web env) (HostWasmURLResolver env) (passWf st) (Http st) = ((artifact, aerr), h)"
      "same_input (passWf st) wa" "DesiredArtifactDigest (Status wa) = DesiredDigest artifact"
      "d = snd (applyDestinationReadiness wa (resolvePlacementWithEstimates now wa e) artifact av)"
      "Events (Operator st3) = Events (Operator st)" "commandStage env d artifact st3 = ((commanded, perr), st4)"
      "same_input (passWf st) (passWf st4)" "DesiredArtifactDigest (Status (passWf st4)) = DesiredDigest artifact"
      "Writes (Trace st4) = Writes (Trace st)"
      "updateStatus (Api env) key (passWf st4) (statusInput n d artifact aerr commanded perr t1 t2 t3 (passWf st4)) (Trace st4)
         = (rs, Trace st')"
      "passWf st' = passWf st4" "Events (Operator st') = Events (Operator st4)"
      "case rs of Some err \<Rightarrow> r = Failed err | None \<Rightarrow> requeueStage env aerr perr st5 = (r, st') \<and> passWf st5 = passWf st4"
      "Http st' = h" "same_input (passWf st) (passWf st3)" "ActivationSends (Operator st3) = ActivationSends (Operator st)"
      "\<exists>reason m1 m2. passWf st3 = gated reason m1 m2 aerr (on_status (\<lambda>s. s\<lparr>DesiredArtifactDigest := DesiredDigest artifact,
         HostArtifactDigest := HostDigest artifact, HostStagedArtifactDigest := HostStagedDigest artifact\<rparr>) (passWf st))"
proof -
  obtain artifact aerr st1 where a: "artifactStage env st = ((artifact, aerr), st1)" by (metis prod.collapse)
  obtain n av st2 where b: "replicasStage env deploy st1 = ((n, av), st2)" by (metis prod.collapse)
  obtain rd st3 where c: "decisionStage env artifact aerr av st2 = (rd, st3)" by (metis prod.collapse)
  note fa = artifactStage_frame [OF a] and fb = replicasStage_frame [OF b] and fc = decisionStage_frame [OF c]
  obtain h where h: "reconcileArtifact (Sha env) (Web env) (HostWasmURLResolver env) (passWf st) (Http st) = ((artifact, aerr), h)"
    using fa(5) by blast
  then have http: "Http st1 = h" using a by (auto simp: artifactStage_def)
  show ?thesis
  proof (cases rd)
    case None
    then have "r = Panicked" "st' = st3" using assms a b c by (simp_all add: releaseStages_def)
    then show ?thesis using fa fb fc None by (intro that(1) [of "passWf st2"]) simp_all
  next
    case (Some d)
    obtain commanded perr st4 where x: "commandStage env d artifact st3 = ((commanded, perr), st4)" by (metis prod.collapse)
    obtain rs st5 where y: "reportStage env key n d artifact aerr commanded perr st4 = (rs, st5)" by (metis prod.collapse)
    note fx = commandStage_frame [OF x] and fy = reportStage_frame [OF y]
    obtain t1 t2 t3 where u: "updateStatus (Api env) key (passWf st4)
        (statusInput n d artifact aerr commanded perr t1 t2 t3 (passWf st4)) (Trace st4) = (rs, Trace st5)"
      using fy(4) by blast
    obtain now e where d: "d = snd (applyDestinationReadiness (passWf st2) (resolvePlacementWithEstimates now (passWf st2) e) artifact av)"
      using fc(7) [OF Some] by blast
    have run: "(case rs of Some err \<Rightarrow> (Failed err, st5) | None \<Rightarrow> requeueStage env aerr perr st5) = (r, st')"
      using assms a b c Some x y by (simp add: releaseStages_def split: option.splits)
    have same: "same_input (passWf st) (passWf st4)"
      using fa(1) fb(1) fc(1) same_view_input [OF fx(1)] same_input_trans by metis
    have sends: "ActivationSends (Operator st3) = ActivationSends (Operator st)"
      using a b c fb(1) by (auto simp: artifactStage_def decisionStage_eq Let_def split: prod.splits option.splits)
    have view: "\<exists>reason m1 m2. passWf st3 = gated reason m1 m2 aerr (on_status (\<lambda>s. s\<lparr>DesiredArtifactDigest := DesiredDigest artifact,
         HostArtifactDigest := HostDigest artifact, HostStagedArtifactDigest := HostStagedDigest artifact\<rparr>) (passWf st))"
      using a b c fb(1) Some by (auto simp: artifactStage_def decisionStage_eq Let_def split: prod.splits option.splits) blast
    have same3: "same_input (passWf st) (passWf st3)"
      using fa(1) fb(1) fc(1) same_input_trans by metis
    have final: "passWf st' = passWf st4 \<and> Events (Operator st') = Events (Operator st4) \<and> Trace st' = Trace st5 \<and> Http st' = Http st4 \<and>
        (case rs of Some err \<Rightarrow> r = Failed err | None \<Rightarrow> requeueStage env aerr perr st5 = (r, st'))"
      using run fy requeueStage_frame [of env aerr perr st5 r st'] by (auto split: option.splits)
    show ?thesis
      using h http fa fb fc fx fy d x u same same3 sends view final
      by (intro that(2) [of artifact aerr h "passWf st2" d now e av st3 commanded perr st4 n t1 t2 t3 rs st5])
        (auto split: option.splits)
  qed
qed

section \<open>The status write\<close>

text \<open>A status write of a pass: the reported status over a resource read since the \<open>n0\<close>-th call.\<close>

definition statusWrite :: "apiServer \<Rightarrow> namespacedName \<Rightarrow> wasmFunction \<Rightarrow> reconcileStatusUpdate \<Rightarrow> nat \<Rightarrow> apiWrite \<Rightarrow> bool" where
  "statusWrite api key w u n0 x \<longleftrightarrow>
     (\<exists>n current. n0 \<le> n \<and> GetFunction api n key = Inr current \<and> x = UpdateStatus (reconciledStatus api w u current))"

lemma updateStatusOnce_steps:
  "updateStatusOnce api key w u t =
    (case GetFunction api (ApiCalls t) key of
       Inl e \<Rightarrow> (Some e, tick t)
     | Inr current \<Rightarrow> sendWrite api (UpdateStatus (reconciledStatus api w u current)) (tick t))"
  by (simp add: updateStatusOnce_def split: sum.split)

interpretation statusRetry: retried "updateStatusOnce api key w u"
  "\<lambda>t. logs (\<lambda>x. statusWrite api key w u n0 (fst x)) before t \<and> n0 \<le> ApiCalls t" ApiCalls 2 for api key w u n0 before
proof
  fix s assume inv: "logs (\<lambda>x. statusWrite api key w u n0 (fst x)) before s \<and> n0 \<le> ApiCalls s"
  show "logs (\<lambda>x. statusWrite api key w u n0 (fst x)) before (snd (updateStatusOnce api key w u s)) \<and>
      n0 \<le> ApiCalls (snd (updateStatusOnce api key w u s))"
    using inv by (auto simp: updateStatusOnce_steps statusWrite_def intro!: logs_send split: sum.split)
qed (auto simp: updateStatusOnce_steps split: sum.split)

lemma updateStatus_log:
  assumes "updateStatus api key w u t = (r, t')"
  shows "logs (\<lambda>x. statusWrite api key w u (ApiCalls t) (fst x)) t t'"
    and "r = None \<Longrightarrow> \<exists>fs x. Writes t' = Writes t @ fs @ [(x, None)] \<and> statusWrite api key w u (ApiCalls t) x"
proof -
  let ?log = "logs (\<lambda>x. statusWrite api key w u (ApiCalls t) (fst x)) t"
  have start: "?log t \<and> ApiCalls t \<le> ApiCalls t" by simp
  show "?log t'"
    using statusRetry.retry_inv [OF start, of defaultRetrySteps] assms by (simp add: updateStatus_def)
  assume "r = None"
  then obtain s0 where s0: "?log s0 \<and> ApiCalls t \<le> ApiCalls s0" "updateStatusOnce api key w u s0 = (None, t')"
    using statusRetry.retry_success [OF _ start, of defaultRetrySteps t'] assms by (auto simp: updateStatus_def)
  then obtain current where read: "GetFunction api (ApiCalls s0) key = Inr current"
    and sent: "sendWrite api (UpdateStatus (reconciledStatus api w u current)) (tick s0) = (None, t')"
    by (auto simp: updateStatusOnce_steps split: sum.splits)
  from s0(1) have "\<exists>fs. Writes t' = Writes t @ fs @ [(UpdateStatus (reconciledStatus api w u current), None)]"
    by (intro logs_last [OF _ sent]) auto
  then show "\<exists>fs x. Writes t' = Writes t @ fs @ [(x, None)] \<and> statusWrite api key w u (ApiCalls t) x"
    using s0(1) read by (auto simp: statusWrite_def)
qed

text \<open>The status writes of one pass.\<close>

definition statusWrites :: "passState \<Rightarrow> passState \<Rightarrow> wasmFunction list" where
  "statusWrites st st' = [w. (UpdateStatus w, answer) \<leftarrow> drop (length (Writes (Trace st))) (Writes (Trace st'))]"

lemma statusWrites_logs:
  assumes "logs P (Trace st) (Trace st')" "w \<in> set (statusWrites st st')"
  shows "\<exists>answer. P (UpdateStatus w, answer)"
proof -
  obtain ws where ws: "Writes (Trace st') = Writes (Trace st) @ ws" "\<forall>x \<in> set ws. P x" using assms(1) by (auto simp: logs_def)
  then show ?thesis using assms(2) by (auto simp: statusWrites_def split: apiWrite.splits prod.splits)
qed

lemma objectWrites_no_status:
  assumes "logs (\<lambda>x. objectWrite (fst x)) (Trace st) t" "Writes (Trace st') = Writes t"
  shows "statusWrites st st' = []"
proof -
  have "logs (\<lambda>x. objectWrite (fst x)) (Trace st) (Trace st')" using assms by (simp add: logs_def)
  from statusWrites_logs [OF this] show ?thesis
    by (cases "statusWrites st st'") (auto simp: objectWrite_def)
qed

lemma pass_status_write:
  assumes "reconcile env key st = (r, st')" "w' \<in> set (statusWrites st st')"
  obtains w wa artifact aerr h http d now e av n commanded perr t1 t2 t3 m current where
    "GetFunction (Api env) (ApiCalls (Trace st)) key = Inr w" "GetFunction (Api env) m key = Inr current"
    "reconcileArtifact (Sha env) (Web env) (HostWasmURLResolver env) w http = ((artifact, aerr), h)" "http = Http st"
    "same_input w wa" "DesiredArtifactDigest (Status wa) = DesiredDigest artifact"
    "d = snd (applyDestinationReadiness wa (resolvePlacementWithEstimates now wa e) artifact av)"
    "same_input w (passWf st')" "DesiredArtifactDigest (Status (passWf st')) = DesiredDigest artifact"
    "w' = reconciledStatus (Api env) (passWf st')
       (statusInput n d artifact aerr commanded perr t1 t2 t3 (passWf st')) current"
  using assms(1)
proof (cases rule: reconcile_halves)
  case stopped
  then show ?thesis using objectWrites_no_status [of st "Trace st'" st'] assms(2) by simp
next
  case (reached w deploy t1 t2)
  from reached(5) show ?thesis
  proof (cases rule: releaseStages_cases)
    case (panicked v)
    then show ?thesis using objectWrites_no_status [OF reached(4), of st'] assms(2) by simp
  next
    case (reported artifact aerr h wa n av d now e st3 commanded perr st4 st5 u1 u2 u3 rs)
    let ?u = "statusInput n d artifact aerr commanded perr u1 u2 u3 (passWf st4)"
    let ?P = "\<lambda>x. objectWrite (fst x) \<or> statusWrite (Api env) key (passWf st4) ?u (ApiCalls (Trace st4)) (fst x)"
    have "logs (\<lambda>x. objectWrite (fst x)) (Trace st) (Trace st4)" using reached(4) reported(9) by (simp add: logs_def)
    then have objects: "logs ?P (Trace st) (Trace st4)" by (rule logs_mono) simp
    have "logs ?P (Trace st4) (Trace st')" by (rule logs_mono [OF updateStatus_log(1) [OF reported(10)]]) simp
    from statusWrites_logs [OF logs_trans [OF objects this] assms(2)]
    obtain m current where w': "GetFunction (Api env) m key = Inr current" "w' = reconciledStatus (Api env) (passWf st4) ?u current"
      by (auto simp: objectWrite_def statusWrite_def)
    have stages: "reconcileArtifact (Sha env) (Web env) (HostWasmURLResolver env) w (Http st) = ((artifact, aerr), h)"
      "same_input w wa" "same_input w (passWf st4)"
      using reported(1,2,7) by simp_all
    show ?thesis
      by (rule that [OF reached(1) w'(1) stages(1) refl stages(2) reported(3,4)])
        (simp_all only: reported(8,11) stages(3) w'(2))
  qed
qed

text \<open>The fields of the status that the telemetry bridge owns.\<close>

definition telemetryPart :: "wasmFunctionStatus \<Rightarrow>
    (string \<times> bool \<times> string \<times> int32 option \<times> string \<times> string) \<times> (int64 \<times> int64 \<times> string) \<times>
    (int32 option \<times> int32 option \<times> int32 \<times> time option)" where
  "telemetryPart s =
    ((ObservedMode s, ObservedAdmissionPaused s, ObservedBatterySource s, ObservedVoltageMillivolts s,
      ObservedArtifactDigest s, ObservedFunction s),
     (AcknowledgedReleaseGeneration s, StagedReleaseGeneration s, DeviceStagedArtifactDigest s),
     (ObservedBatteryDeltaPercent s, ObservedBatteryDeltaWindowSeconds s, ConsecutiveRiskyWindows s, LastTelemetryTime s))"

lemma reconciledStatus_fields:
  "Spec (reconciledStatus api w u current) = Spec current"
  "telemetryPart (Status (reconciledStatus api w u current)) = telemetryPart (Status current)"
  "ObservedBatteryPercent (Status (reconciledStatus api w u current)) = PD_BatteryPercent (U_Decision u)"
  "DesiredPlacement (Status (reconciledStatus api w u current)) = Desired (U_Decision u)"
  "ProposedPlacement (Status (reconciledStatus api w u current)) = Candidate (U_Decision u)"
  "DesiredArtifactDigest (Status (reconciledStatus api w u current)) = DesiredArtifactDigest (Status w)"
  "Endpoint (Status (reconciledStatus api w u current)) = U_Endpoint u"
  "AvailableReplicas (Status (reconciledStatus api w u current)) = U_AvailableReplicas u"
  "PredictedCandidateCostMs (Status (reconciledStatus api w u current)) = CostMs (PD_Deadline (U_Decision u))"
  "PredictedCandidateSlackMs (Status (reconciledStatus api w u current)) = SlackMs (PD_Deadline (U_Decision u))"
  "SelectedFunctionIdentity (Status (reconciledStatus api w u current)) = trimSpace (FunctionIdentity (release current))"
  "DesiredReleaseGeneration (Status (reconciledStatus api w u current)) = R_Generation (release current)"
  "Conditions (Status (reconciledStatus api w u current)) = reconciledConditions api u (Conditions (Status current))"
  by (simp_all add: reconciledStatus_def Let_def reconciledFields_def telemetryPart_def copyBatteryPercent_def copyInt32Ptr_def
      split: option.split)

lemma propose_battery:
  "PD_BatteryPercent (proposePlacement w d) = PD_BatteryPercent d"
  by (simp add: proposePlacement_def proposeAuto_def split: option.split)

lemma decision_battery:
  "PD_BatteryPercent (snd (applyDestinationReadiness w (resolvePlacementWithEstimates now w e) a av)) = batteryPercentForPlacement w"
  by (simp add: applyDestinationReadiness_def resolvePlacementWithEstimates_def Let_def propose_battery initialDecision_def
      split: option.split)

lemma same_input_battery: "same_input w w' \<Longrightarrow> batteryPercentForPlacement w' = batteryPercentForPlacement w"
  using same_inputD(1,4) [of w w'] by (simp add: batteryPercentForPlacement_def split: option.split)

text \<open>C12: Whose fields a status write changes.  Every status that a pass writes belongs to a resource the API
  server has returned; its specification and all that the telemetry bridge has recorded are left as
  they were read, except for the battery: that is overwritten with the value the decision used, which
  comes from the resource as it was at the beginning of the pass.\<close>

theorem status_write_ownership:
  assumes "reconcile env key st = (r, st')" "w' \<in> set (statusWrites st st')"
  shows "\<exists>w n current. GetFunction (Api env) (ApiCalls (Trace st)) key = Inr w \<and> GetFunction (Api env) n key = Inr current \<and>
    Spec w' = Spec current \<and> telemetryPart (Status w') = telemetryPart (Status current) \<and>
    ObservedBatteryPercent (Status w') = batteryPercentForPlacement w"
  using assms
proof (cases rule: pass_status_write)
  case (1 w wa artifact aerr h http d now e av n commanded perr t1 t2 t3 m current)
  then show ?thesis
    by (intro exI [of _ w] exI [of _ m] exI [of _ current])
      (simp add: reconciledStatus_fields decision_battery same_input_battery)
qed

text \<open>The configured battery value is latched.  The specification calls \<open>batteryPercent\<close> a fallback for when
  there is no telemetry.  Once a pass has run without telemetry, its status write records the fallback
  as the observed battery, and from then on every decision uses that value, whatever the specification
  is changed to.\<close>

theorem configured_battery_is_latched:
  assumes "reconcile env key st = (r, st')" "w' \<in> set (statusWrites st st')"
    and "GetFunction (Api env) (ApiCalls (Trace st)) key = Inr w"
    and "ObservedBatteryPercent (Status w) = None" "P_BatteryPercent (placement w) = Some b"
  shows "ObservedBatteryPercent (Status w') = Some b \<and>
    PD_BatteryPercent (resolvePlacementWithEstimates now (w'\<lparr>Spec := edited\<rparr>) e) = Some b"
proof -
  have "batteryPercentForPlacement w = Some b" using assms(4,5) by (simp add: batteryPercentForPlacement_def)
  then have "ObservedBatteryPercent (Status w') = Some b"
    using assms(3) by (cases rule: pass_status_write [OF assms(1,2)])
      (simp add: reconciledStatus_fields decision_battery same_input_battery)
  then show ?thesis
    by (simp add: resolvePlacementWithEstimates_def Let_def propose_battery initialDecision_def
        batteryPercentForPlacement_def split: option.split)
qed

section \<open>The type of a status\<close>

text \<open>
  What every status of the program satisfies: placements and delivery states are the known ones, digests
  are in normal form, costs fit their fields, and the delivery state is the one its own fields say.
\<close>

definition status_typed :: "wasmFunction \<Rightarrow> bool" where
  "status_typed w \<longleftrightarrow>
     valid_placement (DesiredPlacement (Status w)) \<and>
     (ProposedPlacement (Status w) = [] \<or> valid_placement (ProposedPlacement (Status w))) \<and>
     (DesiredArtifactDigest (Status w) = [] \<or> is_digest (DesiredArtifactDigest (Status w))) \<and>
     (\<forall>c \<in> set_option (PredictedCandidateCostMs (Status w)). in_int32 c) \<and>
     (\<forall>c \<in> set_option (PredictedCandidateSlackMs (Status w)). in_int32 c) \<and>
     trimSpace (SelectedFunctionIdentity (Status w)) = SelectedFunctionIdentity (Status w) \<and>
     DesiredReleaseGeneration (Status w) = R_Generation (release w) \<and>
     ReleaseDeliveryState (Status w) = releaseDeliveryState w (DesiredArtifactDigest (Status w))"

lemma evaluation_costs:
  "\<forall>c \<in> set_option (CostMs (evaluateDeadlineAdmission now w p hard e)). in_int32 c"
  "\<forall>c \<in> set_option (SlackMs (evaluateDeadlineAdmission now w p hard e)). in_int32 c"
  by (auto simp: evaluateDeadlineAdmission_def zeroEvaluation_def deadlineCandidateCost_def Let_def
      split: option.splits if_splits)

lemma resolve_typed:
  defines "d \<equiv> \<lambda>now w e. resolvePlacementWithEstimates now w e"
  shows "valid_placement (Desired (d now w e))" "valid_placement (Current (d now w e))"
    "Candidate (d now w e) = [] \<or> valid_placement (Candidate (d now w e))"
    "\<forall>c \<in> set_option (CostMs (PD_Deadline (d now w e))). in_int32 c"
    "\<forall>c \<in> set_option (SlackMs (PD_Deadline (d now w e))). in_int32 c"
proof -
  have "valid_placement (Desired (d now w e)) \<and> valid_placement (Current (d now w e)) \<and>
      (Candidate (d now w e) = [] \<or> valid_placement (Candidate (d now w e))) \<and>
      (\<forall>c \<in> set_option (CostMs (PD_Deadline (d now w e))). in_int32 c) \<and>
      (\<forall>c \<in> set_option (SlackMs (PD_Deadline (d now w e))). in_int32 c)"
  proof (cases "ControlTopic (device w) = []")
    case True
    then show ?thesis by (simp add: d_def resolve_disabled initialDecision_def zeroEvaluation_def)
  next
    case False
    then show ?thesis using evaluation_costs by (simp add: d_def resolve_enabled)
  qed
  then show "valid_placement (Desired (d now w e))" "valid_placement (Current (d now w e))"
    "Candidate (d now w e) = [] \<or> valid_placement (Candidate (d now w e))"
    "\<forall>c \<in> set_option (CostMs (PD_Deadline (d now w e))). in_int32 c"
    "\<forall>c \<in> set_option (SlackMs (PD_Deadline (d now w e))). in_int32 c" by simp_all
qed

lemma readiness_typed:
  "Desired (snd (applyDestinationReadiness w d a av)) \<in> {Desired d, Current d}"
  "CostMs (PD_Deadline (snd (applyDestinationReadiness w d a av))) = CostMs (PD_Deadline d)"
  "SlackMs (PD_Deadline (snd (applyDestinationReadiness w d a av))) = SlackMs (PD_Deadline d)"
  "E_Condition (PD_Deadline (snd (applyDestinationReadiness w d a av))) = E_Condition (PD_Deadline d)"
  by (simp_all add: applyDestinationReadiness_def Let_def)

lemma delivery_state_ignores:
  "releaseDeliveryState (on_status (\<lambda>s. s\<lparr>ReleaseDeliveryState := x, Conditions := y\<rparr>) w) digest = releaseDeliveryState w digest"
  by (simp add: releaseDeliveryState_def deviceReleaseActive_def deviceReleaseStaged_def Let_def)

lemma reconciledStatus_delivery:
  "ReleaseDeliveryState (Status (reconciledStatus api w u current)) =
     releaseDeliveryState (reconciledStatus api w u current) (DesiredArtifactDigest (Status w))"
proof -
  let ?c = "on_status (reconciledFields (Spec current) (Status w) u) current"
  have "DesiredArtifactDigest (Status ?c) = DesiredArtifactDigest (Status w)" by (simp add: reconciledFields_def)
  then show ?thesis
    unfolding reconciledStatus_def Let_def by (simp only: delivery_state_ignores) simp
qed

lemma declared_normal: "declaredDigest w = [] \<or> is_digest (declaredDigest w)"
  by (simp add: declaredDigest_def)

lemma decision_digest:
  assumes "reconcileArtifact sha env resolver w h = ((a, err), h')"
  shows "DesiredDigest a = [] \<or> is_digest (DesiredDigest a)"
proof (cases "operatorArtifactURL w = []")
  case True
  then show ?thesis using assms by (auto simp: reconcileArtifact_def zeroArtifact_def)
next
  case False
  from assms False show ?thesis
  proof (cases rule: reconcile_cases)
    case (probed rs resp status a2)
    then show ?thesis
    proof (cases "hostActiveMatches a2 w \<or> hostStagedMatches a2 w")
      case False
      then have "stageOnHost sha env w a2 (h @ rs @ [plainRequest ''GET'' (releaseURL (hostWasmURL resolver w))]) = ((a, err), h')"
        using probed by simp
      then show ?thesis using probed(8)
        by (cases rule: stageOnHost_cases) (use declared_normal [of w] probed(6) in auto)
    qed (use declared_normal [of w] in auto)
  qed (use declared_normal [of w] in auto)
qed

text \<open>C11: Every status that a pass writes is well typed, whatever the API server, the HTTP servers, the device
  and the clock answer.\<close>

theorem written_status_is_typed:
  assumes "reconcile env key st = (r, st')" "w' \<in> set (statusWrites st st')"
  shows "status_typed w' \<and> (\<exists>n. Endpoint (Status w') = n @ ''/process'')"
  using assms
proof (cases rule: pass_status_write)
  case (1 w wa artifact aerr h http d now e av n commanded perr t1 t2 t3 m current)
  let ?d0 = "resolvePlacementWithEstimates now wa e"
  have "valid_placement (Desired d)" "Candidate d = Candidate ?d0" "CostMs (PD_Deadline d) = CostMs (PD_Deadline ?d0)"
    "SlackMs (PD_Deadline d) = SlackMs (PD_Deadline ?d0)"
    using readiness_typed [of wa ?d0 artifact av] resolve_typed(1,2) [of now wa e] readiness_frame(2) [of wa ?d0 artifact av]
    by (auto simp: 1(7))
  moreover have "DesiredDigest artifact = [] \<or> is_digest (DesiredDigest artifact)"
    using 1(3) by (rule decision_digest)
  ultimately show ?thesis
    using resolve_typed(3-5) [of now wa e] 1(9) reconciledStatus_delivery [of "Api env" "passWf st'" _ current]
    by (simp add: status_typed_def 1(10) reconciledStatus_fields processEndpoint_def)
qed

section \<open>A concrete pass\<close>

definition answering :: "wasmFunction \<Rightarrow> apiServer" where
  "answering w = demoServer\<lparr>GetFunction := (\<lambda>n key. Inr w)\<rparr>"

definition demoPass :: "wasmFunction \<Rightarrow> webEnv \<Rightarrow> passEnv" where
  "demoPass w web = \<lparr>Api = answering w, Sha = hex64, Web = web, HostWasmURLResolver = None,
     Cmd = \<lparr>Clock = (\<lambda>n. int n * second), Outcome = (\<lambda>n. None)\<rparr>, DeadlineEstimator = None, EdgeRuntimeAvailable = None\<rparr>"

definition idlePass :: passState where
  "idlePass = \<lparr>Operator = emptyOperator zeroWasmFunction, Http = [], Trace = noCalls\<rparr>"

lemma demo_get [simp]: "GetFunction (Api (demoPass w web)) n key = Inr w"
  by (simp add: demoPass_def answering_def)

lemma demo_reaches:
  "\<exists>deploy t2. reconcile (demoPass w web) key idlePass =
     releaseStages (demoPass w web) key deploy (idlePass\<lparr>Trace := t2, Operator := (Operator idlePass)\<lparr>Wf := w\<rparr>\<rparr>)"
proof -
  let ?env = "demoPass w web" and ?t = "tick (Trace idlePass)"
  have sent: "WriteError (Api ?env) n x = None" for n x
    by (simp add: demoPass_def answering_def demoServer_def)
  obtain deploy t1 where d: "ensureDeployment (Api ?env) w ?t = (Inr deploy, t1)"
    by (simp add: demoPass_def answering_def ensureDeployment_def demoServer_def sendWrite_def Let_def)
  have api: "OwnerRef (Api ?env) w = Inr ''uid''" "GetService (Api ?env) n k = Inr allocatedService" for n k
    by (simp_all add: demoPass_def answering_def demoServer_def)
  have "fst (rewriteService (Api ?env) v t) = None" for v t
    by (simp add: rewriteService_steps api sent)
  then have "fst (ensureService (Api ?env) w t1) = None"
    by (simp add: ensureService_def api Let_def retry_default)
  then obtain t2 where v: "ensureService (Api ?env) w t1 = (None, t2)" by (metis prod.collapse)
  have "reconcile ?env key idlePass = releaseStages ?env key deploy (idlePass\<lparr>Trace := t2, Operator := (Operator idlePass)\<lparr>Wf := w\<rparr>\<rparr>)"
    using d v by (simp add: reconcile_def)
  then show ?thesis by blast
qed

lemma demo_pass:
  "\<exists>delay st' w'. reconcile (demoPass w web) key idlePass = (Finished delay, st') \<and> w' \<in> set (statusWrites idlePass st')"
proof -
  let ?env = "demoPass w web"
  have sent: "WriteError (Api ?env) n x = None" for n x
    by (simp add: demoPass_def answering_def demoServer_def)
  obtain deploy t2 where full: "reconcile ?env key idlePass =
     releaseStages ?env key deploy (idlePass\<lparr>Trace := t2, Operator := (Operator idlePass)\<lparr>Wf := w\<rparr>\<rparr>)"
    using demo_reaches [of w web key] by blast
  obtain r st' where run: "releaseStages ?env key deploy (idlePass\<lparr>Trace := t2, Operator := (Operator idlePass)\<lparr>Wf := w\<rparr>\<rparr>) = (r, st')"
    by (metis prod.collapse)
  from run show ?thesis
  proof (cases rule: releaseStages_cases)
    case (reported artifact aerr h wa n av d' now e st3 commanded perr st4 st5 u1 u2 u3 rs)
    let ?u = "statusInput n d' artifact aerr commanded perr u1 u2 u3 (passWf st4)"
    have "fst (updateStatusOnce (Api ?env) key (passWf st4) ?u t) = None" for t
      by (simp add: updateStatusOnce_steps sent)
    then have "rs = None" using reported(10) unfolding updateStatus_def retry_default by (metis fst_conv option.distinct(1))
    then obtain delay where "r = Finished delay"
      using reported(13) requeueStage_frame(5) [of ?env aerr perr st5 r st'] by auto
    moreover obtain fs x current where log: "Writes (Trace st') = Writes (Trace st4) @ fs @ [(x, None)]"
      and x: "x = UpdateStatus current"
      using updateStatus_log(2) [OF reported(10) \<open>rs = None\<close>] by (auto simp: statusWrite_def)
    have "Writes (Trace idlePass) = []" by (simp add: idlePass_def noCalls_def)
    then have "current \<in> set (statusWrites idlePass st')" by (auto simp: statusWrites_def log x)
    ultimately show ?thesis using full run by auto
  qed (simp add: demoPass_def deadlineEstimate_def)
qed

text \<open>The witnesses of this theory: the synchronised function, and one with a fallback battery.\<close>

definition fallbackFunction :: wasmFunction where
  "fallbackFunction = syncedFunction\<lparr>Spec := (Spec syncedFunction)\<lparr>Placement := zeroPlacement\<lparr>P_BatteryPercent := Some 50\<rparr>\<rparr>\<rparr>"

theorem status_write_ownership_witness:
  "\<exists>st' w'. w' \<in> set (statusWrites idlePass st') \<and> Spec w' = Spec syncedFunction \<and>
     ObservedBatteryPercent (Status w') = batteryPercentForPlacement syncedFunction"
proof -
  obtain delay st' w' where run: "reconcile (demoPass syncedFunction vouching) ([], []) idlePass = (Finished delay, st')"
    "w' \<in> set (statusWrites idlePass st')" using demo_pass by blast
  from status_write_ownership [OF this] run(2) show ?thesis by auto
qed

theorem configured_battery_is_latched_witness:
  "\<exists>st' w'. w' \<in> set (statusWrites idlePass st') \<and> PD_BatteryPercent (resolvePlacementWithEstimates 0
     (w'\<lparr>Spec := (Spec fallbackFunction)\<lparr>Placement := zeroPlacement\<lparr>P_BatteryPercent := Some 10\<rparr>\<rparr>\<rparr>) (noEstimate True)) = Some 50"
proof -
  obtain delay st' w' where run: "reconcile (demoPass fallbackFunction vouching) ([], []) idlePass = (Finished delay, st')"
    "w' \<in> set (statusWrites idlePass st')" using demo_pass by blast
  have "ObservedBatteryPercent (Status fallbackFunction) = None" "P_BatteryPercent (placement fallbackFunction) = Some 50"
    by (simp_all add: fallbackFunction_def syncedFunction_def zero_defs)
  from configured_battery_is_latched [OF run demo_get this] run(2) show ?thesis by blast
qed

theorem written_status_is_typed_witness:
  "\<exists>st' w'. w' \<in> set (statusWrites idlePass st') \<and> status_typed w'"
proof -
  obtain delay st' w' where run: "reconcile (demoPass syncedFunction vouching) ([], []) idlePass = (Finished delay, st')"
    "w' \<in> set (statusWrites idlePass st')" using demo_pass by blast
  from written_status_is_typed [OF this] run(2) show ?thesis by blast
qed

end
