(* ===== verification/Reconcile_Safety.thy ===== *)
theory Reconcile_Safety
  imports Reconcile_Props
begin

text \<open>
  The order of effects in a pass, its conditions, what an outage does to the reported state, and when the
  pass runs again.
\<close>

section \<open>Conditions\<close>

text \<open>
  The condition helpers as the program relies on them: setting a condition adds its type unless it is
  there, removing takes it away, and neither touches another type.
\<close>

definition types_of :: "condition list \<Rightarrow> string list" where
  "types_of cs = map C_Type cs"

definition conditionLaws :: "apiServer \<Rightarrow> bool" where
  "conditionLaws api \<longleftrightarrow>
     (\<forall>cs c. types_of (SetStatusCondition api cs c) =
        (if C_Type c \<in> set (types_of cs) then types_of cs else types_of cs @ [C_Type c])) \<and>
     (\<forall>cs ty. types_of (RemoveStatusCondition api cs ty) = filter (\<lambda>t. t \<noteq> ty) (types_of cs))"

lemma set_condition_types:
  assumes "conditionLaws api"
  shows "set (types_of (SetStatusCondition api cs c)) = insert (C_Type c) (set (types_of cs))"
    "distinct (types_of cs) \<Longrightarrow> distinct (types_of (SetStatusCondition api cs c))"
    "set (types_of (RemoveStatusCondition api cs ty)) = set (types_of cs) - {ty}"
    "distinct (types_of cs) \<Longrightarrow> distinct (types_of (RemoveStatusCondition api cs ty))"
  using assms by (auto simp: conditionLaws_def)

lemma evaluation_condition:
  "E_Condition (evaluateDeadlineAdmission now w p hard e) = None \<longleftrightarrow> \<not> effectiveDeadlineEnabled w"
  "E_Condition (evaluateDeadlineAdmission now w p hard e) = Some c \<Longrightarrow> C_Type c = ''DeadlineAdmission''"
proof -
  have enabled: "\<exists>s r m. E_Condition (evaluateDeadlineAdmission now w p hard e) = Some (deadlineAdmissionCondition now s r m)"
    if "effectiveDeadlineEnabled w"
    using that by (auto simp: evaluateDeadlineAdmission_def zeroEvaluation_def Let_def split: option.splits)
  have disabled: "E_Condition (evaluateDeadlineAdmission now w p hard e) = None" if "\<not> effectiveDeadlineEnabled w"
    using that by (simp add: evaluateDeadlineAdmission_def zeroEvaluation_def Let_def)
  show "E_Condition (evaluateDeadlineAdmission now w p hard e) = None \<longleftrightarrow> \<not> effectiveDeadlineEnabled w"
    using enabled disabled by force
  show "C_Type c = ''DeadlineAdmission''" if "E_Condition (evaluateDeadlineAdmission now w p hard e) = Some c"
    using enabled disabled that by (cases "effectiveDeadlineEnabled w") (auto simp: deadlineAdmissionCondition_def)
qed

lemma decision_condition:
  fixes now w e a av
  defines "c \<equiv> E_Condition (PD_Deadline (snd (applyDestinationReadiness w (resolvePlacementWithEstimates now w e) a av)))"
  shows "c \<noteq> None \<longleftrightarrow> ControlTopic (device w) \<noteq> [] \<and> effectiveDeadlineEnabled w"
    and "c = Some k \<Longrightarrow> C_Type k = ''DeadlineAdmission''"
proof -
  have disabled: "c = None" if "ControlTopic (device w) = []"
    using that by (simp add: c_def readiness_typed resolve_disabled initialDecision_def zeroEvaluation_def)
  have enabled: "\<exists>p hard. c = E_Condition (evaluateDeadlineAdmission now w p hard e)" if "ControlTopic (device w) \<noteq> []"
    using resolve_enabled(7) [OF that] by (auto simp: c_def readiness_typed)
  show "c \<noteq> None \<longleftrightarrow> ControlTopic (device w) \<noteq> [] \<and> effectiveDeadlineEnabled w"
    using disabled enabled evaluation_condition(1) by metis
  show "C_Type k = ''DeadlineAdmission''" if "c = Some k"
    using disabled enabled evaluation_condition(2) that by (metis option.distinct(1))
qed

lemma reconciled_types:
  assumes "conditionLaws api" "\<And>k. E_Condition (PD_Deadline (U_Decision u)) = Some k \<Longrightarrow> C_Type k = ''DeadlineAdmission''"
    and "C_Type (U_Available u) = ''Available''" "C_Type (U_Artifact u) = ''ArtifactSynchronized''"
    and "C_Type (U_Placement u) = ''PlacementCommanded''"
  shows "set (types_of (reconciledConditions api u cs)) =
      set (types_of cs) \<union> {''Available'', ''ArtifactSynchronized'', ''PlacementCommanded''} - {''DeadlineReady'', ''DeadlineRisk'',
        ''DeadlineAdmission''} \<union> (if E_Condition (PD_Deadline (U_Decision u)) = None then {} else {''DeadlineAdmission''})"
    and "distinct (types_of cs) \<Longrightarrow> distinct (types_of (reconciledConditions api u cs))"
  using assms(2) by (auto simp: reconciledConditions_def Let_def set_condition_types [OF assms(1)] assms(3-5) split: option.split)

text \<open>C26: The conditions stay consistent.  If the condition helpers keep their contract, every status that a
  pass writes has the three conditions of the pass and none of the retired ones, has an admission
  condition exactly when deadline admission applies, and has no type twice if there was none before.\<close>

theorem conditions_stay_consistent:
  assumes "reconcile env key st = (r, st')" "w' \<in> set (statusWrites st st')" "conditionLaws (Api env)"
  shows "\<exists>w n current. GetFunction (Api env) (ApiCalls (Trace st)) key = Inr w \<and> GetFunction (Api env) n key = Inr current \<and>
    {''Available'', ''ArtifactSynchronized'', ''PlacementCommanded''} \<subseteq> set (types_of (Conditions (Status w'))) \<and>
    {''DeadlineReady'', ''DeadlineRisk''} \<inter> set (types_of (Conditions (Status w'))) = {} \<and>
    (''DeadlineAdmission'' \<in> set (types_of (Conditions (Status w'))) \<longleftrightarrow>
       ControlTopic (device w) \<noteq> [] \<and> effectiveDeadlineEnabled w) \<and>
    (distinct (types_of (Conditions (Status current))) \<longrightarrow> distinct (types_of (Conditions (Status w'))))"
  using assms(1,2)
proof (cases rule: pass_status_write)
  case (1 w wa artifact aerr h http d now e av n commanded perr t1 t2 t3 m current)
  let ?u = "statusInput n d artifact aerr commanded perr t1 t2 t3 (passWf st')"
  have spec: "Spec wa = Spec w" using 1(5) by (rule same_inputD)
  have kind: "C_Type k = ''DeadlineAdmission''" if "E_Condition (PD_Deadline (U_Decision ?u)) = Some k" for k
    using decision_condition(2) [of wa now e artifact av k] that by (simp add: 1(7))
  have applies: "E_Condition (PD_Deadline (U_Decision ?u)) \<noteq> None \<longleftrightarrow> ControlTopic (device w) \<noteq> [] \<and> effectiveDeadlineEnabled w"
    using decision_condition(1) [of wa now e artifact av] spec by (simp add: 1(7) effectiveDeadlineEnabled_def)
  let ?T = "set (types_of (Conditions (Status w')))" and ?c = "Conditions (Status current)"
  have conditions: "Conditions (Status w') = reconciledConditions (Api env) ?u ?c" by (simp only: 1(10) reconciledStatus_fields)
  have T: "?T = set (types_of ?c) \<union> {''Available'', ''ArtifactSynchronized'', ''PlacementCommanded''} -
      {''DeadlineReady'', ''DeadlineRisk'', ''DeadlineAdmission''} \<union>
      (if E_Condition (PD_Deadline (U_Decision ?u)) = None then {} else {''DeadlineAdmission''})"
    unfolding conditions by (rule reconciled_types(1) [OF assms(3) kind]) simp_all
  have distinct: "distinct (types_of ?c) \<longrightarrow> distinct (types_of (Conditions (Status w')))"
    unfolding conditions by (intro impI, rule reconciled_types(2) [OF assms(3) kind]) simp_all
  have "{''Available'', ''ArtifactSynchronized'', ''PlacementCommanded''} \<subseteq> ?T"
    "{''DeadlineReady'', ''DeadlineRisk''} \<inter> ?T = {}"
    "''DeadlineAdmission'' \<in> ?T \<longleftrightarrow> ControlTopic (device w) \<noteq> [] \<and> effectiveDeadlineEnabled w"
    unfolding applies [symmetric] T by simp_all
  with 1(1,2) distinct show ?thesis by blast
qed

section \<open>An outage of the artifact source\<close>

lemma outage_decision:
  assumes "operatorArtifactURL w \<noteq> []" "\<And>m h. \<exists>e. env h (plainRequest m (operatorArtifactURL w)) = Inl e"
    and "reconcileArtifact sha env resolver w h = ((a, err), h')"
  shows "DesiredDigest a = []" "err \<noteq> None"
proof -
  have "\<exists>e h1. fetchArtifactDigest sha env (operatorArtifactURL w) h = (Inl e, h1)"
    using assms(2) [of h "''HEAD''"] assms(2) [of "h @ [plainRequest ''HEAD'' (operatorArtifactURL w)]" "''GET''"]
    by (auto simp: fetchArtifactDigest_def fetchArtifact_def send_def)
  then obtain e h1 where "fetchArtifactDigest sha env (operatorArtifactURL w) h = (Inl e, h1)" by blast
  then show "DesiredDigest a = []" "err \<noteq> None"
    using assms(1,3) by (auto simp: reconcileArtifact_def Let_def zeroArtifact_def)
qed

text \<open>An outage of the artifact source resets the reported delivery state.  When the source cannot be
  reached, the pass forgets the desired digest, and every status it writes reports the release as
  pending, also when the device runs exactly the declared release.\<close>

theorem source_outage_reports_pending:
  assumes "reconcile env key st = (r, st')" "w' \<in> set (statusWrites st st')"
    and "GetFunction (Api env) (ApiCalls (Trace st)) key = Inr w" "operatorArtifactURL w \<noteq> []"
    and "\<And>m h. \<exists>e. Web env h (plainRequest m (operatorArtifactURL w)) = Inl e"
  shows "ReleaseDeliveryState (Status w') = ''Pending'' \<and> DesiredArtifactDigest (Status w') = []"
  using assms(1,2)
proof (cases rule: pass_status_write)
  case (1 v wa artifact aerr h http d now e av n commanded perr t1 t2 t3 m current)
  then have "v = w" using assms(3) by simp
  then have "DesiredArtifactDigest (Status (passWf st')) = []"
    using outage_decision(1) [of w "Web env" "Sha env" "HostWasmURLResolver env" http artifact aerr h] assms(4,5) 1(3,9) by simp
  moreover have "releaseDeliveryState v' [] = ''Pending''" for v' by (simp add: releaseDeliveryState_def)
  ultimately show ?thesis
    using reconciledStatus_delivery [of "Api env" "passWf st'" _ current]
    by (simp add: 1(10) reconciledStatus_fields)
qed

section \<open>The order of effects\<close>

lemma stages_write_status:
  assumes "releaseStages env key deploy st = (r, st')"
  shows "logs (\<lambda>x. \<not> objectWrite (fst x)) (Trace st) (Trace st')"
  using assms
proof (cases rule: releaseStages_cases)
  case (reported artifact aerr h wa n av d now e st3 commanded perr st4 st5 u1 u2 u3 rs)
  have "logs (\<lambda>x. \<not> objectWrite (fst x)) (Trace st4) (Trace st')"
    by (rule logs_mono [OF updateStatus_log(1) [OF reported(10)]]) (auto simp: statusWrite_def objectWrite_def)
  then show ?thesis using reported(9) by (simp add: logs_def)
qed (simp add: logs_def)

text \<open>C10: The cluster comes first.  A pass that sends an HTTP request or a control message, or writes a
  status, has before that read the resource and brought its Deployment and then its Service in order
  without an error, and writes nothing but statuses afterwards.  Every other pass has written objects
  at most, and its result says why it stopped: a resource that is gone ends it without an error, and
  any other error of the read, and an error of the Deployment or of the Service, is returned.\<close>

theorem objects_before_commands:
  assumes "reconcile env key st = (r, st')"
  shows "(\<exists>w deploy t1 t2. GetFunction (Api env) (ApiCalls (Trace st)) key = Inr w \<and>
      ensureDeployment (Api env) w (tick (Trace st)) = (Inr deploy, t1) \<and> ensureService (Api env) w t1 = (None, t2) \<and>
      logs (\<lambda>x. objectWrite (fst x)) (Trace st) t2 \<and> logs (\<lambda>x. \<not> objectWrite (fst x)) t2 (Trace st')) \<or>
    (Http st' = Http st \<and> Events (Operator st') = Events (Operator st) \<and> statusWrites st st' = [] \<and>
      (GetFunction (Api env) (ApiCalls (Trace st)) key = Inl NotFound \<and> r = Finished None \<or>
       (\<exists>e. GetFunction (Api env) (ApiCalls (Trace st)) key = Inl e \<and> e \<noteq> NotFound \<and> r = Failed e) \<or>
       (\<exists>w e. GetFunction (Api env) (ApiCalls (Trace st)) key = Inr w \<and> objectsFail (Api env) w (tick (Trace st)) e \<and>
          r = Failed e)))"
  using assms
proof (cases rule: reconcile_halves)
  case stopped
  then show ?thesis using objectWrites_no_status [of st "Trace st'" st'] by simp
next
  case (reached w deploy t1 t2)
  then show ?thesis using stages_write_status [OF reached(5)] by auto
qed

definition commandMemory :: "wasmFunctionStatus \<Rightarrow>
    (string \<times> string \<times> string \<times> time option) \<times> (string \<times> time option \<times> int32) \<times>
    (string \<times> string) \<times> (string \<times> time option) \<times> int32 \<times> int32" where
  "commandMemory s =
    ((LastCommandedPlacement s, LastCommandedRuntimeMode s, LastCommandID s, LastCommandTime s),
     (LastStageCommandID s, LastStageCommandTime s, StageCommandAttempts s),
     (LastDeadlineDecisionID s, LastSignaledDeadlineDecisionID s),
     (LastAppliedBatterySimulationCommandID s, LastBatterySimulationCommandTime s),
     LastAppliedLowBatteryThreshold s, LastAppliedHighBatteryThreshold s)"

lemma reconciledStatus_memory:
  "commandMemory (Status (reconciledStatus api w u current)) = commandMemory (Status w)"
  by (simp add: reconciledStatus_def Let_def reconciledFields_def commandMemory_def)

text \<open>The estimator's index stays in range.  Whatever samples and profiles the estimator holds and whatever
  the world answers, no pass ends with an index that is out of range.  The pointers that a pass
  dereferences are the subject of \<open>Decision_Panics\<close>.\<close>

theorem pass_index_in_range:
  "fst (reconcile env key st) \<noteq> Panicked"
proof
  assume panic: "fst (reconcile env key st) = Panicked"
  then obtain st' where run: "reconcile env key st = (Panicked, st')" by (metis prod.collapse)
  have total: "deadlineEstimate (DeadlineEstimator env) w \<noteq> None" for w
    using snapshot_total by (auto simp: deadlineEstimate_def estimate_def Let_def split: option.split)
  from run show False
  proof (cases rule: reconcile_halves)
    case (reached w deploy t1 t2)
    from reached(5) show False
    proof (cases rule: releaseStages_cases)
      case (reported artifact aerr h wa n av d now e st3 commanded perr st4 st5 u1 u2 u3 rs)
      then show False using requeueStage_frame(5) [of env aerr perr st5 Panicked st'] by (auto split: option.splits)
    qed (use total in simp)
  qed simp
qed

section \<open>When the pass runs again\<close>

lemma requeueAt_bounds:
  assumes "t \<le> now" "0 < delay" "delay \<le> 60 * second"
  shows "\<exists>d. requeueAt (t + delay) now = Some d \<and> 0 < d \<and> d \<le> 60 * second \<and> t + delay \<le> now + d \<and>
    (now + d = t + delay \<or> d = second)"
  using assms by (auto simp: requeueAt_def Let_def time_sub_def second_def)

lemma requeueAt_past: "t \<le> now \<Longrightarrow> requeueAt t now = Some second"
  by (simp add: requeueAt_def Let_def time_sub_def second_def)

lemma requeueAt_ahead:
  assumes "t \<le> now" "0 < delay" "delay \<le> 60 * second" "now < t + delay"
  shows "requeueAt (t + delay) now = Some (t + delay - now)"
  using assms by (auto simp: requeueAt_def Let_def time_sub_def second_def)

lemma stage_delay_bounds: "0 < releaseStageRetryDelay a" "releaseStageRetryDelay a \<le> 60 * second"
  by (simp_all add: stage_delay_value releaseStageRetryBase_def releaseStageRetryMax_def second_def)

text \<open>The requeue delays are bounded.  After an error the pass runs again after five, ten, twenty or forty
  seconds; while an acknowledgement is awaited it runs again after at most sixty, if the recorded
  commands do not lie in the future.\<close>

theorem requeue_delays_bounded:
  assumes "\<forall>t \<in> set_option (LastStageCommandTime (Status w)). t \<le> now"
    and "\<forall>t \<in> set_option (LastCommandTime (Status w)). t \<le> now"
  shows "requeueOnError w aerr perr \<in> {None, Some (5 * second), Some (10 * second), Some (20 * second), Some (40 * second)} \<and>
    (requeueOnError w aerr perr = None \<longleftrightarrow> aerr = None \<and> perr = None) \<and>
    (\<forall>d \<in> set_option (requeuePendingRelease w now). 0 < d \<and> d \<le> 60 * second)"
proof (intro conjI)
  define n where "n = min ((if ArtifactSyncRetryCount (Status w) < 1 then 1 else ArtifactSyncRetryCount (Status w)) - 1) 3"
  have "n \<in> {0, 1, 2, 3}" by (auto simp: n_def min_def)
  then have n: "(2::int) ^ nat n \<in> {1, 2, 4, 8}" by auto
  have "requeueOnError w aerr perr = (if aerr \<noteq> None \<or> perr \<noteq> None then
      Some (if 5 * second * 2 ^ nat n > 60 * second then 60 * second else 5 * second * 2 ^ nat n) else None)"
    by (simp add: requeueOnError_def n_def Let_def)
  then show "requeueOnError w aerr perr \<in> {None, Some (5 * second), Some (10 * second), Some (20 * second), Some (40 * second)}"
    "requeueOnError w aerr perr = None \<longleftrightarrow> aerr = None \<and> perr = None"
    using n by (auto simp: second_def)
  show "\<forall>d \<in> set_option (requeuePendingRelease w now). 0 < d \<and> d \<le> 60 * second"
  proof
    fix d assume "d \<in> set_option (requeuePendingRelease w now)"
    then have d: "requeuePendingRelease w now = Some d" by simp
    have base: "0 < releaseStageRetryBase" "releaseStageRetryBase \<le> 60 * second" "0 < second" "second \<le> 60 * second"
      by (simp_all add: releaseStageRetryBase_def second_def)
    show "0 < d \<and> d \<le> 60 * second"
    proof (cases "LastStageCommandTime (Status w)")
      case None
      then show ?thesis
        using d base assms(2) requeueAt_bounds [of "the (LastCommandTime (Status w))" now releaseStageRetryBase]
        by (auto simp: requeuePendingRelease_def Let_def split: option.splits if_splits)
    next
      case (Some t)
      then show ?thesis
        using d base assms stage_delay_bounds requeueAt_bounds [of "the (LastCommandTime (Status w))" now releaseStageRetryBase]
          requeueAt_bounds [of t now "releaseStageRetryDelay (if StageCommandAttempts (Status w) < 1 then 1 else StageCommandAttempts (Status w))"]
        by (auto simp: requeuePendingRelease_def Let_def split: option.splits if_splits)
    qed
  qed
qed

text \<open>
  What the throttle knows of the last send of a command: the time that memory or status gives, whichever
  is newer.  A status keeps times to the second only, so a status that was written with a send and
  read again holds the time of memory cut to the second.
\<close>

definition wholeSecond :: "time \<Rightarrow> time" where
  "wholeSecond t = t - t mod second"

definition sameSend :: "string \<Rightarrow> time \<Rightarrow> int32 \<Rightarrow> releaseStageSendState \<Rightarrow> bool" where
  "sameSend c t n r \<longleftrightarrow> SS_CommandID r = c \<longrightarrow>
     SS_SentAt r \<le> t \<or> wholeSecond (SS_SentAt r) = wholeSecond t \<and> SS_Attempts r = n"

lemma same_second: "wholeSecond a = wholeSecond b \<Longrightarrow> a < b + second"
proof -
  assume "wholeSecond a = wholeSecond b"
  then have "a - a mod second = b - b mod second" by (simp add: wholeSecond_def)
  moreover have "0 \<le> b mod second" "a mod second < second" by (simp_all add: second_def)
  ultimately show "a < b + second" by linarith
qed

lemma throttle_memory:
  assumes "LastStageCommandTime (Status (Wf st)) = Some t" "LastStageCommandID (Status (Wf st)) = c" "0 < t"
    and "\<forall>r \<in> set_option (StageSends st (key_of (Wf st))). sameSend c t (StageCommandAttempts (Status (Wf st))) r"
  shows "\<exists>s. lastStageSend st c = (s, StageCommandAttempts (Status (Wf st))) \<and> t \<le> s \<and> s < t + second \<and>
    s = max t (stageSent (key_of (Wf st)) c st)"
proof -
  have pos: "0 < second" by (simp add: second_def)
  show ?thesis
  proof (cases "StageSends st (key_of (Wf st))")
    case None
    then show ?thesis using assms pos by (auto simp: lastStageSend_def stageSent_def Let_def)
  next
    case (Some r)
    then show ?thesis
      using assms pos same_second [of "SS_SentAt r" t]
      by (cases "SS_CommandID r = c \<and> t < SS_SentAt r") (auto simp: lastStageSend_def stageSent_def sameSend_def Let_def)
  qed
qed

lemma throttle_opens:
  assumes "lastStageSend st c = (s, n)" "0 < s"
  shows "fst (claimReleaseStageAttempt c now st) \<noteq> None \<longleftrightarrow> s + releaseStageRetryDelay (if n < 1 then 1 else n) \<le> now"
  using assms by (auto simp: claimReleaseStageAttempt_def Let_def)

text \<open>C13: The requeue and the staging throttle agree up to the second that a status time loses.  Let the
  device's acknowledgement of a staging command be awaited, and let the in-memory record of the send
  be no newer than the status, or be the one whose time the status holds, cut to the second.  Then the
  pass is run again, never later than when the throttle first lets the command be repeated (or one
  second from now, when it already does); a pass that runs at that time or later asks for another one
  a second later, and from that one on the throttle is open.  If the status is not behind the memory,
  the throttle is open at the first of them.\<close>

theorem requeue_meets_throttle:
  fixes st :: operatorState and now :: time
  defines "c \<equiv> stageCommandID (R_Generation (release (Wf st))) (normalizeArtifactDigest (R_ArtifactDigest (release (Wf st))))"
  defines "opened \<equiv> \<lambda>n. fst (claimReleaseStageAttempt c n st) \<noteq> None"
  assumes "releaseDeliveryState (Wf st) (normalizeArtifactDigest (R_ArtifactDigest (release (Wf st)))) = ''AwaitingStageAck''"
    and "LastStageCommandTime (Status (Wf st)) = Some t" "0 < t" "t \<le> now"
    and "\<forall>r \<in> set_option (StageSends st (key_of (Wf st))). sameSend c t (StageCommandAttempts (Status (Wf st))) r"
  shows "\<exists>d. requeuePendingRelease (Wf st) now = Some d \<and> 0 < d \<and>
    (\<forall>n. opened n \<longrightarrow> now + d \<le> max n (now + second)) \<and>
    (\<forall>n \<ge> now + d. requeuePendingRelease (Wf st) n = Some second) \<and>
    (\<forall>n \<ge> now + d + second. opened n) \<and>
    (stageSent (key_of (Wf st)) c st \<le> t \<longrightarrow> (\<forall>n \<ge> now + d. opened n))"
proof -
  let ?delay = "releaseStageRetryDelay (if StageCommandAttempts (Status (Wf st)) < 1 then 1 else StageCommandAttempts (Status (Wf st)))"
  have id: "LastStageCommandID (Status (Wf st)) = c" using assms(3) by (simp add: c_def releaseDeliveryState_iffs)
  obtain s where s: "lastStageSend st c = (s, StageCommandAttempts (Status (Wf st)))" "t \<le> s" "s < t + second"
    "s = max t (stageSent (key_of (Wf st)) c st)"
    using throttle_memory [OF assms(4) id assms(5,7)] by blast
  have opens: "opened n \<longleftrightarrow> s + ?delay \<le> n" for n
    unfolding opened_def using throttle_opens [OF s(1)] assms(5) s(2) by simp
  have requeue: "requeuePendingRelease (Wf st) n = requeueAt (t + ?delay) n" for n
    using assms(3,4) by (simp add: requeuePendingRelease_def Let_def)
  obtain d where d: "requeueAt (t + ?delay) now = Some d" "0 < d" "t + ?delay \<le> now + d" "now + d = t + ?delay \<or> d = second"
    using requeueAt_bounds [OF assms(6) stage_delay_bounds] by blast
  show ?thesis
  proof (intro exI conjI allI impI)
    show "requeuePendingRelease (Wf st) now = Some d" "0 < d" using d requeue by simp_all
    show "now + d \<le> max n (now + second)" if "opened n" for n
      using that d(4) s(2) by (auto simp: opens)
    show "requeuePendingRelease (Wf st) n = Some second" if "now + d \<le> n" for n
      using that d(3) by (simp add: requeue requeueAt_past)
    show "opened n" if "now + d + second \<le> n" for n
      using that d(3) s(3) by (simp add: opens)
    show "opened n" if "stageSent (key_of (Wf st)) c st \<le> t" "now + d \<le> n" for n
      using that d(3) s(4) by (simp add: opens)
  qed
qed

text \<open>The second that the status has lost costs a pass: when the status holds the time of the last send cut
  to the second, the requeued pass runs before the throttle opens and repeats nothing.\<close>

theorem requeue_wakes_early:
  fixes st :: operatorState and now :: time
  defines "c \<equiv> stageCommandID (R_Generation (release (Wf st))) (normalizeArtifactDigest (R_ArtifactDigest (release (Wf st))))"
  assumes "releaseDeliveryState (Wf st) (normalizeArtifactDigest (R_ArtifactDigest (release (Wf st)))) = ''AwaitingStageAck''"
    and "LastStageCommandTime (Status (Wf st)) = Some t" "0 < t"
    and "StageSends st (key_of (Wf st)) = Some r" "SS_CommandID r = c" "SS_Attempts r = StageCommandAttempts (Status (Wf st))"
    and "t < SS_SentAt r" "t \<le> now" "now < t + 30 * second"
  shows "\<exists>d. requeuePendingRelease (Wf st) now = Some d \<and> fst (claimReleaseStageAttempt c (now + d) st) = None"
proof -
  let ?delay = "releaseStageRetryDelay (if StageCommandAttempts (Status (Wf st)) < 1 then 1 else StageCommandAttempts (Status (Wf st)))"
  have id: "LastStageCommandID (Status (Wf st)) = c" using assms(2) by (simp add: c_def releaseDeliveryState_iffs)
  have s: "lastStageSend st c = (SS_SentAt r, StageCommandAttempts (Status (Wf st)))"
    using assms(3,5-8) id by (simp add: lastStageSend_def Let_def)
  have "now < t + ?delay" using assms(10) stage_delay_ge by (metis add_left_mono order_less_le_trans)
  then have "requeuePendingRelease (Wf st) now = Some (t + ?delay - now)"
    using assms(2,3,9) requeueAt_ahead stage_delay_bounds by (simp add: requeuePendingRelease_def Let_def)
  moreover have "fst (claimReleaseStageAttempt c (now + (t + ?delay - now)) st) = None"
    using throttle_opens [OF s, of "t + ?delay"] assms(4,8) by auto
  ultimately show ?thesis by blast
qed

section \<open>Witnesses\<close>

lemma demo_laws: "conditionLaws (Api (demoPass w web))"
proof -
  have "types_of (setCondition cs c) = (if C_Type c \<in> set (types_of cs) then types_of cs else types_of cs @ [C_Type c])" for cs c
    by (auto simp: types_of_def setCondition_def updateCondition_def image_iff) metis
  moreover have "types_of (removeCondition cs ty) = filter (\<lambda>t. t \<noteq> ty) (types_of cs)" for cs ty
    by (induction cs) (simp_all add: types_of_def removeCondition_def)
  ultimately show ?thesis by (simp add: conditionLaws_def demoPass_def answering_def demoServer_def)
qed

theorem conditions_stay_consistent_witness:
  "\<exists>st' w'. w' \<in> set (statusWrites idlePass st') \<and> ''Available'' \<in> set (types_of (Conditions (Status w')))"
proof -
  obtain delay st' w' where run: "reconcile (demoPass syncedFunction vouching) ([], []) idlePass = (Finished delay, st')"
    "w' \<in> set (statusWrites idlePass st')" using demo_pass by blast
  from conditions_stay_consistent [OF this demo_laws]
  have "{''Available'', ''ArtifactSynchronized'', ''PlacementCommanded''} \<subseteq> set (types_of (Conditions (Status w')))"
    by (elim exE conjE)
  then have "''Available'' \<in> set (types_of (Conditions (Status w')))" by (rule subsetD) simp
  with run(2) show ?thesis by (intro exI conjI)
qed

text \<open>A device that runs the declared release, and a source that is down.\<close>

definition deliveredFunction :: wasmFunction where
  "deliveredFunction = syncedFunction\<lparr>Status := zeroStatus\<lparr>AcknowledgedReleaseGeneration := 5,
     ObservedArtifactDigest := hex64 ''m0'', ObservedFunction := ''f''\<rparr>\<rparr>"

theorem source_outage_reports_pending_witness:
  "releaseDeliveryState deliveredFunction (declaredDigest deliveredFunction) = ''Active'' \<and>
   (\<exists>st' w'. w' \<in> set (statusWrites idlePass st') \<and> ReleaseDeliveryState (Status w') = ''Pending'')"
proof -
  let ?down = "\<lambda>h r. Inl ''connection refused''"
  obtain delay st' w' where run: "reconcile (demoPass deliveredFunction ?down) ([], []) idlePass = (Finished delay, st')"
    "w' \<in> set (statusWrites idlePass st')" using demo_pass by blast
  have spec: "declaredDigest deliveredFunction = hex64 ''m0''" "operatorArtifactURL deliveredFunction = ''http://s/a''"
    using synced_urls(1,3) by (simp_all add: declaredDigest_def operatorArtifactURL_def deliveredFunction_def)
  have "Web (demoPass deliveredFunction ?down) h q = Inl ''connection refused''" for h q by (simp add: demoPass_def)
  with source_outage_reports_pending [OF run demo_get] spec(2)
  have "ReleaseDeliveryState (Status w') = ''Pending''" by simp
  moreover have "releaseDeliveryState deliveredFunction (hex64 ''m0'') = ''Active''"
    using synced_urls(4,5) by (simp add: releaseDeliveryState_iffs deviceReleaseActive_def deliveredFunction_def zeroStatus_def)
  ultimately show ?thesis using run(2) spec(1) by auto
qed

theorem objects_before_commands_witness:
  "fst (reconcile ((demoPass syncedFunction vouching)\<lparr>Api := demoServer\<lparr>OwnerRef := (\<lambda>w. Inl Conflict)\<rparr>\<rparr>) ([], []) idlePass)
     = Failed Conflict"
proof -
  let ?env = "(demoPass syncedFunction vouching)\<lparr>Api := demoServer\<lparr>OwnerRef := (\<lambda>w. Inl Conflict)\<rparr>\<rparr>"
  obtain r st' where run: "reconcile ?env ([], []) idlePass = (r, st')" by (metis prod.collapse)
  have fails: "fst (ensureDeployment (Api ?env) w t) = Inl Conflict" for w t by (simp add: ensureDeployment_def)
  have read: "GetFunction (Api ?env) n key = Inr syncedFunction" for n key by (simp add: demoServer_def)
  have "objectsFail (Api ?env) w t e \<Longrightarrow> e = Conflict" for w t e
    using fails [of w t] by (auto simp: objectsFail_def split: prod.splits sum.splits)
  then have "r = Failed Conflict"
    using objects_before_commands [OF run] fails read by (auto simp del: apiServer.simps) (metis fst_conv sum.distinct(1))
  then show ?thesis using run by simp
qed

theorem requeue_delays_bounded_witness:
  "requeueOnError syncedFunction (Some ''e'') (None :: string option) \<in>
     {None, Some (5 * second), Some (10 * second), Some (20 * second), Some (40 * second)}"
  using requeue_delays_bounded [of syncedFunction 0 "Some ''e''" "None :: string option"]
  by (simp add: syncedFunction_def zero_defs)

definition awaitingFunction :: wasmFunction where
  "awaitingFunction = syncedFunction\<lparr>Status := zeroStatus\<lparr>LastStageCommandID := stageCommandID 5 (hex64 ''m0''),
     LastStageCommandTime := Some second, StageCommandAttempts := 1\<rparr>\<rparr>"

text \<open>The operator sent the command four tenths of a second after the second that the status holds.\<close>

definition awaitingOperator :: operatorState where
  "awaitingOperator = (emptyOperator awaitingFunction)\<lparr>StageSends := [key_of awaitingFunction \<mapsto>
     \<lparr>SS_CommandID = stageCommandID 5 (hex64 ''m0''), SS_SentAt = second + 400000000, SS_Attempts = 1\<rparr>]\<rparr>"

lemma awaiting_facts:
  "normalizeArtifactDigest (R_ArtifactDigest (release awaitingFunction)) = hex64 ''m0''"
  "R_Generation (release awaitingFunction) = 5"
  "releaseDeliveryState awaitingFunction (hex64 ''m0'') = ''AwaitingStageAck''"
  "LastStageCommandTime (Status awaitingFunction) = Some second" "StageCommandAttempts (Status awaitingFunction) = 1"
  "Wf awaitingOperator = awaitingFunction"
proof -
  show digest: "normalizeArtifactDigest (R_ArtifactDigest (release awaitingFunction)) = hex64 ''m0''"
    "R_Generation (release awaitingFunction) = 5"
    using synced_urls(3,4) by (simp_all add: declaredDigest_def awaitingFunction_def)
  show "releaseDeliveryState awaitingFunction (hex64 ''m0'') = ''AwaitingStageAck''"
    using digest(2) by (simp add: releaseDeliveryState_iffs deviceReleaseReady_def deviceReleaseStaged_def
        deviceReleaseActive_def) (simp add: awaitingFunction_def zeroStatus_def)
qed (simp_all add: awaitingFunction_def awaitingOperator_def)

theorem requeue_meets_throttle_witness:
  "\<exists>d. requeuePendingRelease awaitingFunction (2 * second) = Some d \<and>
     (\<forall>n \<ge> 2 * second + d + second. fst (claimReleaseStageAttempt (stageCommandID 5 (hex64 ''m0'')) n awaitingOperator) \<noteq> None) \<and>
     0 < stageSent (key_of awaitingFunction) (stageCommandID 5 (hex64 ''m0'')) awaitingOperator mod second"
proof -
  have memory: "\<forall>r \<in> set_option (StageSends awaitingOperator (key_of awaitingFunction)).
      sameSend (stageCommandID 5 (hex64 ''m0'')) second (StageCommandAttempts (Status awaitingFunction)) r"
    by (simp add: awaiting_facts(5) sameSend_def awaitingOperator_def wholeSecond_def second_def)
  have "0 < stageSent (key_of awaitingFunction) (stageCommandID 5 (hex64 ''m0'')) awaitingOperator mod second"
    by (simp add: stageSent_def awaitingOperator_def second_def)
  moreover have "0 < second" "second \<le> 2 * second" by (simp_all add: second_def)
  ultimately show ?thesis
    using requeue_meets_throttle [of awaitingOperator second "2 * second", unfolded awaiting_facts(6) awaiting_facts(1,2)] memory
      awaiting_facts(3,4) by blast
qed

theorem requeue_wakes_early_witness:
  "\<exists>d. requeuePendingRelease awaitingFunction (2 * second) = Some d \<and>
     fst (claimReleaseStageAttempt (stageCommandID 5 (hex64 ''m0'')) (2 * second + d) awaitingOperator) = None"
  using requeue_wakes_early [of awaitingOperator second _ "2 * second", unfolded awaiting_facts(6) awaiting_facts(1,2)]
    awaiting_facts(3-5) by (simp add: awaitingOperator_def second_def)

end
