(* ===== verification/Edge_Activation.thy ===== *)
theory Edge_Activation
  imports Sync_Host Command_Findings Reconcile_Safety
begin

text \<open>
  Operator, device commands and edge host together: a whole pass of the reconciler against the model
  of the host.  The host's answer to the activation that the command pass asks for is the one the host
  of \<open>Edge_Host\<close> gives to the request that \<open>postHostActivation\<close> sends.
\<close>

section \<open>What a command pass that sets the edge mode has done before\<close>

lemma before_local:
  "beforeCommand env topic (d\<lparr>Desired := p\<rparr>) a = beforeCommand env topic d a"
proof -
  have "deadlineRejected w (d\<lparr>Desired := p\<rparr>) = deadlineRejected w d" for w
    by (simp add: deadlineRejected_def)
  moreover have "deadlineDecisionID w (d\<lparr>Desired := p\<rparr>) = deadlineDecisionID w d" for w
    by (simp add: deadlineDecisionID_def Let_def)
  ultimately have "applyDeadlineRejectionSignal env topic (d\<lparr>Desired := p\<rparr>) = applyDeadlineRejectionSignal env topic d"
    by (simp add: applyDeadlineRejectionSignal_def fun_eq_iff)
  moreover have "applyThresholdUpdate env topic (d\<lparr>Desired := p\<rparr>) = applyThresholdUpdate env topic d"
    by (simp add: applyThresholdUpdate_def fun_eq_iff)
  ultimately show ?thesis by (simp add: beforeCommand_def)
qed

lemma emits_mono: "emits w P f \<Longrightarrow> (\<And>e. P e \<Longrightarrow> Q e) \<Longrightarrow> emits w Q f"
  unfolding emits_def by (fastforce split: prod.splits)

text \<open>Neither an edge mode nor an activation of the host.\<close>

definition no_switch :: "event \<Rightarrow> bool" where
  "no_switch e \<longleftrightarrow> no_edge_mode e \<and> (\<forall>g. e \<noteq> ActivateHost g)"

lemma before_no_switch: "emits w no_switch (beforeCommand env (ControlTopic (device w)) d a)"
proof -
  have "emits w (justified w (d\<lparr>Desired := placementLocal\<rparr>) a) (beforeCommand env (ControlTopic (device w)) d a)"
    using emits_before [of w "d\<lparr>Desired := placementLocal\<rparr>" a env] by (simp only: before_local)
  then show ?thesis
    by (rule emits_mono) (auto simp: no_switch_def no_edge_mode_def split: event.splits controlMessage.splits)
qed

lemma resume_no_switch: "emits w no_switch (applyResumeCommand env topic d a)"
proof (rule emits_at)
  fix st :: operatorState
  let ?w = "Wf st" and ?g = "R_Generation (release (Wf st))"
  let ?stay = "\<not> ObservedAdmissionPaused (Status ?w) \<or> ObservedMode (Status ?w) \<noteq> runtimeModeForPlacement (Desired d) \<or>
    AcknowledgedReleaseGeneration (Status ?w) \<noteq> ?g \<or>
    normalizeArtifactDigest (ObservedArtifactDigest (Status ?w)) \<noteq> DesiredDigest a \<or>
    commandAwaitingNewTelemetry ?w (resumeID ?g)"
  let ?send = "andThen (publishControl env topic (ResumeFunction (resumeID ?g) ?g)) (\<lambda>_. rememberCommand env (resumeID ?g))"
  have send: "emits w no_switch ?send"
    by (intro emits_andThen emits_publish emits_remember) (simp add: no_switch_def no_edge_mode_def)
  have "applyResumeCommand env topic d a st = (if ?stay then ret () else ?send) st"
    by (simp add: applyResumeCommand_def Let_def ret_def)
  then show "\<exists>f'. applyResumeCommand env topic d a st = f' st \<and> emits w no_switch f'"
    by (rule emits_chosen) (intro emits_if emits_ret send)
qed

lemma after_no_switch: "emits w no_switch (afterCommand env topic d a c)"
  unfolding afterCommand_def
  by (intro emits_andThen emits_if emits_clock emits_setStatus resume_no_switch emits_ret)
    (simp add: forget_status_def)

lemma andThen_events:
  assumes "\<And>a. emits (Wf (snd (f st))) P (g a)"
  obtains evs where "Events (snd (andThen f g st)) = Events (snd (f st)) @ evs" "\<forall>(e, answer) \<in> set evs. P e"
proof (cases "fst (f st)")
  case (Inl e)
  then show ?thesis by (intro that [of "[]"]) (auto simp: andThen_def split: prod.splits)
next
  case (Inr a)
  have "Events (snd (andThen f g st)) = Events (snd (g a (snd (f st))))"
    using Inr by (auto simp: andThen_def split: prod.splits sum.splits)
  with assms [of a] that show ?thesis unfolding emits_def by (metis same_view_refl)
qed

lemma hostMatches_view:
  assumes "release w = release w'"
  shows "hostActiveMatches a w = hostActiveMatches a w'" "hostStagedMatches a w = hostStagedMatches a w'"
  using assms by (simp_all add: hostActiveMatches_def hostStagedMatches_def hostReleaseMatches_def)

text \<open>
  The events of a pass that sets the edge mode: the host was active and is not activated, or a staged
  release was activated with success.
\<close>

lemma pass_edge_mode:
  assumes "Events (snd (applyPlacement env d a st)) = Events st @ evs"
    and "(Publish t (SetRuntimeMode c v g), answer) \<in> set evs"
  shows "0 < R_Generation (release (Wf st)) \<and> DesiredDigest a \<noteq> [] \<and>
    (if hostActiveMatches a (Wf st) then \<forall>g x. (ActivateHost g, x) \<notin> set evs
     else hostStagedMatches a (Wf st) \<and> (ActivateHost (R_Generation (release (Wf st))), None) \<in> set evs)"
proof -
  let ?w = "Wf st" and ?topic = "ControlTopic (device (Wf st))"
  obtain evs' where "Events (snd (applyPlacement env d a st)) = Events st @ evs'"
    "\<forall>(e, x) \<in> set evs'. justified ?w d a e" by (rule pass_events)
  then have just: "\<forall>(e, x) \<in> set evs. justified ?w d a e" using assms(1) by simp
  then have edge: "0 < g" "g = R_Generation (release ?w)" "deviceReleaseReady ?w (DesiredDigest a)" "hostReady a ?w"
    using assms(2) by fastforce+
  have topic: "?topic \<noteq> []"
    using assms by (auto simp: applyPlacement_def Let_def)
  let ?before = "beforeCommand env ?topic d a" and ?cmd = "applyPlacementCommand env ?topic d a"
  let ?mid = "andThen ?before (\<lambda>_. ?cmd)"
  obtain evs1 where evs1: "Events (snd (?before st)) = Events st @ evs1" "\<forall>(e, x) \<in> set evs1. no_switch e"
    "same_view ?w (Wf (snd (?before st)))"
    using before_no_switch [of ?w env d a] unfolding emits_def by (metis same_view_refl)
  obtain evs3 where evs3: "Events (snd (andThen ?mid (afterCommand env ?topic d a) st)) = Events (snd (?mid st)) @ evs3"
    "\<forall>(e, x) \<in> set evs3. no_switch e"
    by (rule andThen_events [where P = no_switch]) (rule after_no_switch)
  have pass: "snd (applyPlacement env d a st) = snd (andThen ?mid (afterCommand env ?topic d a) st)"
    using applyPlacement_steps [OF refl topic, of env d a] by simp
  let ?s1 = "snd (?before st)"
  have view: "release (Wf ?s1) = release ?w" using same_viewD [OF evs1(3)] by simp
  have mid: "snd (?mid st) = ?s1 \<or> snd (?mid st) = snd (?cmd ?s1)"
    by (auto simp: andThen_def split: prod.splits sum.splits)
  obtain evs2 where evs2: "Events (snd (?mid st)) = Events ?s1 @ evs2"
    "evs2 = [] \<or> Events (snd (?cmd ?s1)) = Events ?s1 @ evs2"
  proof -
    have "emits (Wf ?s1) (justified (Wf ?s1) d a) (applyPlacementCommand env (ControlTopic (device (Wf ?s1))) d a)"
      by (rule emits_command)
    moreover have "ControlTopic (device (Wf ?s1)) = ?topic" using same_viewD [OF evs1(3)] by simp
    ultimately obtain evs2 where "Events (snd (?cmd ?s1)) = Events ?s1 @ evs2"
      unfolding emits_def by (metis same_view_refl)
    with mid that show thesis by (metis append_Nil2)
  qed
  have all: "evs = evs1 @ evs2 @ evs3" using assms(1) pass evs1(1) evs2(1) evs3(1) by simp
  have "(Publish t (SetRuntimeMode c v g), answer) \<in> set evs2"
    using assms(2) evs1(2) evs3(2) by (auto simp: all no_switch_def no_edge_mode_def)
  then obtain pre post where split: "evs2 = pre @ (Publish t (SetRuntimeMode c v g), answer) # post"
    by (metis split_list)
  with evs2(2) have cmd: "Events (snd (?cmd ?s1)) = Events ?s1 @ pre @ (Publish t (SetRuntimeMode c v g), answer) # post"
    by auto
  have digest: "DesiredDigest a \<noteq> []"
    using cmd by (auto simp: applyPlacementCommand_def)
  show ?thesis
  proof (cases "hostActiveMatches a ?w")
    case True
    then have "\<forall>g x. (ActivateHost g, x) \<notin> set evs" using just by fastforce
    then show ?thesis using True edge digest by simp
  next
    case False
    then have staged: "hostStagedMatches a ?w" using edge(4) by (simp add: hostReady_def)
    from edge_mode_order [OF cmd] False view hostMatches_view(1) [OF view]
    have "(ActivateHost (R_Generation (release ?w)), None) \<in> set pre" by auto
    then show ?thesis using False staged edge digest by (simp add: all split)
  qed
qed

section \<open>The activation on the host\<close>

definition activationRequest :: "string \<Rightarrow> wasmFunction \<Rightarrow> httpRequest" where
  "activationRequest url w = (plainRequest ''POST'' (releaseURL url))\<lparr>ReqActivate := Some (R_Generation (release w))\<rparr>"

lemma postHostActivation_sends:
  "postHostActivation env resolver w h =
    ((case env h (activationRequest (hostWasmURL resolver w) w) of
        Inl e \<Rightarrow> Some (''POST '' @ releaseURL (hostWasmURL resolver w) @ '' failed: '' @ e)
      | Inr resp \<Rightarrow> if success resp then None
          else Some (''POST '' @ releaseURL (hostWasmURL resolver w) @ '' returned '' @ HStatusText resp @ '': '' @ errorMessage resp)),
     h @ [activationRequest (hostWasmURL resolver w) w])"
  by (simp add: postHostActivation_def send_def activationRequest_def Let_def split: sum.split)

lemma activation_serves:
  assumes ok: "slots_ok sha st" and holds: "holds_release st w"
    and answer: "hostAnswer sha wasm io ioa (activationRequest url w) st = (resp, st')" "success resp"
  shows "host_serves st' w"
proof -
  let ?g = "R_Generation (release w)"
  obtain e s' where run: "activateStagedRelease ioa ?g st = (e, s')" by fastforce
  have "e = None" "s' = st'"
    using answer run
    by (auto simp: hostAnswer_def handleRelease_def activationRequest_def plainRequest_def httpAnswer_def success_def
        split: if_splits option.splits)
  then have switch: "hostSwitch ioa ?g st = (True, st')" using run by (simp add: hostSwitch_def)
  note new = switch_slots(1) [OF switch, simplified]
  have order: "name_gen (activeName st) < C_Generation r" if "stagedRelease st = Some r" for r
    using ok that by (auto simp: slots_ok_def activeName_def name_gen_def)
  show ?thesis
  proof (cases "activeName st' = activeName st")
    case True
    then have same: "wasmDigest st' = wasmDigest st" "activeGeneration st' = activeGeneration st"
      "activeFunction st' = activeFunction st" by (simp_all add: activeName_def)
    have "\<not> (\<exists>r. stagedRelease st = Some r \<and> C_Generation r = ?g)"
      using order new True by fastforce
    then show ?thesis
      using holds same by (auto simp: holds_release_def host_serves_def hostReleaseMatches_def)
  next
    case False
    then obtain r where r: "stagedRelease st = Some r" "activeName st' = (C_Digest r, C_Generation r, C_Function r)"
      using new by (auto simp: stagedName_def)
    then have "\<not> hostReleaseMatches (wasmDigest st) (activeGeneration st) (activeFunction st) w"
      using order [OF r(1)] new by (auto simp: hostReleaseMatches_def activeName_def name_gen_def)
    then show ?thesis
      using holds r by (auto simp: holds_release_def host_serves_def activeName_def)
  qed
qed

section \<open>The whole pass\<close>

text \<open>The requests of a pass, with the activation if the command pass asked for one.\<close>

definition passRequests :: "string \<Rightarrow> wasmFunction \<Rightarrow> httpRequest list \<Rightarrow> (event \<times> string option) list \<Rightarrow> httpRequest list" where
  "passRequests url w h evs = h @ (if \<exists>g x. (ActivateHost g, x) \<in> set evs then [activationRequest url w] else [])"

lemma commandStage_events:
  assumes "commandStage env d a st = (r, st')" "Events (Operator st') = Events (Operator st) @ evs" "evs \<noteq> []"
  shows "Events (snd (applyPlacement (Cmd env) d a (Operator st))) = Events (Operator st) @ evs"
  using assms by (auto simp: commandStage_def split: prod.splits if_splits)

lemma same_input_release: "same_input w w' \<Longrightarrow> release w = release w'"
  by (simp add: same_inputD)

text \<open>C5: The device is told to use the edge only when the host serves its release.  Take a whole pass against the
  host, whatever the artifact source, the API server and the clock answer and whatever file operations
  fail, in which the activation that the commands ask for is answered by the host.  If the pass puts
  the device into edge mode, then the host, after the requests of the pass, has the declared digest,
  generation and function as its active release, and that digest is the digest of the module it runs.\<close>

theorem edge_mode_means_host_serves:
  assumes "GetFunction (Api env) (ApiCalls (Trace st)) key = Inr w"
    and "operatorArtifactURL w \<noteq> []" "in_int64 (R_Generation (release w))" "url = hostWasmURL (HostWasmURLResolver env) w"
    and "operatorArtifactURL w \<noteq> releaseURL url"
    and "slots_ok (Sha env) host" "Web env = hostWeb (Sha env) wasm io ioa url host source" "Http st = []"
    and "reconcile env key st = (r, st')" "Events (Operator st') = Events (Operator st) @ evs"
    and "\<forall>g x. (ActivateHost g, x) \<in> set evs \<longrightarrow> x = fst (postHostActivation (Web env) (HostWasmURLResolver env) w (Http st'))"
    and "(Publish t (SetRuntimeMode c v g), answer) \<in> set evs"
  shows "host_serves (hostAfter (Sha env) wasm io ioa url host (passRequests url w (Http st') evs)) w \<and>
    slots_ok (Sha env) (hostAfter (Sha env) wasm io ioa url host (passRequests url w (Http st') evs))"
proof
  let ?after = "hostAfter (Sha env) wasm io ioa url host"
  show "slots_ok (Sha env) (?after (passRequests url w (Http st') evs))" by (rule hostAfter_ok [OF assms(6)])
  have some: "evs \<noteq> []" using assms(12) by auto
  from assms(9) show "host_serves (?after (passRequests url w (Http st') evs)) w"
  proof (cases rule: reconcile_halves)
    case stopped
    then show ?thesis using assms(10) some by simp
  next
    case (reached w' deploy t1 t2)
    then have w': "w' = w" using assms(1) by simp
    from reached(5) show ?thesis
    proof (cases rule: releaseStages_cases)
      case (panicked w1)
      then show ?thesis using assms(10) some by simp
    next
      case (reported a aerr h wa n av d now e st3 commanded perr st4 st5 u1 u2 u3 rs)
      have same: "release (passWf st3) = release w" using same_input_release [OF reported(15)] w' by simp
      have "Events (Operator st4) = Events (Operator st3) @ evs" using reported(5,12) assms(10) by simp
      from pass_edge_mode [OF commandStage_events [OF reported(6) this some] assms(12)]
      have pos: "0 < R_Generation (release w)" "DesiredDigest a \<noteq> []"
        and active: "hostActiveMatches a w \<Longrightarrow> \<forall>g x. (ActivateHost g, x) \<notin> set evs"
        and staged: "\<not> hostActiveMatches a w \<Longrightarrow> hostStagedMatches a w \<and> (ActivateHost (R_Generation (release w)), None) \<in> set evs"
        using same hostMatches_view [OF same, of a] by (auto split: if_splits)
      have sync: "reconcileArtifact (Sha env) (hostWeb (Sha env) wasm io ioa (hostWasmURL (HostWasmURLResolver env) w) host source)
          (HostWasmURLResolver env) w [] = ((a, aerr), h)"
        using reported(1) assms(4,7,8) w' by simp
      note slots = synced_slots [OF assms(6,2,3) assms(5) [unfolded assms(4)] sync, folded assms(4)]
      show ?thesis
      proof (cases "hostActiveMatches a w")
        case True
        then show ?thesis using slots pos active reported(14) by (auto simp: passRequests_def)
      next
        case False
        then have holds: "holds_release (?after h) w" using slots pos staged by blast
        have "fst (postHostActivation (Web env) (HostWasmURLResolver env) w h) = None"
          using staged [OF False] assms(11) reported(14) by metis
        moreover have host: "toHost url (activationRequest url w)"
          by (simp add: toHost_def activationRequest_def plainRequest_def)
        ultimately have "success (fst (hostAnswer (Sha env) wasm io ioa (activationRequest url w) (?after h)))"
          by (simp add: postHostActivation_sends assms(4) [symmetric] assms(7) hostWeb_def split: if_splits)
        with activation_serves [OF hostAfter_ok [OF assms(6)] holds]
        have "host_serves (snd (hostAnswer (Sha env) wasm io ioa (activationRequest url w) (?after h))) w"
          by (metis prod.collapse)
        then show ?thesis
          using staged [OF False] reported(14) host by (auto simp: passRequests_def hostAfter_def)
      qed
    qed
  qed
qed

section \<open>A pass that sets the edge mode\<close>

text \<open>The device holds release 5 and runs it locally, the host serves it, and edge placement is configured.\<close>

definition edgeFunction :: wasmFunction where
  "edgeFunction = syncedFunction\<lparr>
     Spec := (Spec syncedFunction)\<lparr>
       Device := (Device (Spec syncedFunction))\<lparr>ControlTopic := ''c'', D_ArtifactURL := ''u''\<rparr>,
       Placement := zeroPlacement\<lparr>P_Mode := ''edge'', BatteryThreshold := \<lparr>BT_Enabled = Some False\<rparr>\<rparr>\<rparr>,
     Status := zeroStatus\<lparr>DesiredPlacement := ''edge'', StagedReleaseGeneration := 5,
       DeviceStagedArtifactDigest := hex64 ''m0'', ObservedMode := ''local''\<rparr>\<rparr>"

lemma quiet_before:
  assumes "A_Enabled a" "DesiredDigest a \<noteq> []" "0 < R_Generation (release w)" "deviceArtifactURL w \<noteq> []"
    and "deviceReleaseReady w (DesiredDigest a)" "BS_Enabled (BatterySimulation (device w)) = None"
    and "\<not> BatteryThresholdEnabled d" "\<not> Transition d" "Wf st = w"
  shows "beforeCommand env topic d a st =
    (Inr (), (setStatus (\<lambda>s. s\<lparr>StageCommandAttempts := 0\<rparr>) st)\<lparr>StageSends := (StageSends st)(key_of w := None)\<rparr>)"
  using assms
  by (simp add: beforeCommand_def andThen_def applyReleaseStage_def applyBatterySimulationUpdate_def
      applyThresholdUpdate_def applyDeadlineRejectionSignal_def deadlineRejected_def ret_def Let_def)

lemma sends_edge_mode:
  assumes "A_Enabled a" "DesiredDigest a \<noteq> []" "0 < R_Generation (release w)" "deviceArtifactURL w \<noteq> []"
    and "deviceReleaseReady w (DesiredDigest a)" "BS_Enabled (BatterySimulation (device w)) = None"
    and "\<not> BatteryThresholdEnabled d" "\<not> Transition d" "Wf st = w"
    and "hostActiveMatches a w" "Desired d = placementEdge" "ControlTopic (device w) \<noteq> []"
    and "\<not> runsAlready w placementEdge (R_Generation (release w)) (DesiredDigest a)"
    and "LastCommandID (Status w) \<noteq> runtimeEdgeID (R_Generation (release w))" "ActivationSends st (key_of w) = None"
    and "Outcome env = (\<lambda>n. None)"
  obtains more_evs c g where "Events (snd (applyPlacement env d a st)) =
    Events st @ (Publish (ControlTopic (device w)) (SetRuntimeMode c placementEdge g), None) # more_evs"
proof -
  let ?topic = "ControlTopic (device w)" and ?g = "R_Generation (release w)"
  let ?s1 = "(setStatus (\<lambda>s. s\<lparr>StageCommandAttempts := 0\<rparr>) st)\<lparr>StageSends := (StageSends st)(key_of w := None)\<rparr>"
  let ?before = "beforeCommand env ?topic d a" and ?cmd = "applyPlacementCommand env ?topic d a"
  have before: "?before st = (Inr (), ?s1)" by (rule quiet_before [OF assms(1-9)])
  have view: "runsAlready (on_status (\<lambda>s. s\<lparr>StageCommandAttempts := 0\<rparr>) w) m g' x = runsAlready w m g' x"
    "deviceReleaseReady (on_status (\<lambda>s. s\<lparr>StageCommandAttempts := 0\<rparr>) w) x = deviceReleaseReady w x"
    "key_of (on_status (\<lambda>s. s\<lparr>StageCommandAttempts := 0\<rparr>) w) = key_of w" for m g' x
    by (simp_all add: runsAlready_def deviceReleaseReady_def deviceReleaseStaged_def deviceReleaseActive_def key_of_def)
  have active: "hostActiveMatches a (Wf ?s1)"
    using assms(9,10) hostMatches_view(1) [of "Wf ?s1" w a] by simp
  have "Events (snd (?cmd ?s1)) = Events st @ [(Publish ?topic (SetRuntimeMode (runtimeEdgeID ?g) placementEdge ?g), None)]"
    using assms active
    by (simp add: applyPlacementCommand_def ensureHostActive_def unlessSkipped_def shouldSkipPlacementCommand_def
        sendRuntimeModeCommand_def sendActivation_def andThen_def readClock_def modify_def ret_def call_def
        publishControl_def rememberReleaseActivationSend_def Let_def view)
  moreover obtain evs where "Events (snd (andThen (andThen ?before (\<lambda>_. ?cmd)) (afterCommand env ?topic d a) st)) =
      Events (snd (andThen ?before (\<lambda>_. ?cmd) st)) @ evs"
    by (rule andThen_events [where P = no_switch]) (rule after_no_switch)
  moreover have "andThen ?before (\<lambda>_. ?cmd) st = ?cmd ?s1" by (simp add: andThen_def before)
  ultimately show thesis
    using applyPlacement_steps [of st ?topic env d a] assms(9,12) by (intro that) simp
qed

lemma edgeFunction_fields [simp]:
  "release edgeFunction = release syncedFunction" "operatorArtifactURL edgeFunction = ''http://s/a''"
  "ControlTopic (device edgeFunction) = ''c''" "BS_Enabled (BatterySimulation (device edgeFunction)) = None"
  "M_Name edgeFunction = []" "deviceArtifactURL edgeFunction = ''u''"
  using synced_urls(1) trimSpace_plain [of "''u''"]
  by (simp_all add: edgeFunction_def syncedFunction_def zero_defs operatorArtifactURL_def deviceArtifactURL_def plain_char_def)

lemma edge_decision:
  assumes "same_input edgeFunction w"
  shows "Desired (resolvePlacementWithEstimates now w e) = ''edge''" "\<not> Transition (resolvePlacementWithEstimates now w e)"
    "\<not> BatteryThresholdEnabled (resolvePlacementWithEstimates now w e)" "PD_Enabled (resolvePlacementWithEstimates now w e)"
proof -
  have "placement w = placement edgeFunction" "DesiredPlacement (Status w) = ''edge''" "ControlTopic (device w) = ''c''"
    "release w = release syncedFunction"
    using same_inputD [OF assms] by (simp_all add: edgeFunction_def)
  then show "Desired (resolvePlacementWithEstimates now w e) = ''edge''" "\<not> Transition (resolvePlacementWithEstimates now w e)"
    "\<not> BatteryThresholdEnabled (resolvePlacementWithEstimates now w e)" "PD_Enabled (resolvePlacementWithEstimates now w e)"
    by (simp_all add: resolvePlacementWithEstimates_def initialDecision_def proposePlacement_def policy_mode_def
        currentPlacement_def normalizeRetainedPlacement_def effectiveBatteryThresholdEnabled_def applyResourceLocality_def
        hasDeviceLocalResources_def edgeFunction_def syncedFunction_def zero_defs toLower_def lower_char_def Let_def)
qed

theorem edge_mode_means_host_serves_witness:
  "\<exists>h. host_serves (hostAfter hex64 toyWasm noUploadFaults noActivateFaults (hostWasmURL None edgeFunction) servingHost h) edgeFunction"
proof -
  let ?url = "hostWasmURL None edgeFunction"
  let ?web = "hostWeb hex64 toyWasm noUploadFaults noActivateFaults ?url servingHost vouching"
  let ?env = "demoPass edgeFunction ?web"
  have away: "releaseURL ?url \<noteq> ''http://s/a''"
  proof
    assume "releaseURL ?url = ''http://s/a''"
    then have "last (releaseURL ?url) = last ''http://s/a''" by simp
    then show False by (simp add: releaseURL_def)
  qed
  obtain deploy t2 where full: "reconcile ?env ([], []) idlePass =
     releaseStages ?env ([], []) deploy (idlePass\<lparr>Trace := t2, Operator := (Operator idlePass)\<lparr>Wf := edgeFunction\<rparr>\<rparr>)"
    using demo_reaches by blast
  obtain r st' where run: "releaseStages ?env ([], []) deploy
      (idlePass\<lparr>Trace := t2, Operator := (Operator idlePass)\<lparr>Wf := edgeFunction\<rparr>\<rparr>) = (r, st')"
    by (metis prod.collapse)
  have env: "Web ?env = ?web" "HostWasmURLResolver ?env = None" "Sha ?env = hex64" "Outcome (Cmd ?env) = (\<lambda>n. None)"
    by (simp_all add: demoPass_def)
  obtain resp where resp: "HCode resp = 200" "HDigest resp = hex64 ''m0''" "\<And>h r. vouching h r = Inr resp"
    by (rule that) (simp_all add: vouching_def)
  then have head: "?web [] (plainRequest ''HEAD'' ''http://s/a'') = Inr resp"
    using away by (simp add: hostWeb_def toHost_def plainRequest_def)
  have get: "?web [plainRequest ''HEAD'' ''http://s/a''] (plainRequest ''GET'' (releaseURL ?url)) =
      Inr (httpAnswer (releaseStatus servingHost))"
    using away by (simp add: hostWeb_def toHost_def plainRequest_def hostAnswer_def handleRelease_def hostAfter_def)
  then have get': "?web ([] @ [plainRequest ''HEAD'' ''http://s/a'']) (plainRequest ''GET'' (releaseURL ?url)) =
      Inr (httpAnswer (releaseStatus servingHost))" by simp
  have status: "HCode (httpAnswer (releaseStatus servingHost)) = 200"
    "HStatusJSON (httpAnswer (releaseStatus servingHost)) = Inr statusAnswer"
    by (simp_all add: httpAnswer_def releaseStatus_def servingHost_def freshHost_def statusAnswer_def)
  obtain a h where sync: "reconcileArtifact hex64 ?web None edgeFunction [] = ((a, None), h)" "A_Enabled a"
    "DesiredDigest a = hex64 ''m0''" "hostActiveMatches a edgeFunction"
    using synced_like [OF edgeFunction_fields(2,1) head resp(1,2) get' status, of hex64] by auto
  from run have "\<exists>t c g x. (Publish t (SetRuntimeMode c ''edge'' g), x) \<in> set (Events (Operator st')) \<and>
      (\<forall>g x. (ActivateHost g, x) \<notin> set (Events (Operator st')))"
  proof (cases rule: releaseStages_cases)
    case (reported artifact aerr h' wa n av d now e st3 commanded perr st4 st5 u1 u2 u3 rs)
    have art: "artifact = a" "aerr = None" using reported(1) sync(1) by (simp_all add: env idlePass_def)
    obtain reason m1 m2 where w3: "passWf st3 = gated reason m1 m2 None (on_status (\<lambda>s. s\<lparr>DesiredArtifactDigest := DesiredDigest a,
       HostArtifactDigest := HostDigest a, HostStagedArtifactDigest := HostStagedDigest a\<rparr>) edgeFunction)"
      using reported(17) by (auto simp: art)
    have wa: "same_input edgeFunction wa" using reported(2) by simp
    have d: "Desired d = placementEdge" "\<not> Transition d" "\<not> BatteryThresholdEnabled d" "PD_Enabled d"
      using edge_decision [OF wa, of now e] by (simp_all add: reported(4) applyDestinationReadiness_def Let_def)
    have same: "Spec (passWf st3) = Spec edgeFunction" "LastCommandID (Status (passWf st3)) = []" "key_of (passWf st3) = ([], [])"
      "deviceReleaseReady (passWf st3) (hex64 ''m0'')" "\<not> runsAlready (passWf st3) placementEdge g x" for g x
      by (simp_all add: w3 gated_def updateArtifactRetryState_def edgeFunction_def syncedFunction_def zero_defs key_of_def
          deviceReleaseReady_def deviceReleaseStaged_def runsAlready_def)
    have events: "Events (Operator st') = Events (snd (applyPlacement (Cmd ?env) d a (Operator st3)))"
      using reported(6,12) d(4) by (auto simp: commandStage_def art split: prod.splits)
    obtain rest c g where "Events (snd (applyPlacement (Cmd ?env) d a (Operator st3))) =
      Events (Operator st3) @ (Publish (ControlTopic (device (passWf st3))) (SetRuntimeMode c placementEdge g), None) # rest"
      by (rule sends_edge_mode [of a "passWf st3" d "Operator st3" "Cmd ?env"])
        (use sync d same reported(16) hostMatches_view(1) [of "passWf st3" edgeFunction a]
            edgeFunction_fields(6) [unfolded deviceArtifactURL_def] in
          \<open>simp_all add: env deviceArtifactURL_def idlePass_def emptyOperator_def runtimeEdgeID_def\<close>)
    moreover from this have "\<forall>g x. (ActivateHost g, x) \<notin>
        set ((Publish (ControlTopic (device (passWf st3))) (SetRuntimeMode c placementEdge g), None) # rest)"
      using pass_edge_mode [of "Cmd ?env" d a "Operator st3"] sync(4) same(1) hostMatches_view(1) [of "passWf st3" edgeFunction a]
      by fastforce
    moreover have "Events (Operator st3) = []" using reported(5) by (simp add: idlePass_def)
    ultimately show ?thesis by (auto simp: events)
  qed (simp add: demoPass_def deadlineEstimate_def)
  then obtain t c g x where edge: "(Publish t (SetRuntimeMode c ''edge'' g), x) \<in> set (Events (Operator st'))"
    and none: "\<forall>g x. (ActivateHost g, x) \<notin> set (Events (Operator st'))" by blast
  have "host_serves (hostAfter (Sha ?env) toyWasm noUploadFaults noActivateFaults ?url servingHost
      (passRequests ?url edgeFunction (Http st') (Events (Operator st')))) edgeFunction"
    using edge_mode_means_host_serves [of ?env idlePass "([], [])" edgeFunction ?url servingHost toyWasm noUploadFaults
        noActivateFaults vouching r st' "Events (Operator st')" t c "''edge''" g x] edge away full run none servingHost_ok
    by (simp add: env idlePass_def in_int64_def)
  then show ?thesis by (auto simp: env)
qed

end
