(* ===== verification/Hal.thy ===== *)
theory Hal
  imports Complex_Main Edge_Host "HOL-Library.AList"
begin

text \<open>
  The host's hardware abstraction (\<open>edge/host/hal.go\<close>) and the resource inputs of \<open>edge/host/main.go\<close>: the
  functions a WebAssembly guest may call, its linear memory, the typed inputs of a request and the
  outputs of a run.  Logging is left out.
\<close>

section \<open>Single precision\<close>

text \<open>
  A \<open>float32\<close> by the number it denotes; the two zeros are not told apart.  An integer converts to the
  nearest number with a 24 bit significand, ties to even.  Go leaves the conversion of a number out of
  range to an integer to the implementation; it is the parameter \<open>wild\<close>.
\<close>

datatype f32 = Fin rat | PosInf | NegInf | NaN

definition spacing :: "int \<Rightarrow> int" where
  "spacing n = (case find (\<lambda>j. \<bar>n\<bar> \<le> 2 ^ (24 + j)) [0..<8] of Some j \<Rightarrow> 2 ^ j | None \<Rightarrow> 2 ^ 8)"

definition round_even :: "int \<Rightarrow> int \<Rightarrow> int" where
  "round_even m n =
    (let q = n div m; r = n mod m
     in if 2 * r < m then q * m else if 2 * r > m then (q + 1) * m
        else if even q then q * m else (q + 1) * m)"

definition f32_of_int32 :: "int32 \<Rightarrow> f32" where
  "f32_of_int32 n = Fin (of_int (round_even (spacing n) n))"

definition int32_of_f32 :: "(f32 \<Rightarrow> int32) \<Rightarrow> f32 \<Rightarrow> int32" where
  "int32_of_f32 wild v =
    (case v of
       Fin q \<Rightarrow> (let n = (if 0 \<le> q then \<lfloor>q\<rfloor> else \<lceil>q\<rceil>) in if in_int32 n then n else wild v)
     | _ \<Rightarrow> wild v)"

section \<open>Resource inputs\<close>

record resourceInputValue =
  V_Type :: string
  V_F32 :: f32
  V_I32 :: int32
  V_Bool :: bool
  V_String :: string

type_synonym resourceInputs = "string \<Rightarrow> (string \<Rightarrow> resourceInputValue option) option"

definition lookupInput :: "resourceInputs option \<Rightarrow> string \<Rightarrow> string \<Rightarrow> resourceInputValue option" where
  "lookupInput req resource key =
    (case req of None \<Rightarrow> None
     | Some inputs \<Rightarrow> (case inputs resource of None \<Rightarrow> None | Some keys \<Rightarrow> keys key))"

definition resourceInputF32 :: "resourceInputs option \<Rightarrow> string \<Rightarrow> string \<Rightarrow> f32 option" where
  "resourceInputF32 req resource key =
    (case lookupInput req resource key of
       None \<Rightarrow> None
     | Some v \<Rightarrow>
         if V_Type v = ''f32'' \<or> V_Type v = [] then Some (V_F32 v)
         else if V_Type v = ''i32'' then Some (f32_of_int32 (V_I32 v))
         else if V_Type v = ''bool'' then Some (if V_Bool v then Fin 1 else Fin 0)
         else None)"

definition resourceInputI32 :: "(f32 \<Rightarrow> int32) \<Rightarrow> resourceInputs option \<Rightarrow> string \<Rightarrow> string \<Rightarrow> int32 option" where
  "resourceInputI32 wild req resource key =
    (case lookupInput req resource key of
       None \<Rightarrow> None
     | Some v \<Rightarrow>
         if V_Type v = ''i32'' then Some (V_I32 v)
         else if V_Type v = ''f32'' \<or> V_Type v = [] then Some (int32_of_f32 wild (V_F32 v))
         else if V_Type v = ''bool'' then Some (if V_Bool v then 1 else 0)
         else None)"

definition resourceInputBool :: "resourceInputs option \<Rightarrow> string \<Rightarrow> string \<Rightarrow> bool option" where
  "resourceInputBool req resource key =
    (case lookupInput req resource key of
       None \<Rightarrow> None
     | Some v \<Rightarrow>
         if V_Type v = ''bool'' then Some (V_Bool v)
         else if V_Type v = ''i32'' then Some (V_I32 v \<noteq> 0)
         else if V_Type v = ''f32'' \<or> V_Type v = [] then Some (V_F32 v \<noteq> Fin 0)
         else None)"

section \<open>Decoding an input\<close>

text \<open>
  A JSON value; numbers by their literal.  \<open>null\<close> leaves the target at its zero value without an error,
  as \<open>encoding/json\<close> does.  \<open>parseF32\<close> is \<open>strconv.ParseFloat\<close> at 32 bits.
\<close>

datatype json =
    JNull
  | JBool bool
  | JNumber string
  | JString string
  | JArray "json list"
  | JObject "(string \<times> json) list"

definition decodeF32 :: "(string \<Rightarrow> f32 option) \<Rightarrow> json \<Rightarrow> f32 option" where
  "decodeF32 parseF32 j = (case j of JNull \<Rightarrow> Some (Fin 0) | JNumber lit \<Rightarrow> parseF32 lit | _ \<Rightarrow> None)"

definition decodeI32 :: "json \<Rightarrow> int32 option" where
  "decodeI32 j =
    (case j of
       JNull \<Rightarrow> Some 0
     | JNumber lit \<Rightarrow> (case parse_int64 lit of None \<Rightarrow> None | Some n \<Rightarrow> if in_int32 n then Some n else None)
     | _ \<Rightarrow> None)"

definition decodeBool :: "json \<Rightarrow> bool option" where
  "decodeBool j = (case j of JNull \<Rightarrow> Some False | JBool b \<Rightarrow> Some b | _ \<Rightarrow> None)"

definition decodeString :: "json \<Rightarrow> string option" where
  "decodeString j = (case j of JNull \<Rightarrow> Some [] | JString s \<Rightarrow> Some s | _ \<Rightarrow> None)"

text \<open>The members of an object that go to the field \<open>name\<close>; the last one wins.\<close>

definition members :: "string \<Rightarrow> (string \<times> json) list \<Rightarrow> json list" where
  "members name fs = map snd (filter (\<lambda>f. equalFold (fst f) name) fs)"

definition typedFields :: "json \<Rightarrow> (string + string \<times> json option)" where
  "typedFields j =
    (case j of
       JNull \<Rightarrow> Inr ([], None)
     | JObject fs \<Rightarrow>
         (let types = members ''type'' fs; vals = members ''value'' fs;
              texts = map decodeString types;
              named = filter (\<lambda>t. t \<noteq> JNull) types
          in if None \<in> set texts then Inl ''cannot unmarshal into a string''
             else Inr (if named = [] then [] else the (decodeString (last named)),
                       if vals = [] then None else Some (last vals)))
     | _ \<Rightarrow> Inl ''cannot unmarshal into a struct'')"

definition zeroInputValue :: resourceInputValue where
  "zeroInputValue = \<lparr>V_Type = [], V_F32 = Fin 0, V_I32 = 0, V_Bool = False, V_String = []\<rparr>"

definition unmarshalResourceInput :: "(string \<Rightarrow> f32 option) \<Rightarrow> json \<Rightarrow> string + resourceInputValue" where
  "unmarshalResourceInput parseF32 j =
    bindR (typedFields j) (\<lambda>(ty, val).
      if ty = [] \<or> val = None then Inl ''resource input requires type and value''
      else let v = zeroInputValue\<lparr>V_Type := ty\<rparr>; raw = the val
           in if ty = ''f32'' then
                (case decodeF32 parseF32 raw of None \<Rightarrow> Inl ''resource input f32 value'' | Some x \<Rightarrow> Inr (v\<lparr>V_F32 := x\<rparr>))
              else if ty = ''i32'' then
                (case decodeI32 raw of None \<Rightarrow> Inl ''resource input i32 value'' | Some x \<Rightarrow> Inr (v\<lparr>V_I32 := x\<rparr>))
              else if ty = ''bool'' then
                (case decodeBool raw of None \<Rightarrow> Inl ''resource input bool value'' | Some x \<Rightarrow> Inr (v\<lparr>V_Bool := x\<rparr>))
              else if ty = ''string'' then
                (case decodeString raw of None \<Rightarrow> Inl ''resource input string value'' | Some x \<Rightarrow> Inr (v\<lparr>V_String := x\<rparr>))
              else Inl (''unsupported resource input type '' @ fmt_q ty))"

section \<open>Linear memory\<close>

text \<open>The guest's exported memory, when it exports one.\<close>

definition wasmBytes :: "bytes option \<Rightarrow> int32 \<Rightarrow> int32 \<Rightarrow> bytes option" where
  "wasmBytes mem ptr len =
    (if ptr < 0 \<or> len < 0 then None
     else case mem of
       None \<Rightarrow> None
     | Some data \<Rightarrow>
         (let start = ptr; stop = wrap64 (start + len)
          in if start < 0 \<or> stop < start \<or> stop > int (length data) then None
             else Some (take (nat stop - nat start) (drop (nat start) data))))"

definition wasmString :: "bytes option \<Rightarrow> int32 \<Rightarrow> int32 \<Rightarrow> string option" where
  "wasmString mem ptr len = (case wasmBytes mem ptr len of None \<Rightarrow> None | Some data \<Rightarrow> Some data)"

section \<open>The functions of the host\<close>

datatype halCall =
    GetResourceF32 int32 int32 int32 int32
  | GetResourceI32 int32 int32 int32 int32
  | GetResourceBool int32 int32 int32 int32
  | SetOutputI32 int32 int32 int32
  | SetOutputF32 int32 int32 f32
  | GetTemperature
  | GetHumidity
  | LogMessage int32 int32

datatype halResult = ResF32 f32 | ResI32 int32 | ResUnit

type_synonym outputs = "(string \<times> f32) list"

definition setOutputF32 :: "string \<Rightarrow> f32 \<Rightarrow> outputs \<Rightarrow> outputs" where
  "setOutputF32 key v outs = AList.update key v outs"

text \<open>The resource and the key that a call names by pointers, when both can be read.\<close>

definition named :: "bytes option \<Rightarrow> int32 \<Rightarrow> int32 \<Rightarrow> int32 \<Rightarrow> int32 \<Rightarrow> (string \<times> string) option" where
  "named mem rp rl kp kl =
    (case wasmString mem rp rl of
       None \<Rightarrow> None
     | Some resource \<Rightarrow> (case wasmString mem kp kl of None \<Rightarrow> None | Some key \<Rightarrow> Some (resource, key)))"

fun halStep :: "(f32 \<Rightarrow> int32) \<Rightarrow> resourceInputs \<Rightarrow> bytes option \<Rightarrow> halCall \<Rightarrow> outputs \<Rightarrow> halResult \<times> outputs" where
  "halStep wild inputs mem (GetResourceF32 rp rl kp kl) outs =
    (ResF32 (case named mem rp rl kp kl of
       None \<Rightarrow> Fin (- 999)
     | Some (resource, key) \<Rightarrow>
         (case resourceInputF32 (Some inputs) resource key of None \<Rightarrow> Fin (- 999) | Some v \<Rightarrow> v)), outs)"
| "halStep wild inputs mem (GetResourceI32 rp rl kp kl) outs =
    (ResI32 (case named mem rp rl kp kl of
       None \<Rightarrow> - 999
     | Some (resource, key) \<Rightarrow>
         (case resourceInputI32 wild (Some inputs) resource key of None \<Rightarrow> - 999 | Some v \<Rightarrow> v)), outs)"
| "halStep wild inputs mem (GetResourceBool rp rl kp kl) outs =
    (ResI32 (case named mem rp rl kp kl of
       None \<Rightarrow> 0
     | Some (resource, key) \<Rightarrow>
         (case resourceInputBool (Some inputs) resource key of None \<Rightarrow> 0 | Some b \<Rightarrow> if b then 1 else 0)), outs)"
| "halStep wild inputs mem (SetOutputI32 kp kl v) outs =
    (ResUnit, case wasmString mem kp kl of None \<Rightarrow> outs | Some key \<Rightarrow> setOutputF32 key (f32_of_int32 v) outs)"
| "halStep wild inputs mem (SetOutputF32 kp kl v) outs =
    (ResUnit, case wasmString mem kp kl of None \<Rightarrow> outs | Some key \<Rightarrow> setOutputF32 key v outs)"
| "halStep wild inputs mem GetTemperature outs =
    (ResF32 (case resourceInputF32 (Some inputs) ''DHT'' ''temperature'' of None \<Rightarrow> Fin (- 999) | Some v \<Rightarrow> v), outs)"
| "halStep wild inputs mem GetHumidity outs =
    (ResF32 (case resourceInputF32 (Some inputs) ''DHT'' ''humidity'' of None \<Rightarrow> Fin (- 999) | Some v \<Rightarrow> v), outs)"
| "halStep wild inputs mem (LogMessage p l) outs = (ResUnit, outs)"

section \<open>A run of a guest\<close>

text \<open>
  What wasmtime makes of \<open>process_event\<close>: it calls functions of the host, each with the memory of that
  moment, and goes on with their results, until it returns a number or traps.
\<close>

datatype guest =
    Return int32
  | Trap string
  | Call "bytes option" halCall "halResult \<Rightarrow> guest"

primrec runGuest :: "(f32 \<Rightarrow> int32) \<Rightarrow> resourceInputs \<Rightarrow> guest \<Rightarrow> outputs \<Rightarrow> (string + int32) \<times> outputs" where
  "runGuest wild inputs (Return r) outs = (Inr r, outs)"
| "runGuest wild inputs (Trap e) outs = (Inl (''process_event() trapped: '' @ e), outs)"
| "runGuest wild inputs (Call mem c k) outs =
    runGuest wild inputs (k (fst (halStep wild inputs mem c outs))) (snd (halStep wild inputs mem c outs))"

definition currentOutputs :: "outputs \<Rightarrow> outputs option" where
  "currentOutputs outs = (if length outs = 0 then None else Some outs)"

text \<open>
  The runtime of \<open>Edge_Host\<close> on this: every run starts with the inputs of its request and with no
  outputs.
\<close>

definition halRuntime ::
    "(bytes \<Rightarrow> string option) \<Rightarrow> (bytes \<Rightarrow> guest) \<Rightarrow> (f32 \<Rightarrow> int32) \<Rightarrow> (resourceInputs, int32 \<times> outputs option) wasmtime" where
  "halRuntime load process_event wild =
    \<lparr>LoadError = load,
     RunModule = (\<lambda>m inputs.
       case runGuest wild inputs (process_event m) [] of
         (Inl e, outs) \<Rightarrow> Inl e
       | (Inr r, outs) \<Rightarrow> Inr (r, currentOutputs outs))\<rparr>"

section \<open>The answer on the wire\<close>

text \<open>
  \<open>writeJSON\<close> sends the status code before it encodes; \<open>encoding/json\<close> refuses numbers that are not
  finite, and then nothing follows the header.
\<close>

definition encodable :: "(int32 \<times> outputs option) processResponse \<Rightarrow> bool" where
  "encodable r \<longleftrightarrow>
    (case snd (PR_Result r) of None \<Rightarrow> True | Some outs \<Rightarrow> list_all (\<lambda>(k, v). case v of Fin q \<Rightarrow> True | _ \<Rightarrow> False) outs)"

definition writeProcess :: "(int32 \<times> outputs option) processAnswer
    \<Rightarrow> nat \<times> (string + (int32 \<times> outputs option) processResponse) option" where
  "writeProcess a =
    (case a of
       ProcessError c e \<Rightarrow> (c, Some (Inl e))
     | ProcessOk r \<Rightarrow> (200, if encodable r then Some (Inr r) else None))"

section \<open>Log lines\<close>

text \<open>\<open>resourceInputCount\<close>, over the inputs as an association list of association lists.\<close>

definition resourceInputCount :: "(string \<times> (string \<times> resourceInputValue) list) list option \<Rightarrow> int" where
  "resourceInputCount req =
    (case req of None \<Rightarrow> 0 | Some inputs \<Rightarrow> fold (\<lambda>(r, keys) count. count + int (length keys)) inputs 0)"

definition wasmArtifactAccessLogMessage :: "string \<Rightarrow> string \<Rightarrow> string \<Rightarrow> string \<Rightarrow> string \<Rightarrow> string" where
  "wasmArtifactAccessLogMessage method path digest remote caller =
    (let rest = '' /wasm caller='' @ caller @ '' sha256='' @ digest @ '' path='' @ path @ '' remote='' @ remote
     in if method = ''HEAD'' then ''Wasm artifact digest probe: HEAD'' @ rest
        else if method = ''GET'' then ''Wasm artifact download: GET'' @ rest
        else ''Wasm artifact access: '' @ method @ rest)"

end
