(* ===== verification/Hal_Props.thy ===== *)
theory Hal_Props
  imports Hal Host_Props
begin

text \<open>
  Properties of the host's hardware abstraction: memory safety, what a run reports, how integers and
  typed inputs travel, and which answers cannot be encoded.
\<close>

section \<open>Memory\<close>

text \<open>A guest pointer is followed exactly when it lies in the guest's memory.  For the widths of the wire,
  the bytes read are those of the range, and a read fails exactly when the memory is missing, a
  pointer or length is negative, or the range ends outside; the sum of the two never wraps around.\<close>

theorem wasm_reads_in_bounds:
  assumes "in_int32 ptr" "in_int32 len"
  shows "wasmBytes mem ptr len = Some data \<longleftrightarrow>
    (\<exists>m. mem = Some m \<and> 0 \<le> ptr \<and> 0 \<le> len \<and> ptr + len \<le> int (length m) \<and>
       data = take (nat len) (drop (nat ptr) m))"
proof -
  have sum: "wrap64 (ptr + len) = ptr + len" if "0 \<le> ptr" "0 \<le> len"
    using assms that by (intro wrap64_id) (auto simp: in_int32_def in_int64_def)
  have width: "nat (ptr + len) - nat ptr = nat len" if "0 \<le> ptr" "0 \<le> len"
    using that by (simp add: nat_add_distrib)
  show ?thesis
    using sum width by (cases mem) (auto simp: wasmBytes_def Let_def not_less)
qed

theorem wasm_reads_in_bounds_witness:
  "wasmBytes (Some ''abcdef'') 2 3 = Some ''cde''"
proof -
  have "in_int32 2" "in_int32 3" by (simp_all add: in_int32_def)
  from wasm_reads_in_bounds [OF this, of "Some ''abcdef''" "''cde''"] show ?thesis by (simp add: numeral_eq_Suc)
qed

section \<open>Outputs\<close>

text \<open>The outputs a guest sets, in the order of its calls.\<close>

fun halWrite :: "bytes option \<Rightarrow> halCall \<Rightarrow> (string \<times> f32) list" where
  "halWrite mem (SetOutputI32 kp kl v) = (case wasmString mem kp kl of None \<Rightarrow> [] | Some key \<Rightarrow> [(key, f32_of_int32 v)])"
| "halWrite mem (SetOutputF32 kp kl v) = (case wasmString mem kp kl of None \<Rightarrow> [] | Some key \<Rightarrow> [(key, v)])"
| "halWrite mem c = []"

text \<open>The result of a call depends on the inputs and the memory only.\<close>

definition halAnswer :: "(f32 \<Rightarrow> int32) \<Rightarrow> resourceInputs \<Rightarrow> bytes option \<Rightarrow> halCall \<Rightarrow> halResult" where
  "halAnswer wild inputs mem c = fst (halStep wild inputs mem c [])"

primrec guestWrites :: "(f32 \<Rightarrow> int32) \<Rightarrow> resourceInputs \<Rightarrow> guest \<Rightarrow> (string \<times> f32) list" where
  "guestWrites wild inputs (Return r) = []"
| "guestWrites wild inputs (Trap e) = []"
| "guestWrites wild inputs (Call mem c k) = halWrite mem c @ guestWrites wild inputs (k (halAnswer wild inputs mem c))"

primrec guestResult :: "(f32 \<Rightarrow> int32) \<Rightarrow> resourceInputs \<Rightarrow> guest \<Rightarrow> string + int32" where
  "guestResult wild inputs (Return r) = Inr r"
| "guestResult wild inputs (Trap e) = Inl (''process_event() trapped: '' @ e)"
| "guestResult wild inputs (Call mem c k) = guestResult wild inputs (k (halAnswer wild inputs mem c))"

lemma halStep_answer: "fst (halStep wild inputs mem c outs) = halAnswer wild inputs mem c"
  by (cases c) (simp_all add: halAnswer_def)

lemma halStep_outputs:
  "map_of (snd (halStep wild inputs mem c outs)) = map_of outs ++ map_of (rev (halWrite mem c))"
  "distinct (map fst outs) \<Longrightarrow> distinct (map fst (snd (halStep wild inputs mem c outs)))"
  by (cases c; auto simp: setOutputF32_def update_conv' distinct_update split: option.split)+

lemma run_outputs:
  "fst (runGuest wild inputs g outs) = guestResult wild inputs g"
  "map_of (snd (runGuest wild inputs g outs)) = map_of outs ++ map_of (rev (guestWrites wild inputs g))"
  "distinct (map fst outs) \<Longrightarrow> distinct (map fst (snd (runGuest wild inputs g outs)))"
  by (induction g arbitrary: outs) (simp_all add: halStep_answer halStep_outputs)

lemma currentOutputs_None: "currentOutputs outs = None \<longleftrightarrow> map_of outs = Map.empty"
  by (simp add: currentOutputs_def)

text \<open>C14: The outputs of a run are the guest's last writes.  Running a guest gives the result of its own code
  and, for every key, the value it last set under a readable key, whatever it has read and set
  before; without any such call the run reports no outputs.  The value of an integer output is the
  \<open>float32\<close> the code stores for it, which is rounded beyond 24 bits.\<close>

theorem outputs_are_last_writes:
  "fst (runGuest wild inputs g []) = guestResult wild inputs g \<and>
   map_of (snd (runGuest wild inputs g [])) = map_of (rev (guestWrites wild inputs g)) \<and>
   distinct (map fst (snd (runGuest wild inputs g []))) \<and>
   (currentOutputs (snd (runGuest wild inputs g [])) = None \<longleftrightarrow> guestWrites wild inputs g = [])"
  unfolding currentOutputs_None using run_outputs [where wild = wild and inputs = inputs and g = g and outs = "[]"] by simp

section \<open>Requests do not see each other\<close>

text \<open>C15: The answer of a request is that of its own run.  A successful answer to a process request carries the
  result and the last writes of one run of the active module on the inputs of that request alone, with
  the digest, generation and function of that module.\<close>

theorem answer_is_of_own_run:
  assumes "handleProcess (halRuntime load behaviour wild) elapsed method decoded st = ProcessOk answer"
  shows "\<exists>req r outs. method = ''POST'' \<and> decoded = Inr req \<and> PR_Result answer = (r, outs) \<and>
    guestResult wild (P_Inputs req) (behaviour (hostModule st)) = Inr r \<and>
    map_of (case outs of None \<Rightarrow> [] | Some os \<Rightarrow> os) = map_of (rev (guestWrites wild (P_Inputs req) (behaviour (hostModule st)))) \<and>
    PR_Digest answer = wasmDigest st \<and> PR_Generation answer = P_ReleaseGeneration req \<and> PR_Function answer = P_Function req"
proof -
  obtain req out where req: "method = ''POST''" "decoded = Inr req" "P_Function req = activeFunction st"
    "P_ReleaseGeneration req = activeGeneration st"
    "RunModule (halRuntime load behaviour wild) (hostModule st) (P_Inputs req) = Inr out"
    "answer = \<lparr>PR_Result = out, PR_Millis = durationMillisCeil elapsed, PR_Function = activeFunction st,
       PR_Generation = activeGeneration st, PR_Digest = wasmDigest st\<rparr>"
    using assms by (auto simp: handleProcess_def runWasm_def split: if_splits sum.splits)
  let ?g = "behaviour (hostModule st)"
  obtain x os where run: "runGuest wild (P_Inputs req) ?g [] = (x, os)" by (cases "runGuest wild (P_Inputs req) ?g []")
  with req(5) obtain r where r: "x = Inr r" "out = (r, currentOutputs os)"
    by (auto simp: halRuntime_def split: sum.splits)
  have "map_of (case currentOutputs os of None \<Rightarrow> [] | Some os \<Rightarrow> os) = map_of os" by (simp add: currentOutputs_def)
  then show ?thesis
    using run_outputs [where wild = wild and inputs = "P_Inputs req" and g = ?g and outs = "[]"] run r req by auto
qed

text \<open>A guest that reads an integer input named in its memory, and sets it as an output.\<close>

definition echoGuest :: guest where
  "echoGuest = Call (Some ''DHTt'') (GetResourceI32 0 3 3 1) (\<lambda>x.
     Call (Some ''DHTt'') (SetOutputI32 3 1 (case x of ResI32 n \<Rightarrow> n | _ \<Rightarrow> 0)) (\<lambda>_. Return 7))"

definition echoInputs :: resourceInputs where
  "echoInputs = [''DHT'' \<mapsto> [''t'' \<mapsto> zeroInputValue\<lparr>V_Type := ''i32'', V_I32 := 41\<rparr>]]"

definition echoHost :: "(resourceInputs, int32 \<times> outputs option) wasmtime" where
  "echoHost = halRuntime (\<lambda>_. None) (\<lambda>_. echoGuest) (\<lambda>_. 0)"

lemma echo_memory:
  "wasmString (Some ''DHTt'') 0 3 = Some ''DHT''" "wasmString (Some ''DHTt'') 3 1 = Some ''t''"
  by (simp_all add: wasmString_def wasmBytes_def wrap64_def Let_def numeral_eq_Suc)

lemma echo_run: "runGuest wild echoInputs echoGuest [] = (Inr 7, [(''t'', f32_of_int32 41)])"
  by (simp add: echoGuest_def echoInputs_def named_def echo_memory resourceInputI32_def lookupInput_def setOutputF32_def)

theorem answer_is_of_own_run_witness:
  "\<exists>answer. handleProcess echoHost 1 ''POST'' (Inr \<lparr>P_Function = ''f'', P_ReleaseGeneration = 5, P_Inputs = echoInputs\<rparr>) freshHost =
     ProcessOk answer \<and> fst (PR_Result answer) = 7"
proof -
  obtain answer where run: "handleProcess echoHost 1 ''POST'' (Inr \<lparr>P_Function = ''f'', P_ReleaseGeneration = 5, P_Inputs = echoInputs\<rparr>)
      freshHost = ProcessOk answer" "PR_Result answer = (7, Some [(''t'', f32_of_int32 41)])"
    by (simp add: handleProcess_def runWasm_def echoHost_def halRuntime_def freshHost_def echo_run currentOutputs_def)
  from answer_is_of_own_run [OF run(1) [unfolded echoHost_def]] run show ?thesis by auto
qed

section \<open>Integers as outputs\<close>

lemma spacing_pos: "0 < spacing n"
  by (auto simp: spacing_def split: option.split)

lemma round_even_error:
  assumes "0 < m"
  shows "2 * \<bar>round_even m n - n\<bar> \<le> m"
proof -
  have n: "n = m * (n div m) + n mod m" and r: "0 \<le> n mod m" "n mod m < m" using assms by simp_all
  have "round_even m n - n = - (n mod m) \<and> 2 * (n mod m) \<le> m \<or> round_even m n - n = m - n mod m \<and> m \<le> 2 * (n mod m)"
    using n by (auto simp: round_even_def Let_def algebra_simps)
  then show ?thesis using r by (auto simp: abs_if)
qed

lemma spacing_small: "\<bar>n\<bar> \<le> 2 ^ 24 \<Longrightarrow> spacing n = 1"
  by (simp add: spacing_def upt_rec)

lemma spacing_int32: "in_int32 n \<Longrightarrow> spacing n \<le> 128"
proof -
  assume "in_int32 n"
  then have "\<bar>n\<bar> \<le> 2 ^ 31" by (auto simp: in_int32_def)
  then show ?thesis by (simp add: spacing_def upt_rec)
qed

text \<open>How an integer output arrives.  The value reported for an integer output is that integer as long as it
  has at most 24 bits; beyond that it may be off, by at most 64, and the first integer that is lost
  is reported as its predecessor.\<close>

theorem integer_output_rounded:
  assumes "in_int32 n"
  shows "\<exists>r. f32_of_int32 n = Fin (of_int r) \<and> \<bar>r - n\<bar> \<le> 64 \<and> (\<bar>n\<bar> \<le> 2 ^ 24 \<longrightarrow> r = n) \<and>
    f32_of_int32 (2 ^ 24 + 1) = Fin (2 ^ 24)"
proof (intro exI conjI impI)
  show "f32_of_int32 n = Fin (of_int (round_even (spacing n) n))" by (simp add: f32_of_int32_def)
  show "\<bar>round_even (spacing n) n - n\<bar> \<le> 64"
    using round_even_error [OF spacing_pos, of n n] spacing_int32 [OF assms] by (auto simp: abs_if)
  show "round_even (spacing n) n = n" if "\<bar>n\<bar> \<le> 2 ^ 24"
    by (simp add: spacing_small [OF that] round_even_def)
  show "f32_of_int32 (2 ^ 24 + 1) = Fin (2 ^ 24)"
    by (simp add: f32_of_int32_def spacing_def round_even_def upt_rec Let_def)
qed

theorem integer_output_rounded_witness:
  "f32_of_int32 41 = Fin 41"
  using integer_output_rounded [of 41] by (auto simp: in_int32_def)

section \<open>Typed inputs\<close>

text \<open>The documented shape of an input.\<close>

definition typedInput :: "string \<Rightarrow> json \<Rightarrow> json" where
  "typedInput ty val = JObject [(''type'', JString ty), (''value'', val)]"

lemma typed_fields: "typedFields (typedInput ty val) = Inr (ty, Some val)"
proof -
  have "equalFold ''type'' ''type''" "equalFold ''value'' ''value''" "\<not> equalFold ''value'' ''type''" "\<not> equalFold ''type'' ''value''"
    by (simp_all add: equalFold_def toLower_def lower_char_def)
  then show ?thesis by (simp add: typedFields_def typedInput_def members_def decodeString_def Let_def)
qed

lemma bool_shape: "unmarshalResourceInput p (typedInput ''bool'' v) =
    (case decodeBool v of None \<Rightarrow> Inl ''resource input bool value'' | Some b \<Rightarrow> Inr (zeroInputValue\<lparr>V_Type := ''bool'', V_Bool := b\<rparr>))"
  by (simp add: unmarshalResourceInput_def typed_fields Let_def)

lemma i32_shape: "unmarshalResourceInput p (typedInput ''i32'' v) =
    (case decodeI32 v of None \<Rightarrow> Inl ''resource input i32 value'' | Some n \<Rightarrow> Inr (zeroInputValue\<lparr>V_Type := ''i32'', V_I32 := n\<rparr>))"
  by (simp add: unmarshalResourceInput_def typed_fields Let_def)

lemma f32_shape: "unmarshalResourceInput p (typedInput ''f32'' v) =
    (case decodeF32 p v of None \<Rightarrow> Inl ''resource input f32 value'' | Some x \<Rightarrow> Inr (zeroInputValue\<lparr>V_Type := ''f32'', V_F32 := x\<rparr>))"
  by (simp add: unmarshalResourceInput_def typed_fields Let_def)

text \<open>The inputs of a request with one value under one key.\<close>

definition oneInput :: "string \<Rightarrow> string \<Rightarrow> resourceInputValue \<Rightarrow> resourceInputs" where
  "oneInput resource key v = [resource \<mapsto> [key \<mapsto> v]]"

text \<open>C34: A typed integer reaches the guest unchanged.  An integer of 32 bits, written in decimal in the
  documented shape, is decoded, and a guest that names it by readable pointers gets exactly it, or
  whether it is not zero when it asks for a truth value.\<close>

theorem integer_input_roundtrip:
  assumes "in_int32 n" "named mem rp rl kp kl = Some (resource, key)"
  shows "\<exists>v. unmarshalResourceInput p (typedInput ''i32'' (JNumber (fmt_d n))) = Inr v \<and>
    halAnswer wild (oneInput resource key v) mem (GetResourceI32 rp rl kp kl) = ResI32 n \<and>
    halAnswer wild (oneInput resource key v) mem (GetResourceBool rp rl kp kl) = ResI32 (if n = 0 then 0 else 1)"
proof -
  have "in_int64 n" using assms(1) by (auto simp: in_int32_def in_int64_def)
  then have "decodeI32 (JNumber (fmt_d n)) = Some n" using assms(1) by (simp add: decodeI32_def parse_int64_fmt_d)
  then show ?thesis
    using assms(2) by (simp add: i32_shape halAnswer_def oneInput_def resourceInputI32_def resourceInputBool_def lookupInput_def)
qed

theorem integer_input_roundtrip_witness:
  "\<exists>v. unmarshalResourceInput (\<lambda>_. None) (typedInput ''i32'' (JNumber (fmt_d 4173))) = Inr v \<and>
    halAnswer (\<lambda>_. 0) (oneInput ''DHT'' ''t'' v) (Some ''DHTt'') (GetResourceI32 0 3 3 1) = ResI32 4173"
  using integer_input_roundtrip [of 4173 "Some ''DHTt''" 0 3 3 1 "''DHT''" "''t''"]
  by (auto simp: in_int32_def named_def echo_memory)

text \<open>A null value counts as zero.  The decoder insists on a value, but an input of any of the three
  numeric types whose value is \<open>null\<close> passes as the number zero, and the guest reads zero where it
  would be told with \<open>-999\<close> that the input is missing.\<close>

theorem null_input_reads_as_zero:
  assumes "ty \<in> {''f32'', ''i32'', ''bool''}" "named mem rp rl kp kl = Some (resource, key)"
  shows "\<exists>v. unmarshalResourceInput p (typedInput ty JNull) = Inr v \<and>
    halAnswer wild (oneInput resource key v) mem (GetResourceF32 rp rl kp kl) = ResF32 (Fin 0) \<and>
    halAnswer wild Map.empty mem (GetResourceF32 rp rl kp kl) = ResF32 (Fin (- 999))"
proof (intro exI conjI)
  let ?v = "zeroInputValue\<lparr>V_Type := ty\<rparr>"
  show "unmarshalResourceInput p (typedInput ty JNull) = Inr ?v"
    using assms(1) by (auto simp: bool_shape i32_shape f32_shape decodeBool_def decodeI32_def decodeF32_def zeroInputValue_def)
  have "f32_of_int32 0 = Fin 0" by (simp add: f32_of_int32_def round_even_def spacing_small)
  then show "halAnswer wild (oneInput resource key ?v) mem (GetResourceF32 rp rl kp kl) = ResF32 (Fin 0)"
    using assms by (auto simp: halAnswer_def oneInput_def resourceInputF32_def lookupInput_def zeroInputValue_def)
  show "halAnswer wild Map.empty mem (GetResourceF32 rp rl kp kl) = ResF32 (Fin (- 999))"
    using assms(2) by (simp add: halAnswer_def resourceInputF32_def lookupInput_def)
qed

theorem null_input_reads_as_zero_witness:
  "\<exists>v. unmarshalResourceInput (\<lambda>_. None) (typedInput ''f32'' JNull) = Inr v \<and>
    halAnswer (\<lambda>_. 0) (oneInput ''DHT'' ''t'' v) (Some ''DHTt'') (GetResourceF32 0 3 3 1) = ResF32 (Fin 0)"
  using null_input_reads_as_zero [of "''f32''" "Some ''DHTt''" 0 3 3 1 "''DHT''" "''t''"]
  by (auto simp: named_def echo_memory)

section \<open>Answers that cannot be encoded\<close>

text \<open>A run can succeed without an answer.  If the value the guest last set for some key is not a finite
  number, the host has already sent the success code when the encoding fails: the caller gets the
  status 200 and no result.\<close>

theorem nonfinite_output_loses_answer:
  assumes "handleProcess (halRuntime load behaviour wild) elapsed method (Inr req) st = ProcessOk answer"
    and "map_of (rev (guestWrites wild (P_Inputs req) (behaviour (hostModule st)))) key = Some x" "x \<in> {PosInf, NegInf, NaN}"
  shows "writeProcess (ProcessOk answer) = (200, None)"
proof -
  let ?g = "behaviour (hostModule st)"
  obtain res os where run: "runGuest wild (P_Inputs req) ?g [] = (res, os)" by (cases "runGuest wild (P_Inputs req) ?g []")
  have res: "snd (PR_Result answer) = currentOutputs os"
    using assms(1) run by (auto simp: handleProcess_def runWasm_def halRuntime_def split: if_splits sum.splits)
  have "map_of os key = Some x"
    using run_outputs(2) [where wild = wild and inputs = "P_Inputs req" and g = ?g and outs = "[]"] run assms(2) by simp
  then have "(key, x) \<in> set os" by (rule map_of_SomeD)
  then have "\<not> list_all (\<lambda>(k, v). case v of Fin q \<Rightarrow> True | _ \<Rightarrow> False) os" "os \<noteq> []"
    using assms(3) unfolding list_all_iff by (auto intro: bexI [of _ "(key, x)"])
  moreover from \<open>os \<noteq> []\<close> have "currentOutputs os = Some os" by (simp add: currentOutputs_def)
  ultimately show ?thesis by (simp add: writeProcess_def encodable_def res)
qed

definition divideGuest :: guest where
  "divideGuest = Call (Some ''t'') (SetOutputF32 0 1 NaN) (\<lambda>_. Return 0)"

theorem nonfinite_output_loses_answer_witness:
  "\<exists>answer. handleProcess (halRuntime (\<lambda>_. None) (\<lambda>_. divideGuest) (\<lambda>_. 0)) 1 ''POST''
      (Inr \<lparr>P_Function = ''f'', P_ReleaseGeneration = 5, P_Inputs = Map.empty\<rparr>) freshHost = ProcessOk answer \<and>
    writeProcess (ProcessOk answer) = (200, None)"
proof -
  have key: "wasmString (Some ''t'') 0 1 = Some ''t''" by (simp add: wasmString_def wasmBytes_def wrap64_def Let_def)
  obtain answer where run: "handleProcess (halRuntime (\<lambda>_. None) (\<lambda>_. divideGuest) (\<lambda>_. 0)) 1 ''POST''
      (Inr \<lparr>P_Function = ''f'', P_ReleaseGeneration = 5, P_Inputs = Map.empty\<rparr>) freshHost = ProcessOk answer"
    by (simp add: handleProcess_def runWasm_def halRuntime_def freshHost_def divideGuest_def key)
  have "map_of (rev (guestWrites (\<lambda>_. 0) Map.empty divideGuest)) ''t'' = Some NaN" by (simp add: divideGuest_def key)
  then show ?thesis using nonfinite_output_loses_answer [OF run, of "''t''" NaN] run by simp
qed

end
