(* ===== verification/Host_Service.thy ===== *)
theory Host_Service
  imports Hal Host_Props
begin

text \<open>
  The edge host as a service (\<open>edge/host/main.go\<close>): its start-up, the routes of its multiplexer, every
  handler behind them, and the lines it logs about requests, runs and guests.
\<close>

section \<open>Log lines\<close>

text \<open>
  \<open>%.2f\<close> of a \<open>float32\<close>: the exact value rounded to hundredths, ties to even.  \<open>hundredths\<close> is the
  printed number times 100.
\<close>

definition hundredths :: "rat \<Rightarrow> int" where
  "hundredths q =
    (let n = \<lfloor>100 * q\<rfloor>; r = 100 * q - of_int n
     in if r < 1 / 2 \<or> r = 1 / 2 \<and> even n then n else n + 1)"

definition fmt_cents :: "int \<Rightarrow> string" where
  "fmt_cents n =
    (let d = n mod 100
     in fmt_d (n div 100) @ ''.'' @ (if d < 10 then ''0'' else []) @ fmt_d d)"

definition fmt_2f :: "f32 \<Rightarrow> string" where
  "fmt_2f v =
    (case v of
       Fin q \<Rightarrow> (if q < 0 then ''-'' else []) @ fmt_cents (hundredths \<bar>q\<bar>)
     | PosInf \<Rightarrow> ''+Inf''
     | NegInf \<Rightarrow> ''-Inf''
     | NaN \<Rightarrow> ''NaN'')"

text \<open>A missing output reads as the zero value of the map.\<close>

definition outputOf :: "outputs \<Rightarrow> string \<Rightarrow> f32" where
  "outputOf outs key = (case map_of outs key of None \<Rightarrow> Fin 0 | Some v \<Rightarrow> v)"

definition wasmOutputLogMessage :: "(f32 \<Rightarrow> int32) \<Rightarrow> outputs option \<Rightarrow> string" where
  "wasmOutputLogMessage wild outputs =
    (let outs = (case outputs of None \<Rightarrow> [] | Some os \<Rightarrow> os);
         whole = (\<lambda>key. fmt_d (int32_of_f32 wild (outputOf outs key)))
     in if length outs = 0 then []
        else ''Hybrid computation outputs: temperatureF='' @ fmt_2f (outputOf outs ''temperatureF'') @
          '' heatIndexC='' @ fmt_2f (outputOf outs ''heatIndexC'') @
          '' comfortScore='' @ whole ''comfortScore'' @ '' occupied='' @ whole ''occupied'' @
          '' nextSampleSeconds='' @ whole ''nextSampleSeconds'' @ '' actuatorCommand='' @ whole ''actuatorCommand'')"

text \<open>The inputs of a request as they were decoded, and as the functions look them up.\<close>

type_synonym inputList = "(string \<times> (string \<times> resourceInputValue) list) list"

definition inputsOf :: "inputList \<Rightarrow> resourceInputs" where
  "inputsOf inputs resource = map_option map_of (map_of inputs resource)"

definition offloadRequestLogMessage :: "string \<Rightarrow> int64 \<Rightarrow> string \<Rightarrow> inputList \<Rightarrow> int \<Rightarrow> string" where
  "offloadRequestLogMessage function generation source inputs bytesReceived =
    (let message = ''Edge invocation: POST /process function='' @ function @ '' generation='' @ fmt_d generation @
           '' source='' @ source @ '' bytes='' @ fmt_d bytesReceived @ '' inputs='' @ fmt_d (resourceInputCount (Some inputs));
         message1 = message @ (case resourceInputF32 (Some (inputsOf inputs)) ''DHT'' ''temperature'' of
           None \<Rightarrow> [] | Some t \<Rightarrow> '' temp='' @ fmt_2f t)
     in message1 @ (case resourceInputF32 (Some (inputsOf inputs)) ''DHT'' ''humidity'' of
           None \<Rightarrow> [] | Some h \<Rightarrow> '' hum='' @ fmt_2f h))"

text \<open>The wrappers through which the host functions read the request, and the memory's length.\<close>

definition resourceF32 :: "resourceInputs \<Rightarrow> string \<Rightarrow> string \<Rightarrow> f32 option" where
  "resourceF32 sensorData resource key = resourceInputF32 (Some sensorData) resource key"

definition resourceI32 :: "(f32 \<Rightarrow> int32) \<Rightarrow> resourceInputs \<Rightarrow> string \<Rightarrow> string \<Rightarrow> int32 option" where
  "resourceI32 wild sensorData resource key = resourceInputI32 wild (Some sensorData) resource key"

definition resourceBool :: "resourceInputs \<Rightarrow> string \<Rightarrow> string \<Rightarrow> bool option" where
  "resourceBool sensorData resource key = resourceInputBool (Some sensorData) resource key"

definition wasmMemoryLen :: "bytes option \<Rightarrow> int" where
  "wasmMemoryLen mem = (case mem of None \<Rightarrow> 0 | Some data \<Rightarrow> int (length data))"

text \<open>What the host prints for a guest's \<open>log_message\<close>.\<close>

definition guestLogLine :: "bytes option \<Rightarrow> int32 \<Rightarrow> int32 \<Rightarrow> string" where
  "guestLogLine mem ptr len =
    (case wasmBytes mem ptr len of
       None \<Rightarrow> ''[HAL] log_message: out of bounds (ptr='' @ fmt_d ptr @ '', len='' @ fmt_d len @ '', mem='' @
         fmt_d (wasmMemoryLen mem) @ '')''
     | Some data \<Rightarrow> ''[WasmGuest] '' @ data)"

section \<open>Routes\<close>

text \<open>
  \<open>http.ServeMux\<close> on a path without percent escapes: the path is cleaned, except for \<open>CONNECT\<close>; a path
  that is not clean is redirected, and the four patterns match only themselves.
\<close>

fun segments :: "string \<Rightarrow> string \<Rightarrow> string list" where
  "segments acc [] = [rev acc]"
| "segments acc (c # s) = (if c = CHR ''/'' then rev acc # segments [] s else segments (c # acc) s)"

definition cleanSegment :: "string \<Rightarrow> string list \<Rightarrow> string list" where
  "cleanSegment seg kept =
    (if seg = [] \<or> seg = ''.'' then kept
     else if seg = ''..'' then butlast kept
     else kept @ [seg])"

definition cleanPath :: "string \<Rightarrow> string" where
  "cleanPath p =
    (if p = [] then ''/''
     else let p1 = (if hd p = CHR ''/'' then p else CHR ''/'' # p);
              kept = fold cleanSegment (segments [] p1) [];
              np = (if kept = [] then ''/'' else concat (map (\<lambda>seg. CHR ''/'' # seg) kept))
          in if last p1 = CHR ''/'' \<and> np \<noteq> ''/'' then np @ ''/'' else np)"

datatype route = ToProcess | ToWasm | ToRelease | ToHealth | ToNotFound | RedirectTo string

definition matchPattern :: "string \<Rightarrow> route" where
  "matchPattern p =
    (if p = ''/process'' then ToProcess else if p = ''/wasm'' then ToWasm
     else if p = ''/release'' then ToRelease else if p = ''/health'' then ToHealth else ToNotFound)"

definition findHandler :: "string \<Rightarrow> string \<Rightarrow> route" where
  "findHandler method path =
    (if method = ''CONNECT'' then matchPattern path
     else if cleanPath path \<noteq> path then RedirectTo (cleanPath path)
     else matchPattern path)"

section \<open>The service\<close>

text \<open>
  A request: what its handler reads of it, and what the operating system and the clock answer while it
  is served.  The reply of \<open>/process\<close> is a status with an error or a response, or nothing when the response
  cannot be encoded.
\<close>

record 'input serverRequest =
  SR_Method :: string
  SR_Path :: string
  SR_Upload :: uploadRequest
  SR_UploadFaults :: uploadFaults
  SR_Activation :: "int64 option"
  SR_ActivateFaults :: activateFaults
  SR_Process :: "string + 'input processRequest"
  SR_Elapsed :: duration

datatype serverAnswer =
    PlainAnswer response
  | ProcessReply nat "(string + (int32 \<times> outputs option) processResponse) option"
  | ArtifactAnswer "(string \<times> string) option" "bytes option"
  | HealthAnswer string
  | NotFoundAnswer
  | RedirectAnswer string

definition handleHealth :: "string \<Rightarrow> serverAnswer" where
  "handleHealth goarch =
    (let q = [CHR 0x22]
     in HealthAnswer (''{'' @ q @ ''status'' @ q @ '':'' @ q @ ''ok'' @ q @ '','' @ q @ ''runtime'' @ q @ '':'' @ q @
       ''wasmtime-go'' @ q @ '','' @ q @ ''arch'' @ q @ '':'' @ q @ goarch @ q @ ''}''))"

text \<open>\<open>handleWasm\<close> with its uploads; an upload that is served alone always ends with an answer.\<close>

definition serveWasm :: "(bytes \<Rightarrow> string) \<Rightarrow> ('input, 'output) wasmtime \<Rightarrow> 'input serverRequest \<Rightarrow> hostState
    \<Rightarrow> serverAnswer \<times> hostState" where
  "serveWasm sha wasm r st =
    (case handleWasm (SR_Method r) st of
       Some (headers, body) \<Rightarrow> (ArtifactAnswer headers body, st)
     | None \<Rightarrow>
         if SR_Method r = ''PUT'' then
           (case handleWasmUpload sha wasm (SR_UploadFaults r) (SR_Upload r) st of
              (Answered a, st') \<Rightarrow> (PlainAnswer a, st')
            | (_, st') \<Rightarrow> (PlainAnswer (HttpError 500 []), st'))
         else (PlainAnswer (HttpError 405 ''method not allowed''), st))"

definition serveHTTP :: "(bytes \<Rightarrow> string) \<Rightarrow> ('input, int32 \<times> outputs option) wasmtime \<Rightarrow> string \<Rightarrow> 'input serverRequest
    \<Rightarrow> hostState \<Rightarrow> serverAnswer \<times> hostState" where
  "serveHTTP sha wasm goarch r st =
    (case findHandler (SR_Method r) (SR_Path r) of
       ToProcess \<Rightarrow>
         (case writeProcess (handleProcess wasm (SR_Elapsed r) (SR_Method r) (SR_Process r) st) of
            (status, body) \<Rightarrow> (ProcessReply status body, st))
     | ToWasm \<Rightarrow> serveWasm sha wasm r st
     | ToRelease \<Rightarrow>
         (case handleRelease (SR_ActivateFaults r) (SR_Method r) (SR_Activation r) st of (a, st') \<Rightarrow> (PlainAnswer a, st'))
     | ToHealth \<Rightarrow> (handleHealth goarch, st)
     | ToNotFound \<Rightarrow> (NotFoundAnswer, st)
     | RedirectTo p \<Rightarrow> (RedirectAnswer p, st))"

text \<open>
  The process: the package variables at their zero values, the start-up, and the address it then listens
  on, or the message it ends with.
\<close>

definition initialHost :: "(string \<Rightarrow> bytes option) \<Rightarrow> hostState" where
  "initialHost fs = \<lparr>hostModule = [], wasmPath = [], wasmDigest = [], activeGeneration = 0, activeFunction = [],
     stagedRelease = None, files = fs\<rparr>"

definition hostMain :: "(bytes \<Rightarrow> string) \<Rightarrow> ('input, 'output) wasmtime \<Rightarrow> (string \<Rightarrow> string) \<Rightarrow> (string \<Rightarrow> bytes option)
    \<Rightarrow> string + string \<times> hostState" where
  "hostMain sha wasm getenv fs =
    (case initWasm sha wasm getenv (initialHost fs) of
       (Some e, st) \<Rightarrow> Inl (''Failed to initialize Wasm runtime: '' @ e)
     | (None, st) \<Rightarrow>
         (let port = (if getenv ''PORT'' = [] then ''8080'' else getenv ''PORT'')
          in Inr ('':'' @ port, st)))"

section \<open>The files while a request is served\<close>

text \<open>
  \<open>activateStagedRelease\<close> and the handlers hold the lock while they look at the slots, but \<open>http.ServeFile\<close>
  opens the file of the active release without it.  So a download can see the files at every file operation
  of a request: the states an activation passes through, in order, and those between the pieces of an
  upload.  The answers of \<open>os.Remove\<close> are ignored by the code; that it removes the file, if there is one, is
  all that is modelled of it.
\<close>

definition activationStates :: "activateFaults \<Rightarrow> int64 \<Rightarrow> hostState \<Rightarrow> hostState list" where
  "activationStates io generation st =
    (if generation = activeGeneration st then [st]
     else case stagedRelease st of
       None \<Rightarrow> [st]
     | Some r \<Rightarrow>
         if C_Generation r \<noteq> generation then [st]
         else let removed = removeFile (backupPath st) st;
                  missing = (files removed (wasmPath st) = None);
                  (saved, backedUp) = rename (BackupRename io) (wasmPath st) (backupPath st) removed
              in [st, removed, backedUp] @
                (if \<not> saved \<and> \<not> missing then []
                 else case rename (ActivateRename io) (C_Path r) (wasmPath st) backedUp of
                   (False, failed) \<Rightarrow>
                     [failed, snd (rename (RollbackRename io) (backupPath st) (wasmPath st) failed)]
                 | (True, renamed) \<Rightarrow>
                     [renamed, removeFile (backupPath st) renamed,
                      (removeFile (backupPath st) renamed)\<lparr>hostModule := C_Module r,
                        wasmDigest := C_Digest r, activeGeneration := C_Generation r,
                        activeFunction := C_Function r, stagedRelease := None\<rparr>]))"

definition requestStates :: "(bytes \<Rightarrow> string) \<Rightarrow> ('input, 'output) wasmtime \<Rightarrow> hostRequest \<Rightarrow> hostState \<Rightarrow> hostState list" where
  "requestStates sha wasm q st =
    (case q of
       Upload io r \<Rightarrow> map (\<lambda>k. snd ((uploadStep sha wasm io ^^ k) (Received r, st))) [0..<6]
     | Activate io generation \<Rightarrow> activationStates io generation st)"

section \<open>A download\<close>

text \<open>
  GET and HEAD of \<open>/wasm\<close> in their two pieces: the digest is read under the lock, and \<open>http.ServeFile\<close> opens
  the file after the lock is released, at any moment of the requests that are served meanwhile.  A file
  that is open keeps its content when its name is renamed or removed.  Without a file the answer is 404,
  and \<open>http.ServeFile\<close> takes the \<open>ETag\<close> back, so that only \<open>X-Wasm-Sha256\<close> is left of the headers.  Not
  modelled: range requests, conditional requests (\<open>If-None-Match\<close> and the like), and other errors of the
  file system than a missing file.
\<close>

datatype download =
    Requested
  | DigestRead string
  | Downloaded "(string \<times> string) option" bytes
  | FileMissing "string option"

definition currentWasmDigest :: "hostState \<Rightarrow> string" where
  "currentWasmDigest st = wasmDigest st"

fun downloadStep :: "download \<Rightarrow> hostState \<Rightarrow> download" where
  "downloadStep Requested st = DigestRead (currentWasmDigest st)"
| "downloadStep (DigestRead digest) st =
    (case files st (wasmPath st) of
       Some body \<Rightarrow> Downloaded (setWasmDigestHeaders digest) body
     | None \<Rightarrow> FileMissing (map_option fst (setWasmDigestHeaders digest)))"
| "downloadStep (Downloaded headers body) st = Downloaded headers body"
| "downloadStep (FileMissing digest) st = FileMissing digest"

end
