(* ===== verification/Host_Service_Props.thy ===== *)
theory Host_Service_Props
  imports Host_Service
begin

text \<open>
  The host as a service: from its start on, over any requests, what it runs is what it names; and what a
  download can be when a release is activated in the middle of it.
\<close>

section \<open>Printed numbers\<close>

lemma hundredths_nearest: "\<bar>of_int (hundredths q) - 100 * q\<bar> \<le> 1 / 2"
proof -
  have "of_int \<lfloor>100 * q\<rfloor> \<le> 100 * q" "100 * q < of_int \<lfloor>100 * q\<rfloor> + 1"
    using of_int_floor_le floor_correct [of "100 * q"] by auto
  then show ?thesis by (auto simp: hundredths_def Let_def)
qed

section \<open>Requests as steps of the host\<close>

definition steps_of :: "'input serverRequest \<Rightarrow> hostRequest list" where
  "steps_of r =
    (case findHandler (SR_Method r) (SR_Path r) of
       ToWasm \<Rightarrow> if SR_Method r = ''PUT'' then [Upload (SR_UploadFaults r) (SR_Upload r)] else []
     | ToRelease \<Rightarrow>
         (case SR_Activation r of
            None \<Rightarrow> []
          | Some g \<Rightarrow> if SR_Method r = ''POST'' \<and> 0 < g then [Activate (SR_ActivateFaults r) g] else [])
     | _ \<Rightarrow> [])"

lemma serve_steps: "snd (serveHTTP sha wasm goarch r st) = fold (hostStep sha wasm) (steps_of r) st"
proof (cases "findHandler (SR_Method r) (SR_Path r)")
  case ToWasm
  then show ?thesis
    by (auto simp: serveHTTP_def steps_of_def serveWasm_def handleWasm_def split: prod.split upload.split)
next
  case ToRelease
  then show ?thesis
    by (auto simp: serveHTTP_def steps_of_def handleRelease_def split: prod.split option.split)
qed (simp_all add: serveHTTP_def steps_of_def split: prod.split)

lemma served_steps:
  "fold (\<lambda>r s. snd (serveHTTP sha wasm goarch r s)) rs st = fold (hostStep sha wasm) (concat (map steps_of rs)) st"
  by (induction rs arbitrary: st) (simp_all add: serve_steps)

text \<open>The modules in memory are ones that wasmtime has accepted.\<close>

definition modules_ok :: "('input, 'output) wasmtime \<Rightarrow> hostState \<Rightarrow> bool" where
  "modules_ok wasm st \<longleftrightarrow> LoadError wasm (hostModule st) = None \<and>
     (case stagedRelease st of None \<Rightarrow> True | Some r \<Rightarrow> LoadError wasm (C_Module r) = None)"

lemma modules_ok_memory: "memory st = memory st' \<Longrightarrow> modules_ok wasm st = modules_ok wasm st'"
  using memory_cong [of st st'] by (simp add: modules_ok_def)

lemma hostStep_modules:
  assumes "modules_ok wasm st"
  shows "modules_ok wasm (hostStep sha wasm q st)"
proof (cases q)
  case (Upload io r)
  obtain u st' where run: "handleWasmUpload sha wasm io r st = (u, st')"
    by (cases "handleWasmUpload sha wasm io r st")
  then show ?thesis
  proof (cases rule: upload_alone)
    case (refused a)
    then show ?thesis using assms run Upload modules_ok_memory [OF refused(2), of wasm] by simp
  next
    case (staged g f)
    then show ?thesis using assms run Upload by (simp add: modules_ok_def)
  qed
next
  case (Activate io g)
  obtain e st' where run: "activateStagedRelease io g st = (e, st')"
    by (cases "activateStagedRelease io g st")
  then show ?thesis
  proof (cases rule: activate_cases)
    case kept
    then show ?thesis using assms run Activate modules_ok_memory [OF kept(1), of wasm] by simp
  next
    case (activated r)
    have "memory st' = memory (st\<lparr>hostModule := C_Module r, wasmDigest := C_Digest r,
         activeGeneration := g, activeFunction := C_Function r, stagedRelease := None\<rparr>)"
      using activated(5) by (simp add: memory_def)
    from modules_ok_memory [OF this, of wasm] show ?thesis
      using assms activated(2) run Activate by (simp add: modules_ok_def)
  qed
qed

lemma started_host:
  assumes "hostMain sha wasm getenv fs = Inr (addr, st)"
  obtains path m where "fs path = Some m" "LoadError wasm m = None" "wasmPath st = path" "hostModule st = m"
    "wasmDigest st = sha m" "stagedRelease st = None" "files st = fs"
proof -
  let ?path = "if getenv ''WASM_PATH'' = [] then ''dht_reader.wasm'' else getenv ''WASM_PATH''"
  obtain e st1 where load: "reloadWasmModule sha wasm ?path ((initialHost fs)\<lparr>wasmPath := ?path\<rparr>) = (e, st1)"
    by (cases "reloadWasmModule sha wasm ?path ((initialHost fs)\<lparr>wasmPath := ?path\<rparr>)")
  have e: "e = None"
  proof (cases e)
    case (Some x)
    then show ?thesis using assms unfolding hostMain_def initWasm_def Let_def load by simp
  qed simp
  have st: "wasmPath st = wasmPath st1" "hostModule st = hostModule st1" "wasmDigest st = wasmDigest st1"
    "stagedRelease st = stagedRelease st1" "files st = files st1"
    using assms unfolding hostMain_def initWasm_def Let_def load e by auto
  obtain m where m: "fs ?path = Some m" "LoadError wasm m = None"
    "st1 = (initialHost fs)\<lparr>wasmPath := ?path, hostModule := m, wasmDigest := sha m\<rparr>"
    using load unfolding e reloadWasmModule_def
    by (cases "fs ?path"; cases "LoadError wasm (the (fs ?path))") (auto simp: initialHost_def)
  show thesis
    by (rule that [of ?path m]) (use m(1,2) in \<open>simp_all add: st m(3) initialHost_def\<close>)
qed

lemma started_ok:
  assumes "hostMain sha wasm getenv fs = Inr (addr, st)"
  shows "slots_ok sha st" "modules_ok wasm st" "files_ok st"
  by (rule started_host [OF assms]; simp add: slots_ok_def modules_ok_def files_ok_def)+

lemma steps_ok:
  assumes "slots_ok sha st" "modules_ok wasm st"
  shows "slots_ok sha (fold (hostStep sha wasm) qs st) \<and> modules_ok wasm (fold (hostStep sha wasm) qs st)"
  using assms
proof (induction qs arbitrary: st)
  case (Cons q qs)
  then show ?case using hostStep_ok [of sha st wasm q] hostStep_modules [of wasm st sha q] by simp
qed simp

lemma process_reply:
  assumes "fst (serveHTTP sha wasm goarch r st) = ProcessReply status (Some (Inr a))"
  obtains req where "findHandler (SR_Method r) (SR_Path r) = ToProcess" "SR_Method r = ''POST''" "SR_Process r = Inr req"
    "runWasm wasm (SR_Elapsed r) req st = Inr a"
proof (cases "findHandler (SR_Method r) (SR_Path r)")
  case ToProcess
  then show thesis
    using assms
    by (auto simp: serveHTTP_def handleProcess_def writeProcess_def intro: that split: if_splits sum.splits prod.splits)
next
  case ToWasm
  then show thesis
    using assms by (auto simp: serveHTTP_def serveWasm_def split: option.splits prod.splits upload.splits if_splits)
qed (use assms in \<open>auto simp: serveHTTP_def handleHealth_def Let_def split: prod.splits\<close>)

text \<open>C8: What the host runs is what it names, from its start on.  Once the process listens, whatever requests
  it serves one after the other, on whatever paths and with whatever failures of the file system, a
  successful answer of \<open>/process\<close> goes to a POST request, names the function and the generation that were
  asked for, and names the digest of the very bytes it ran, which wasmtime has accepted as a module.\<close>

theorem service_runs_what_it_names:
  assumes "hostMain sha wasm getenv fs = Inr (addr, st0)"
    and "st = fold (\<lambda>r s. snd (serveHTTP sha wasm goarch r s)) rs st0"
    and "fst (serveHTTP sha wasm goarch r st) = ProcessReply status (Some (Inr a))"
  shows "\<exists>req m. SR_Method r = ''POST'' \<and> SR_Process r = Inr req \<and> PR_Function a = P_Function req \<and>
    PR_Generation a = P_ReleaseGeneration req \<and> PR_Digest a = sha m \<and> LoadError wasm m = None \<and>
    RunModule wasm m (P_Inputs req) = Inr (PR_Result a)"
proof (rule process_reply [OF assms(3)])
  fix req
  assume req: "SR_Method r = ''POST''" "SR_Process r = Inr req" and run: "runWasm wasm (SR_Elapsed r) req st = Inr a"
  have "slots_ok sha st" "modules_ok wasm st"
    using steps_ok [OF started_ok(1,2) [OF assms(1)]] by (simp_all add: assms(2) served_steps)
  then have "wasmDigest st = sha (hostModule st)" "LoadError wasm (hostModule st) = None"
    by (simp_all add: slots_ok_def modules_ok_def)
  with req run show ?thesis
    by (intro exI [of _ req] exI [of _ "hostModule st"])
      (auto simp: runWasm_def split: if_splits sum.splits)
qed

section \<open>Downloads\<close>

text \<open>As long as the generation stays, so does the active module.\<close>

lemma hostStep_same_generation:
  assumes "slots_ok sha st" "activeGeneration (hostStep sha wasm q st) = activeGeneration st"
  shows "hostModule (hostStep sha wasm q st) = hostModule st" "wasmPath (hostStep sha wasm q st) = wasmPath st"
proof -
  have "hostModule (hostStep sha wasm q st) = hostModule st \<and> wasmPath (hostStep sha wasm q st) = wasmPath st"
  proof (cases q)
    case (Upload io r)
    obtain u st' where run: "handleWasmUpload sha wasm io r st = (u, st')"
      by (cases "handleWasmUpload sha wasm io r st")
    then show ?thesis
    proof (cases rule: upload_alone)
      case (refused a)
      then show ?thesis using run Upload memory_cong(1,2) [OF refused(2)] by simp
    next
      case (staged g f)
      then show ?thesis using run Upload by simp
    qed
  next
    case (Activate io g)
    obtain e st' where run: "activateStagedRelease io g st = (e, st')"
      by (cases "activateStagedRelease io g st")
    then show ?thesis
    proof (cases rule: activate_cases)
      case kept
      then show ?thesis using run Activate memory_cong(1,2) [OF kept(1)] by simp
    next
      case (activated r)
      have "activeGeneration st' = activeGeneration (memory st')" by (simp add: memory_def)
      also have "\<dots> = g" by (simp add: activated(5))
      finally have "activeGeneration st' = g" .
      with activated(4) assms(2) run Activate show ?thesis by simp
    qed
  qed
  then show "hostModule (hostStep sha wasm q st) = hostModule st" "wasmPath (hostStep sha wasm q st) = wasmPath st"
    by simp_all
qed

lemma steps_same_generation:
  assumes "slots_ok sha st" "activeGeneration (fold (hostStep sha wasm) qs st) = activeGeneration st"
  shows "hostModule (fold (hostStep sha wasm) qs st) = hostModule st"
  using assms
proof (induction qs arbitrary: st)
  case (Cons q qs)
  let ?s = "hostStep sha wasm q st"
  have s: "slots_ok sha ?s" "activeGeneration st \<le> activeGeneration ?s"
    using hostStep_ok [OF Cons.prems(1)] by blast+
  have grows: "activeGeneration t \<le> activeGeneration (fold (hostStep sha wasm) qs t)" if "slots_ok sha t" for t
    using that
  proof (induction qs arbitrary: t)
    case (Cons q qs)
    then show ?case using hostStep_ok [OF Cons.prems] by (metis (no_types, lifting) fold_simps(2) order_trans)
  qed simp
  have "activeGeneration ?s = activeGeneration st" using grows [OF s(1)] s(2) Cons.prems(2) by simp
  with Cons.IH [OF s(1)] Cons.prems(2) hostStep_same_generation(1) [OF Cons.prems(1), of wasm q] show ?case by simp
qed simp

lemma steps_files:
  assumes "slots_ok sha st" "files_ok st" "list_all benign_request qs"
  shows "files_ok (fold (hostStep sha wasm) qs st)"
  using assms
proof (induction qs arbitrary: st)
  case (Cons q qs)
  then show ?case using hostStep_ok [of sha st wasm q] hostStep_files [of sha st q wasm] by simp
qed simp

text \<open>The states of a request lead to the state after it.\<close>

lemma activationStates_last: "last (activationStates io g st) = snd (activateStagedRelease io g st)"
  by (simp add: activationStates_def activateStagedRelease_def Let_def split: option.split prod.split bool.split)

lemma requestStates_last: "last (requestStates sha wasm q st) = hostStep sha wasm q st"
  by (cases q) (simp_all add: requestStates_def activationStates_last handleWasmUpload_def numeral_eq_Suc)

text \<open>An upload leaves the file of the active release alone, at each of its pieces.\<close>

lemma uploadStep_active_file:
  assumes "uploadStep sha wasm io (u, st) = (u', st')"
  shows "wasmPath st' = wasmPath st" "files st' (wasmPath st) = files st (wasmPath st)"
  using assms
  by (cases u; auto simp: storeUpload_def compileUpload_def checkUpload_def renameUpload_def commitUpload_def Let_def
      removeFile_def renameFile_def stagedPath_def tmpPath_def split: option.splits if_splits)+

lemma upload_active_file:
  "wasmPath (snd ((uploadStep sha wasm io ^^ k) (u, st))) = wasmPath st \<and>
   files (snd ((uploadStep sha wasm io ^^ k) (u, st))) (wasmPath st) = files st (wasmPath st)"
proof (induction k)
  case (Suc k)
  obtain u1 st1 where k: "(uploadStep sha wasm io ^^ k) (u, st) = (u1, st1)"
    by (cases "(uploadStep sha wasm io ^^ k) (u, st)")
  obtain u2 st2 where step: "uploadStep sha wasm io (u1, st1) = (u2, st2)"
    by (cases "uploadStep sha wasm io (u1, st1)")
  show ?case using Suc.IH uploadStep_active_file [OF step] by (simp add: k step)
qed simp

text \<open>The active file during an activation.\<close>

definition startsRelease :: "hostState \<Rightarrow> int64 \<Rightarrow> bool" where
  "startsRelease st g \<longleftrightarrow> g \<noteq> activeGeneration st \<and>
     (case stagedRelease st of None \<Rightarrow> False | Some r \<Rightarrow> C_Generation r = g)"

definition activeFiles :: "hostState list \<Rightarrow> bytes option set" where
  "activeFiles sts = (\<lambda>s. files s (wasmPath s)) ` set sts"

lemma activation_files:
  assumes "slots_ok sha st" "files_ok st" "startsRelease st g"
  shows "activeFiles (activationStates io g st) = insert (Some (hostModule st))
    (if BackupRename io = RenameFailed then {}
     else insert None (if ActivateRename io = RenameFailed then {}
       else {Some (hostModule (snd (activateStagedRelease io g st)))}))"
proof -
  obtain r where r: "stagedRelease st = Some r" "C_Generation r = g" "g \<noteq> activeGeneration st"
    using assms(3) by (auto simp: startsRelease_def split: option.splits)
  have f: "files st (wasmPath st) = Some (hostModule st)" "files st (stagedPath st) = Some (C_Module r)"
    "C_Path r = stagedPath st"
    using assms(1,2) r by (simp_all add: files_ok_def slots_ok_def)
  show ?thesis
    by (cases "BackupRename io"; cases "ActivateRename io"; cases "RollbackRename io")
      (use r f in \<open>auto simp: activeFiles_def activationStates_def activateStagedRelease_def rename_def
        removeFile_def renameFile_def backupPath_def stagedPath_def Let_def\<close>)
qed

lemma idle_files:
  assumes "files_ok st" "\<not> (case q of Upload io r \<Rightarrow> False | Activate io g \<Rightarrow> startsRelease st g)"
  shows "activeFiles (requestStates sha wasm q st) = {Some (hostModule st)}"
proof (cases q)
  case (Upload io r)
  have "files s (wasmPath s) = Some (hostModule st)" if "s \<in> set (requestStates sha wasm q st)" for s
    using that upload_active_file [where u = "Received r" and st = st and sha = sha and wasm = wasm and io = io] assms(1)
    by (auto simp: requestStates_def Upload files_ok_def)
  moreover have "set (requestStates sha wasm q st) \<noteq> {}" by (simp add: requestStates_def Upload)
  ultimately show ?thesis unfolding activeFiles_def by (simp add: image_constant_conv cong: image_cong_simp)
next
  case (Activate io g)
  then have "requestStates sha wasm q st = [st]"
    using assms(2) by (auto simp: requestStates_def activationStates_def startsRelease_def split: option.splits)
  with assms(1) show ?thesis by (simp add: activeFiles_def files_ok_def)
qed

text \<open>
  The downloads that ask for the digest in a state, while the file is opened at some moment of one more
  request, after others were served to their end.
\<close>

definition downloadsDuring :: "(bytes \<Rightarrow> string) \<Rightarrow> ('input, 'output) wasmtime \<Rightarrow> hostRequest list \<Rightarrow> hostRequest
    \<Rightarrow> hostState \<Rightarrow> download set" where
  "downloadsDuring sha wasm qs q st =
    downloadStep (downloadStep Requested st) ` set (requestStates sha wasm q (fold (hostStep sha wasm) qs st))"

lemma downloads_files:
  "downloadsDuring sha wasm qs q st =
    (\<lambda>body. case body of
       Some m \<Rightarrow> Downloaded (setWasmDigestHeaders (wasmDigest st)) m
     | None \<Rightarrow> FileMissing (map_option fst (setWasmDigestHeaders (wasmDigest st)))) `
    activeFiles (requestStates sha wasm q (fold (hostStep sha wasm) qs st))"
  by (simp add: downloadsDuring_def activeFiles_def image_image currentWasmDigest_def)

text \<open>C37: What a download can be.  The host serves the file of its active release; after the digest of a download
  is read, any requests whose staging and rollback renames succeed are served, and the file is opened at
  any moment of one more request: between the pieces of an upload, or between the file operations of an
  activation.  The headers carry the digest of the module that was active when the digest was read.  The
  body is the module that is active when the last request begins, and nothing else is possible unless that
  request activates the staged release and its backup rename succeeds.  Then the answer can also be 404
  (between the two renames, or while a failed activation is not yet rolled back), and, exactly when the
  second rename succeeds, the body can also be the module the activation makes active.  While the active
  generation stays, the module stays too.\<close>

theorem download_of_one_release:
  assumes "slots_ok sha st" "files_ok st" "list_all benign_request qs"
  shows "let now = fold (hostStep sha wasm) qs st;
             headers = setWasmDigestHeaders (sha (hostModule st))
         in downloadsDuring sha wasm qs q st = insert (Downloaded headers (hostModule now))
              (case q of
                 Upload io r \<Rightarrow> {}
               | Activate io g \<Rightarrow>
                   if \<not> startsRelease now g \<or> BackupRename io = RenameFailed then {}
                   else insert (FileMissing (map_option fst headers))
                     (if ActivateRename io = RenameFailed then {}
                      else {Downloaded headers (hostModule (hostStep sha wasm q now))})) \<and>
            (activeGeneration now = activeGeneration st \<longrightarrow> hostModule now = hostModule st)"
proof -
  define now where "now = fold (hostStep sha wasm) qs st"
  have ok: "slots_ok sha now"
    unfolding now_def using assms(1)
    by (induction qs arbitrary: st) (simp_all add: hostStep_ok)
  have files: "files_ok now" unfolding now_def by (rule steps_files [OF assms])
  have digest: "wasmDigest st = sha (hostModule st)" using assms(1) by (simp add: slots_ok_def)
  have same: "activeGeneration now = activeGeneration st \<longrightarrow> hostModule now = hostModule st"
    unfolding now_def using steps_same_generation [OF assms(1), of wasm qs] by blast
  have "downloadsDuring sha wasm qs q st = insert (Downloaded (setWasmDigestHeaders (sha (hostModule st))) (hostModule now))
      (case q of
         Upload io r \<Rightarrow> {}
       | Activate io g \<Rightarrow>
           if \<not> startsRelease now g \<or> BackupRename io = RenameFailed then {}
           else insert (FileMissing (map_option fst (setWasmDigestHeaders (sha (hostModule st)))))
             (if ActivateRename io = RenameFailed then {}
              else {Downloaded (setWasmDigestHeaders (sha (hostModule st))) (hostModule (hostStep sha wasm q now))}))"
  proof (cases "case q of Upload io r \<Rightarrow> False | Activate io g \<Rightarrow> startsRelease now g")
    case True
    then obtain io g where q: "q = Activate io g" "startsRelease now g" by (cases q) auto
    show ?thesis
      unfolding downloads_files now_def [symmetric]
      using activation_files [OF ok files q(2), of io] by (simp add: q requestStates_def digest)
  next
    case False
    with idle_files [OF files, where q = q and sha = sha and wasm = wasm] show ?thesis
      unfolding downloads_files now_def [symmetric] by (cases q) (simp_all add: digest)
  qed
  with same show ?thesis unfolding Let_def now_def [symmetric] by blast
qed

definition stagingHost :: hostState where
  "stagingHost = freshHost\<lparr>stagedRelease := Some \<lparr>C_Module = ''m1'', C_Digest = ''d:m1'', C_Generation = 6,
     C_Function = ''f'', C_Path = ''/w.staged''\<rparr>, files := [''/w'' \<mapsto> ''m0'', ''/w.staged'' \<mapsto> ''m1'']\<rparr>"

text \<open>A download during the activation of generation 6: the old release's digest goes with the old bytes,
  with no bytes, or with the new ones; and with no bytes also when the activation fails.\<close>

theorem download_of_one_release_witness:
  "downloadsDuring ((@) ''d:'') toyWasm [] (Activate noActivateFaults 6) stagingHost =
     {Downloaded (setWasmDigestHeaders ''d:m0'') ''m0'', FileMissing (Some ''d:m0''),
      Downloaded (setWasmDigestHeaders ''d:m0'') ''m1''} \<and>
   downloadsDuring ((@) ''d:'') toyWasm [] (Activate (noActivateFaults\<lparr>ActivateRename := RenameFailed\<rparr>) 6) stagingHost =
     {Downloaded (setWasmDigestHeaders ''d:m0'') ''m0'', FileMissing (Some ''d:m0'')}"
proof -
  have ok: "slots_ok ((@) ''d:'') stagingHost" "files_ok stagingHost"
    by (simp_all add: slots_ok_def files_ok_def stagingHost_def freshHost_def stagedPath_def)
  have starts: "startsRelease stagingHost 6" by (simp add: startsRelease_def stagingHost_def freshHost_def)
  have new: "hostModule (snd (activateStagedRelease noActivateFaults 6 stagingHost)) = ''m1''"
    by (simp add: activateStagedRelease_def rename_def removeFile_def renameFile_def backupPath_def stagingHost_def
        freshHost_def noActivateFaults_def)
  have old: "hostModule stagingHost = ''m0''" by (simp add: stagingHost_def freshHost_def)
  have io: "BackupRename noActivateFaults = RenameOk" "ActivateRename noActivateFaults = RenameOk"
    by (simp_all add: noActivateFaults_def)
  show ?thesis
    using download_of_one_release [OF ok, of "[]" toyWasm "Activate noActivateFaults 6"]
      download_of_one_release [OF ok, of "[]" toyWasm "Activate (noActivateFaults\<lparr>ActivateRename := RenameFailed\<rparr>) 6"]
    by (simp add: starts new old io Let_def setWasmDigestHeaders_def)
qed

text \<open>Two ways in which a download does not get what its headers name: the digest of the old release over the
  bytes of the new one, and no file at all during an activation that fails and changes nothing.\<close>

lemma download_mixes_releases:
  assumes "slots_ok sha st" "files_ok st" "startsRelease st g"
  shows "Downloaded (setWasmDigestHeaders (sha (hostModule st)))
      (hostModule (snd (activateStagedRelease noActivateFaults g st)))
    \<in> downloadsDuring sha wasm [] (Activate noActivateFaults g) st"
  unfolding downloads_files
  using activation_files [OF assms, of noActivateFaults] assms(1)
  by (simp add: requestStates_def noActivateFaults_def slots_ok_def)

lemma download_misses_file:
  assumes "slots_ok sha st" "files_ok st" "startsRelease st g" "BackupRename io = RenameOk"
  shows "FileMissing (map_option fst (setWasmDigestHeaders (sha (hostModule st))))
    \<in> downloadsDuring sha wasm [] (Activate io g) st"
  unfolding downloads_files
  using activation_files [OF assms(1-3), of io] assms(1,4)
  by (simp add: requestStates_def slots_ok_def)

text \<open>A service that has just started, and one request to it.\<close>

definition tinyWasm :: "(bytes, int32 \<times> outputs option) wasmtime" where
  "tinyWasm = \<lparr>LoadError = (\<lambda>_. None), RunModule = (\<lambda>m x. Inr (int (length m), None))\<rparr>"

definition tinyRequest :: "bytes serverRequest" where
  "tinyRequest = \<lparr>SR_Method = ''POST'', SR_Path = ''/process'', SR_Upload = newUpload [] [], SR_UploadFaults = noUploadFaults,
     SR_Activation = None, SR_ActivateFaults = noActivateFaults,
     SR_Process = Inr \<lparr>P_Function = ''dht-reader'', P_ReleaseGeneration = 0, P_Inputs = []\<rparr>, SR_Elapsed = 1\<rparr>"

theorem service_runs_what_it_names_witness:
  "\<exists>addr st0 a. hostMain ((@) ''d:'') tinyWasm (\<lambda>_. []) [''dht_reader.wasm'' \<mapsto> ''m0''] = Inr (addr, st0) \<and>
     fst (serveHTTP ((@) ''d:'') tinyWasm ''arm64'' tinyRequest st0) = ProcessReply 200 (Some (Inr a)) \<and>
     (\<exists>m. PR_Digest a = ''d:'' @ m \<and> RunModule tinyWasm m [] = Inr (PR_Result a))"
proof -
  let ?main = "hostMain ((@) ''d:'') tinyWasm (\<lambda>_. []) [''dht_reader.wasm'' \<mapsto> ''m0'']"
  let ?st = "\<lparr>hostModule = ''m0'', wasmPath = ''dht_reader.wasm'', wasmDigest = ''d:m0'', activeGeneration = 0,
    activeFunction = ''dht-reader'', stagedRelease = None, files = [''dht_reader.wasm'' \<mapsto> ''m0'']\<rparr>"
  have scan: "scan_d [] = None" "trimSpace [] = []" by code_simp+
  have main: "?main = Inr ('':8080'', ?st)"
    by (simp add: hostMain_def initWasm_def reloadWasmModule_def initialHost_def tinyWasm_def scan Let_def)
  have "findHandler ''POST'' ''/process'' = ToProcess" by code_simp
  then obtain a where reply: "fst (serveHTTP ((@) ''d:'') tinyWasm ''arm64'' tinyRequest ?st) = ProcessReply 200 (Some (Inr a))"
    by (simp add: serveHTTP_def tinyRequest_def handleProcess_def runWasm_def tinyWasm_def writeProcess_def encodable_def)
  obtain req m where "SR_Process tinyRequest = Inr req" "PR_Digest a = ''d:'' @ m"
    "RunModule tinyWasm m (P_Inputs req) = Inr (PR_Result a)"
    using service_runs_what_it_names [OF main _ reply, of "[]"] by auto
  then show ?thesis using main reply by (auto simp: tinyRequest_def)
qed

end
