(* ===== verification/Deployed_Host.thy ===== *)
theory Deployed_Host
  imports Reconcile Host_Service_Props
begin

text \<open>
  The two programs meet in the cluster: the host that a Deployment of the operator starts, and the
  addresses at which the operator, the Service and the probes look for it.
\<close>

text \<open>
  The environment of a container as Kubernetes sets it up from its list: the last entry of a name wins,
  and \<open>os.Getenv\<close> of a name without an entry is empty.  Values are taken to be free of references to other
  variables.
\<close>

definition containerEnv :: "container \<Rightarrow> string \<Rightarrow> string" where
  "containerEnv c name =
    (case map_of (rev (map (\<lambda>e. (EV_Name e, EV_Value e)) (Co_Env c))) name of None \<Rightarrow> [] | Some v \<Rightarrow> v)"

lemma map_of_rev_none:
  "\<forall>e \<in> set es. EV_Name e \<noteq> name \<Longrightarrow> map_of (rev (map (\<lambda>e. (EV_Name e, EV_Value e)) es)) name = None"
  by (auto simp: map_of_eq_None_iff)

lemma desired_env:
  assumes "\<forall>e \<in> set (Env (Spec w)). EV_Name e \<noteq> ''PORT'' \<and> EV_Name e \<noteq> ''WASM_PATH''"
  shows "containerEnv (desiredContainer w) ''PORT'' = fmt_d (effectivePort w)"
    "containerEnv (desiredContainer w) ''WASM_PATH'' = desiredWasmPath w"
proof -
  have "map_of (rev (map (\<lambda>e. (EV_Name e, EV_Value e)) (Env (Spec w)))) ''PORT'' = None"
    "map_of (rev (map (\<lambda>e. (EV_Name e, EV_Value e)) (Env (Spec w)))) ''WASM_PATH'' = None"
    using assms by (intro map_of_rev_none; blast)+
  then show "containerEnv (desiredContainer w) ''PORT'' = fmt_d (effectivePort w)"
    "containerEnv (desiredContainer w) ''WASM_PATH'' = desiredWasmPath w"
    by (simp_all add: containerEnv_def desiredContainer_def desiredEnv_def map_add_def comp_def)
qed

lemma fmt_d_not_Nil [simp]: "fmt_d n \<noteq> []"
  by (simp add: fmt_d_def)

lemma routes:
  "findHandler ''GET'' ''/health'' = ToHealth" 
  "m \<noteq> ''CONNECT'' \<Longrightarrow> findHandler m ''/wasm'' = ToWasm" "m \<noteq> ''CONNECT'' \<Longrightarrow> findHandler m ''/release'' = ToRelease"
  "m \<noteq> ''CONNECT'' \<Longrightarrow> findHandler m ''/process'' = ToProcess"
proof -
  have clean: "cleanPath ''/health'' = ''/health''" "cleanPath ''/wasm'' = ''/wasm''" "cleanPath ''/release'' = ''/release''"
    "cleanPath ''/process'' = ''/process''"
    by code_simp+
  then show "findHandler ''GET'' ''/health'' = ToHealth" 
    "m \<noteq> ''CONNECT'' \<Longrightarrow> findHandler m ''/wasm'' = ToWasm" "m \<noteq> ''CONNECT'' \<Longrightarrow> findHandler m ''/release'' = ToRelease"
    "m \<noteq> ''CONNECT'' \<Longrightarrow> findHandler m ''/process'' = ToProcess"
    by (simp_all add: findHandler_def matchPattern_def)
qed

text \<open>C38: The operator reaches the host it deploys.  When the specification's own environment leaves \<open>PORT\<close> and
  \<open>WASM_PATH\<close> alone and the image holds a module that wasmtime accepts at the declared path, the container of
  the desired Deployment starts a host that runs this module and listens on the port that the container
  declares, that both probes ask and that the Service forwards to, whose selector is the labels of the
  pods.  At that port the
  probes' path, the artifact and release URLs of the operator and the endpoint reported in the status
  lead to the handlers meant for them.\<close>

theorem deployed_host_is_reached:
  assumes "\<forall>e \<in> set (Env (Spec w)). EV_Name e \<noteq> ''PORT'' \<and> EV_Name e \<noteq> ''WASM_PATH''"
    and "fs (desiredWasmPath w) = Some m" "LoadError wasm m = None"
    and "Containers (Dp_Template (Dp_Spec (desiredDeployment w))) = [c]" "Sv_Ports (Sv_Spec (desiredService w)) = [port]"
    and "base = ''http://'' @ M_Name w @ ''.'' @ M_Namespace w @ '':'' @ fmt_d (SP_Port port)"
  shows "(\<exists>st. hostMain sha wasm (containerEnv c) fs = Inr ('':'' @ fmt_d (SP_TargetPort port), st) \<and>
      hostModule st = m \<and> slots_ok sha st \<and> files_ok st) \<and>
    ContainerPort c = SP_TargetPort port \<and>
    Sv_Selector (Sv_Spec (desiredService w)) = T_Labels (Dp_Template (Dp_Spec (desiredDeployment w))) \<and>
    (\<forall>p \<in> {LivenessProbe c, ReadinessProbe c}. \<exists>q. p = Some q \<and> ProbePort q = SP_TargetPort port \<and>
       findHandler ''GET'' (ProbePath q) = ToHealth) \<and>
    (\<exists>wasmPath releasePath processPath. hostWasmURL None w = base @ wasmPath \<and> releaseURL (hostWasmURL None w) = base @ releasePath \<and>
       processEndpoint w = base @ processPath \<and>
       (\<forall>method \<in> {''GET'', ''PUT'', ''POST''}. findHandler method wasmPath = ToWasm \<and> findHandler method releasePath = ToRelease \<and>
          findHandler method processPath = ToProcess))"
proof (intro conjI)
  have c: "c = desiredContainer w" using assms(4) by (simp add: desiredDeployment_def)
  have port: "SP_Port port = effectivePort w" "SP_TargetPort port = effectivePort w"
    using assms(5) by (auto simp: desiredService_def)
  have path: "desiredWasmPath w \<noteq> []" by (simp add: desiredWasmPath_def)
  obtain st where main: "hostMain sha wasm (containerEnv c) fs = Inr ('':'' @ fmt_d (SP_TargetPort port), st)" "hostModule st = m"
    using assms(2,3) path
    by (simp add: hostMain_def initWasm_def reloadWasmModule_def initialHost_def c desired_env [OF assms(1)] port Let_def)
  then show "\<exists>st. hostMain sha wasm (containerEnv c) fs = Inr ('':'' @ fmt_d (SP_TargetPort port), st) \<and>
      hostModule st = m \<and> slots_ok sha st \<and> files_ok st"
    using started_ok(1,3) [OF main(1)] by blast
  show "ContainerPort c = SP_TargetPort port" by (simp add: c desiredContainer_def port)
  show "Sv_Selector (Sv_Spec (desiredService w)) = T_Labels (Dp_Template (Dp_Spec (desiredDeployment w)))"
    by (simp add: desiredService_def desiredDeployment_def)
  show "\<forall>p \<in> {LivenessProbe c, ReadinessProbe c}. \<exists>q. p = Some q \<and> ProbePort q = SP_TargetPort port \<and>
       findHandler ''GET'' (ProbePath q) = ToHealth"
    by (simp add: c desiredContainer_def port routes(1))
  have url: "hostWasmURL None w = base @ ''/wasm''" by (simp add: hostWasmURL_def assms(6) port)
  then have "releaseURL (hostWasmURL None w) = base @ ''/release''" by (simp add: releaseURL_def)
  moreover have "processEndpoint w = base @ ''/process''" by (simp add: processEndpoint_def assms(6) port)
  ultimately show "\<exists>wasmPath releasePath processPath. hostWasmURL None w = base @ wasmPath \<and>
       releaseURL (hostWasmURL None w) = base @ releasePath \<and> processEndpoint w = base @ processPath \<and>
       (\<forall>method \<in> {''GET'', ''PUT'', ''POST''}. findHandler method wasmPath = ToWasm \<and> findHandler method releasePath = ToRelease \<and>
          findHandler method processPath = ToProcess)"
    using url by (intro exI [of _ "''/wasm''"] exI [of _ "''/release''"] exI [of _ "''/process''"]) (simp add: routes(2-4))
qed

theorem deployed_host_is_reached_witness:
  "\<exists>st. hostMain ((@) ''d:'') tinyWasm (containerEnv (desiredContainer zeroWasmFunction)) [''/app/dht_reader.wasm'' \<mapsto> ''m0''] =
     Inr ('':'' @ fmt_d 8080, st) \<and> slots_ok ((@) ''d:'') st"
proof -
  have w: "desiredWasmPath zeroWasmFunction = ''/app/dht_reader.wasm''" "effectivePort zeroWasmFunction = 8080"
    "Env (Spec zeroWasmFunction) = []"
    by (simp_all add: desiredWasmPath_def effectivePort_def zero_defs)
  let ?port = "\<lparr>SP_Port = 8080, SP_TargetPort = 8080, SP_Protocol = ''TCP'', SP_NodePort = 0\<rparr>"
  have "\<exists>st. hostMain ((@) ''d:'') tinyWasm (containerEnv (desiredContainer zeroWasmFunction))
      [''/app/dht_reader.wasm'' \<mapsto> ''m0''] = Inr ('':'' @ fmt_d (SP_TargetPort ?port), st) \<and>
      hostModule st = ''m0'' \<and> slots_ok ((@) ''d:'') st \<and> files_ok st"
    by (rule deployed_host_is_reached [where w = zeroWasmFunction and port = ?port, OF _ _ _ _ _ refl, THEN conjunct1])
      (simp_all add: w desiredDeployment_def desiredService_def tinyWasm_def)
  then show ?thesis by auto
qed

end
