(* ===== verification/Telemetry_Retry.thy ===== *)
theory Telemetry_Retry
  imports Telemetry_Props
begin

text \<open>
  What a retried observation does to the battery drain tracker: the tracker is updated inside the closure
  that a conflict repeats, so that one message is counted once per attempt.
\<close>

section \<open>A risky sample stays risky\<close>

text \<open>The next sample of this battery continues the state and drains too much within the window.\<close>

definition risky_next :: "wasmFunction \<Rightarrow> batteryTelemetry \<Rightarrow> int32 \<Rightarrow> time \<Rightarrow> batteryDrainState \<Rightarrow> bool" where
  "risky_next w t battery now st \<longleftrightarrow> drainContinues w t now st \<and>
     (let kept = filter (\<lambda>s. now - drainWindow w \<le> DS_At s) (Dr_Samples st)
      in kept \<noteq> [] \<and>
         effectiveBatteryDeltaMaxDrainPercent w \<le> max 0 (wrap32 (DS_Battery (hd kept) - battery)))"

lemma window_nonneg: "0 \<le> drainWindow w"
  using effective_drain_pos(1) [of w] unfolding drainWindow_def second_def
  by (intro mult_nonneg_nonneg) (simp_all add: order_less_imp_le)

lemma continued: "drainContinues w t now st \<Longrightarrow> drainStateFor w t now (Some st) = st\<lparr>Dr_LastObserved := now\<rparr>"
  by (simp add: drainStateFor_def Let_def)

lemma risky_now:
  assumes "risky_next w t battery now st" "drainApplicable w t battery"
  shows "risky_of w t battery now (Some st) = wrap32 (Dr_RiskyWindows st + 1)"
proof -
  let ?kept = "filter (\<lambda>s. now - drainWindow w \<le> DS_At s) (Dr_Samples st)"
  have st: "drainStateFor w t now (Some st) = st\<lparr>Dr_LastObserved := now\<rparr>"
    using assms(1) by (simp add: risky_next_def continued)
  have kept: "?kept \<noteq> []" "effectiveBatteryDeltaMaxDrainPercent w \<le> max 0 (wrap32 (DS_Battery (hd ?kept) - battery))"
    using assms(1) by (simp_all add: risky_next_def Let_def)
  have samples: "Dr_Samples (sampled w t battery now (Some st)) = ?kept @ [\<lparr>DS_At = now, DS_Battery = battery\<rparr>]"
    by (simp add: sampled_def st observeDrain_def not_less)
  have len: "2 \<le> length (?kept @ [\<lparr>DS_At = now, DS_Battery = battery\<rparr>])"
    using kept(1) by (cases ?kept) simp_all
  have "(?kept @ [\<lparr>DS_At = now, DS_Battery = battery\<rparr>]) ! 0 = hd ?kept"
    using kept(1) by (cases ?kept) simp_all
  then have "delta_of w t battery now (Some st) = Some (max 0 (wrap32 (DS_Battery (hd ?kept) - battery)))"
    using len assms(2) unfolding delta_of_def samples Let_def by simp
  then show ?thesis using kept(2) by (simp add: risky_of_def st)
qed

text \<open>
  The next sample is risky, and its baseline stays in the window, and the state without a gap, for every
  sample up to the time \<open>until\<close>.
\<close>

definition risky_until :: "wasmFunction \<Rightarrow> batteryTelemetry \<Rightarrow> int32 \<Rightarrow> time \<Rightarrow> time \<Rightarrow> batteryDrainState \<Rightarrow> bool" where
  "risky_until w t battery now until st \<longleftrightarrow> risky_next w t battery now st \<and> now \<le> until \<and> until \<le> now + drainWindow w \<and>
     until - drainWindow w \<le> DS_At (hd (filter (\<lambda>s. now - drainWindow w \<le> DS_At s) (Dr_Samples st)))"

lemma filter_later:
  "kept \<noteq> [] \<Longrightarrow> b \<le> DS_At (hd kept) \<Longrightarrow> \<exists>more. filter (\<lambda>s. b \<le> DS_At s) (kept @ ys) = hd kept # more"
  by (cases kept) auto

lemma risky_again:
  assumes "risky_until w t battery now until st" "now \<le> next" "next \<le> until"
  shows "risky_until w t battery next until ((sampled w t battery now (Some st))\<lparr>Dr_RiskyWindows := n\<rparr>)"
proof -
  let ?kept = "filter (\<lambda>s. now - drainWindow w \<le> DS_At s) (Dr_Samples st)"
    and ?st = "(sampled w t battery now (Some st))\<lparr>Dr_RiskyWindows := n\<rparr>"
  have continues: "drainContinues w t now st" and kept: "?kept \<noteq> []"
    and risky: "effectiveBatteryDeltaMaxDrainPercent w \<le> max 0 (wrap32 (DS_Battery (hd ?kept) - battery))"
    and until: "until \<le> now + drainWindow w" "until - drainWindow w \<le> DS_At (hd ?kept)"
    using assms(1) by (simp_all add: risky_until_def risky_next_def Let_def)
  have samples: "Dr_Samples ?st = ?kept @ [\<lparr>DS_At = now, DS_Battery = battery\<rparr>]"
    by (simp add: sampled_def continued [OF continues] observeDrain_def not_less)
  have "next - now \<le> drainWindow w" using until(1) assms(3) by linarith
  then have "time_sub next now \<le> drainWindow w"
    unfolding time_sub_def using window_nonneg [of w] by (intro max.boundedI min.coboundedI2) simp_all
  then have "drainContinues w t next ?st"
    using continues
    by (simp add: drainContinues_def sampled_def continued [OF continues] observeDrain_def not_less Let_def)
  moreover have "next - drainWindow w \<le> DS_At (hd ?kept)" using until(2) assms(3) by simp
  then obtain more where "filter (\<lambda>s. next - drainWindow w \<le> DS_At s) (Dr_Samples ?st) = hd ?kept # more"
    using filter_later [OF kept] unfolding samples by blast
  ultimately show ?thesis
    using risky until assms(2,3) by (simp add: risky_until_def risky_next_def Let_def)
qed

section \<open>One attempt\<close>

lemma observe_tracker:
  assumes "observeTelemetry key t battery now w r b = (w', r', b')"
    and "updateBatteryDeltaStatus key w t battery now r (Tracker b) = (w1, r1, tracker)"
  shows "Tracker b' = tracker" "ConsecutiveRiskyWindows (Status w') = ConsecutiveRiskyWindows (Status w1)"
proof -
  obtain w2 r2 where fields: "fold applyField (fieldUpdates t battery) (w1, r1) = (w2, r2)"
    by (cases "fold applyField (fieldUpdates t battery) (w1, r1)")
  then have "w2 = w1\<lparr>Status := observed_status t battery (Status w1)\<rparr>"
    using fold_applyField [of "fieldUpdates t battery" w1 r1] by (simp add: fieldUpdates_values)
  then show "Tracker b' = tracker" "ConsecutiveRiskyWindows (Status w') = ConsecutiveRiskyWindows (Status w1)"
    using assms fields by (auto simp: observeTelemetry_def observed_status_def Let_def)
qed

lemma risky_attempt:
  assumes "observeTelemetry key t battery now w r b = (w', r', b')"
    and "effectiveBatteryDeltaEnabled w" "drainApplicable w t battery"
    and "Tracker b key = Some st" "risky_until w t battery now until st" "in_int32 (Dr_RiskyWindows st + 1)"
  shows "ConsecutiveRiskyWindows (Status w') = Dr_RiskyWindows st + 1"
    "\<exists>st'. Tracker b' key = Some st' \<and> Dr_RiskyWindows st' = Dr_RiskyWindows st + 1 \<and>
      (\<forall>next. now \<le> next \<and> next \<le> until \<longrightarrow> risky_until w t battery next until st')"
proof -
  have next_risky: "risky_next w t battery now st" using assms(5) by (simp add: risky_until_def)
  have risky: "risky_of w t battery now (Some st) = Dr_RiskyWindows st + 1"
    using risky_now [OF next_risky assms(3)] assms(6) by (simp add: wrap32_id)
  obtain w1 r1 tracker where upd: "updateBatteryDeltaStatus key w t battery now r (Tracker b) = (w1, r1, tracker)"
    by (cases "updateBatteryDeltaStatus key w t battery now r (Tracker b)") auto
  then have "ConsecutiveRiskyWindows (Status w1) = Dr_RiskyWindows st + 1"
    "tracker key = Some ((sampled w t battery now (Some st))\<lparr>Dr_RiskyWindows := Dr_RiskyWindows st + 1\<rparr>)"
    using assms(3,4) risky by (auto simp: update_enabled [OF assms(2)] Let_def)
  then show "ConsecutiveRiskyWindows (Status w') = Dr_RiskyWindows st + 1"
    "\<exists>st'. Tracker b' key = Some st' \<and> Dr_RiskyWindows st' = Dr_RiskyWindows st + 1 \<and>
      (\<forall>next. now \<le> next \<and> next \<le> until \<longrightarrow> risky_until w t battery next until st')"
    using observe_tracker [OF assms(1) upd] risky_again [OF assms(5)] by auto
qed

section \<open>Conflicts\<close>

text \<open>The clock readings of the attempts, from the next one on, do not go back and do not pass \<open>until\<close>.\<close>

lemma retry_counts:
  assumes "\<forall>i \<le> k. GetError (env (Calls b + i)) = None \<and> AttemptNow (env (Calls b + i)) \<le> until"
    and "\<forall>i < k. PatchError (env (Calls b + i)) = Some Conflict \<and> AttemptNow (env (Calls b + i)) \<le> AttemptNow (env (Calls b + Suc i))"
    and "PatchError (env (Calls b + k)) = None" "k < n"
    and "Store b key = Some w" "effectiveBatteryDeltaEnabled w" "drainApplicable w t battery"
    and "Tracker b key = Some st" "risky_until w t battery (AttemptNow (env (Calls b))) until st"
    and "0 \<le> Dr_RiskyWindows st" "Dr_RiskyWindows st + int k + 1 < 2 ^ 31"
  shows "\<exists>r' b' w'. retryObserved n env key t battery r b = (None, r', b') \<and> Store b' key = Some w' \<and>
    ConsecutiveRiskyWindows (Status w') = Dr_RiskyWindows st + int k + 1"
  using assms
proof (induction k arbitrary: n r b st)
  case (0 n r b st)
  obtain m where n: "n = Suc m" using 0 by (cases n) auto
  let ?b0 = "b\<lparr>Calls := Calls b + 1\<rparr>" and ?now = "AttemptNow (env (Calls b))"
  obtain w' r' b' where o: "observeTelemetry key t battery ?now w r ?b0 = (w', r', b')"
    by (cases "observeTelemetry key t battery ?now w r ?b0") auto
  have "ConsecutiveRiskyWindows (Status w') = Dr_RiskyWindows st + 1"
    using 0 by (intro risky_attempt(1) [OF o]) (simp_all add: in_int32_def)
  moreover have "getResource (env (Calls b)) key b = Inr w" using 0 by (simp add: getResource_def)
  ultimately show ?case using 0 o by (simp add: n Let_def)
next
  case (Suc k n r b st)
  obtain m where n: "n = Suc m" using Suc.prems(4) by (cases n) auto
  let ?b0 = "b\<lparr>Calls := Calls b + 1\<rparr>" and ?now = "AttemptNow (env (Calls b))"
  obtain w' r' b' where o: "observeTelemetry key t battery ?now w r ?b0 = (w', r', b')"
    by (cases "observeTelemetry key t battery ?now w r ?b0") auto
  have answer: "GetError (env (Calls b)) = None" "PatchError (env (Calls b)) = Some Conflict"
    "?now \<le> AttemptNow (env (Suc (Calls b)))" "AttemptNow (env (Suc (Calls b))) \<le> until"
    using Suc.prems(1) [rule_format, of 0] Suc.prems(1) [rule_format, of 1] Suc.prems(2) [rule_format, of 0] by simp_all
  have room: "in_int32 (Dr_RiskyWindows st + 1)" using Suc.prems(10,11) by (simp add: in_int32_def)
  obtain st' where st': "Tracker b' key = Some st'" "Dr_RiskyWindows st' = Dr_RiskyWindows st + 1"
    "risky_until w t battery (AttemptNow (env (Suc (Calls b)))) until st'"
    using risky_attempt(2) [OF o Suc.prems(6,7) _ Suc.prems(9) room] Suc.prems(8) answer(3,4) by auto
  have frame: "Store b' = Store b" "Calls b' = Suc (Calls b)" using observe_frame [OF o] by simp_all
  have "getResource (env (Calls b)) key b = Inr w" using Suc.prems(5) answer by (simp add: getResource_def)
  then have step: "retryObserved n env key t battery r b = retryObserved m env key t battery r' b'"
    using o answer by (simp add: n Let_def)
  have "\<forall>i \<le> k. GetError (env (Calls b' + i)) = None \<and> AttemptNow (env (Calls b' + i)) \<le> until"
    using Suc.prems(1) unfolding frame(2) by (metis Suc_le_mono add_Suc_shift)
  moreover have "\<forall>i < k. PatchError (env (Calls b' + i)) = Some Conflict \<and>
      AttemptNow (env (Calls b' + i)) \<le> AttemptNow (env (Calls b' + Suc i))"
    using Suc.prems(2) unfolding frame(2) by (metis Suc_mono add_Suc_shift)
  moreover have "PatchError (env (Calls b' + k)) = None"
    using Suc.prems(3) unfolding frame(2) by (metis add_Suc_shift)
  ultimately show ?case
    using Suc.IH [of b' m st' r'] Suc.prems(4-7,10,11) st' frame unfolding step by (simp add: n)
qed

text \<open>C39: A message that meets conflicts is counted once per attempt.  Let a resource have drain detection enabled and
  a message be applicable to it, continue its drain state, and drain too much against the oldest sample in
  the window.  Let the API server answer the first \<open>k\<close> patches of the message with a conflict and accept the
  next one, where \<open>k\<close> is below the five attempts of the retry; let the clock, which every attempt reads anew,
  not go back, and let the oldest sample still be in the window, and no gap of a window have passed, when
  the last attempt reads it; and let the cache answer every attempt with the resource as it was.  Then the
  single message raises the number of consecutive risky windows by \<open>k + 1\<close>, so that one conflict is enough
  to reach the two windows the default policy asks for.\<close>

theorem conflict_counts_message_again:
  assumes "\<forall>i \<le> k. GetError (env (Calls b + i)) = None \<and> AttemptNow (env (Calls b + i)) \<le> until"
    and "\<forall>i < k. PatchError (env (Calls b + i)) = Some Conflict \<and> AttemptNow (env (Calls b + i)) \<le> AttemptNow (env (Calls b + Suc i))"
    and "PatchError (env (Calls b + k)) = None" "k < defaultRetrySteps"
    and "Store b key = Some w" "effectiveBatteryDeltaEnabled w" "drainApplicable w t battery"
    and "Tracker b key = Some st" "risky_until w t battery (AttemptNow (env (Calls b))) until st"
    and "0 \<le> Dr_RiskyWindows st" "Dr_RiskyWindows st + int k + 1 < 2 ^ 31"
  shows "\<exists>r' b' w'. updateObservedTelemetry env key t battery b = (None, r', b') \<and> Store b' key = Some w' \<and>
    ConsecutiveRiskyWindows (Status w') = Dr_RiskyWindows st + int k + 1"
  unfolding updateObservedTelemetry_def by (rule retry_counts [OF assms])

text \<open>The first attempt at ten seconds meets a conflict, the second one twelve milliseconds later does not.\<close>

definition conflictOnce :: "nat \<Rightarrow> apiAttempt" where
  "conflictOnce n = \<lparr>GetError = None, AttemptNow = 10 * second + int n * 12000000,
     PatchError = (if n = 0 then Some Conflict else None)\<rparr>"

definition drainedBridge :: bridgeState where
  "drainedBridge = emptyBridge\<lparr>Store := [(''sif'', ''dht'') \<mapsto> drainingFunction],
     Tracker := [(''sif'', ''dht'') \<mapsto> \<lparr>Dr_Source = [], Dr_Function = [], Dr_Mode = ''local'', Dr_LastObserved = second,
       Dr_Samples = [\<lparr>DS_At = second, DS_Battery = 55\<rparr>], Dr_RiskyWindows = 0\<rparr>]\<rparr>"

theorem conflict_counts_message_again_witness:
  "\<exists>r b' w'. updateObservedTelemetry conflictOnce (''sif'', ''dht'') zeroTelemetry 50 drainedBridge = (None, r, b') \<and>
     Store b' (''sif'', ''dht'') = Some w' \<and> ConsecutiveRiskyWindows (Status w') = 2"
proof -
  let ?st = "\<lparr>Dr_Source = [], Dr_Function = [], Dr_Mode = ''local'', Dr_LastObserved = second,
       Dr_Samples = [\<lparr>DS_At = second, DS_Battery = 55\<rparr>], Dr_RiskyWindows = 0\<rparr>"
  have seconds: "effectiveBatteryDeltaWindowSeconds drainingFunction = 60"
    by (simp add: effectiveBatteryDeltaWindowSeconds_def drainingFunction_def zero_defs defaultBatteryDeltaWindowSeconds_def)
  have "risky_until drainingFunction zeroTelemetry 50 (10 * second) (10 * second + 12000000) ?st"
    using seconds by (simp add: risky_until_def risky_next_def drainContinues_def drainWindow_def time_sub_def second_def wrap32_def)
  then show ?thesis
    using conflict_counts_message_again [of 1 conflictOnce drainedBridge "10 * second + 12000000" "(''sif'', ''dht'')" drainingFunction
        zeroTelemetry 50 ?st]
    by (simp add: conflictOnce_def drainedBridge_def emptyBridge_def defaultRetrySteps_def)
qed

end
