(* ===== verification/Go_Store.thy ===== *)
theory Go_Store
  imports Sif_Prelude
begin

text \<open>
  Go's memory, as far as sharing matters: cells at addresses, pointers and slices into them, and the
  contract of a deep copy.  The type of the cells is a parameter; a Go type is given by how its values
  sit in a cell.  The contract is the locale \<open>deep_copy\<close>: the copy has the value of the original and
  lives in memory allocated by the call.  It is closed under pointers, slices and structs, so that each
  generated function needs one application of these lemmas.
\<close>

section \<open>Cells\<close>

type_synonym addr = nat

text \<open>Addresses from \<open>Next\<close> on are not allocated yet.\<close>

record 'c store =
  Cells :: "addr \<Rightarrow> 'c option"
  Next :: addr

record ('c, 'a) goType =
  Mk :: "'a \<Rightarrow> 'c"
  Get :: "'c \<Rightarrow> 'a option"
  Zero :: 'a

definition newCell :: "('c, 'a) goType \<Rightarrow> 'a \<Rightarrow> 'c store \<Rightarrow> addr \<times> 'c store" where
  "newCell T x s = (Next s, s\<lparr>Cells := (Cells s)(Next s \<mapsto> Mk T x), Next := Suc (Next s)\<rparr>)"

definition readCell :: "('c, 'a) goType \<Rightarrow> 'c store \<Rightarrow> addr \<Rightarrow> 'a" where
  "readCell T s a =
    (case Cells s a of None \<Rightarrow> Zero T | Some c \<Rightarrow> (case Get T c of None \<Rightarrow> Zero T | Some x \<Rightarrow> x))"

definition putCell :: "('c, 'a) goType \<Rightarrow> addr \<Rightarrow> 'a \<Rightarrow> 'c store \<Rightarrow> 'c store" where
  "putCell T a x s = s\<lparr>Cells := (Cells s)(a \<mapsto> Mk T x)\<rparr>"

lemma readCell_cong: "Cells t a = Cells s a \<Longrightarrow> readCell T t a = readCell T s a"
  by (simp add: readCell_def)

lemma newCell_simps [simp]:
  "fst (newCell T x s) = Next s"
  "Next (snd (newCell T x s)) = Suc (Next s)"
  "a \<noteq> Next s \<Longrightarrow> Cells (snd (newCell T x s)) a = Cells s a"
  by (simp_all add: newCell_def)

lemma putCell_simps [simp]:
  "Next (putCell T a x s) = Next s"
  "b \<noteq> a \<Longrightarrow> Cells (putCell T a x s) b = Cells s b"
  by (simp_all add: putCell_def)

text \<open>A type whose values can be read back from their cells.\<close>

locale go_type =
  fixes T :: "('c, 'a) goType"
  assumes get_mk: "Get T (Mk T x) = Some x"
begin

lemma read_put [simp]: "readCell T (putCell T a x s) a = x"
  by (simp add: readCell_def putCell_def get_mk)

lemma read_new [simp]: "readCell T (snd (newCell T x s)) (Next s) = x"
  by (simp add: readCell_def newCell_def get_mk)

end

section \<open>Pointers and slices\<close>

text \<open>\<open>*out = new(T); **out = **in\<close> under the test for nil.\<close>

definition copyPtr :: "('c, 'a) goType \<Rightarrow> addr option \<Rightarrow> 'c store \<Rightarrow> addr option \<times> 'c store" where
  "copyPtr T p s =
    (case p of
       None \<Rightarrow> (None, s)
     | Some a \<Rightarrow> (let (b, s1) = newCell T (Zero T) s in (Some b, putCell T b (readCell T s1 a) s1)))"

text \<open>A slice is a window of an array; a nil slice is \<open>None\<close>.\<close>

record slice =
  SL_Array :: addr
  SL_Off :: nat
  SL_Len :: nat

definition elems :: "('c, 'a list) goType \<Rightarrow> 'c store \<Rightarrow> slice \<Rightarrow> 'a list" where
  "elems T s sl = take (SL_Len sl) (drop (SL_Off sl) (readCell T s (SL_Array sl)))"

definition makeSlice :: "('c, 'a list) goType \<Rightarrow> 'a \<Rightarrow> nat \<Rightarrow> 'c store \<Rightarrow> slice \<times> 'c store" where
  "makeSlice T z n s =
    (let (b, s1) = newCell T (replicate n z) s in (\<lparr>SL_Array = b, SL_Off = 0, SL_Len = n\<rparr>, s1))"

text \<open>The builtin \<open>copy\<close> into a whole array.\<close>

definition goCopy :: "'a list \<Rightarrow> 'a list \<Rightarrow> 'a list" where
  "goCopy dst src = take (length dst) src @ drop (length src) dst"

text \<open>\<open>*out = make([]T, len(*in)); copy( *out, *in)\<close>.\<close>

definition copyFlat ::
    "('c, 'a list) goType \<Rightarrow> 'a \<Rightarrow> slice option \<Rightarrow> 'c store \<Rightarrow> slice option \<times> 'c store" where
  "copyFlat T z p s =
    (case p of
       None \<Rightarrow> (None, s)
     | Some sl \<Rightarrow>
         (let (out, s1) = makeSlice T z (length (elems T s sl)) s
          in (Some out, putCell T (SL_Array out)
                (goCopy (readCell T s1 (SL_Array out)) (elems T s1 sl)) s1)))"

text \<open>\<open>for i := range *in { (*in)[i].DeepCopyInto(&(*out)[i]) }\<close>.\<close>

fun copyElems ::
    "('c, 'a list) goType \<Rightarrow> ('a \<Rightarrow> 'c store \<Rightarrow> 'a \<times> 'c store) \<Rightarrow> slice \<Rightarrow> addr \<Rightarrow> nat list
       \<Rightarrow> 'c store \<Rightarrow> 'c store" where
  "copyElems T into src dst [] s = s"
| "copyElems T into src dst (i # is) s =
    (let (e, s1) = into (elems T s src ! i) s
     in copyElems T into src dst is (putCell T dst ((readCell T s1 dst)[i := e]) s1))"

definition copyEach ::
    "('c, 'a list) goType \<Rightarrow> 'a \<Rightarrow> ('a \<Rightarrow> 'c store \<Rightarrow> 'a \<times> 'c store) \<Rightarrow> slice option \<Rightarrow> 'c store
       \<Rightarrow> slice option \<times> 'c store" where
  "copyEach T z into p s =
    (case p of
       None \<Rightarrow> (None, s)
     | Some sl \<Rightarrow>
         (let n = length (elems T s sl); (out, s1) = makeSlice T z n s
          in (Some out, copyElems T into sl (SL_Array out) [0..<n] s1)))"

text \<open>
  \<open>DeepCopy\<close>: nil for nil, else \<open>out := new(T); in.DeepCopyInto(out); return out\<close>.
\<close>

definition deepCopy ::
    "('c, 'a) goType \<Rightarrow> ('a \<Rightarrow> 'c store \<Rightarrow> 'a \<times> 'c store) \<Rightarrow> addr option \<Rightarrow> 'c store
       \<Rightarrow> addr option \<times> 'c store" where
  "deepCopy T into p s =
    (case p of
       None \<Rightarrow> (None, s)
     | Some a \<Rightarrow>
         (let (out, s1) = newCell T (Zero T) s; (x, s2) = into (readCell T s1 a) s1
          in (Some out, putCell T out x s2)))"

text \<open>What a pointer or a slice stands for, given what its target stands for.\<close>

definition ptrFoot :: "('c, 'a) goType \<Rightarrow> ('c store \<Rightarrow> 'a \<Rightarrow> addr set) \<Rightarrow> 'c store \<Rightarrow> addr option \<Rightarrow> addr set" where
  "ptrFoot T f s p = (case p of None \<Rightarrow> {} | Some a \<Rightarrow> insert a (f s (readCell T s a)))"

definition ptrVal :: "('c, 'a) goType \<Rightarrow> ('c store \<Rightarrow> 'a \<Rightarrow> 'v) \<Rightarrow> 'c store \<Rightarrow> addr option \<Rightarrow> 'v option" where
  "ptrVal T v s p = map_option (\<lambda>a. v s (readCell T s a)) p"

definition sliceFoot ::
    "('c, 'a list) goType \<Rightarrow> ('c store \<Rightarrow> 'a \<Rightarrow> addr set) \<Rightarrow> 'c store \<Rightarrow> slice option \<Rightarrow> addr set" where
  "sliceFoot T f s p =
    (case p of None \<Rightarrow> {} | Some sl \<Rightarrow> insert (SL_Array sl) (\<Union>x \<in> set (elems T s sl). f s x))"

definition sliceVal ::
    "('c, 'a list) goType \<Rightarrow> ('c store \<Rightarrow> 'a \<Rightarrow> 'v) \<Rightarrow> 'c store \<Rightarrow> slice option \<Rightarrow> 'v list option" where
  "sliceVal T v s p = map_option (\<lambda>sl. map (v s) (elems T s sl)) p"

text \<open>Data without references.\<close>

definition noFoot :: "'c store \<Rightarrow> 'a \<Rightarrow> addr set" where
  "noFoot s x = {}"

definition plain :: "'c store \<Rightarrow> 'a \<Rightarrow> 'a" where
  "plain s x = x"

definition assign :: "'a \<Rightarrow> 'c store \<Rightarrow> 'a \<times> 'c store" where
  "assign x s = (x, s)"

lemmas flat_defs = noFoot_def plain_def assign_def

section \<open>The contract of a deep copy\<close>

text \<open>\<open>t\<close> is a later memory: what was allocated in \<open>s\<close> is as it was.\<close>

definition extends :: "'c store \<Rightarrow> 'c store \<Rightarrow> bool" where
  "extends s t \<longleftrightarrow> Next s \<le> Next t \<and> (\<forall>a < Next s. Cells t a = Cells s a)"

lemma extends_refl [simp]: "extends s s"
  by (simp add: extends_def)

lemma extends_trans: "extends s t \<Longrightarrow> extends t u \<Longrightarrow> extends s u"
  by (auto simp: extends_def)

lemma extends_new [simp]: "extends s (snd (newCell T x s))"
  by (simp add: extends_def)

lemma extends_put: "extends s t \<Longrightarrow> Next s \<le> a \<Longrightarrow> extends s (putCell T a x t)"
  by (auto simp: extends_def)

definition agree_on :: "addr set \<Rightarrow> 'c store \<Rightarrow> 'c store \<Rightarrow> bool" where
  "agree_on A s t \<longleftrightarrow> (\<forall>a \<in> A. Cells t a = Cells s a)"

lemma extends_agree: "extends s t \<Longrightarrow> A \<subseteq> {..<Next s} \<Longrightarrow> agree_on A s t"
  by (auto simp: extends_def agree_on_def)

locale deep_copy =
  fixes copy :: "'a \<Rightarrow> 'c store \<Rightarrow> 'a \<times> 'c store"
    and foot :: "'c store \<Rightarrow> 'a \<Rightarrow> addr set"
    and val :: "'c store \<Rightarrow> 'a \<Rightarrow> 'v"
  assumes foot_local: "agree_on (foot s x) s t \<Longrightarrow> foot t x = foot s x"
    and val_local: "agree_on (foot s x) s t \<Longrightarrow> val t x = val s x"
    and copy_extends: "foot s x \<subseteq> {..<Next s} \<Longrightarrow> extends s (snd (copy x s))"
    and copy_fresh:
      "foot s x \<subseteq> {..<Next s} \<Longrightarrow>
        foot (snd (copy x s)) (fst (copy x s)) \<subseteq> {Next s..<Next (snd (copy x s))}"
    and copy_val:
      "foot s x \<subseteq> {..<Next s} \<Longrightarrow> val (snd (copy x s)) (fst (copy x s)) = val s x"
begin

text \<open>What was below a later memory's bound keeps its footprint and its value.\<close>

lemma kept:
  assumes "foot s x \<subseteq> {..<Next s}" "extends s t"
  shows "foot t x = foot s x" "val t x = val s x"
  using foot_local val_local extends_agree [OF assms(2,1)] by blast+

lemma kept_fresh:
  assumes "foot s x \<subseteq> {n..<Next s}" "extends s t"
  shows "foot t x \<subseteq> {n..<Next t}" "val t x = val s x"
proof -
  have "foot s x \<subseteq> {..<Next s}" using assms(1) by auto
  from kept [OF this assms(2)] assms show "foot t x \<subseteq> {n..<Next t}" "val t x = val s x"
    by (auto simp: extends_def)
qed

text \<open>Writes that stay within one of the two do not reach the other.\<close>

lemma separate:
  assumes "foot s x \<subseteq> {..<Next s}" "copy x s = (y, t)"
  shows "foot t x \<inter> foot t y = {}"
    and "agree_on ({..<Next t} - foot t y) t u \<Longrightarrow> val u x = val s x"
    and "agree_on ({..<Next t} - foot t x) t u \<Longrightarrow> val u y = val s x"
    and "val t x = val s x" "val t y = val s x"
proof -
  have ext: "extends s t" and fresh: "foot t y \<subseteq> {Next s..<Next t}" and same: "val t y = val s x"
    using copy_extends [OF assms(1)] copy_fresh [OF assms(1)] copy_val [OF assms(1)] assms(2)
    by simp_all
  note old = kept [OF assms(1) ext]
  show disj: "foot t x \<inter> foot t y = {}"
    using old(1) assms(1) fresh by fastforce
  have allocated: "foot t x \<subseteq> {..<Next t}" "foot t y \<subseteq> {..<Next t}"
    using old(1) assms(1) ext fresh by (auto simp: extends_def)
  show "agree_on ({..<Next t} - foot t y) t u \<Longrightarrow> val u x = val s x"
    using val_local [of t x u] disj allocated(1) old(2) by (auto simp: agree_on_def subset_iff)
  show "agree_on ({..<Next t} - foot t x) t u \<Longrightarrow> val u y = val s x"
    using val_local [of t y u] disj allocated(2) same by (auto simp: agree_on_def subset_iff)
  show "val t x = val s x" "val t y = val s x" by (rule old(2), rule same)
qed

end

lemma deep_copy_assign: "deep_copy assign noFoot plain"
  by unfold_locales (simp_all add: flat_defs)

lemma deep_copy_flat: "deep_copy (\<lambda>x s. (x, s)) noFoot plain"
  by unfold_locales (simp_all add: flat_defs)

section \<open>Closure\<close>

text \<open>One field after the other: the copies of two parts of a struct.\<close>

definition copyBoth ::
    "('a \<Rightarrow> 'c store \<Rightarrow> 'a \<times> 'c store) \<Rightarrow> ('b \<Rightarrow> 'c store \<Rightarrow> 'b \<times> 'c store)
       \<Rightarrow> 'a \<times> 'b \<Rightarrow> 'c store \<Rightarrow> ('a \<times> 'b) \<times> 'c store" where
  "copyBoth c d p s = (let (x, s1) = c (fst p) s; (y, s2) = d (snd p) s1 in ((x, y), s2))"

definition bothFoot where
  "bothFoot f g s p = f s (fst p) \<union> g s (snd p)"

definition bothVal where
  "bothVal v w s p = (v s (fst p), w s (snd p))"

text \<open>Facts of the contract in the form in which the closure proofs use them.\<close>

lemma deep_copyD:
  assumes "deep_copy c f v" "c x s = (y, t)" "f s x \<subseteq> {n..<Next s}"
  shows "extends s t" "f t y \<subseteq> {Next s..<Next t}" "v t y = v s x"
proof -
  have below: "f s x \<subseteq> {..<Next s}" using assms(3) by auto
  show "extends s t" "f t y \<subseteq> {Next s..<Next t}" "v t y = v s x"
    using deep_copy.copy_extends [OF assms(1) below] deep_copy.copy_fresh [OF assms(1) below]
      deep_copy.copy_val [OF assms(1) below] assms(2) by simp_all
qed

lemma deep_copyI:
  assumes "\<And>s t x. agree_on (f s x) s t \<Longrightarrow> f t x = f s x \<and> v t x = v s x"
    and "\<And>s t x y. f s x \<subseteq> {..<Next s} \<Longrightarrow> c x s = (y, t) \<Longrightarrow>
           extends s t \<and> f t y \<subseteq> {Next s..<Next t} \<and> v t y = v s x"
  shows "deep_copy c f v"
  by unfold_locales (use assms surjective_pairing in blast)+

lemma deep_copy_both:
  assumes C: "deep_copy c f v" and D: "deep_copy d g w"
  shows "deep_copy (copyBoth c d) (bothFoot f g) (bothVal v w)"
proof (rule deep_copyI, goal_cases)
  case (1 s t p)
  then have "agree_on (f s (fst p)) s t" "agree_on (g s (snd p)) s t"
    by (auto simp: bothFoot_def agree_on_def)
  with deep_copy.foot_local [OF C] deep_copy.val_local [OF C]
    deep_copy.foot_local [OF D] deep_copy.val_local [OF D] show ?case
    by (metis bothFoot_def bothVal_def)
next
  case (2 s t p q)
  obtain x s1 where x: "c (fst p) s = (x, s1)" by fastforce
  obtain y s2 where y: "d (snd p) s1 = (y, s2)" by fastforce
  have q: "q = (x, y)" "t = s2" using 2(2) x y by (auto simp: copyBoth_def)
  have below: "f s (fst p) \<subseteq> {0..<Next s}" "g s (snd p) \<subseteq> {0..<Next s}"
    using 2(1) by (auto simp: bothFoot_def)
  note first = deep_copyD [OF C x below(1)]
  have gk: "g s1 (snd p) \<subseteq> {0..<Next s1}" "w s1 (snd p) = w s (snd p)"
    using deep_copy.kept_fresh [OF D below(2) first(1)] by simp_all
  note second = deep_copyD [OF D y gk(1)]
  note again = deep_copy.kept_fresh [OF C first(2) second(1)]
  show ?case
    using first second again gk(2) extends_trans [OF first(1) second(1)]
    by (auto simp: q bothFoot_def bothVal_def extends_def)
qed

text \<open>
  A struct, given by the part \<open>proj\<close> that holds its references and \<open>put\<close>, which replaces that part.
\<close>

definition copyStruct ::
    "('m \<Rightarrow> 'a) \<Rightarrow> ('a \<Rightarrow> 'm \<Rightarrow> 'm) \<Rightarrow> ('a \<Rightarrow> 'c store \<Rightarrow> 'a \<times> 'c store) \<Rightarrow> 'm \<Rightarrow> 'c store \<Rightarrow> 'm \<times> 'c store" where
  "copyStruct proj put c m s = (let (x, t) = c (proj m) s in (put x m, t))"

lemma deep_copy_struct:
  assumes C: "deep_copy c f v"
    and copy: "\<And>m s. copy m s = copyStruct proj put c m s"
    and proj: "\<And>x m. proj (put x m) = x"
    and foot: "\<And>s m. foot s m = f s (proj m)"
    and val: "\<And>s m. val s m = h m (v s (proj m))"
    and rest: "\<And>x m. h (put x m) = h m"
  shows "deep_copy copy foot val"
proof (rule deep_copyI, goal_cases)
  case (1 s t m)
  then show ?case
    using deep_copy.foot_local [OF C, of s "proj m" t] deep_copy.val_local [OF C, of s "proj m" t]
    by (simp add: foot val)
next
  case (2 s t m n)
  obtain x where x: "c (proj m) s = (x, t)" "n = put x m"
    using 2(2) by (auto simp: copy copyStruct_def split: prod.splits)
  have "f s (proj m) \<subseteq> {0..<Next s}" using 2(1) by (auto simp: foot)
  from deep_copyD [OF C x(1) this] show ?case
    by (simp add: foot val x(2) proj rest)
qed

lemma agree_read: "agree_on A s t \<Longrightarrow> a \<in> A \<Longrightarrow> readCell T t a = readCell T s a"
  unfolding agree_on_def by (intro readCell_cong) blast

lemma agree_mono: "agree_on B s t \<Longrightarrow> A \<subseteq> B \<Longrightarrow> agree_on A s t"
  by (auto simp: agree_on_def)

lemma deep_copy_new:
  assumes T: "go_type T" and C: "deep_copy c f v"
  shows "deep_copy (deepCopy T c) (ptrFoot T f) (ptrVal T v)"
proof (rule deep_copyI, goal_cases)
  case (1 s t p)
  show ?case
  proof (cases p)
    case (Some a)
    with 1 have agree: "agree_on (insert a (f s (readCell T s a))) s t"
      by (simp add: ptrFoot_def)
    have "readCell T t a = readCell T s a" by (rule agree_read [OF agree]) simp
    moreover have "agree_on (f s (readCell T s a)) s t" by (rule agree_mono [OF agree]) auto
    ultimately show ?thesis
      using Some deep_copy.foot_local [OF C] deep_copy.val_local [OF C]
      by (simp add: ptrFoot_def ptrVal_def)
  qed (simp add: ptrFoot_def ptrVal_def)
next
  case (2 s t p q)
  show ?case
  proof (cases p)
    case None
    then show ?thesis using 2(2) by (auto simp: deepCopy_def ptrFoot_def ptrVal_def)
  next
    case (Some a)
    define s1 where "s1 = snd (newCell T (Zero T) s)"
    obtain x s2 where x: "c (readCell T s1 a) s1 = (x, s2)" by fastforce
    have q: "q = Some (Next s)" "t = putCell T (Next s) x s2"
      using 2(2) Some x by (auto simp: deepCopy_def s1_def split: prod.splits)
        (metis fst_conv newCell_simps(1) snd_conv)+
    have below: "a < Next s" "f s (readCell T s a) \<subseteq> {0..<Next s}"
      using 2(1) Some by (auto simp: ptrFoot_def)
    have ext1: "extends s s1" by (simp add: s1_def)
    have read: "readCell T s1 a = readCell T s a"
      using below(1) by (auto simp: s1_def intro: readCell_cong)
    note kept = deep_copy.kept_fresh [OF C below(2) ext1]
    note d = deep_copyD [OF C x, unfolded read, OF kept(1)]
    have next1: "Next s1 = Suc (Next s)" by (simp add: s1_def)
    have agree: "agree_on (f s2 x) s2 t"
      using d(2) by (auto simp: agree_on_def q next1)
    have "extends s t"
      unfolding q by (rule extends_put [OF extends_trans [OF ext1 d(1)]]) simp
    moreover have "readCell T t (Next s) = x" by (simp add: q go_type.read_put [OF T])
    ultimately show ?thesis
      using d kept(2) deep_copy.foot_local [OF C agree] deep_copy.val_local [OF C agree] Some
      by (auto simp: q ptrFoot_def ptrVal_def extends_def next1)
  qed
qed

lemma copyPtr_new: "copyPtr T = deepCopy T assign"
  by (rule ext, rule ext) (simp add: copyPtr_def deepCopy_def assign_def split: option.split)

lemma deep_copy_ptr: "go_type T \<Longrightarrow> deep_copy (copyPtr T) (ptrFoot T noFoot) (ptrVal T plain)"
  unfolding copyPtr_new by (rule deep_copy_new [OF _ deep_copy_assign])

text \<open>The loop over the elements of a slice: what holds once the first \<open>i\<close> of them are copied.\<close>

definition filled where
  "filled T f v s0 xs dst i s \<longleftrightarrow>
     extends s0 s \<and> Next s0 \<le> dst \<and> dst < Next s \<and> length (readCell T s dst) = length xs \<and>
     (\<forall>j < i. f s (readCell T s dst ! j) \<subseteq> {Next s0..<Next s} - {dst} \<and>
       v s (readCell T s dst ! j) = v s0 (xs ! j))"

lemma elems_kept: "extends s t \<Longrightarrow> SL_Array sl < Next s \<Longrightarrow> elems T t sl = elems T s sl"
  unfolding elems_def extends_def by (metis readCell_cong)

lemma copyElems_step:
  assumes T: "go_type T" and C: "deep_copy c f v"
    and src: "SL_Array sl < Next s0" "\<forall>x \<in> set (elems T s0 sl). f s0 x \<subseteq> {0..<Next s0}"
    and inv: "filled T f v s0 (elems T s0 sl) dst i s" and i: "i < length (elems T s0 sl)"
    and run: "c (elems T s sl ! i) s = (e, s1)"
  shows "filled T f v s0 (elems T s0 sl) dst (Suc i) (putCell T dst ((readCell T s1 dst)[i := e]) s1)"
proof -
  let ?t = "putCell T dst ((readCell T s1 dst)[i := e]) s1"
  let ?ys = "readCell T s dst"
  have ext: "extends s0 s" and dst: "Next s0 \<le> dst" "dst < Next s"
    and len: "length ?ys = length (elems T s0 sl)"
    and past: "\<And>j. j < i \<Longrightarrow> f s (?ys ! j) \<subseteq> {Next s0..<Next s} - {dst} \<and> v s (?ys ! j) = v s0 (elems T s0 sl ! j)"
    using inv by (auto simp: filled_def)
  have same: "elems T s sl = elems T s0 sl" by (rule elems_kept [OF ext src(1)])
  have "f s0 (elems T s0 sl ! i) \<subseteq> {0..<Next s0}" using src(2) i by simp
  note kept = deep_copy.kept_fresh [OF C this ext]
  note d = deep_copyD [OF C run [unfolded same] kept(1)]
  have ys: "readCell T s1 dst = ?ys"
    using d(1) dst(2) by (auto simp: extends_def intro: readCell_cong)
  have now: "readCell T ?t dst = ?ys[i := e]" by (simp add: go_type.read_put [OF T] ys)
  have "f ?t (?ys[i := e] ! j) \<subseteq> {Next s0..<Next ?t} - {dst} \<and>
      v ?t (?ys[i := e] ! j) = v s0 (elems T s0 sl ! j)" if j: "j < Suc i" for j
  proof (cases "j = i")
    case True
    have agree: "agree_on (f s1 e) s1 ?t"
      using d(2) dst by (auto simp: agree_on_def)
    show ?thesis
      using d(2,3) kept(2) dst ext deep_copy.foot_local [OF C agree] deep_copy.val_local [OF C agree]
        True i len by (auto simp: extends_def)
  next
    case False
    then have "j < i" using j by simp
    note p = past [OF this]
    have agree: "agree_on (f s (?ys ! j)) s ?t"
      using p d(1) by (auto simp: agree_on_def extends_def subset_iff)
    show ?thesis
      using p False d(1) deep_copy.foot_local [OF C agree] deep_copy.val_local [OF C agree]
      by (auto simp: extends_def subset_iff intro: less_le_trans)
  qed
  moreover have "extends s0 ?t"
    by (rule extends_put [OF extends_trans [OF ext d(1)] dst(1)])
  ultimately show ?thesis
    using dst d(1) len now by (simp add: filled_def extends_def)
qed

lemma copyElems_fills:
  assumes "go_type T" "deep_copy c f v"
    and "SL_Array sl < Next s0" "\<forall>x \<in> set (elems T s0 sl). f s0 x \<subseteq> {0..<Next s0}"
    and "i \<le> length (elems T s0 sl)" "filled T f v s0 (elems T s0 sl) dst i s"
  shows "filled T f v s0 (elems T s0 sl) dst (length (elems T s0 sl))
           (copyElems T c sl dst [i..<length (elems T s0 sl)] s)"
  using assms(5,6)
proof (induction i arbitrary: s rule: inc_induct)
  case (step i)
  obtain e s1 where run: "c (elems T s sl ! i) s = (e, s1)" by fastforce
  from step.IH [OF copyElems_step [OF assms(1-4) step.prems step.hyps(2) run]] step.hyps(2)
  show ?case by (simp add: upt_conv_Cons run)
qed simp

lemma slice_local:
  assumes "agree_on (sliceFoot T f s p) s t" "deep_copy c f v"
  shows "sliceFoot T f t p = sliceFoot T f s p \<and> sliceVal T v t p = sliceVal T v s p"
proof (cases p)
  case (Some sl)
  have "readCell T t (SL_Array sl) = readCell T s (SL_Array sl)"
    using assms(1) Some by (intro agree_read) (auto simp: sliceFoot_def)
  then have same: "elems T t sl = elems T s sl" by (simp add: elems_def)
  have "agree_on (f s x) s t" if "x \<in> set (elems T s sl)" for x
    using assms(1) Some that by (auto simp: sliceFoot_def intro: agree_mono)
  then have "f t x = f s x" "v t x = v s x" if "x \<in> set (elems T s sl)" for x
    using that deep_copy.foot_local [OF assms(2)] deep_copy.val_local [OF assms(2)] by blast+
  then show ?thesis using same Some by (simp add: sliceFoot_def sliceVal_def)
qed (simp_all add: sliceFoot_def sliceVal_def)

lemma deep_copy_each:
  assumes T: "go_type T" and C: "deep_copy c f v"
  shows "deep_copy (copyEach T z c) (sliceFoot T f) (sliceVal T v)"
proof (rule deep_copyI, goal_cases)
  case (1 s t p)
  then show ?case by (rule slice_local [OF _ C])
next
  case (2 s t p q)
  show ?case
  proof (cases p)
    case None
    then show ?thesis using 2(2) by (auto simp: copyEach_def sliceFoot_def sliceVal_def)
  next
    case (Some sl)
    let ?xs = "elems T s sl"
    let ?n = "length ?xs"
    define s1 where "s1 = snd (newCell T (replicate ?n z) s)"
    have q: "q = Some \<lparr>SL_Array = Next s, SL_Off = 0, SL_Len = ?n\<rparr>"
        "t = copyElems T c sl (Next s) [0..<?n] s1"
      using 2(2) Some
      by (auto simp: copyEach_def makeSlice_def s1_def Let_def split: prod.splits)
        (metis fst_conv newCell_simps(1) snd_conv)+
    have src: "SL_Array sl < Next s" "\<forall>x \<in> set ?xs. f s x \<subseteq> {0..<Next s}"
      using 2(1) Some by (auto simp: sliceFoot_def)
    have "filled T f v s ?xs (Next s) 0 s1"
      by (simp add: filled_def s1_def go_type.read_new [OF T])
    from copyElems_fills [OF T C src _ this]
    have fin: "filled T f v s ?xs (Next s) ?n t" by (simp add: q)
    let ?ys = "readCell T t (Next s)"
    have ys: "elems T t \<lparr>SL_Array = Next s, SL_Off = 0, SL_Len = ?n\<rparr> = ?ys"
      using fin by (simp add: elems_def filled_def)
    have "map (v t) ?ys = map (v s) ?xs"
      using fin by (intro nth_equalityI) (auto simp: filled_def)
    moreover have "(\<Union>y \<in> set ?ys. f t y) \<subseteq> {Next s..<Next t}"
      using fin by (auto simp: filled_def in_set_conv_nth subset_iff)
    ultimately show ?thesis
      using fin Some by (simp add: q(1) sliceFoot_def sliceVal_def ys filled_def)
  qed
qed

lemma elems_whole:
  "readCell T t a = xs \<Longrightarrow> elems T t \<lparr>SL_Array = a, SL_Off = 0, SL_Len = length xs\<rparr> = xs"
  by (simp add: elems_def)

lemma goCopy_all: "length dst = length src \<Longrightarrow> goCopy dst src = src"
  by (simp add: goCopy_def)

lemma deep_copy_slice:
  assumes T: "go_type T"
  shows "deep_copy (copyFlat T z) (sliceFoot T noFoot) (sliceVal T plain)"
proof (rule deep_copyI, goal_cases)
  case (1 s t p)
  then show ?case by (rule slice_local [OF _ deep_copy_assign])
next
  case (2 s t p q)
  show ?case
  proof (cases p)
    case None
    then show ?thesis using 2(2) by (auto simp: copyFlat_def sliceFoot_def sliceVal_def)
  next
    case (Some sl)
    let ?xs = "elems T s sl"
    let ?out = "\<lparr>SL_Array = Next s, SL_Off = 0, SL_Len = length ?xs\<rparr>"
    define s1 where "s1 = snd (newCell T (replicate (length ?xs) z) s)"
    have "SL_Array sl < Next s" using 2(1) Some by (simp add: sliceFoot_def)
    then have same: "elems T s1 sl = ?xs" by (simp add: elems_kept s1_def)
    have new: "newCell T (replicate (length ?xs) z) s = (Next s, s1)"
      by (simp add: s1_def prod_eq_iff)
    have read: "readCell T s1 (Next s) = replicate (length ?xs) z"
      by (simp add: s1_def go_type.read_new [OF T])
    have q: "q = Some ?out" "t = putCell T (Next s) ?xs s1"
      using 2(2) Some same by (simp_all add: copyFlat_def makeSlice_def new read goCopy_all)
    have "elems T t ?out = ?xs"
      by (rule elems_whole) (simp add: q(2) go_type.read_put [OF T])
    moreover have "extends s t"
      unfolding q by (rule extends_put) (simp_all add: s1_def)
    ultimately show ?thesis
      using Some by (simp add: q(1) sliceFoot_def sliceVal_def flat_defs) (simp add: q(2) s1_def)
  qed
qed

end
