(* ===== verification/Deep_Copy.thy ===== *)
theory Deep_Copy
  imports Go_Store Api_Types
begin

text \<open>
  The generated copies of \<open>edge/operator/api/v1alpha1/zz_generated.deepcopy.go\<close> over an explicit memory.
  The records of \<open>Api_Types\<close> hold values; here every struct with a pointer or a slice gets a record of
  what lies in memory: its data, and the addresses and windows of its references, which take the place
  of the reference fields of the data.  One function per generated method; \<open>in\<close> and \<open>out\<close> of a
  \<open>DeepCopyInto\<close> are different structs, as in every call in the program, so that a method returns what
  it leaves in \<open>*out\<close>.  The copies of \<open>metav1\<close> types are a parameter.
\<close>

section \<open>Structs in memory\<close>

record batteryDeltaMem =
  BDM_Data :: batteryDeltaPolicySpec
  BDM_Enabled :: "addr option"

record batterySimulationMem =
  BSM_Data :: batterySimulationSpec
  BSM_Enabled :: "addr option"
  BSM_LocalDrain :: "addr option"
  BSM_EdgeRecover :: "addr option"

record batteryThresholdMem =
  BTM_Data :: batteryThresholdPolicySpec
  BTM_Enabled :: "addr option"

record deadlineMem =
  DPM_Data :: deadlinePolicySpec
  DPM_Enabled :: "addr option"
  DPM_TargetMs :: "addr option"

record deviceMem =
  DVM_Data :: deviceSpec
  DVM_BatterySimulation :: batterySimulationMem

record placementMem =
  PLM_Data :: placementSpec
  PLM_BatteryPercent :: "addr option"
  PLM_BatteryThreshold :: batteryThresholdMem
  PLM_Deadline :: deadlineMem
  PLM_BatteryDelta :: batteryDeltaMem

record resourceInputMem =
  RIM_Data :: resourceInputSpec
  RIM_Keys :: "slice option"

record resourceContractMem =
  RCM_Data :: resourceContractSpec
  RCM_Inputs :: "slice option"
  RCM_Outputs :: "slice option"

record releaseMem =
  RLM_Data :: releaseSpec
  RLM_Contract :: resourceContractMem

record specMem =
  SPM_Data :: wasmFunctionSpec
  SPM_Replicas :: "addr option"
  SPM_Env :: "slice option"
  SPM_Device :: deviceMem
  SPM_Placement :: placementMem
  SPM_Release :: releaseMem

record statusMem =
  STM_Data :: wasmFunctionStatus
  STM_CandidateCost :: "addr option"
  STM_CandidateSlack :: "addr option"
  STM_SyncStartedAt :: "addr option"
  STM_BatteryPercent :: "addr option"
  STM_Voltage :: "addr option"
  STM_DeltaPercent :: "addr option"
  STM_DeltaWindow :: "addr option"
  STM_TelemetryTime :: "addr option"
  STM_CommandTime :: "addr option"
  STM_StageTime :: "addr option"
  STM_SimulationTime :: "addr option"
  STM_Conditions :: "slice option"

text \<open>
  \<open>TypeMeta\<close>; \<open>ObjectMeta\<close> and \<open>ListMeta\<close> with the fields that the program reads, and one window that
  stands for the maps, slices and pointers among their other fields.
\<close>

record typeMeta =
  Kind :: string
  APIVersion :: string

record objectMetaMem =
  OM_Name :: string
  OM_Namespace :: string
  OM_Generation :: int64
  OM_Others :: "slice option"

record listMetaMem =
  LM_ResourceVersion :: string
  LM_Others :: "slice option"

record functionMem =
  FN_TypeMeta :: typeMeta
  FN_ObjectMeta :: objectMetaMem
  FN_Spec :: specMem
  FN_Status :: statusMem

record listMem =
  LS_TypeMeta :: typeMeta
  LS_ListMeta :: listMetaMem
  LS_Items :: "slice option"

section \<open>Zero values\<close>

definition zeroKey :: resourceInputKeySpec where
  "zeroKey = \<lparr>RK_Name = [], RK_Type = []\<rparr>"

definition zeroOutput :: resourceOutputSpec where
  "zeroOutput = \<lparr>RO_Name = [], RO_Type = [], RO_Locality = []\<rparr>"

definition zeroEnv :: envVar where
  "zeroEnv = \<lparr>EV_Name = [], EV_Value = []\<rparr>"

definition zeroCondition :: condition where
  "zeroCondition = \<lparr>C_Type = [], C_Status = ConditionUnknown, C_Reason = [], C_Message = [],
     C_LastTransitionTime = 0\<rparr>"

definition zeroBatteryDeltaMem :: batteryDeltaMem where
  "zeroBatteryDeltaMem = \<lparr>BDM_Data = BatteryDelta zeroPlacement,
    BDM_Enabled = None\<rparr>"

definition zeroBatterySimulationMem :: batterySimulationMem where
  "zeroBatterySimulationMem = \<lparr>BSM_Data = BatterySimulation zeroDevice,
    BSM_Enabled = None, BSM_LocalDrain = None, BSM_EdgeRecover = None\<rparr>"

definition zeroBatteryThresholdMem :: batteryThresholdMem where
  "zeroBatteryThresholdMem = \<lparr>BTM_Data = BatteryThreshold zeroPlacement,
    BTM_Enabled = None\<rparr>"

definition zeroDeadlineMem :: deadlineMem where
  "zeroDeadlineMem = \<lparr>DPM_Data = Deadline zeroPlacement, DPM_Enabled = None,
    DPM_TargetMs = None\<rparr>"

definition zeroDeviceMem :: deviceMem where
  "zeroDeviceMem = \<lparr>DVM_Data = zeroDevice,
    DVM_BatterySimulation = zeroBatterySimulationMem\<rparr>"

definition zeroPlacementMem :: placementMem where
  "zeroPlacementMem = \<lparr>PLM_Data = zeroPlacement, PLM_BatteryPercent = None,
    PLM_BatteryThreshold = zeroBatteryThresholdMem, PLM_Deadline = zeroDeadlineMem,
    PLM_BatteryDelta = zeroBatteryDeltaMem\<rparr>"

definition zeroInputMem :: resourceInputMem where
  "zeroInputMem = \<lparr>
    RIM_Data = \<lparr>RI_Name = [], RI_Locality = [], RI_Keys = []\<rparr>,
    RIM_Keys = None\<rparr>"

definition zeroResourceContractMem :: resourceContractMem where
  "zeroResourceContractMem = \<lparr>RCM_Data = zeroContract, RCM_Inputs = None,
    RCM_Outputs = None\<rparr>"

definition zeroReleaseMem :: releaseMem where
  "zeroReleaseMem = \<lparr>RLM_Data = zeroRelease,
    RLM_Contract = zeroResourceContractMem\<rparr>"

definition zeroSpecMem :: specMem where
  "zeroSpecMem = \<lparr>SPM_Data = zeroSpec, SPM_Replicas = None, SPM_Env = None,
    SPM_Device = zeroDeviceMem, SPM_Placement = zeroPlacementMem,
    SPM_Release = zeroReleaseMem\<rparr>"

definition zeroStatusMem :: statusMem where
  "zeroStatusMem = \<lparr>STM_Data = zeroStatus, STM_CandidateCost = None,
    STM_CandidateSlack = None, STM_SyncStartedAt = None, STM_BatteryPercent = None,
    STM_Voltage = None, STM_DeltaPercent = None, STM_DeltaWindow = None,
    STM_TelemetryTime = None, STM_CommandTime = None, STM_StageTime = None,
    STM_SimulationTime = None, STM_Conditions = None\<rparr>"

definition zeroTypeMeta :: typeMeta where
  "zeroTypeMeta = \<lparr>Kind = [], APIVersion = []\<rparr>"

definition zeroFunctionMem :: functionMem where
  "zeroFunctionMem = \<lparr>FN_TypeMeta = zeroTypeMeta,
     FN_ObjectMeta = \<lparr>OM_Name = [], OM_Namespace = [], OM_Generation = 0, OM_Others = None\<rparr>,
     FN_Spec = zeroSpecMem, FN_Status = zeroStatusMem\<rparr>"

definition zeroListMem :: listMem where
  "zeroListMem = \<lparr>LS_TypeMeta = zeroTypeMeta,
     LS_ListMeta = \<lparr>LM_ResourceVersion = [], LM_Others = None\<rparr>, LS_Items = None\<rparr>"

lemmas zeroMem_defs = zeroBatteryDeltaMem_def zeroBatterySimulationMem_def zeroBatteryThresholdMem_def zeroDeadlineMem_def
  zeroDeviceMem_def zeroPlacementMem_def zeroInputMem_def zeroResourceContractMem_def
  zeroReleaseMem_def zeroSpecMem_def zeroStatusMem_def zeroFunctionMem_def

section \<open>The memory\<close>

datatype cell =
    BoolCell bool
  | Int32Cell int32
  | TimeCell time
  | TextsCell "string list"
  | KeysCell "resourceInputKeySpec list"
  | OutputsCell "resourceOutputSpec list"
  | EnvCell "envVar list"
  | InputsCell "resourceInputMem list"
  | ConditionsCell "condition list"
  | ItemsCell "functionMem list"
  | KeyCell resourceInputKeySpec
  | OutputCell resourceOutputSpec
  | EnvVarCell envVar
  | EstimatorCell deadlineEstimatorSpec
  | BatteryDeltaCell batteryDeltaMem
  | BatterySimulationCell batterySimulationMem
  | BatteryThresholdCell batteryThresholdMem
  | DeadlineCell deadlineMem
  | DeviceCell deviceMem
  | PlacementCell placementMem
  | ResourceInputCell resourceInputMem
  | ResourceContractCell resourceContractMem
  | ReleaseCell releaseMem
  | SpecCell specMem
  | StatusCell statusMem
  | FunctionCell functionMem
  | ListCell listMem

type_synonym memory = "cell store"

definition boolT :: "(cell, bool) goType" where
  "boolT = \<lparr>Mk = BoolCell, Get = (\<lambda>c. case c of BoolCell x \<Rightarrow> Some x | _ \<Rightarrow> None), Zero = False\<rparr>"

definition int32T :: "(cell, int32) goType" where
  "int32T = \<lparr>Mk = Int32Cell, Get = (\<lambda>c. case c of Int32Cell x \<Rightarrow> Some x | _ \<Rightarrow> None), Zero = 0\<rparr>"

definition timeT :: "(cell, time) goType" where
  "timeT = \<lparr>Mk = TimeCell, Get = (\<lambda>c. case c of TimeCell x \<Rightarrow> Some x | _ \<Rightarrow> None), Zero = 0\<rparr>"

definition textsT :: "(cell, string list) goType" where
  "textsT = \<lparr>Mk = TextsCell, Get = (\<lambda>c. case c of TextsCell x \<Rightarrow> Some x | _ \<Rightarrow> None), Zero = []\<rparr>"

definition keysT :: "(cell, resourceInputKeySpec list) goType" where
  "keysT = \<lparr>Mk = KeysCell, Get = (\<lambda>c. case c of KeysCell x \<Rightarrow> Some x | _ \<Rightarrow> None), Zero = []\<rparr>"

definition outputsT :: "(cell, resourceOutputSpec list) goType" where
  "outputsT = \<lparr>Mk = OutputsCell, Get = (\<lambda>c. case c of OutputsCell x \<Rightarrow> Some x | _ \<Rightarrow> None), Zero = []\<rparr>"

definition envT :: "(cell, envVar list) goType" where
  "envT = \<lparr>Mk = EnvCell, Get = (\<lambda>c. case c of EnvCell x \<Rightarrow> Some x | _ \<Rightarrow> None), Zero = []\<rparr>"

definition inputsT :: "(cell, resourceInputMem list) goType" where
  "inputsT = \<lparr>Mk = InputsCell, Get = (\<lambda>c. case c of InputsCell x \<Rightarrow> Some x | _ \<Rightarrow> None), Zero = []\<rparr>"

definition conditionsT :: "(cell, condition list) goType" where
  "conditionsT = \<lparr>Mk = ConditionsCell, Get = (\<lambda>c. case c of ConditionsCell x \<Rightarrow> Some x | _ \<Rightarrow> None), Zero = []\<rparr>"

definition itemsT :: "(cell, functionMem list) goType" where
  "itemsT = \<lparr>Mk = ItemsCell, Get = (\<lambda>c. case c of ItemsCell x \<Rightarrow> Some x | _ \<Rightarrow> None), Zero = []\<rparr>"

definition keyT :: "(cell, resourceInputKeySpec) goType" where
  "keyT = \<lparr>Mk = KeyCell, Get = (\<lambda>c. case c of KeyCell x \<Rightarrow> Some x | _ \<Rightarrow> None), Zero = zeroKey\<rparr>"

definition outputT :: "(cell, resourceOutputSpec) goType" where
  "outputT = \<lparr>Mk = OutputCell, Get = (\<lambda>c. case c of OutputCell x \<Rightarrow> Some x | _ \<Rightarrow> None), Zero = zeroOutput\<rparr>"

definition envVarT :: "(cell, envVar) goType" where
  "envVarT = \<lparr>Mk = EnvVarCell, Get = (\<lambda>c. case c of EnvVarCell x \<Rightarrow> Some x | _ \<Rightarrow> None), Zero = zeroEnv\<rparr>"

definition estimatorT :: "(cell, deadlineEstimatorSpec) goType" where
  "estimatorT = \<lparr>Mk = EstimatorCell, Get = (\<lambda>c. case c of EstimatorCell x \<Rightarrow> Some x | _ \<Rightarrow> None), Zero = zeroEstimator\<rparr>"

definition batteryDeltaT :: "(cell, batteryDeltaMem) goType" where
  "batteryDeltaT = \<lparr>Mk = BatteryDeltaCell, Get = (\<lambda>c. case c of BatteryDeltaCell x \<Rightarrow> Some x | _ \<Rightarrow> None), Zero = zeroBatteryDeltaMem\<rparr>"

definition batterySimulationT :: "(cell, batterySimulationMem) goType" where
  "batterySimulationT = \<lparr>Mk = BatterySimulationCell, Get = (\<lambda>c. case c of BatterySimulationCell x \<Rightarrow> Some x | _ \<Rightarrow> None), Zero = zeroBatterySimulationMem\<rparr>"

definition batteryThresholdT :: "(cell, batteryThresholdMem) goType" where
  "batteryThresholdT = \<lparr>Mk = BatteryThresholdCell, Get = (\<lambda>c. case c of BatteryThresholdCell x \<Rightarrow> Some x | _ \<Rightarrow> None), Zero = zeroBatteryThresholdMem\<rparr>"

definition deadlineT :: "(cell, deadlineMem) goType" where
  "deadlineT = \<lparr>Mk = DeadlineCell, Get = (\<lambda>c. case c of DeadlineCell x \<Rightarrow> Some x | _ \<Rightarrow> None), Zero = zeroDeadlineMem\<rparr>"

definition deviceT :: "(cell, deviceMem) goType" where
  "deviceT = \<lparr>Mk = DeviceCell, Get = (\<lambda>c. case c of DeviceCell x \<Rightarrow> Some x | _ \<Rightarrow> None), Zero = zeroDeviceMem\<rparr>"

definition placementT :: "(cell, placementMem) goType" where
  "placementT = \<lparr>Mk = PlacementCell, Get = (\<lambda>c. case c of PlacementCell x \<Rightarrow> Some x | _ \<Rightarrow> None), Zero = zeroPlacementMem\<rparr>"

definition resourceInputT :: "(cell, resourceInputMem) goType" where
  "resourceInputT = \<lparr>Mk = ResourceInputCell, Get = (\<lambda>c. case c of ResourceInputCell x \<Rightarrow> Some x | _ \<Rightarrow> None), Zero = zeroInputMem\<rparr>"

definition resourceContractT :: "(cell, resourceContractMem) goType" where
  "resourceContractT = \<lparr>Mk = ResourceContractCell, Get = (\<lambda>c. case c of ResourceContractCell x \<Rightarrow> Some x | _ \<Rightarrow> None), Zero = zeroResourceContractMem\<rparr>"

definition releaseT :: "(cell, releaseMem) goType" where
  "releaseT = \<lparr>Mk = ReleaseCell, Get = (\<lambda>c. case c of ReleaseCell x \<Rightarrow> Some x | _ \<Rightarrow> None), Zero = zeroReleaseMem\<rparr>"

definition specT :: "(cell, specMem) goType" where
  "specT = \<lparr>Mk = SpecCell, Get = (\<lambda>c. case c of SpecCell x \<Rightarrow> Some x | _ \<Rightarrow> None), Zero = zeroSpecMem\<rparr>"

definition statusT :: "(cell, statusMem) goType" where
  "statusT = \<lparr>Mk = StatusCell, Get = (\<lambda>c. case c of StatusCell x \<Rightarrow> Some x | _ \<Rightarrow> None), Zero = zeroStatusMem\<rparr>"

definition functionT :: "(cell, functionMem) goType" where
  "functionT = \<lparr>Mk = FunctionCell, Get = (\<lambda>c. case c of FunctionCell x \<Rightarrow> Some x | _ \<Rightarrow> None), Zero = zeroFunctionMem\<rparr>"

definition listT :: "(cell, listMem) goType" where
  "listT = \<lparr>Mk = ListCell, Get = (\<lambda>c. case c of ListCell x \<Rightarrow> Some x | _ \<Rightarrow> None), Zero = zeroListMem\<rparr>"

lemmas goType_defs =
  boolT_def int32T_def timeT_def textsT_def keysT_def outputsT_def envT_def inputsT_def conditionsT_def itemsT_def keyT_def outputT_def envVarT_def
  estimatorT_def batteryDeltaT_def batterySimulationT_def batteryThresholdT_def deadlineT_def deviceT_def placementT_def resourceInputT_def resourceContractT_def releaseT_def specT_def statusT_def functionT_def listT_def

interpretation go_boolT: go_type boolT by unfold_locales (simp add: boolT_def)

interpretation go_int32T: go_type int32T by unfold_locales (simp add: int32T_def)

interpretation go_timeT: go_type timeT by unfold_locales (simp add: timeT_def)

interpretation go_textsT: go_type textsT by unfold_locales (simp add: textsT_def)

interpretation go_keysT: go_type keysT by unfold_locales (simp add: keysT_def)

interpretation go_outputsT: go_type outputsT by unfold_locales (simp add: outputsT_def)

interpretation go_envT: go_type envT by unfold_locales (simp add: envT_def)

interpretation go_inputsT: go_type inputsT by unfold_locales (simp add: inputsT_def)

interpretation go_conditionsT: go_type conditionsT by unfold_locales (simp add: conditionsT_def)

interpretation go_itemsT: go_type itemsT by unfold_locales (simp add: itemsT_def)

interpretation go_keyT: go_type keyT by unfold_locales (simp add: keyT_def)

interpretation go_outputT: go_type outputT by unfold_locales (simp add: outputT_def)

interpretation go_envVarT: go_type envVarT by unfold_locales (simp add: envVarT_def)

interpretation go_estimatorT: go_type estimatorT by unfold_locales (simp add: estimatorT_def)

interpretation go_batteryDeltaT: go_type batteryDeltaT by unfold_locales (simp add: batteryDeltaT_def)

interpretation go_batterySimulationT: go_type batterySimulationT by unfold_locales (simp add: batterySimulationT_def)

interpretation go_batteryThresholdT: go_type batteryThresholdT by unfold_locales (simp add: batteryThresholdT_def)

interpretation go_deadlineT: go_type deadlineT by unfold_locales (simp add: deadlineT_def)

interpretation go_deviceT: go_type deviceT by unfold_locales (simp add: deviceT_def)

interpretation go_placementT: go_type placementT by unfold_locales (simp add: placementT_def)

interpretation go_resourceInputT: go_type resourceInputT by unfold_locales (simp add: resourceInputT_def)

interpretation go_resourceContractT: go_type resourceContractT by unfold_locales (simp add: resourceContractT_def)

interpretation go_releaseT: go_type releaseT by unfold_locales (simp add: releaseT_def)

interpretation go_specT: go_type specT by unfold_locales (simp add: specT_def)

interpretation go_statusT: go_type statusT by unfold_locales (simp add: statusT_def)

interpretation go_functionT: go_type functionT by unfold_locales (simp add: functionT_def)

interpretation go_listT: go_type listT by unfold_locales (simp add: listT_def)

section \<open>The copies of \<open>metav1\<close>\<close>

record metav1 =
  TimeDeepCopy :: "addr option \<Rightarrow> memory \<Rightarrow> addr option \<times> memory"
  ConditionDeepCopyInto :: "condition \<Rightarrow> memory \<Rightarrow> condition \<times> memory"
  ObjectMetaDeepCopyInto :: "objectMetaMem \<Rightarrow> memory \<Rightarrow> objectMetaMem \<times> memory"
  ListMetaDeepCopyInto :: "listMetaMem \<Rightarrow> memory \<Rightarrow> listMetaMem \<times> memory"

section \<open>Structs without references\<close>

definition EnvVar_DeepCopyInto :: "envVar \<Rightarrow> memory \<Rightarrow> envVar \<times> memory" where
  "EnvVar_DeepCopyInto in0 s = (in0, s)"

definition EnvVar_DeepCopy :: "addr option \<Rightarrow> memory \<Rightarrow> addr option \<times> memory" where
  "EnvVar_DeepCopy = deepCopy envVarT EnvVar_DeepCopyInto"

definition DeadlineEstimatorSpec_DeepCopyInto :: "deadlineEstimatorSpec \<Rightarrow> memory \<Rightarrow> deadlineEstimatorSpec \<times> memory" where
  "DeadlineEstimatorSpec_DeepCopyInto in0 s = (in0, s)"

definition DeadlineEstimatorSpec_DeepCopy :: "addr option \<Rightarrow> memory \<Rightarrow> addr option \<times> memory" where
  "DeadlineEstimatorSpec_DeepCopy = deepCopy estimatorT DeadlineEstimatorSpec_DeepCopyInto"

definition ResourceInputKeySpec_DeepCopyInto :: "resourceInputKeySpec \<Rightarrow> memory \<Rightarrow> resourceInputKeySpec \<times> memory" where
  "ResourceInputKeySpec_DeepCopyInto in0 s = (in0, s)"

definition ResourceInputKeySpec_DeepCopy :: "addr option \<Rightarrow> memory \<Rightarrow> addr option \<times> memory" where
  "ResourceInputKeySpec_DeepCopy = deepCopy keyT ResourceInputKeySpec_DeepCopyInto"

definition ResourceOutputSpec_DeepCopyInto :: "resourceOutputSpec \<Rightarrow> memory \<Rightarrow> resourceOutputSpec \<times> memory" where
  "ResourceOutputSpec_DeepCopyInto in0 s = (in0, s)"

definition ResourceOutputSpec_DeepCopy :: "addr option \<Rightarrow> memory \<Rightarrow> addr option \<times> memory" where
  "ResourceOutputSpec_DeepCopy = deepCopy outputT ResourceOutputSpec_DeepCopyInto"

section \<open>Structs with references\<close>

definition BatteryDeltaPolicySpec_DeepCopyInto :: "batteryDeltaMem \<Rightarrow> memory \<Rightarrow> batteryDeltaMem \<times> memory" where
  "BatteryDeltaPolicySpec_DeepCopyInto in0 s0 =
    (let (x1, s1) = copyPtr boolT (BDM_Enabled in0) s0
     in (in0\<lparr>BDM_Enabled := x1\<rparr>, s1))"

definition BatteryDeltaPolicySpec_DeepCopy :: "addr option \<Rightarrow> memory \<Rightarrow> addr option \<times> memory" where
  "BatteryDeltaPolicySpec_DeepCopy = deepCopy batteryDeltaT BatteryDeltaPolicySpec_DeepCopyInto"

definition BatterySimulationSpec_DeepCopyInto :: "batterySimulationMem \<Rightarrow> memory \<Rightarrow> batterySimulationMem \<times> memory" where
  "BatterySimulationSpec_DeepCopyInto in0 s0 =
    (let (x1, s1) = copyPtr boolT (BSM_Enabled in0) s0;
         (x2, s2) = copyPtr int32T (BSM_LocalDrain in0) s1;
         (x3, s3) = copyPtr int32T (BSM_EdgeRecover in0) s2
     in (in0\<lparr>BSM_Enabled := x1, BSM_LocalDrain := x2, BSM_EdgeRecover := x3\<rparr>, s3))"

definition BatterySimulationSpec_DeepCopy :: "addr option \<Rightarrow> memory \<Rightarrow> addr option \<times> memory" where
  "BatterySimulationSpec_DeepCopy = deepCopy batterySimulationT BatterySimulationSpec_DeepCopyInto"

definition BatteryThresholdPolicySpec_DeepCopyInto :: "batteryThresholdMem \<Rightarrow> memory \<Rightarrow> batteryThresholdMem \<times> memory" where
  "BatteryThresholdPolicySpec_DeepCopyInto in0 s0 =
    (let (x1, s1) = copyPtr boolT (BTM_Enabled in0) s0
     in (in0\<lparr>BTM_Enabled := x1\<rparr>, s1))"

definition BatteryThresholdPolicySpec_DeepCopy :: "addr option \<Rightarrow> memory \<Rightarrow> addr option \<times> memory" where
  "BatteryThresholdPolicySpec_DeepCopy = deepCopy batteryThresholdT BatteryThresholdPolicySpec_DeepCopyInto"

definition DeadlinePolicySpec_DeepCopyInto :: "deadlineMem \<Rightarrow> memory \<Rightarrow> deadlineMem \<times> memory" where
  "DeadlinePolicySpec_DeepCopyInto in0 s0 =
    (let (x1, s1) = copyPtr boolT (DPM_Enabled in0) s0;
         (x2, s2) = copyPtr int32T (DPM_TargetMs in0) s1
     in (in0\<lparr>DPM_Enabled := x1, DPM_TargetMs := x2\<rparr>, s2))"

definition DeadlinePolicySpec_DeepCopy :: "addr option \<Rightarrow> memory \<Rightarrow> addr option \<times> memory" where
  "DeadlinePolicySpec_DeepCopy = deepCopy deadlineT DeadlinePolicySpec_DeepCopyInto"

definition DeviceSpec_DeepCopyInto :: "deviceMem \<Rightarrow> memory \<Rightarrow> deviceMem \<times> memory" where
  "DeviceSpec_DeepCopyInto in0 s0 =
    (let (x1, s1) = BatterySimulationSpec_DeepCopyInto (DVM_BatterySimulation in0) s0
     in (in0\<lparr>DVM_BatterySimulation := x1\<rparr>, s1))"

definition DeviceSpec_DeepCopy :: "addr option \<Rightarrow> memory \<Rightarrow> addr option \<times> memory" where
  "DeviceSpec_DeepCopy = deepCopy deviceT DeviceSpec_DeepCopyInto"

definition PlacementSpec_DeepCopyInto :: "placementMem \<Rightarrow> memory \<Rightarrow> placementMem \<times> memory" where
  "PlacementSpec_DeepCopyInto in0 s0 =
    (let (x1, s1) = copyPtr int32T (PLM_BatteryPercent in0) s0;
         (x2, s2) = BatteryThresholdPolicySpec_DeepCopyInto (PLM_BatteryThreshold in0) s1;
         (x3, s3) = DeadlinePolicySpec_DeepCopyInto (PLM_Deadline in0) s2;
         (x4, s4) = BatteryDeltaPolicySpec_DeepCopyInto (PLM_BatteryDelta in0) s3
     in (in0\<lparr>PLM_BatteryPercent := x1, PLM_BatteryThreshold := x2, PLM_Deadline := x3,
           PLM_BatteryDelta := x4\<rparr>, s4))"

definition PlacementSpec_DeepCopy :: "addr option \<Rightarrow> memory \<Rightarrow> addr option \<times> memory" where
  "PlacementSpec_DeepCopy = deepCopy placementT PlacementSpec_DeepCopyInto"

definition ResourceInputSpec_DeepCopyInto :: "resourceInputMem \<Rightarrow> memory \<Rightarrow> resourceInputMem \<times> memory" where
  "ResourceInputSpec_DeepCopyInto in0 s0 =
    (let (x1, s1) = copyFlat keysT zeroKey (RIM_Keys in0) s0
     in (in0\<lparr>RIM_Keys := x1\<rparr>, s1))"

definition ResourceInputSpec_DeepCopy :: "addr option \<Rightarrow> memory \<Rightarrow> addr option \<times> memory" where
  "ResourceInputSpec_DeepCopy = deepCopy resourceInputT ResourceInputSpec_DeepCopyInto"

definition ResourceContractSpec_DeepCopyInto :: "resourceContractMem \<Rightarrow> memory \<Rightarrow> resourceContractMem \<times> memory" where
  "ResourceContractSpec_DeepCopyInto in0 s0 =
    (let (x1, s1) = copyEach inputsT zeroInputMem ResourceInputSpec_DeepCopyInto (RCM_Inputs in0) s0;
         (x2, s2) = copyFlat outputsT zeroOutput (RCM_Outputs in0) s1
     in (in0\<lparr>RCM_Inputs := x1, RCM_Outputs := x2\<rparr>, s2))"

definition ResourceContractSpec_DeepCopy :: "addr option \<Rightarrow> memory \<Rightarrow> addr option \<times> memory" where
  "ResourceContractSpec_DeepCopy = deepCopy resourceContractT ResourceContractSpec_DeepCopyInto"

definition ReleaseSpec_DeepCopyInto :: "releaseMem \<Rightarrow> memory \<Rightarrow> releaseMem \<times> memory" where
  "ReleaseSpec_DeepCopyInto in0 s0 =
    (let (x1, s1) = ResourceContractSpec_DeepCopyInto (RLM_Contract in0) s0
     in (in0\<lparr>RLM_Contract := x1\<rparr>, s1))"

definition ReleaseSpec_DeepCopy :: "addr option \<Rightarrow> memory \<Rightarrow> addr option \<times> memory" where
  "ReleaseSpec_DeepCopy = deepCopy releaseT ReleaseSpec_DeepCopyInto"

definition WasmFunctionSpec_DeepCopyInto :: "specMem \<Rightarrow> memory \<Rightarrow> specMem \<times> memory" where
  "WasmFunctionSpec_DeepCopyInto in0 s0 =
    (let (x1, s1) = copyPtr int32T (SPM_Replicas in0) s0;
         (x2, s2) = copyFlat envT zeroEnv (SPM_Env in0) s1;
         (x3, s3) = DeviceSpec_DeepCopyInto (SPM_Device in0) s2;
         (x4, s4) = PlacementSpec_DeepCopyInto (SPM_Placement in0) s3;
         (x5, s5) = ReleaseSpec_DeepCopyInto (SPM_Release in0) s4
     in (in0\<lparr>SPM_Replicas := x1, SPM_Env := x2, SPM_Device := x3, SPM_Placement := x4,
           SPM_Release := x5\<rparr>, s5))"

definition WasmFunctionSpec_DeepCopy :: "addr option \<Rightarrow> memory \<Rightarrow> addr option \<times> memory" where
  "WasmFunctionSpec_DeepCopy = deepCopy specT WasmFunctionSpec_DeepCopyInto"

definition WasmFunctionStatus_DeepCopyInto :: "metav1 \<Rightarrow> statusMem \<Rightarrow> memory \<Rightarrow> statusMem \<times> memory" where
  "WasmFunctionStatus_DeepCopyInto lib in0 s0 =
    (let (x1, s1) = copyPtr int32T (STM_CandidateCost in0) s0;
         (x2, s2) = copyPtr int32T (STM_CandidateSlack in0) s1;
         (x3, s3) = TimeDeepCopy lib (STM_SyncStartedAt in0) s2;
         (x4, s4) = copyPtr int32T (STM_BatteryPercent in0) s3;
         (x5, s5) = copyPtr int32T (STM_Voltage in0) s4;
         (x6, s6) = copyPtr int32T (STM_DeltaPercent in0) s5;
         (x7, s7) = copyPtr int32T (STM_DeltaWindow in0) s6;
         (x8, s8) = TimeDeepCopy lib (STM_TelemetryTime in0) s7;
         (x9, s9) = TimeDeepCopy lib (STM_CommandTime in0) s8;
         (x10, s10) = TimeDeepCopy lib (STM_StageTime in0) s9;
         (x11, s11) = TimeDeepCopy lib (STM_SimulationTime in0) s10;
         (x12, s12) = copyEach conditionsT zeroCondition (ConditionDeepCopyInto lib) (STM_Conditions in0) s11
     in (in0\<lparr>STM_CandidateCost := x1, STM_CandidateSlack := x2, STM_SyncStartedAt := x3,
           STM_BatteryPercent := x4, STM_Voltage := x5, STM_DeltaPercent := x6,
           STM_DeltaWindow := x7, STM_TelemetryTime := x8, STM_CommandTime := x9,
           STM_StageTime := x10, STM_SimulationTime := x11, STM_Conditions := x12\<rparr>, s12))"

definition WasmFunctionStatus_DeepCopy :: "metav1 \<Rightarrow> addr option \<Rightarrow> memory \<Rightarrow> addr option \<times> memory" where
  "WasmFunctionStatus_DeepCopy lib = deepCopy statusT (WasmFunctionStatus_DeepCopyInto lib)"

section \<open>Resources and lists\<close>

definition WasmFunction_DeepCopyInto :: "metav1 \<Rightarrow> functionMem \<Rightarrow> memory \<Rightarrow> functionMem \<times> memory" where
  "WasmFunction_DeepCopyInto lib in0 s0 =
    (let (x1, s1) = ObjectMetaDeepCopyInto lib (FN_ObjectMeta in0) s0;
         (x2, s2) = WasmFunctionSpec_DeepCopyInto (FN_Spec in0) s1;
         (x3, s3) = WasmFunctionStatus_DeepCopyInto lib (FN_Status in0) s2
     in (in0\<lparr>FN_ObjectMeta := x1, FN_Spec := x2, FN_Status := x3\<rparr>, s3))"

definition WasmFunction_DeepCopy :: "metav1 \<Rightarrow> addr option \<Rightarrow> memory \<Rightarrow> addr option \<times> memory" where
  "WasmFunction_DeepCopy lib = deepCopy functionT (WasmFunction_DeepCopyInto lib)"

definition WasmFunctionList_DeepCopyInto :: "metav1 \<Rightarrow> listMem \<Rightarrow> memory \<Rightarrow> listMem \<times> memory" where
  "WasmFunctionList_DeepCopyInto lib in0 s0 =
    (let (x1, s1) = ListMetaDeepCopyInto lib (LS_ListMeta in0) s0;
         (x2, s2) = copyEach itemsT zeroFunctionMem (WasmFunction_DeepCopyInto lib) (LS_Items in0) s1
     in (in0\<lparr>LS_ListMeta := x1, LS_Items := x2\<rparr>, s2))"

definition WasmFunctionList_DeepCopy :: "metav1 \<Rightarrow> addr option \<Rightarrow> memory \<Rightarrow> addr option \<times> memory" where
  "WasmFunctionList_DeepCopy lib = deepCopy listT (WasmFunctionList_DeepCopyInto lib)"

text \<open>A \<open>runtime.Object\<close> that is not nil.\<close>

datatype object = FunctionObject addr | ListObject addr

definition WasmFunction_DeepCopyObject :: "metav1 \<Rightarrow> addr option \<Rightarrow> memory \<Rightarrow> object option \<times> memory" where
  "WasmFunction_DeepCopyObject lib p s =
    (case WasmFunction_DeepCopy lib p s of (Some c, t) \<Rightarrow> (Some (FunctionObject c), t) | (None, t) \<Rightarrow> (None, t))"

definition WasmFunctionList_DeepCopyObject :: "metav1 \<Rightarrow> addr option \<Rightarrow> memory \<Rightarrow> object option \<times> memory" where
  "WasmFunctionList_DeepCopyObject lib p s =
    (case WasmFunctionList_DeepCopy lib p s of (Some c, t) \<Rightarrow> (Some (ListObject c), t) | (None, t) \<Rightarrow> (None, t))"

section \<open>Pointers into the status\<close>

text \<open>\<open>int32Ptr\<close> of \<open>deadline_placement.go\<close> makes a new cell for the value.\<close>

definition int32Ptr :: "int32 \<Rightarrow> memory \<Rightarrow> addr option \<times> memory" where
  "int32Ptr v s = (let (a, t) = newCell int32T v s in (Some a, t))"

text \<open>
  \<open>updateInt32Ptr(dst, src)\<close>: what it leaves in \<open>*dst\<close>, and whether it changed anything.  \<open>value := *src\<close>
  escapes, so that the new pointer is to a cell of its own.
\<close>

definition updateInt32Ptr :: "addr option \<Rightarrow> addr option \<Rightarrow> memory \<Rightarrow> (bool \<times> addr option) \<times> memory" where
  "updateInt32Ptr dst src s =
    (case src of
       None \<Rightarrow> ((False, dst), s)
     | Some a \<Rightarrow>
         (let x = readCell int32T s a
          in if dst \<noteq> None \<and> readCell int32T s (the dst) = x then ((False, dst), s)
             else (let (b, s1) = newCell int32T x s in ((True, Some b), s1))))"

end
