(* ===== verification/Deep_Copy_Props.thy ===== *)
theory Deep_Copy_Props
  imports Deep_Copy
begin

text \<open>
  What the generated copies promise: for every struct the locale \<open>deep_copy\<close> of \<open>Go_Store\<close>, with the
  record of \<open>Api_Types\<close> that the struct in memory stands for as its value.
\<close>

section \<open>What a struct in memory stands for\<close>

text \<open>A nil slice and an empty one are the same list.\<close>

definition listOf :: "'a list option \<Rightarrow> 'a list" where
  "listOf p = (case p of None \<Rightarrow> [] | Some xs \<Rightarrow> xs)"

definition batteryDeltaFoot :: "memory \<Rightarrow> batteryDeltaMem \<Rightarrow> addr set" where
  "batteryDeltaFoot s m =
    ptrFoot boolT noFoot s (BDM_Enabled m)"

definition batteryDeltaVal :: "memory \<Rightarrow> batteryDeltaMem \<Rightarrow> batteryDeltaPolicySpec" where
  "batteryDeltaVal s m =
    (BDM_Data m)\<lparr>BD_Enabled := ptrVal boolT plain s (BDM_Enabled m)\<rparr>"

definition batterySimulationFoot :: "memory \<Rightarrow> batterySimulationMem \<Rightarrow> addr set" where
  "batterySimulationFoot s m =
    ptrFoot boolT noFoot s (BSM_Enabled m)
      \<union> (ptrFoot int32T noFoot s (BSM_LocalDrain m)
      \<union> (ptrFoot int32T noFoot s (BSM_EdgeRecover m)))"

definition batterySimulationVal :: "memory \<Rightarrow> batterySimulationMem \<Rightarrow> batterySimulationSpec" where
  "batterySimulationVal s m =
    (BSM_Data m)\<lparr>BS_Enabled := ptrVal boolT plain s (BSM_Enabled m),
      LocalDrainPercent := ptrVal int32T plain s (BSM_LocalDrain m),
      EdgeRecoverPercent := ptrVal int32T plain s (BSM_EdgeRecover m)\<rparr>"

definition batteryThresholdFoot :: "memory \<Rightarrow> batteryThresholdMem \<Rightarrow> addr set" where
  "batteryThresholdFoot s m =
    ptrFoot boolT noFoot s (BTM_Enabled m)"

definition batteryThresholdVal :: "memory \<Rightarrow> batteryThresholdMem \<Rightarrow> batteryThresholdPolicySpec" where
  "batteryThresholdVal s m =
    (BTM_Data m)\<lparr>BT_Enabled := ptrVal boolT plain s (BTM_Enabled m)\<rparr>"

definition deadlineFoot :: "memory \<Rightarrow> deadlineMem \<Rightarrow> addr set" where
  "deadlineFoot s m =
    ptrFoot boolT noFoot s (DPM_Enabled m)
      \<union> (ptrFoot int32T noFoot s (DPM_TargetMs m))"

definition deadlineVal :: "memory \<Rightarrow> deadlineMem \<Rightarrow> deadlinePolicySpec" where
  "deadlineVal s m =
    (DPM_Data m)\<lparr>DP_Enabled := ptrVal boolT plain s (DPM_Enabled m),
      TargetMs := ptrVal int32T plain s (DPM_TargetMs m)\<rparr>"

definition deviceFoot :: "memory \<Rightarrow> deviceMem \<Rightarrow> addr set" where
  "deviceFoot s m =
    batterySimulationFoot s (DVM_BatterySimulation m)"

definition deviceVal :: "memory \<Rightarrow> deviceMem \<Rightarrow> deviceSpec" where
  "deviceVal s m =
    (DVM_Data m)\<lparr>
      BatterySimulation := batterySimulationVal s (DVM_BatterySimulation m)\<rparr>"

definition placementFoot :: "memory \<Rightarrow> placementMem \<Rightarrow> addr set" where
  "placementFoot s m =
    ptrFoot int32T noFoot s (PLM_BatteryPercent m)
      \<union> (batteryThresholdFoot s (PLM_BatteryThreshold m)
      \<union> (deadlineFoot s (PLM_Deadline m)
      \<union> (batteryDeltaFoot s (PLM_BatteryDelta m))))"

definition placementVal :: "memory \<Rightarrow> placementMem \<Rightarrow> placementSpec" where
  "placementVal s m =
    (PLM_Data m)\<lparr>P_BatteryPercent := ptrVal int32T plain s (PLM_BatteryPercent m),
      BatteryThreshold := batteryThresholdVal s (PLM_BatteryThreshold m),
      Deadline := deadlineVal s (PLM_Deadline m),
      BatteryDelta := batteryDeltaVal s (PLM_BatteryDelta m)\<rparr>"

definition resourceInputFoot :: "memory \<Rightarrow> resourceInputMem \<Rightarrow> addr set" where
  "resourceInputFoot s m =
    sliceFoot keysT noFoot s (RIM_Keys m)"

definition resourceInputVal :: "memory \<Rightarrow> resourceInputMem \<Rightarrow> resourceInputSpec" where
  "resourceInputVal s m =
    (RIM_Data m)\<lparr>RI_Keys := listOf (sliceVal keysT plain s (RIM_Keys m))\<rparr>"

definition resourceContractFoot :: "memory \<Rightarrow> resourceContractMem \<Rightarrow> addr set" where
  "resourceContractFoot s m =
    sliceFoot inputsT resourceInputFoot s (RCM_Inputs m)
      \<union> (sliceFoot outputsT noFoot s (RCM_Outputs m))"

definition resourceContractVal :: "memory \<Rightarrow> resourceContractMem \<Rightarrow> resourceContractSpec" where
  "resourceContractVal s m =
    (RCM_Data m)\<lparr>Inputs := listOf (sliceVal inputsT resourceInputVal s (RCM_Inputs m)),
      Outputs := listOf (sliceVal outputsT plain s (RCM_Outputs m))\<rparr>"

definition releaseFoot :: "memory \<Rightarrow> releaseMem \<Rightarrow> addr set" where
  "releaseFoot s m =
    resourceContractFoot s (RLM_Contract m)"

definition releaseVal :: "memory \<Rightarrow> releaseMem \<Rightarrow> releaseSpec" where
  "releaseVal s m =
    (RLM_Data m)\<lparr>ResourceContract := resourceContractVal s (RLM_Contract m)\<rparr>"

definition specFoot :: "memory \<Rightarrow> specMem \<Rightarrow> addr set" where
  "specFoot s m =
    ptrFoot int32T noFoot s (SPM_Replicas m)
      \<union> (sliceFoot envT noFoot s (SPM_Env m)
      \<union> (deviceFoot s (SPM_Device m)
      \<union> (placementFoot s (SPM_Placement m)
      \<union> (releaseFoot s (SPM_Release m)))))"

definition specVal :: "memory \<Rightarrow> specMem \<Rightarrow> wasmFunctionSpec" where
  "specVal s m =
    (SPM_Data m)\<lparr>Replicas := ptrVal int32T plain s (SPM_Replicas m),
      Env := listOf (sliceVal envT plain s (SPM_Env m)), Device := deviceVal s (SPM_Device m),
      Placement := placementVal s (SPM_Placement m),
      Release := releaseVal s (SPM_Release m)\<rparr>"

definition statusFoot :: "memory \<Rightarrow> statusMem \<Rightarrow> addr set" where
  "statusFoot s m =
    ptrFoot int32T noFoot s (STM_CandidateCost m)
      \<union> (ptrFoot int32T noFoot s (STM_CandidateSlack m)
      \<union> (ptrFoot timeT noFoot s (STM_SyncStartedAt m)
      \<union> (ptrFoot int32T noFoot s (STM_BatteryPercent m)
      \<union> (ptrFoot int32T noFoot s (STM_Voltage m)
      \<union> (ptrFoot int32T noFoot s (STM_DeltaPercent m)
      \<union> (ptrFoot int32T noFoot s (STM_DeltaWindow m)
      \<union> (ptrFoot timeT noFoot s (STM_TelemetryTime m)
      \<union> (ptrFoot timeT noFoot s (STM_CommandTime m)
      \<union> (ptrFoot timeT noFoot s (STM_StageTime m)
      \<union> (ptrFoot timeT noFoot s (STM_SimulationTime m)
      \<union> (sliceFoot conditionsT noFoot s (STM_Conditions m))))))))))))"

definition statusVal :: "memory \<Rightarrow> statusMem \<Rightarrow> wasmFunctionStatus" where
  "statusVal s m =
    (STM_Data m)\<lparr>PredictedCandidateCostMs := ptrVal int32T plain s (STM_CandidateCost m),
      PredictedCandidateSlackMs := ptrVal int32T plain s (STM_CandidateSlack m),
      ArtifactSyncStartedAt := ptrVal timeT plain s (STM_SyncStartedAt m),
      ObservedBatteryPercent := ptrVal int32T plain s (STM_BatteryPercent m),
      ObservedVoltageMillivolts := ptrVal int32T plain s (STM_Voltage m),
      ObservedBatteryDeltaPercent := ptrVal int32T plain s (STM_DeltaPercent m),
      ObservedBatteryDeltaWindowSeconds := ptrVal int32T plain s (STM_DeltaWindow m),
      LastTelemetryTime := ptrVal timeT plain s (STM_TelemetryTime m),
      LastCommandTime := ptrVal timeT plain s (STM_CommandTime m),
      LastStageCommandTime := ptrVal timeT plain s (STM_StageTime m),
      LastBatterySimulationCommandTime := ptrVal timeT plain s (STM_SimulationTime m),
      Conditions := listOf (sliceVal conditionsT plain s (STM_Conditions m))\<rparr>"

definition metaFoot :: "memory \<Rightarrow> objectMetaMem \<Rightarrow> addr set" where
  "metaFoot s m = sliceFoot textsT noFoot s (OM_Others m)"

definition metaVal :: "memory \<Rightarrow> objectMetaMem \<Rightarrow> string \<times> string \<times> int64 \<times> string list option" where
  "metaVal s m = (OM_Name m, OM_Namespace m, OM_Generation m, sliceVal textsT plain s (OM_Others m))"

definition listMetaFoot :: "memory \<Rightarrow> listMetaMem \<Rightarrow> addr set" where
  "listMetaFoot s m = sliceFoot textsT noFoot s (LM_Others m)"

definition listMetaVal :: "memory \<Rightarrow> listMetaMem \<Rightarrow> string \<times> string list option" where
  "listMetaVal s m = (LM_ResourceVersion m, sliceVal textsT plain s (LM_Others m))"

definition functionFoot :: "memory \<Rightarrow> functionMem \<Rightarrow> addr set" where
  "functionFoot s m =
    metaFoot s (FN_ObjectMeta m) \<union> (specFoot s (FN_Spec m) \<union> statusFoot s (FN_Status m))"

text \<open>The resource, with its \<open>TypeMeta\<close> and the other metadata.\<close>

definition functionVal :: "memory \<Rightarrow> functionMem \<Rightarrow> wasmFunction \<times> typeMeta \<times> string list option" where
  "functionVal s m =
    (case metaVal s (FN_ObjectMeta m) of (name, namespace, generation, others) \<Rightarrow>
      (\<lparr>M_Name = name, M_Namespace = namespace, M_Generation = generation,
         Spec = specVal s (FN_Spec m), Status = statusVal s (FN_Status m)\<rparr>, FN_TypeMeta m, others))"

definition listFoot :: "memory \<Rightarrow> listMem \<Rightarrow> addr set" where
  "listFoot s m = listMetaFoot s (LS_ListMeta m) \<union> sliceFoot itemsT functionFoot s (LS_Items m)"

definition listVal where
  "listVal s m = (LS_TypeMeta m, listMetaVal s (LS_ListMeta m), sliceVal itemsT functionVal s (LS_Items m))"

lemmas foot_defs = batteryDeltaFoot_def batterySimulationFoot_def batteryThresholdFoot_def deadlineFoot_def deviceFoot_def placementFoot_def
  resourceInputFoot_def resourceContractFoot_def releaseFoot_def specFoot_def statusFoot_def
  metaFoot_def functionFoot_def ptrFoot_def sliceFoot_def noFoot_def

section \<open>Every generated copy is deep\<close>

text \<open>The documented contract of the \<open>metav1\<close> copies.\<close>

definition metav1_deep :: "metav1 \<Rightarrow> bool" where
  "metav1_deep lib \<longleftrightarrow>
     deep_copy (TimeDeepCopy lib) (ptrFoot timeT noFoot) (ptrVal timeT plain) \<and>
     deep_copy (ConditionDeepCopyInto lib) noFoot plain \<and>
     deep_copy (ObjectMetaDeepCopyInto lib) metaFoot metaVal \<and>
     deep_copy (ListMetaDeepCopyInto lib) listMetaFoot listMetaVal"

lemma deep_batteryDelta: "deep_copy BatteryDeltaPolicySpec_DeepCopyInto batteryDeltaFoot batteryDeltaVal"
  by (rule deep_copy_struct [where
      proj = "(\<lambda>m. BDM_Enabled m)" and
      put = "(\<lambda>x1 m. m\<lparr>BDM_Enabled := x1\<rparr>)" and
      h = "(\<lambda>m x1. (BDM_Data m)\<lparr>BD_Enabled := x1\<rparr>)",
      OF deep_copy_ptr [OF go_boolT.go_type_axioms]])
    (simp_all add: BatteryDeltaPolicySpec_DeepCopyInto_def copyStruct_def copyBoth_def batteryDeltaFoot_def bothFoot_def batteryDeltaVal_def
      bothVal_def Let_def split: prod.split)

lemma deep_batterySimulation: "deep_copy BatterySimulationSpec_DeepCopyInto batterySimulationFoot batterySimulationVal"
  by (rule deep_copy_struct [where
      proj = "(\<lambda>m. (BSM_Enabled m, BSM_LocalDrain m, BSM_EdgeRecover m))" and
      put = "(\<lambda>(x1, x2, x3) m. m\<lparr>BSM_Enabled := x1, BSM_LocalDrain := x2,
        BSM_EdgeRecover := x3\<rparr>)" and
      h = "(\<lambda>m (x1, x2, x3). (BSM_Data m)\<lparr>BS_Enabled := x1,
        LocalDrainPercent := x2, EdgeRecoverPercent := x3\<rparr>)",
      OF deep_copy_both [OF deep_copy_ptr [OF go_boolT.go_type_axioms] deep_copy_both [OF deep_copy_ptr [OF
        go_int32T.go_type_axioms] deep_copy_ptr [OF go_int32T.go_type_axioms]]]])
    (simp_all add: BatterySimulationSpec_DeepCopyInto_def copyStruct_def copyBoth_def batterySimulationFoot_def bothFoot_def batterySimulationVal_def
      bothVal_def Let_def split: prod.split)

lemma deep_batteryThreshold: "deep_copy BatteryThresholdPolicySpec_DeepCopyInto batteryThresholdFoot batteryThresholdVal"
  by (rule deep_copy_struct [where
      proj = "(\<lambda>m. BTM_Enabled m)" and
      put = "(\<lambda>x1 m. m\<lparr>BTM_Enabled := x1\<rparr>)" and
      h = "(\<lambda>m x1. (BTM_Data m)\<lparr>BT_Enabled := x1\<rparr>)",
      OF deep_copy_ptr [OF go_boolT.go_type_axioms]])
    (simp_all add: BatteryThresholdPolicySpec_DeepCopyInto_def copyStruct_def copyBoth_def batteryThresholdFoot_def bothFoot_def batteryThresholdVal_def
      bothVal_def Let_def split: prod.split)

lemma deep_deadline: "deep_copy DeadlinePolicySpec_DeepCopyInto deadlineFoot deadlineVal"
  by (rule deep_copy_struct [where
      proj = "(\<lambda>m. (DPM_Enabled m, DPM_TargetMs m))" and
      put = "(\<lambda>(x1, x2) m. m\<lparr>DPM_Enabled := x1, DPM_TargetMs := x2\<rparr>)" and
      h = "(\<lambda>m (x1, x2). (DPM_Data m)\<lparr>DP_Enabled := x1, TargetMs := x2\<rparr>)",
      OF deep_copy_both [OF deep_copy_ptr [OF go_boolT.go_type_axioms] deep_copy_ptr [OF go_int32T.go_type_axioms]]])
    (simp_all add: DeadlinePolicySpec_DeepCopyInto_def copyStruct_def copyBoth_def deadlineFoot_def bothFoot_def deadlineVal_def
      bothVal_def Let_def split: prod.split)

lemma deep_device: "deep_copy DeviceSpec_DeepCopyInto deviceFoot deviceVal"
  by (rule deep_copy_struct [where
      proj = "(\<lambda>m. DVM_BatterySimulation m)" and
      put = "(\<lambda>x1 m. m\<lparr>DVM_BatterySimulation := x1\<rparr>)" and
      h = "(\<lambda>m x1. (DVM_Data m)\<lparr>BatterySimulation := x1\<rparr>)",
      OF deep_batterySimulation])
    (simp_all add: DeviceSpec_DeepCopyInto_def copyStruct_def copyBoth_def deviceFoot_def bothFoot_def deviceVal_def
      bothVal_def Let_def split: prod.split)

lemma deep_placement: "deep_copy PlacementSpec_DeepCopyInto placementFoot placementVal"
  by (rule deep_copy_struct [where
      proj = "(\<lambda>m. (PLM_BatteryPercent m, PLM_BatteryThreshold m, PLM_Deadline m,
        PLM_BatteryDelta m))" and
      put = "(\<lambda>(x1, x2, x3, x4) m. m\<lparr>PLM_BatteryPercent := x1,
        PLM_BatteryThreshold := x2, PLM_Deadline := x3, PLM_BatteryDelta := x4\<rparr>)" and
      h = "(\<lambda>m (x1, x2, x3, x4). (PLM_Data m)\<lparr>P_BatteryPercent := x1,
        BatteryThreshold := x2, Deadline := x3, BatteryDelta := x4\<rparr>)",
      OF deep_copy_both [OF deep_copy_ptr [OF go_int32T.go_type_axioms] deep_copy_both [OF
        deep_batteryThreshold deep_copy_both [OF deep_deadline deep_batteryDelta]]]])
    (simp_all add: PlacementSpec_DeepCopyInto_def copyStruct_def copyBoth_def placementFoot_def bothFoot_def placementVal_def
      bothVal_def Let_def split: prod.split)

lemma deep_resourceInput: "deep_copy ResourceInputSpec_DeepCopyInto resourceInputFoot resourceInputVal"
  by (rule deep_copy_struct [where
      proj = "(\<lambda>m. RIM_Keys m)" and
      put = "(\<lambda>x1 m. m\<lparr>RIM_Keys := x1\<rparr>)" and
      h = "(\<lambda>m x1. (RIM_Data m)\<lparr>RI_Keys := listOf x1\<rparr>)",
      OF deep_copy_slice [OF go_keysT.go_type_axioms, of zeroKey]])
    (simp_all add: ResourceInputSpec_DeepCopyInto_def copyStruct_def copyBoth_def resourceInputFoot_def bothFoot_def resourceInputVal_def
      bothVal_def Let_def split: prod.split)

lemma deep_resourceContract: "deep_copy ResourceContractSpec_DeepCopyInto resourceContractFoot resourceContractVal"
  by (rule deep_copy_struct [where
      proj = "(\<lambda>m. (RCM_Inputs m, RCM_Outputs m))" and
      put = "(\<lambda>(x1, x2) m. m\<lparr>RCM_Inputs := x1, RCM_Outputs := x2\<rparr>)" and
      h = "(\<lambda>m (x1, x2). (RCM_Data m)\<lparr>Inputs := listOf x1,
        Outputs := listOf x2\<rparr>)",
      OF deep_copy_both [OF deep_copy_each [OF go_inputsT.go_type_axioms deep_resourceInput, of zeroInputMem]
        deep_copy_slice [OF go_outputsT.go_type_axioms, of zeroOutput]]])
    (simp_all add: ResourceContractSpec_DeepCopyInto_def copyStruct_def copyBoth_def resourceContractFoot_def bothFoot_def resourceContractVal_def
      bothVal_def Let_def split: prod.split)

lemma deep_release: "deep_copy ReleaseSpec_DeepCopyInto releaseFoot releaseVal"
  by (rule deep_copy_struct [where
      proj = "(\<lambda>m. RLM_Contract m)" and
      put = "(\<lambda>x1 m. m\<lparr>RLM_Contract := x1\<rparr>)" and
      h = "(\<lambda>m x1. (RLM_Data m)\<lparr>ResourceContract := x1\<rparr>)",
      OF deep_resourceContract])
    (simp_all add: ReleaseSpec_DeepCopyInto_def copyStruct_def copyBoth_def releaseFoot_def bothFoot_def releaseVal_def
      bothVal_def Let_def split: prod.split)

lemma deep_spec: "deep_copy WasmFunctionSpec_DeepCopyInto specFoot specVal"
  by (rule deep_copy_struct [where
      proj = "(\<lambda>m. (SPM_Replicas m, SPM_Env m, SPM_Device m, SPM_Placement m,
        SPM_Release m))" and
      put = "(\<lambda>(x1, x2, x3, x4, x5) m. m\<lparr>SPM_Replicas := x1, SPM_Env := x2,
        SPM_Device := x3, SPM_Placement := x4, SPM_Release := x5\<rparr>)" and
      h = "(\<lambda>m (x1, x2, x3, x4, x5). (SPM_Data m)\<lparr>Replicas := x1,
        Env := listOf x2, Device := x3, Placement := x4, Release := x5\<rparr>)",
      OF deep_copy_both [OF deep_copy_ptr [OF go_int32T.go_type_axioms] deep_copy_both [OF deep_copy_slice [OF
        go_envT.go_type_axioms, of zeroEnv] deep_copy_both [OF deep_device deep_copy_both [OF deep_placement
        deep_release]]]]])
    (simp_all add: WasmFunctionSpec_DeepCopyInto_def copyStruct_def copyBoth_def specFoot_def bothFoot_def specVal_def
      bothVal_def Let_def split: prod.split)

lemma deep_status:
  assumes "metav1_deep lib"
  shows "deep_copy (WasmFunctionStatus_DeepCopyInto lib) statusFoot statusVal"
proof -
  have time: "deep_copy (TimeDeepCopy lib) (ptrFoot timeT noFoot) (ptrVal timeT plain)"
    and cond: "deep_copy (ConditionDeepCopyInto lib) noFoot plain"
    using assms by (simp_all add: metav1_deep_def)
  show ?thesis
    by (rule deep_copy_struct [where
        proj = "(\<lambda>m. (STM_CandidateCost m, STM_CandidateSlack m, STM_SyncStartedAt m,
          STM_BatteryPercent m, STM_Voltage m, STM_DeltaPercent m, STM_DeltaWindow m,
          STM_TelemetryTime m, STM_CommandTime m, STM_StageTime m, STM_SimulationTime m,
          STM_Conditions m))" and
        put = "(\<lambda>(x1, x2, x3, x4, x5, x6, x7, x8, x9, x10, x11,
          x12) m. m\<lparr>STM_CandidateCost := x1, STM_CandidateSlack := x2,
          STM_SyncStartedAt := x3, STM_BatteryPercent := x4, STM_Voltage := x5,
          STM_DeltaPercent := x6, STM_DeltaWindow := x7, STM_TelemetryTime := x8,
          STM_CommandTime := x9, STM_StageTime := x10, STM_SimulationTime := x11,
          STM_Conditions := x12\<rparr>)" and
        h = "(\<lambda>m (x1, x2, x3, x4, x5, x6, x7, x8, x9, x10, x11,
          x12). (STM_Data m)\<lparr>PredictedCandidateCostMs := x1,
          PredictedCandidateSlackMs := x2, ArtifactSyncStartedAt := x3,
          ObservedBatteryPercent := x4, ObservedVoltageMillivolts := x5,
          ObservedBatteryDeltaPercent := x6, ObservedBatteryDeltaWindowSeconds := x7,
          LastTelemetryTime := x8, LastCommandTime := x9, LastStageCommandTime := x10,
          LastBatterySimulationCommandTime := x11, Conditions := listOf x12\<rparr>)",
        OF deep_copy_both [OF deep_copy_ptr [OF go_int32T.go_type_axioms] deep_copy_both [OF deep_copy_ptr [OF
          go_int32T.go_type_axioms] deep_copy_both [OF time deep_copy_both [OF deep_copy_ptr [OF go_int32T.go_type_axioms]
          deep_copy_both [OF deep_copy_ptr [OF go_int32T.go_type_axioms] deep_copy_both [OF deep_copy_ptr [OF
          go_int32T.go_type_axioms] deep_copy_both [OF deep_copy_ptr [OF go_int32T.go_type_axioms] deep_copy_both [OF time
          deep_copy_both [OF time deep_copy_both [OF time deep_copy_both [OF time deep_copy_each
          [OF go_conditionsT.go_type_axioms cond, of zeroCondition]]]]]]]]]]]]])
      (simp_all add: WasmFunctionStatus_DeepCopyInto_def copyStruct_def copyBoth_def statusFoot_def bothFoot_def statusVal_def
        bothVal_def Let_def split: prod.split)
qed

lemma deep_function:
  assumes "metav1_deep lib"
  shows "deep_copy (WasmFunction_DeepCopyInto lib) functionFoot functionVal"
proof -
  have meta: "deep_copy (ObjectMetaDeepCopyInto lib) metaFoot metaVal"
    using assms by (simp add: metav1_deep_def)
  show ?thesis
    by (rule deep_copy_struct [where
        proj = "(\<lambda>m. (FN_ObjectMeta m, FN_Spec m, FN_Status m))" and
        put = "(\<lambda>(x1, x2, x3) m. m\<lparr>FN_ObjectMeta := x1, FN_Spec := x2, FN_Status := x3\<rparr>)" and
        h = "(\<lambda>m ((name, namespace, generation, others), spec, status).
          (\<lparr>M_Name = name, M_Namespace = namespace, M_Generation = generation, Spec = spec,
             Status = status\<rparr>, FN_TypeMeta m, others))",
        OF deep_copy_both [OF meta deep_copy_both [OF deep_spec deep_status [OF assms]]]])
      (simp_all add: WasmFunction_DeepCopyInto_def copyStruct_def copyBoth_def functionFoot_def
        bothFoot_def functionVal_def bothVal_def Let_def split: prod.split)
qed

lemma deep_list:
  assumes "metav1_deep lib"
  shows "deep_copy (WasmFunctionList_DeepCopyInto lib) listFoot listVal"
proof -
  have meta: "deep_copy (ListMetaDeepCopyInto lib) listMetaFoot listMetaVal"
    using assms by (simp add: metav1_deep_def)
  show ?thesis
    by (rule deep_copy_struct [where
        proj = "(\<lambda>m. (LS_ListMeta m, LS_Items m))" and
        put = "(\<lambda>(x1, x2) m. m\<lparr>LS_ListMeta := x1, LS_Items := x2\<rparr>)" and
        h = "(\<lambda>m (x1, x2). (LS_TypeMeta m, x1, x2))",
        OF deep_copy_both [OF meta deep_copy_each [OF go_itemsT.go_type_axioms deep_function [OF assms], of zeroFunctionMem]]])
      (simp_all add: WasmFunctionList_DeepCopyInto_def copyStruct_def copyBoth_def listFoot_def
        bothFoot_def listVal_def bothVal_def Let_def split: prod.split)
qed

lemmas deep_structs = deep_batteryDelta deep_batterySimulation deep_batteryThreshold deep_deadline
  deep_device deep_placement deep_resourceInput deep_resourceContract deep_release deep_spec

lemmas deep_copy_defs = EnvVar_DeepCopy_def DeadlineEstimatorSpec_DeepCopy_def
  ResourceInputKeySpec_DeepCopy_def ResourceOutputSpec_DeepCopy_def BatteryDeltaPolicySpec_DeepCopy_def
  BatterySimulationSpec_DeepCopy_def BatteryThresholdPolicySpec_DeepCopy_def
  DeadlinePolicySpec_DeepCopy_def DeviceSpec_DeepCopy_def PlacementSpec_DeepCopy_def
  ResourceInputSpec_DeepCopy_def ResourceContractSpec_DeepCopy_def ReleaseSpec_DeepCopy_def
  WasmFunctionSpec_DeepCopy_def WasmFunctionStatus_DeepCopy_def WasmFunction_DeepCopy_def
  WasmFunctionList_DeepCopy_def

lemma deep_copy_flat_struct: "go_type T \<Longrightarrow> (\<And>x s. c x s = (x, s)) \<Longrightarrow>
    deep_copy (deepCopy T c) (ptrFoot T noFoot) (ptrVal T plain)"
  by (rule deep_copy_new) (simp_all add: deep_copy_def flat_defs)

lemma deep_pointers:
  shows "deep_copy EnvVar_DeepCopy (ptrFoot envVarT noFoot) (ptrVal envVarT plain)"
    "deep_copy DeadlineEstimatorSpec_DeepCopy (ptrFoot estimatorT noFoot) (ptrVal estimatorT plain)"
    "deep_copy ResourceInputKeySpec_DeepCopy (ptrFoot keyT noFoot) (ptrVal keyT plain)"
    "deep_copy ResourceOutputSpec_DeepCopy (ptrFoot outputT noFoot) (ptrVal outputT plain)"
    "deep_copy BatteryDeltaPolicySpec_DeepCopy (ptrFoot batteryDeltaT batteryDeltaFoot) (ptrVal batteryDeltaT batteryDeltaVal)"
    "deep_copy BatterySimulationSpec_DeepCopy (ptrFoot batterySimulationT batterySimulationFoot) (ptrVal batterySimulationT batterySimulationVal)"
    "deep_copy BatteryThresholdPolicySpec_DeepCopy (ptrFoot batteryThresholdT batteryThresholdFoot) (ptrVal batteryThresholdT batteryThresholdVal)"
    "deep_copy DeadlinePolicySpec_DeepCopy (ptrFoot deadlineT deadlineFoot) (ptrVal deadlineT deadlineVal)"
    "deep_copy DeviceSpec_DeepCopy (ptrFoot deviceT deviceFoot) (ptrVal deviceT deviceVal)"
    "deep_copy PlacementSpec_DeepCopy (ptrFoot placementT placementFoot) (ptrVal placementT placementVal)"
    "deep_copy ResourceInputSpec_DeepCopy (ptrFoot resourceInputT resourceInputFoot) (ptrVal resourceInputT resourceInputVal)"
    "deep_copy ResourceContractSpec_DeepCopy (ptrFoot resourceContractT resourceContractFoot) (ptrVal resourceContractT resourceContractVal)"
    "deep_copy ReleaseSpec_DeepCopy (ptrFoot releaseT releaseFoot) (ptrVal releaseT releaseVal)"
    "deep_copy WasmFunctionSpec_DeepCopy (ptrFoot specT specFoot) (ptrVal specT specVal)"
  unfolding deep_copy_defs
  by (rule deep_copy_new go_batteryDeltaT.go_type_axioms go_batterySimulationT.go_type_axioms go_batteryThresholdT.go_type_axioms go_deadlineT.go_type_axioms
      go_deviceT.go_type_axioms go_placementT.go_type_axioms go_resourceInputT.go_type_axioms go_resourceContractT.go_type_axioms go_releaseT.go_type_axioms go_specT.go_type_axioms deep_structs
      deep_copy_flat_struct go_envVarT.go_type_axioms go_estimatorT.go_type_axioms go_keyT.go_type_axioms go_outputT.go_type_axioms EnvVar_DeepCopyInto_def
      DeadlineEstimatorSpec_DeepCopyInto_def ResourceInputKeySpec_DeepCopyInto_def
      ResourceOutputSpec_DeepCopyInto_def)+

lemma deep_lib_pointers:
  assumes "metav1_deep lib"
  shows "deep_copy (WasmFunctionStatus_DeepCopy lib) (ptrFoot statusT statusFoot) (ptrVal statusT statusVal)"
    "deep_copy (WasmFunction_DeepCopy lib) (ptrFoot functionT functionFoot) (ptrVal functionT functionVal)"
    "deep_copy (WasmFunctionList_DeepCopy lib) (ptrFoot listT listFoot) (ptrVal listT listVal)"
  unfolding deep_copy_defs
  by (rule deep_copy_new go_statusT.go_type_axioms go_functionT.go_type_axioms go_listT.go_type_axioms deep_status deep_function deep_list assms)+

section \<open>The copy and the original\<close>

definition reach :: "memory \<Rightarrow> addr \<Rightarrow> addr set" where
  "reach s a = insert a (functionFoot s (readCell functionT s a))"

definition resourceAt :: "memory \<Rightarrow> addr \<Rightarrow> wasmFunction \<times> typeMeta \<times> string list option" where
  "resourceAt s a = functionVal s (readCell functionT s a)"

text \<open>From \<open>s\<close> to \<open>t\<close> the program writes, of the memory allocated in \<open>s\<close>, only to \<open>A\<close>.\<close>

definition writes_only :: "addr set \<Rightarrow> memory \<Rightarrow> memory \<Rightarrow> bool" where
  "writes_only A s t \<longleftrightarrow> agree_on ({..<Next s} - A) s t"

lemma copied_resource:
  assumes "metav1_deep lib" "reach s a \<subseteq> {..<Next s}" "WasmFunction_DeepCopy lib (Some a) s = (q, t)"
  obtains b where "q = Some b" "reach t a \<inter> reach t b = {}" "resourceAt t b = resourceAt s a"
    "\<And>u. writes_only (reach t b) t u \<Longrightarrow> resourceAt u a = resourceAt s a"
    "\<And>u. writes_only (reach t a) t u \<Longrightarrow> resourceAt u b = resourceAt s a"
proof -
  obtain b where b: "q = Some b"
    using assms(3) by (auto simp: WasmFunction_DeepCopy_def deepCopy_def split: prod.splits)
  have foot: "ptrFoot functionT functionFoot s (Some x) = reach s x" for s x
    by (simp add: ptrFoot_def reach_def)
  have val: "ptrVal functionT functionVal s (Some x) = Some (resourceAt s x)" for s x
    by (simp add: ptrVal_def resourceAt_def)
  note separate = deep_copy.separate [OF deep_lib_pointers(2) [OF assms(1)], where x = "Some a" and y = "Some b",
      unfolded foot val option.inject, folded writes_only_def, OF assms(2) assms(3) [unfolded b]]
  show thesis
    by (rule that [OF b separate(1,5,2,3)])
qed

section \<open>A copy of the \<open>metav1\<close> types\<close>

text \<open>An implementation of the parameter, on which the witnesses run.\<close>

definition plainMetav1 :: metav1 where
  "plainMetav1 =
    \<lparr>TimeDeepCopy = copyPtr timeT,
     ConditionDeepCopyInto = (\<lambda>x s. (x, s)),
     ObjectMetaDeepCopyInto = (\<lambda>m s. let (x, t) = copyFlat textsT [] (OM_Others m) s in (m\<lparr>OM_Others := x\<rparr>, t)),
     ListMetaDeepCopyInto = (\<lambda>m s. let (x, t) = copyFlat textsT [] (LM_Others m) s in (m\<lparr>LM_Others := x\<rparr>, t))\<rparr>"

lemma plainMetav1_deep: "metav1_deep plainMetav1"
proof -
  have "deep_copy (ObjectMetaDeepCopyInto plainMetav1) metaFoot metaVal"
    by (rule deep_copy_struct [where proj = OM_Others and put = "\<lambda>x m. m\<lparr>OM_Others := x\<rparr>" and
          h = "\<lambda>m x. (OM_Name m, OM_Namespace m, OM_Generation m, x)",
          OF deep_copy_slice [OF go_textsT.go_type_axioms, of "[]"]])
      (simp_all add: plainMetav1_def copyStruct_def metaFoot_def metaVal_def)
  moreover have "deep_copy (ListMetaDeepCopyInto plainMetav1) listMetaFoot listMetaVal"
    by (rule deep_copy_struct [where proj = LM_Others and put = "\<lambda>x m. m\<lparr>LM_Others := x\<rparr>" and
          h = "\<lambda>m x. (LM_ResourceVersion m, x)", OF deep_copy_slice [OF go_textsT.go_type_axioms, of "[]"]])
      (simp_all add: plainMetav1_def copyStruct_def listMetaFoot_def listMetaVal_def)
  ultimately show ?thesis
    using deep_copy_ptr [OF go_timeT.go_type_axioms] deep_copy_flat
    by (simp add: metav1_deep_def plainMetav1_def)
qed

text \<open>A resource at address 0, with an observed battery value and one environment variable.\<close>

definition sampleMemory :: memory where
  "sampleMemory =
    \<lparr>Cells = [0 \<mapsto> FunctionCell (zeroFunctionMem
         \<lparr>FN_Spec := zeroSpecMem\<lparr>SPM_Env := Some \<lparr>SL_Array = 2, SL_Off = 0, SL_Len = 1\<rparr>\<rparr>,
          FN_Status := zeroStatusMem\<lparr>STM_BatteryPercent := Some 1\<rparr>\<rparr>),
       1 \<mapsto> Int32Cell 55, 2 \<mapsto> EnvCell [\<lparr>EV_Name = ''A'', EV_Value = ''1''\<rparr>]],
     Next = 3\<rparr>"

lemma sampleMemory_allocated: "reach sampleMemory 0 \<subseteq> {..<Next sampleMemory}"
  by (simp add: reach_def sampleMemory_def readCell_def goType_defs zeroMem_defs foot_defs)

section \<open>Properties\<close>

text \<open>C9: A copied resource is independent of the original.  Where the copies of the \<open>metav1\<close> types keep their
  contract, \<open>DeepCopy\<close> of an allocated resource returns a new resource that holds the same value and
  shares no memory with the first: whatever is written to the memory of either, or to memory allocated
  later, the other keeps its value.  This is what the telemetry bridge relies on when it takes the base
  of its merge patch before it changes the status.\<close>

theorem resource_copy_is_independent:
  assumes "metav1_deep lib" "reach s a \<subseteq> {..<Next s}"
    and "WasmFunction_DeepCopy lib (Some a) s = (q, t)"
  shows "\<exists>b. q = Some b \<and> reach t a \<inter> reach t b = {} \<and> resourceAt t b = resourceAt s a \<and>
    (\<forall>u. writes_only (reach t b) t u \<longrightarrow> resourceAt u a = resourceAt s a) \<and>
    (\<forall>u. writes_only (reach t a) t u \<longrightarrow> resourceAt u b = resourceAt s a)"
  by (rule copied_resource [OF assms]) blast

theorem resource_copy_is_independent_witness:
  "\<exists>b t. WasmFunction_DeepCopy plainMetav1 (Some 0) sampleMemory = (Some b, t) \<and>
     ObservedBatteryPercent (Status (fst (resourceAt t b))) = Some 55 \<and> reach t 0 \<inter> reach t b = {}"
proof -
  have same: "ObservedBatteryPercent (Status (fst (resourceAt sampleMemory 0))) = Some 55"
    by (simp add: resourceAt_def sampleMemory_def readCell_def goType_defs functionVal_def metaVal_def
        zeroFunctionMem_def statusVal_def ptrVal_def plain_def)
  obtain q t where run: "WasmFunction_DeepCopy plainMetav1 (Some 0) sampleMemory = (q, t)" by fastforce
  from resource_copy_is_independent [OF plainMetav1_deep sampleMemory_allocated run] same run
  show ?thesis by auto
qed

text \<open>C35: Every generated copy is deep.  Each \<open>DeepCopy\<close> method of the package returns nil for nil and else a
  pointer into memory that the call allocated, all of it; what it stands for equals what the original
  stands for, and what was allocated before is as it was.\<close>

theorem generated_copies_are_deep:
  assumes "metav1_deep lib"
  shows "deep_copy EnvVar_DeepCopy (ptrFoot envVarT noFoot) (ptrVal envVarT plain) \<and>
    deep_copy DeadlineEstimatorSpec_DeepCopy (ptrFoot estimatorT noFoot) (ptrVal estimatorT plain) \<and>
    deep_copy ResourceInputKeySpec_DeepCopy (ptrFoot keyT noFoot) (ptrVal keyT plain) \<and>
    deep_copy ResourceOutputSpec_DeepCopy (ptrFoot outputT noFoot) (ptrVal outputT plain) \<and>
    deep_copy BatteryDeltaPolicySpec_DeepCopy (ptrFoot batteryDeltaT batteryDeltaFoot) (ptrVal batteryDeltaT batteryDeltaVal) \<and>
    deep_copy BatterySimulationSpec_DeepCopy (ptrFoot batterySimulationT batterySimulationFoot)
      (ptrVal batterySimulationT batterySimulationVal) \<and>
    deep_copy BatteryThresholdPolicySpec_DeepCopy (ptrFoot batteryThresholdT batteryThresholdFoot)
      (ptrVal batteryThresholdT batteryThresholdVal) \<and>
    deep_copy DeadlinePolicySpec_DeepCopy (ptrFoot deadlineT deadlineFoot) (ptrVal deadlineT deadlineVal) \<and>
    deep_copy DeviceSpec_DeepCopy (ptrFoot deviceT deviceFoot) (ptrVal deviceT deviceVal) \<and>
    deep_copy PlacementSpec_DeepCopy (ptrFoot placementT placementFoot) (ptrVal placementT placementVal) \<and>
    deep_copy ResourceInputSpec_DeepCopy (ptrFoot resourceInputT resourceInputFoot) (ptrVal resourceInputT resourceInputVal) \<and>
    deep_copy ResourceContractSpec_DeepCopy (ptrFoot resourceContractT resourceContractFoot)
      (ptrVal resourceContractT resourceContractVal) \<and>
    deep_copy ReleaseSpec_DeepCopy (ptrFoot releaseT releaseFoot) (ptrVal releaseT releaseVal) \<and>
    deep_copy WasmFunctionSpec_DeepCopy (ptrFoot specT specFoot) (ptrVal specT specVal) \<and>
    deep_copy (WasmFunctionStatus_DeepCopy lib) (ptrFoot statusT statusFoot) (ptrVal statusT statusVal) \<and>
    deep_copy (WasmFunction_DeepCopy lib) (ptrFoot functionT functionFoot) (ptrVal functionT functionVal) \<and>
    deep_copy (WasmFunctionList_DeepCopy lib) (ptrFoot listT listFoot) (ptrVal listT listVal)"
  by (intro conjI deep_pointers deep_lib_pointers [OF assms])

theorem generated_copies_are_deep_witness:
  "deep_copy (WasmFunctionList_DeepCopy plainMetav1) (ptrFoot listT listFoot) (ptrVal listT listVal)"
  by (simp only: generated_copies_are_deep [OF plainMetav1_deep])

text \<open>A pointer of the status is replaced, never written through.  \<open>updateInt32Ptr\<close> leaves everything that is
  allocated as it was; the pointer it returns stands for the new value when there is one and for the old
  one otherwise, and it reports a change exactly when the two differ.\<close>

theorem pointer_update_exact:
  assumes "updateInt32Ptr dst src s = ((changed, p), t)"
  shows "writes_only {} s t \<and>
    ptrVal int32T plain t p = (if src = None then ptrVal int32T plain s dst else ptrVal int32T plain s src) \<and>
    (changed \<longleftrightarrow> ptrVal int32T plain t p \<noteq> ptrVal int32T plain s dst)"
proof (cases src)
  case None
  then show ?thesis using assms by (auto simp: updateInt32Ptr_def writes_only_def agree_on_def)
next
  case (Some a)
  define x where "x = readCell int32T s a"
  define s1 where "s1 = snd (newCell int32T x s)"
  have new: "newCell int32T x s = (Next s, s1)" by (simp add: s1_def prod_eq_iff)
  have "readCell int32T s1 (Next s) = x" by (simp add: s1_def)
  moreover have "writes_only {} s s1" by (auto simp: writes_only_def agree_on_def s1_def)
  moreover have "writes_only {} s s" by (simp add: writes_only_def agree_on_def)
  ultimately show ?thesis
    using assms Some new unfolding updateInt32Ptr_def
    by (cases dst) (auto simp: Let_def ptrVal_def plain_def simp flip: x_def split: if_splits)
qed

theorem pointer_update_exact_witness:
  "\<exists>p t. updateInt32Ptr None (Some 1) sampleMemory = ((True, p), t) \<and> ptrVal int32T plain t p = Some 55"
proof -
  have x: "readCell int32T sampleMemory 1 = 55"
    by (simp add: readCell_def sampleMemory_def goType_defs)
  obtain c p t where run: "updateInt32Ptr None (Some 1) sampleMemory = ((c, p), t)"
    by (metis prod.collapse)
  from pointer_update_exact [OF run] x run show ?thesis by (auto simp: ptrVal_def plain_def)
qed

end
