(* ===== verification/Operator_Main.thy ===== *)
theory Operator_Main
  imports Go_Text
begin

text \<open>
  The operator's process (\<open>cmd/main.go\<close>): its flags, as Go's package \<open>flag\<close> parses them, the options
  it makes of them, and the calls that set the manager up, in their order.  The scheme is that of
  \<open>api/v1alpha1/groupversion_info.go\<close>, the controller that of \<open>SetupWithManager\<close>.  Which flags the
  libraries register, what the client library puts into the scheme, and which set-up calls fail are
  parameters.
\<close>

section \<open>Flags\<close>

record operatorFlags =
  MetricsAddr :: string
  ProbeAddr :: string
  EnableLeaderElection :: bool
  SecureMetrics :: bool
  WebhookCertPath :: string
  WebhookCertName :: string
  WebhookCertKey :: string
  MetricsCertPath :: string
  MetricsCertName :: string
  MetricsCertKey :: string
  EnableHTTP2 :: bool

definition defaultFlags :: operatorFlags where
  "defaultFlags = \<lparr>MetricsAddr = ''0'', ProbeAddr = '':8081'', EnableLeaderElection = False,
     SecureMetrics = True, WebhookCertPath = [], WebhookCertName = ''tls.crt'', WebhookCertKey = ''tls.key'',
     MetricsCertPath = [], MetricsCertName = ''tls.crt'', MetricsCertKey = ''tls.key'', EnableHTTP2 = False\<rparr>"

text \<open>\<open>strconv.ParseBool\<close>.\<close>

definition parseBool :: "string \<Rightarrow> bool option" where
  "parseBool s =
    (if s \<in> set [''1'', ''t'', ''T'', ''true'', ''TRUE'', ''True''] then Some True
     else if s \<in> set [''0'', ''f'', ''F'', ''false'', ''FALSE'', ''False''] then Some False
     else None)"

text \<open>A registered flag: whether it is boolean, and its setter, which may refuse the value.\<close>

type_synonym flagDef = "bool \<times> (string \<Rightarrow> operatorFlags \<Rightarrow> operatorFlags option)"

definition stringVar :: "(string \<Rightarrow> operatorFlags \<Rightarrow> operatorFlags) \<Rightarrow> flagDef" where
  "stringVar f = (False, \<lambda>v fl. Some (f v fl))"

definition boolVar :: "(bool \<Rightarrow> operatorFlags \<Rightarrow> operatorFlags) \<Rightarrow> flagDef" where
  "boolVar f = (True, \<lambda>v fl. map_option (\<lambda>b. f b fl) (parseBool v))"

definition operatorFlagDefs :: "(string \<times> flagDef) list" where
  "operatorFlagDefs =
    [(''metrics-bind-address'', stringVar (\<lambda>v fl. fl\<lparr>MetricsAddr := v\<rparr>)),
     (''health-probe-bind-address'', stringVar (\<lambda>v fl. fl\<lparr>ProbeAddr := v\<rparr>)),
     (''leader-elect'', boolVar (\<lambda>b fl. fl\<lparr>EnableLeaderElection := b\<rparr>)),
     (''metrics-secure'', boolVar (\<lambda>b fl. fl\<lparr>SecureMetrics := b\<rparr>)),
     (''webhook-cert-path'', stringVar (\<lambda>v fl. fl\<lparr>WebhookCertPath := v\<rparr>)),
     (''webhook-cert-name'', stringVar (\<lambda>v fl. fl\<lparr>WebhookCertName := v\<rparr>)),
     (''webhook-cert-key'', stringVar (\<lambda>v fl. fl\<lparr>WebhookCertKey := v\<rparr>)),
     (''metrics-cert-path'', stringVar (\<lambda>v fl. fl\<lparr>MetricsCertPath := v\<rparr>)),
     (''metrics-cert-name'', stringVar (\<lambda>v fl. fl\<lparr>MetricsCertName := v\<rparr>)),
     (''metrics-cert-key'', stringVar (\<lambda>v fl. fl\<lparr>MetricsCertKey := v\<rparr>)),
     (''enable-http2'', boolVar (\<lambda>b fl. fl\<lparr>EnableHTTP2 := b\<rparr>))]"

text \<open>
  The flags that libraries register, such as those of \<open>zap.Options.BindFlags\<close>: whether a flag is
  boolean and which values it accepts.  They do not touch the variables of \<open>main\<close>.
\<close>

type_synonym libraryFlags = "string \<Rightarrow> (bool \<times> (string \<Rightarrow> bool)) option"

definition lookupFlag :: "libraryFlags \<Rightarrow> string \<Rightarrow> flagDef option" where
  "lookupFlag lib name =
    (case map_of operatorFlagDefs name of
       Some d \<Rightarrow> Some d
     | None \<Rightarrow> map_option (\<lambda>(isBool, accepts). (isBool, \<lambda>v fl. if accepts v then Some fl else None)) (lib name))"

text \<open>
  \<open>FlagSet.parseOne\<close> on one argument: it ends the flags, is malformed, or names a flag with or without
  a value.
\<close>

datatype flagArg = EndOfFlags | BadSyntax | Flag string "string option"

definition splitFlag :: "string \<Rightarrow> flagArg" where
  "splitFlag s =
    (if length s < 2 \<or> hd s \<noteq> CHR ''-'' then EndOfFlags
     else let name = (if s ! 1 = CHR ''-'' then drop 2 s else drop 1 s)
          in if s ! 1 = CHR ''-'' \<and> name = [] then EndOfFlags
             else if name = [] \<or> hd name = CHR ''-'' \<or> hd name = CHR ''='' then BadSyntax
             else (case dropWhile (\<lambda>c. c \<noteq> CHR ''='') name of
                     [] \<Rightarrow> Flag name None
                   | _ # v \<Rightarrow> Flag (takeWhile (\<lambda>c. c \<noteq> CHR ''='') name) (Some v)))"

text \<open>
  \<open>flag.Parse\<close> of the command line, which exits on an error: with status 0 when help was asked for and
  with status 2 otherwise.  Arguments after the flags are ignored.
\<close>

fun parseFlags :: "libraryFlags \<Rightarrow> string list \<Rightarrow> operatorFlags \<Rightarrow> nat + operatorFlags" where
  "parseFlags lib [] fl = Inr fl"
| "parseFlags lib (s # args) fl =
    (case splitFlag s of
       EndOfFlags \<Rightarrow> Inr fl
     | BadSyntax \<Rightarrow> Inl 2
     | Flag name v \<Rightarrow>
         (case lookupFlag lib name of
            None \<Rightarrow> Inl (if name = ''help'' \<or> name = ''h'' then 0 else 2)
          | Some (isBool, setter) \<Rightarrow>
              (case v of
                 Some x \<Rightarrow> (case setter x fl of None \<Rightarrow> Inl 2 | Some fl' \<Rightarrow> parseFlags lib args fl')
               | None \<Rightarrow>
                   if isBool then (case setter ''true'' fl of None \<Rightarrow> Inl 2 | Some fl' \<Rightarrow> parseFlags lib args fl')
                   else (case args of
                           [] \<Rightarrow> Inl 2
                         | x # rest \<Rightarrow> (case setter x fl of None \<Rightarrow> Inl 2 | Some fl' \<Rightarrow> parseFlags lib rest fl')))))"

section \<open>The options of the manager\<close>

text \<open>A TLS option changes a \<open>tls.Config\<close>, of which the program sets \<open>NextProtos\<close>.\<close>

record tlsConfig =
  NextProtos :: "string list"

definition disableHTTP2 :: "tlsConfig \<Rightarrow> tlsConfig" where
  "disableHTTP2 c = c\<lparr>NextProtos := [''http/1.1'']\<rparr>"

definition tlsOpts :: "operatorFlags \<Rightarrow> (tlsConfig \<Rightarrow> tlsConfig) list" where
  "tlsOpts fl = (if \<not> EnableHTTP2 fl then [disableHTTP2] else [])"

datatype filterProvider = NoFilter | WithAuthenticationAndAuthorization

record webhookOptions =
  WH_TLSOpts :: "(tlsConfig \<Rightarrow> tlsConfig) list"
  WH_CertDir :: string
  WH_CertName :: string
  WH_KeyName :: string

record metricsOptions =
  BindAddress :: string
  SecureServing :: bool
  MS_TLSOpts :: "(tlsConfig \<Rightarrow> tlsConfig) list"
  FilterProvider :: filterProvider
  MS_CertDir :: string
  MS_CertName :: string
  MS_KeyName :: string

definition webhookServerOptions :: "operatorFlags \<Rightarrow> webhookOptions" where
  "webhookServerOptions fl =
    (let opts = \<lparr>WH_TLSOpts = tlsOpts fl, WH_CertDir = [], WH_CertName = [], WH_KeyName = []\<rparr>
     in if length (WebhookCertPath fl) > 0
        then opts\<lparr>WH_CertDir := WebhookCertPath fl, WH_CertName := WebhookCertName fl, WH_KeyName := WebhookCertKey fl\<rparr>
        else opts)"

definition metricsServerOptions :: "operatorFlags \<Rightarrow> metricsOptions" where
  "metricsServerOptions fl =
    (let opts = \<lparr>BindAddress = MetricsAddr fl, SecureServing = SecureMetrics fl, MS_TLSOpts = tlsOpts fl,
           FilterProvider = NoFilter, MS_CertDir = [], MS_CertName = [], MS_KeyName = []\<rparr>;
         opts1 = (if SecureMetrics fl then opts\<lparr>FilterProvider := WithAuthenticationAndAuthorization\<rparr> else opts)
     in if length (MetricsCertPath fl) > 0
        then opts1\<lparr>MS_CertDir := MetricsCertPath fl, MS_CertName := MetricsCertName fl, MS_KeyName := MetricsCertKey fl\<rparr>
        else opts1)"

section \<open>The scheme\<close>

record groupVersion =
  Group :: string
  Version :: string

type_synonym scheme = "(groupVersion \<times> string) list"

definition SchemeGroupVersion :: groupVersion where
  "SchemeGroupVersion = \<lparr>Group = ''edge.sif.2iot.2de'', Version = ''v1alpha1''\<rparr>"

text \<open>The types that \<open>init\<close> of \<open>wasmfunction_types.go\<close> registers with the builder.\<close>

definition registeredTypes :: "string list" where
  "registeredTypes = [''WasmFunction'', ''WasmFunctionList'']"

definition AddToScheme :: "scheme \<Rightarrow> scheme" where
  "AddToScheme s = s @ map (\<lambda>t. (SchemeGroupVersion, t)) registeredTypes"

text \<open>\<open>init\<close> of \<open>main.go\<close>; \<open>client\<close> is what \<open>clientgoscheme.AddToScheme\<close> adds.\<close>

definition mainScheme :: "scheme \<Rightarrow> scheme" where
  "mainScheme client = AddToScheme ([] @ client)"

section \<open>The set-up\<close>

record controllerSetup =
  ForType :: string
  OwnsTypes :: "string list"
  ControllerName :: string

definition SetupWithManager :: controllerSetup where
  "SetupWithManager = \<lparr>ForType = ''WasmFunction'', OwnsTypes = [''Deployment'', ''Service''], ControllerName = ''wasmfunction''\<rparr>"

record managerOptions =
  MO_Scheme :: scheme
  MO_Metrics :: metricsOptions
  MO_WebhookServer :: webhookOptions
  HealthProbeBindAddress :: string
  LeaderElection :: bool
  LeaderElectionID :: string

definition managerOptionsOf :: "scheme \<Rightarrow> operatorFlags \<Rightarrow> managerOptions" where
  "managerOptionsOf client fl = \<lparr>MO_Scheme = mainScheme client, MO_Metrics = metricsServerOptions fl,
     MO_WebhookServer = webhookServerOptions fl, HealthProbeBindAddress = ProbeAddr fl,
     LeaderElection = EnableLeaderElection fl, LeaderElectionID = ''6d33d79f.sif.2iot.2de''\<rparr>"

text \<open>
  Estimators are told apart by a number: \<open>NewDeadlineTelemetryEstimator\<close> makes a new one, and
  \<open>NewMQTTTelemetryBridge\<close> makes one that it gives up when it is handed another.
\<close>

type_synonym estimatorId = nat

record telemetryBridge =
  BridgeEstimator :: estimatorId

definition NewDeadlineTelemetryEstimator :: "nat \<Rightarrow> estimatorId \<times> nat" where
  "NewDeadlineTelemetryEstimator n = (n, Suc n)"

definition NewMQTTTelemetryBridge :: "estimatorId option list \<Rightarrow> nat \<Rightarrow> telemetryBridge \<times> nat" where
  "NewMQTTTelemetryBridge estimators n =
    (let (fresh, n1) = NewDeadlineTelemetryEstimator n
     in (\<lparr>BridgeEstimator =
           (if length estimators > 0 \<and> hd estimators \<noteq> None then the (hd estimators) else fresh)\<rparr>, n1))"

definition NeedLeaderElection :: "telemetryBridge \<Rightarrow> bool" where
  "NeedLeaderElection b = True"

datatype setupCall =
    GetConfigOrDie
  | NewManager managerOptions
  | SetupReconciler controllerSetup estimatorId
  | AddBridge telemetryBridge
  | AddHealthzCheck string
  | AddReadyzCheck string
  | StartManager

text \<open>Each call but the last leaves the process running; the first failure ends it with status 1.\<close>

fun runSetup :: "(setupCall \<Rightarrow> bool) \<Rightarrow> setupCall list \<Rightarrow> nat \<times> setupCall list" where
  "runSetup fails [] = (0, [])"
| "runSetup fails (c # cs) =
    (if fails c then (1, [c]) else (let (status, made) = runSetup fails cs in (status, c # made)))"

definition setupCalls :: "scheme \<Rightarrow> operatorFlags \<Rightarrow> setupCall list" where
  "setupCalls client fl =
    (let (estimator, n1) = NewDeadlineTelemetryEstimator 0;
         (b, n2) = NewMQTTTelemetryBridge [Some estimator] n1
     in [GetConfigOrDie, NewManager (managerOptionsOf client fl), SetupReconciler SetupWithManager estimator,
         AddBridge b, AddHealthzCheck ''healthz'', AddReadyzCheck ''readyz'', StartManager])"

text \<open>The whole process: its exit status, and the set-up calls it made.\<close>

definition operatorMain ::
    "libraryFlags \<Rightarrow> scheme \<Rightarrow> (setupCall \<Rightarrow> bool) \<Rightarrow> string list \<Rightarrow> nat \<times> setupCall list" where
  "operatorMain lib client fails args =
    (case parseFlags lib args defaultFlags of
       Inl status \<Rightarrow> (status, [])
     | Inr fl \<Rightarrow> runSetup fails (setupCalls client fl))"

end
