(* ===== verification/Operator_Props.thy ===== *)
theory Operator_Props
  imports Operator_Main
begin

text \<open>
  The operator's process: what an unprotected endpoint takes, and what has happened when the manager
  starts.
\<close>

section \<open>Flags\<close>

text \<open>The argument sets the boolean flag to the value.\<close>

definition sets :: "string \<Rightarrow> bool \<Rightarrow> string \<Rightarrow> bool" where
  "sets name b s \<longleftrightarrow>
     (\<exists>v. splitFlag s = Flag name (Some v) \<and> parseBool v = Some b) \<or> (splitFlag s = Flag name None \<and> b)"

lemmas flagDef_defs = operatorFlagDefs_def stringVar_def boolVar_def

lemma setter_secure:
  assumes "lookupFlag lib name = Some (isBool, setter)" "setter v fl = Some fl'" "SecureMetrics fl" "\<not> SecureMetrics fl'"
  shows "name = ''metrics-secure'' \<and> parseBool v = Some False \<and> isBool"
  using assms
  by (auto simp: lookupFlag_def flagDef_defs split: option.splits if_splits prod.splits)

lemma setter_http2:
  assumes "lookupFlag lib name = Some (isBool, setter)" "setter v fl = Some fl'" "\<not> EnableHTTP2 fl" "EnableHTTP2 fl'"
  shows "name = ''enable-http2'' \<and> parseBool v = Some True \<and> isBool"
  using assms
  by (auto simp: lookupFlag_def flagDef_defs split: option.splits if_splits prod.splits)

text \<open>One step of the parser: a flag is set, and the rest is parsed.\<close>

lemma parse_step:
  assumes "parseFlags lib (s # args) fl = Inr fl'" "fl' \<noteq> fl"
  obtains (set) name isBool setter v x rest fl1 where "splitFlag s = Flag name v"
    "lookupFlag lib name = Some (isBool, setter)" "setter x fl = Some fl1" "parseFlags lib rest fl1 = Inr fl'"
    "set rest \<subseteq> set args" "length rest \<le> length args" "v = Some x \<or> v = None \<and> (isBool \<longrightarrow> x = ''true'')"
proof (cases "splitFlag s")
  case (Flag name v)
  note split = this
  obtain isBool setter where flag: "lookupFlag lib name = Some (isBool, setter)"
    using assms(1) Flag by (auto split: option.splits)
  show thesis
  proof (cases "\<exists>x. v = Some x \<or> v = None \<and> isBool \<and> x = ''true''")
    case True
    then obtain x where x: "v = Some x \<or> v = None \<and> isBool \<and> x = ''true''" by blast
    then obtain fl1 where "setter x fl = Some fl1" "parseFlags lib args fl1 = Inr fl'"
      using assms(1) split flag by (auto split: option.splits)
    with x show thesis by (intro set [OF split flag]) auto
  next
    case False
    then have "v = None" "\<not> isBool" by (cases v; auto)+
    moreover from this obtain x rest where "args = x # rest"
      using assms(1) split flag by (auto split: list.splits)
    moreover from calculation obtain fl1 where "setter x fl = Some fl1" "parseFlags lib rest fl1 = Inr fl'"
      using assms(1) split flag by (auto split: option.splits)
    ultimately show thesis by (intro set [OF split flag, of x fl1 rest]) auto
  qed
qed (use assms in auto)

lemma parseBool_true: "parseBool ''true'' = Some True"
  by (simp add: parseBool_def)

lemma parse_changed:
  assumes "\<And>name isBool setter v fl fl'. lookupFlag lib name = Some (isBool, setter) \<Longrightarrow> setter v fl = Some fl' \<Longrightarrow>
      P fl \<Longrightarrow> \<not> P fl' \<Longrightarrow> name = flag \<and> parseBool v = Some b \<and> isBool"
    and "parseFlags lib args fl = Inr fl'" "P fl" "\<not> P fl'"
  shows "\<exists>s \<in> set args. sets flag b s"
  using assms(2,3)
proof (induction "length args" arbitrary: args fl rule: less_induct)
  case less
  have "fl' \<noteq> fl" using less.prems(2) assms(4) by auto
  then obtain s rest where args: "args = s # rest" using less.prems(1) by (cases args) auto
  show ?case
    using less.prems(1)[unfolded args] \<open>fl' \<noteq> fl\<close>
  proof (cases rule: parse_step)
    case (set name isBool setter v x rest' fl1)
    show ?thesis
    proof (cases "P fl1")
      case True
      have "length rest' < length args" using set(6) args by simp
      from less.hyps [OF this set(4) True] set(5) args show ?thesis by auto
    next
      case False
      then have "name = flag \<and> parseBool x = Some b \<and> isBool"
        using assms(1) [OF set(2,3) less.prems(2)] by blast
      then have "sets flag b s" using set(1,7) parseBool_true by (auto simp: sets_def)
      then show ?thesis using args by simp
    qed
  qed
qed

text \<open>C36: Endpoints are unprotected only on request.  With whatever flags the libraries register, if the command
  line is accepted, then the metrics endpoint is served without authentication and authorization only
  when an argument sets \<open>metrics-secure\<close> to false, and one of the servers speaks more than HTTP/1.1
  only when an argument sets \<open>enable-http2\<close>.\<close>

theorem unprotected_only_on_request:
  assumes "parseFlags lib args defaultFlags = Inr fl"
  shows "(FilterProvider (metricsServerOptions fl) = NoFilter \<or> \<not> SecureServing (metricsServerOptions fl) \<longrightarrow>
      (\<exists>s \<in> set args. sets ''metrics-secure'' False s)) \<and>
    (\<forall>opts \<in> {MS_TLSOpts (metricsServerOptions fl), WH_TLSOpts (webhookServerOptions fl)}.
      NextProtos (fold (\<lambda>f c. f c) opts config) \<noteq> [''http/1.1''] \<longrightarrow> (\<exists>s \<in> set args. sets ''enable-http2'' True s))"
proof (intro conjI impI ballI)
  assume "FilterProvider (metricsServerOptions fl) = NoFilter \<or> \<not> SecureServing (metricsServerOptions fl)"
  then have "\<not> SecureMetrics fl" by (auto simp: metricsServerOptions_def Let_def split: if_splits)
  then show "\<exists>s \<in> set args. sets ''metrics-secure'' False s"
    by (intro parse_changed [where P = SecureMetrics, OF _ assms])
      (blast dest: setter_secure | simp add: defaultFlags_def)+
next
  fix opts assume "opts \<in> {MS_TLSOpts (metricsServerOptions fl), WH_TLSOpts (webhookServerOptions fl)}"
    and no: "NextProtos (fold (\<lambda>f c. f c) opts config) \<noteq> [''http/1.1'']"
  then have "opts = tlsOpts fl" by (auto simp: metricsServerOptions_def webhookServerOptions_def Let_def)
  with no have "EnableHTTP2 fl" by (auto simp: tlsOpts_def disableHTTP2_def split: if_splits)
  then show "\<exists>s \<in> set args. sets ''enable-http2'' True s"
    by (intro parse_changed [where P = "\<lambda>fl. \<not> EnableHTTP2 fl", OF _ assms])
      (blast dest: setter_http2 | simp add: defaultFlags_def)+
qed

theorem unprotected_only_on_request_witness:
  "FilterProvider (metricsServerOptions (defaultFlags\<lparr>EnableLeaderElection := True, MetricsAddr := '':8443''\<rparr>))
     = WithAuthenticationAndAuthorization"
proof -
  let ?args = "[''--leader-elect'', ''-metrics-bind-address='' @ '':8443'']"
  have "parseFlags (\<lambda>_. None) ?args defaultFlags = Inr (defaultFlags\<lparr>EnableLeaderElection := True, MetricsAddr := '':8443''\<rparr>)"
    by (simp add: splitFlag_def lookupFlag_def flagDef_defs parseBool_def)
  from unprotected_only_on_request [OF this] show ?thesis
    by (cases "FilterProvider (metricsServerOptions (defaultFlags\<lparr>EnableLeaderElection := True, MetricsAddr := '':8443''\<rparr>))")
      (simp_all add: sets_def splitFlag_def)
qed

section \<open>The order of the set-up\<close>

text \<open>The manager starts last.  When the process starts the manager, every other set-up call has been made
  before, in the order of the code, and none has failed: the controller and the telemetry bridge are
  registered and use the same estimator.  The process exits with status 0 exactly when the manager
  ends without an error.\<close>

theorem manager_starts_last:
  assumes "operatorMain lib client fails args = (status, made)" "StartManager \<in> set made"
  shows "\<exists>fl e. parseFlags lib args defaultFlags = Inr fl \<and>
    made = [GetConfigOrDie, NewManager (managerOptionsOf client fl), SetupReconciler SetupWithManager e,
      AddBridge \<lparr>BridgeEstimator = e\<rparr>, AddHealthzCheck ''healthz'', AddReadyzCheck ''readyz'', StartManager] \<and>
    (\<forall>c \<in> set (butlast made). \<not> fails c) \<and> (status = 0 \<longleftrightarrow> \<not> fails StartManager)"
proof -
  obtain fl where fl: "parseFlags lib args defaultFlags = Inr fl"
    using assms by (auto simp: operatorMain_def split: sum.splits)
  have "runSetup fails (setupCalls client fl) = (status, made)"
    using assms(1) fl by (simp add: operatorMain_def)
  with assms(2) fl show ?thesis
    by (auto simp: setupCalls_def NewDeadlineTelemetryEstimator_def NewMQTTTelemetryBridge_def split: if_splits)
qed

theorem manager_starts_last_witness:
  "\<exists>made. operatorMain (\<lambda>_. None) [] (\<lambda>c. False) [''--leader-elect''] = (0, made) \<and> length made = 7"
proof -
  obtain status made where run: "operatorMain (\<lambda>_. None) [] (\<lambda>c. False) [''--leader-elect''] = (status, made)"
    by fastforce
  have "StartManager \<in> set made"
    using run by (auto simp: operatorMain_def splitFlag_def lookupFlag_def flagDef_defs parseBool_def
        setupCalls_def NewDeadlineTelemetryEstimator_def NewMQTTTelemetryBridge_def)
  from manager_starts_last [OF run this] run show ?thesis by auto
qed

end
