(* ===== verification/Placement_Readiness.thy ===== *)
theory Placement_Readiness
  imports Reconcile_Safety
begin

text \<open>
  The readiness gate behind the synchronisation of the artifact: what is true of device and host when the
  decision of a pass leaves the current placement.
\<close>

section \<open>The decision of a pass\<close>

text \<open>The three digests that the artifact stage leaves on the status do not enter the decision.\<close>

definition with_digests :: "artifactDecision \<Rightarrow> wasmFunction \<Rightarrow> wasmFunction" where
  "with_digests a w = on_status (\<lambda>s. s\<lparr>DesiredArtifactDigest := DesiredDigest a, HostArtifactDigest := HostDigest a,
     HostStagedArtifactDigest := HostStagedDigest a\<rparr>) w"

lemma with_digests_fields [simp]:
  "Spec (with_digests a w) = Spec w" "declaredDigest (with_digests a w) = declaredDigest w"
  "operatorArtifactURL (with_digests a w) = operatorArtifactURL w"
  "deviceReleaseReady (with_digests a w) digest = deviceReleaseReady w digest"
  "hostReady b (with_digests a w) = hostReady b w"
  by (simp_all add: with_digests_def declaredDigest_def operatorArtifactURL_def deviceReleaseReady_def deviceReleaseStaged_def
      deviceReleaseActive_def hostReady_def hostActiveMatches_def hostStagedMatches_def hostReleaseMatches_def)

lemma artifactStage_resource:
  assumes "artifactStage env st = ((a, err), st1)"
  shows "passWf st1 = with_digests a (passWf st)"
    and "\<exists>h. reconcileArtifact (Sha env) (Web env) (HostWasmURLResolver env) (passWf st) (Http st) = ((a, err), h)"
  using assms by (auto simp: artifactStage_def with_digests_def split: prod.splits)

lemma decisionStage_gated:
  assumes "decisionStage env a err av st = (Some d, st')"
  shows "\<exists>e. deadlineEstimate (DeadlineEstimator env) (passWf st) = Some e \<and>
    d = gated_decision (Clock (Cmd env) (Ticks (Operator st))) (passWf st) e a av"
  using assms by (auto simp: decisionStage_eq gated_decision_def Let_def split: option.splits)

text \<open>C1: No placement is left without an admitted and ready destination.  In a pass for a
  device with a control topic and a declared release the decision desires the current placement or the candidate, always one of local, edge and hybrid.
  If it desires a change, the deadline verdict on that very candidate accepted.  A change to edge or
  hybrid happens only if the artifact synchronisation of this pass reported no error, the device holds
  the declared release with its declared digest, the host holds it in one of its slots, and an edge
  replica is reported available.  A change to local happens only if the device holds the declared release
  with its declared digest; the one exception is a pass that knows no desired digest, because no
  source is configured or the synchronisation failed: then a device that reports the generation of the
  release without a digest passes.\<close>

theorem transition_needs_ready_destination:
  assumes "artifactStage env st = ((a, err), st1)" "replicasStage env deploy st1 = ((n, available), st2)"
    and "decisionStage env a err available st2 = (Some d, st3)"
    and "ControlTopic (device (passWf st)) \<noteq> []" "0 < R_Generation (release (passWf st))"
  shows "let w = passWf st2 in
    valid_placement (Desired d) \<and>
    (Desired d \<noteq> currentPlacement w \<longrightarrow>
       Desired d = candidate_of w \<and> Transition d \<and>
       (\<exists>now e. deadlineEstimate (DeadlineEstimator env) w = Some e \<and>
          Accepted (evaluateDeadlineAdmission now w (Desired d) (Hard d) e)) \<and>
       (Desired d \<noteq> placementLocal \<longrightarrow> err = None \<and> declaredDigest w \<noteq> [] \<and> deviceReleaseReady w (declaredDigest w) \<and>
          hostReady a w \<and> available) \<and>
       (Desired d = placementLocal \<longrightarrow> deviceReleaseReady w (declaredDigest w) \<or>
          DesiredDigest a = [] \<and> (operatorArtifactURL w = [] \<or> err \<noteq> None) \<and> deviceReleaseReady w []))"
proof -
  let ?start = "passWf st" and ?w = "passWf st2"
  have w: "?w = with_digests a ?start"
    using artifactStage_resource(1) [OF assms(1)] replicasStage_frame(1) [OF assms(2)] by simp
  obtain h h' where sync: "reconcileArtifact (Sha env) (Web env) (HostWasmURLResolver env) ?start h = ((a, err), h')"
    using artifactStage_resource(2) [OF assms(1)] by blast
  have topic: "ControlTopic (device ?w) \<noteq> []" using assms(4) by (simp add: w)
  obtain now e where e: "deadlineEstimate (DeadlineEstimator env) ?w = Some e" and d: "d = gated_decision now ?w e a available"
    using decisionStage_gated [OF assms(3)] by blast
  note gate = gated_Desired [OF topic, of now e a available, folded d] gated_enabled [OF topic, of now e a available, folded d]
  have digest: "DesiredDigest a \<in> {[], declaredDigest ?w}" using ready_decision(1) [OF sync assms(5)] by (simp add: w)
  have host: "hostReady a ?w \<Longrightarrow> err = None \<and> DesiredDigest a = declaredDigest ?w \<and> declaredDigest ?w \<noteq> []"
    using ready_decision(2) [OF sync assms(5)] by (simp add: w)
  have unknown: "operatorArtifactURL ?w = [] \<or> err \<noteq> None" if "DesiredDigest a = []"
  proof (rule ccontr)
    assume "\<not> (operatorArtifactURL ?w = [] \<or> err \<noteq> None)"
    then have "DesiredDigest a = declaredDigest ?start" "declaredDigest ?start \<noteq> []"
      using synchronised_decision_is_ready [of "Sha env" "Web env" "HostWasmURLResolver env" ?start h a h'] sync by (auto simp: w)
    with that show False by simp
  qed
  show ?thesis
  proof (cases "Desired d = currentPlacement ?w")
    case True
    then show ?thesis by (simp add: Let_def)
  next
    case False
    then have change: "Desired d = candidate_of ?w" "Transition d" "destination_ready ?w (candidate_of ?w) a available"
      "Accepted (evaluateDeadlineAdmission now ?w (candidate_of ?w) (Hard d) e)"
      using gate by (auto split: if_splits)
    then have ready: "deviceReleaseReady ?w (DesiredDigest a)" "Desired d \<noteq> placementLocal \<longrightarrow> hostReady a ?w \<and> available"
      by (simp_all add: destination_ready_def)
    have "valid_placement (Desired d)" by (simp add: change(1))
    then show ?thesis using change(1,2,4) ready host digest unknown e by (auto simp: Let_def)
  qed
qed

section \<open>An outage admits a device without a digest\<close>

text \<open>
  The design asks for the desired release on the device before a placement is left for local.  While the
  source is down the pass knows no desired digest, and the device that reports the generation alone
  passes the gate.
\<close>

theorem outage_leaves_edge_unverified:
  assumes "\<And>m h. \<exists>e. Web env h (plainRequest m (operatorArtifactURL (passWf st))) = Inl e"
    and "operatorArtifactURL (passWf st) \<noteq> []" "ControlTopic (device (passWf st)) \<noteq> []"
    and "artifactStage env st = ((a, err), st1)" "replicasStage env deploy st1 = ((n, available), st2)"
    and "decisionStage env a err available st2 = (Some d, st3)"
    and "candidate_of (passWf st2) = placementLocal" "currentPlacement (passWf st2) \<noteq> placementLocal"
    and "deviceReleaseReady (passWf st) []" "\<not> effectiveDeadlineEnabled (passWf st)"
  shows "Desired d = placementLocal"
proof -
  have w: "passWf st2 = with_digests a (passWf st)"
    using artifactStage_resource(1) [OF assms(4)] replicasStage_frame(1) [OF assms(5)] by simp
  obtain h h' where "reconcileArtifact (Sha env) (Web env) (HostWasmURLResolver env) (passWf st) h = ((a, err), h')"
    using artifactStage_resource(2) [OF assms(4)] by blast
  then have a: "DesiredDigest a = []"
    using outage_decision(1) [of "passWf st" "Web env" "Sha env" "HostWasmURLResolver env" h a err h'] assms(1,2) by blast
  obtain now e where d: "d = gated_decision now (passWf st2) e a available"
    using decisionStage_gated [OF assms(6)] by blast
  have "Accepted (evaluateDeadlineAdmission now (passWf st2) placementLocal hard e)" for hard
    using assms(10) by (simp add: evaluateDeadlineAdmission_def zeroEvaluation_def Let_def effectiveDeadlineEnabled_def w)
  then show ?thesis
    using assms(3,7-9) a gated_Desired [of "passWf st2" now e a available] by (simp add: d destination_ready_def w)
qed

section \<open>Witnesses\<close>

text \<open>The device holds release 5; placement \<open>p\<close> is asked for and \<open>q\<close> is current, without deadline admission.\<close>

definition movingFunction :: "string \<Rightarrow> string \<Rightarrow> string \<Rightarrow> wasmFunction" where
  "movingFunction p q digest = syncedFunction\<lparr>
     Spec := (Spec syncedFunction)\<lparr>
       Device := (Device (Spec syncedFunction))\<lparr>ControlTopic := ''c''\<rparr>,
       Placement := zeroPlacement\<lparr>P_Mode := p, BatteryThreshold := \<lparr>BT_Enabled = Some False\<rparr>,
         Deadline := (Deadline zeroPlacement)\<lparr>DP_Enabled := Some False\<rparr>\<rparr>\<rparr>,
     Status := zeroStatus\<lparr>DesiredPlacement := q, StagedReleaseGeneration := 5, DeviceStagedArtifactDigest := digest\<rparr>\<rparr>"

definition movingPass :: "webEnv \<Rightarrow> passEnv" where
  "movingPass web = (demoPass zeroWasmFunction web)\<lparr>EdgeRuntimeAvailable := Some (\<lambda>w. True)\<rparr>"

definition movingState :: "wasmFunction \<Rightarrow> passState" where
  "movingState w = idlePass\<lparr>Operator := emptyOperator w\<rparr>"

lemma moving_fields [simp]:
  "release (movingFunction p q x) = release syncedFunction" "operatorArtifactURL (movingFunction p q x) = ''http://s/a''"
  "ControlTopic (device (movingFunction p q x)) = ''c''" "\<not> effectiveDeadlineEnabled (movingFunction p q x)"
  "Wf (Operator (movingState w)) = w" "Http (movingState w) = []"
  "Sha (movingPass web) = hex64" "Web (movingPass web) = web" "HostWasmURLResolver (movingPass web) = None"
  "EdgeRuntimeAvailable (movingPass web) = Some (\<lambda>w. True)" "DeadlineEstimator (movingPass web) = None"
  using synced_urls(1)
  by (simp_all add: movingFunction_def syncedFunction_def zero_defs operatorArtifactURL_def effectiveDeadlineEnabled_def
      movingState_def movingPass_def demoPass_def idlePass_def)

lemma moving_stages:
  obtains a err st1 n st2 d st3 where "artifactStage (movingPass web) (movingState w) = ((a, err), st1)"
    "replicasStage (movingPass web) deploy st1 = ((n, True), st2)"
    "decisionStage (movingPass web) a err True st2 = (Some d, st3)" "passWf st2 = with_digests a w"
    "\<exists>h'. reconcileArtifact hex64 web None w [] = ((a, err), h')"
proof -
  obtain a err st1 where 1: "artifactStage (movingPass web) (movingState w) = ((a, err), st1)" by (metis prod.collapse)
  obtain n av st2 where 2: "replicasStage (movingPass web) deploy st1 = ((n, av), st2)" by (metis prod.collapse)
  then have "av" by (auto simp: replicasStage_def split: prod.splits)
  obtain r st3 where 3: "decisionStage (movingPass web) a err av st2 = (r, st3)" by (metis prod.collapse)
  have "r \<noteq> None" using 3 by (auto simp: decisionStage_eq deadlineEstimate_def Let_def)
  then obtain d where "r = Some d" by blast
  moreover have "passWf st2 = with_digests a w"
    using artifactStage_resource(1) [OF 1] replicasStage_frame(1) [OF 2] by simp
  moreover have "\<exists>h'. reconcileArtifact hex64 web None w [] = ((a, err), h')"
    using 1 by (auto simp: artifactStage_def split: prod.splits)
  ultimately show thesis using 1 2 3 \<open>av\<close> by (intro that) simp_all
qed

lemma moving_policy:
  "currentPlacement (with_digests a (movingFunction ''edge'' ''local'' x)) = placementLocal"
  "candidate_of (with_digests a (movingFunction ''edge'' ''local'' x)) = placementEdge"
  "currentPlacement (with_digests a (movingFunction ''local'' ''edge'' x)) = placementEdge"
  "candidate_of (with_digests a (movingFunction ''local'' ''edge'' x)) = placementLocal"
  by (simp_all add: candidate_of_def proposer_of_def with_digests_def movingFunction_def syncedFunction_def zero_defs
      currentPlacement_def normalizeRetainedPlacement_def policy_mode_def low_guard_def toLower_def lower_char_def
      applyResourceLocality_def hasDeviceLocalResources_def effectiveBatteryThresholdEnabled_def)

theorem transition_needs_ready_destination_witness:
  "\<exists>a st1 n st2 d st3. artifactStage (movingPass vouching) (movingState (movingFunction ''edge'' ''local'' (hex64 ''m0''))) = ((a, None), st1) \<and>
     decisionStage (movingPass vouching) a None True st2 = (Some d, st3) \<and>
     currentPlacement (passWf st2) = placementLocal \<and> Desired d = placementEdge \<and>
     deviceReleaseReady (passWf st2) (declaredDigest (passWf st2)) \<and> hostReady a (passWf st2)"
proof -
  let ?f = "movingFunction ''edge'' ''local'' (hex64 ''m0'')"
  obtain a err st1 n st2 d st3 where run: "artifactStage (movingPass vouching) (movingState ?f) = ((a, err), st1)"
    "replicasStage (movingPass vouching) (desiredDeployment ?f) st1 = ((n, True), st2)"
    "decisionStage (movingPass vouching) a err True st2 = (Some d, st3)" "passWf st2 = with_digests a ?f"
    "\<exists>h'. reconcileArtifact hex64 vouching None ?f [] = ((a, err), h')"
    by (rule moving_stages)
  have "\<exists>a. DesiredDigest a = hex64 ''m0'' \<and> hostActiveMatches a ?f \<and> (\<exists>h'. reconcileArtifact hex64 vouching None ?f [] = ((a, None), h'))"
    using synced_like [of ?f vouching "[]" _ None _ hex64] by (auto simp: vouching_def)
  then have a: "DesiredDigest a = hex64 ''m0''" "hostActiveMatches a ?f" "err = None" using run(5) by auto
  have staged: "deviceReleaseReady ?f (hex64 ''m0'')"
    using synced_urls(4) by (simp add: deviceReleaseReady_def deviceReleaseStaged_def) (simp add: movingFunction_def)
  obtain now e where d: "d = gated_decision now (passWf st2) e a True" using decisionStage_gated [OF run(3)] by blast
  have "Accepted (evaluateDeadlineAdmission now (with_digests a ?f) c hard e)" for c hard
  proof -
    have "\<not> effectiveDeadlineEnabled (with_digests a ?f)" using moving_fields(4) by (simp add: effectiveDeadlineEnabled_def)
    then show ?thesis by (simp add: evaluateDeadlineAdmission_def zeroEvaluation_def Let_def)
  qed
  moreover have "hostReady a ?f" using a(2) by (simp add: hostReady_def)
  ultimately have edge: "Desired d = placementEdge"
    using gated_Desired [of "with_digests a ?f" now e a True] staged a(1)
    by (simp add: d run(4) moving_policy destination_ready_def)
  have "0 < R_Generation (release ?f)" using synced_urls(4) by simp
  with transition_needs_ready_destination [OF run(1-3)] edge
  have "deviceReleaseReady (passWf st2) (declaredDigest (passWf st2)) \<and> hostReady a (passWf st2)"
    by (simp add: run(4) moving_policy Let_def)
  moreover have "currentPlacement (passWf st2) = placementLocal" by (simp add: run(4) moving_policy)
  ultimately show ?thesis using run(1,3) [unfolded a(3)] edge by blast
qed

text \<open>The function is on the edge; the device reports generation 5 and no digest; local is asked for.\<close>

theorem outage_leaves_edge_unverified_witness:
  "\<exists>a err st2 d st3. decisionStage (movingPass (\<lambda>h r. Inl ''down'')) a err True st2 = (Some d, st3) \<and>
     currentPlacement (passWf st2) = placementEdge \<and> Desired d = placementLocal \<and>
     \<not> deviceReleaseReady (passWf st2) (declaredDigest (passWf st2))"
proof -
  let ?f = "movingFunction ''local'' ''edge'' []" and ?web = "\<lambda>h r. Inl ''down''"
  obtain a err st1 n st2 d st3 where run: "artifactStage (movingPass ?web) (movingState ?f) = ((a, err), st1)"
    "replicasStage (movingPass ?web) (desiredDeployment ?f) st1 = ((n, True), st2)"
    "decisionStage (movingPass ?web) a err True st2 = (Some d, st3)" "passWf st2 = with_digests a ?f"
    "\<exists>h'. reconcileArtifact hex64 ?web None ?f [] = ((a, err), h')"
    by (rule moving_stages)
  have staged: "deviceReleaseReady ?f []"
    using synced_urls(4) by (simp add: deviceReleaseReady_def deviceReleaseStaged_def) (simp add: movingFunction_def)
  have "Desired d = placementLocal"
    using outage_leaves_edge_unverified [OF _ _ _ run(1-3)] staged by (simp add: run(4) moving_policy)
  moreover have "\<not> deviceReleaseReady ?f (declaredDigest ?f)"
    using synced_urls(3,4)
    by (simp add: declaredDigest_def deviceReleaseReady_def deviceReleaseStaged_def deviceReleaseActive_def)
      (simp add: movingFunction_def zeroStatus_def hex64_digest(2) [THEN not_sym])
  then have "\<not> deviceReleaseReady (passWf st2) (declaredDigest (passWf st2))" by (simp add: run(4))
  moreover have "currentPlacement (passWf st2) = placementEdge" by (simp add: run(4) moving_policy)
  ultimately show ?thesis using run(3) by blast
qed

end
