(* ===== verification/Staging_Runs.thy ===== *)
theory Staging_Runs
  imports Command_Safety Placement_Props
begin

text \<open>
  The whole staging step over a run of readings of the resource: what the throttle promises, and where a
  stale reading takes its memory away.
\<close>

section \<open>A staging step as an attempt of the throttled sender\<close>

text \<open>One call of \<open>applyReleaseStage\<close> at time \<open>now\<close>; it counts as sent when the message was handed to the broker.\<close>

definition stagingAttempt ::
    "(nat \<Rightarrow> string option) \<Rightarrow> string \<Rightarrow> time \<Rightarrow> operatorState \<times> artifactDecision \<Rightarrow> bool \<times> operatorState \<times> artifactDecision" where
  "stagingAttempt outcome topic now x =
    (case x of (st, a) \<Rightarrow>
       let st' = snd (applyReleaseStage \<lparr>Clock = \<lambda>_. now, Outcome = outcome\<rparr> topic a st)
       in (Events st' \<noteq> Events st, (st', a)))"

text \<open>A reading for the command \<open>c\<close> of the resource \<open>k\<close> that does not say that the device holds the release.\<close>

definition stagingPending :: "namespacedName \<Rightarrow> string \<Rightarrow> wasmFunction \<Rightarrow> artifactDecision \<Rightarrow> bool" where
  "stagingPending k c w a \<longleftrightarrow> key_of w = k \<and> stageCommandID (R_Generation (release w)) (DesiredDigest a) = c \<and>
     \<not> deviceReleaseReady w (DesiredDigest a)"

lemma staging_blocked:
  assumes "\<not> A_Enabled a \<or> DesiredDigest a = [] \<or> R_Generation (release (Wf st)) \<le> 0 \<or> deviceArtifactURL (Wf st) = []"
  shows "snd (applyReleaseStage env topic a st) = st"
  using assms by (auto simp: applyReleaseStage_def Let_def)

lemma staging_open:
  assumes "A_Enabled a" "DesiredDigest a \<noteq> []" "0 < R_Generation (release (Wf st))" "deviceArtifactURL (Wf st) \<noteq> []"
    and "\<not> deviceReleaseReady (Wf st) (DesiredDigest a)" "c = stageCommandID (R_Generation (release (Wf st))) (DesiredDigest a)"
    and "claimReleaseStageAttempt c now (st\<lparr>Ticks := Ticks st + 1\<rparr>) = (n, st1)"
  shows "n = None \<Longrightarrow> snd (applyReleaseStage \<lparr>Clock = \<lambda>_. now, Outcome = outcome\<rparr> topic a st) = st1"
    and "n = Some k \<Longrightarrow> \<exists>e. snd (applyReleaseStage \<lparr>Clock = \<lambda>_. now, Outcome = outcome\<rparr> topic a st) =
      st1\<lparr>Events := Events st1 @ [e]\<rparr>"
  using assms
  by (auto simp: applyReleaseStage_def andThen_def readClock_def ret_def publishControl_def call_def Let_def not_le split: option.split)

lemma claim_keeps:
  assumes "claimReleaseStageAttempt c now st = (n, st')"
  shows "Events st' = Events st" "n = None \<Longrightarrow> st' = st"
  using assms by (auto simp: claimReleaseStageAttempt_def Let_def split: prod.splits if_splits)

lemma staging_attempt_cases:
  assumes "stagingPending k c (Wf st) a" "stagingAttempt outcome topic now (st, a) = (b, x)"
  shows "b \<and> fst (claimed c now (st\<lparr>Ticks := Ticks st + 1\<rparr>)) \<and>
      StageSends (fst x) = StageSends (snd (claimed c now (st\<lparr>Ticks := Ticks st + 1\<rparr>))) \<or>
    \<not> b \<and> StageSends (fst x) = StageSends st"
proof -
  let ?s = "st\<lparr>Ticks := Ticks st + 1\<rparr>" and ?r = "snd (applyReleaseStage \<lparr>Clock = \<lambda>_. now, Outcome = outcome\<rparr> topic a st)"
  have b: "b = (Events ?r \<noteq> Events st)" and x: "fst x = ?r" using assms(2) by (auto simp: stagingAttempt_def Let_def)
  show ?thesis
  proof (cases "\<not> A_Enabled a \<or> DesiredDigest a = [] \<or> R_Generation (release (Wf st)) \<le> 0 \<or> deviceArtifactURL (Wf st) = []")
    case True
    then have "?r = st" by (rule staging_blocked)
    then show ?thesis by (simp add: b x)
  next
    case False
    obtain n st1 where c: "claimReleaseStageAttempt c now ?s = (n, st1)" by (cases "claimReleaseStageAttempt c now ?s")
    have kept: "Events st1 = Events st" "n = None \<Longrightarrow> st1 = ?s" using claim_keeps [OF c] by simp_all
    have go: "A_Enabled a" "DesiredDigest a \<noteq> []" "0 < R_Generation (release (Wf st))" "deviceArtifactURL (Wf st) \<noteq> []"
      "\<not> deviceReleaseReady (Wf st) (DesiredDigest a)" "c = stageCommandID (R_Generation (release (Wf st))) (DesiredDigest a)"
      using False assms(1) by (auto simp: stagingPending_def)
    show ?thesis
    proof (cases n)
      case None
      then have "?r = ?s" using staging_open(1) [OF go c] kept(2) by simp
      then show ?thesis by (simp add: b x)
    next
      case (Some attempt)
      then obtain e where "?r = st1\<lparr>Events := Events st1 @ [e]\<rparr>" using staging_open(2) [OF go c] by blast
      then show ?thesis using c Some kept(1) by (simp add: b x claimed_def)
    qed
  qed
qed

lemma stageSent_sends: "StageSends st' = StageSends st \<Longrightarrow> stageSent k c st' = stageSent k c st"
  by (simp add: stageSent_def)

definition pairSent :: "namespacedName \<Rightarrow> string \<Rightarrow> operatorState \<times> artifactDecision \<Rightarrow> time" where
  "pairSent k c x = stageSent k c (fst x)"

definition pairPending :: "namespacedName \<Rightarrow> string \<Rightarrow> operatorState \<times> artifactDecision \<Rightarrow> bool" where
  "pairPending k c x = stagingPending k c (Wf (fst x)) (snd x)"

interpretation staging: throttled_sender
  "pairSent k c" "stagingAttempt outcome topic" "pairPending k c" "30 * second" for k c outcome topic
proof
  show "0 \<le> 30 * second" by (simp add: second_def)
next
  fix x now x'
  assume ok: "pairPending k c x" and att: "stagingAttempt outcome topic now x = (True, x')" and sent: "0 < pairSent k c x"
  let ?s = "(fst x)\<lparr>Ticks := Ticks (fst x) + 1\<rparr>"
  have "fst (claimed c now ?s)"
    using staging_attempt_cases [of k c "fst x" "snd x" outcome topic now True x'] ok att by (auto simp: pairPending_def)
  moreover have "key_of (Wf ?s) = k" "stageSent k c ?s = pairSent k c x"
    using ok by (simp_all add: pairPending_def pairSent_def stagingPending_def stageSent_def)
  ultimately show "pairSent k c x + 30 * second \<le> now"
    using stage_throttle.accepted_late [of ?s k c now "snd (claimed c now ?s)"] sent by (metis prod.collapse)
next
  fix x now x'
  assume ok: "pairPending k c x" and att: "stagingAttempt outcome topic now x = (True, x')"
  let ?s = "(fst x)\<lparr>Ticks := Ticks (fst x) + 1\<rparr>"
  have claim: "fst (claimed c now ?s)" "StageSends (fst x') = StageSends (snd (claimed c now ?s))"
    using staging_attempt_cases [of k c "fst x" "snd x" outcome topic now True x'] ok att by (auto simp: pairPending_def)
  have "key_of (Wf ?s) = k" using ok by (simp add: pairPending_def stagingPending_def)
  then have "stageSent k c (snd (claimed c now ?s)) = now"
    using stage_throttle.accepted_stamp [of ?s k c now "snd (claimed c now ?s)"] claim(1) by (metis prod.collapse)
  then show "pairSent k c x' = now"
    using stageSent_sends [OF claim(2)] by (simp add: pairSent_def)
next
  fix x now x'
  assume "pairPending k c x" "stagingAttempt outcome topic now x = (False, x')"
  then have "StageSends (fst x') = StageSends (fst x)"
    using staging_attempt_cases [of k c "fst x" "snd x" outcome topic now False x'] by (auto simp: pairPending_def)
  then show "pairSent k c x' = pairSent k c x" unfolding pairSent_def by (rule stageSent_sends)
qed

section \<open>Runs\<close>

text \<open>
  A run of staging steps, each with its own reading of the resource, its own artifact decision and its own
  clock; the result is the list of times at which a staging command was sent.
\<close>

fun stagingRun :: "(nat \<Rightarrow> string option) \<Rightarrow> string \<Rightarrow> (wasmFunction \<times> artifactDecision \<times> time) list \<Rightarrow> operatorState \<Rightarrow> time list" where
  "stagingRun outcome topic [] st = []"
| "stagingRun outcome topic ((w, a, now) # rest) st =
    (let st' = snd (applyReleaseStage \<lparr>Clock = \<lambda>_. now, Outcome = outcome\<rparr> topic a (st\<lparr>Wf := w\<rparr>))
     in if Events st' \<noteq> Events st then now # stagingRun outcome topic rest st'
        else stagingRun outcome topic rest st')"

definition reading :: "wasmFunction \<Rightarrow> artifactDecision \<Rightarrow> operatorState \<times> artifactDecision \<Rightarrow> operatorState \<times> artifactDecision" where
  "reading w a x = ((fst x)\<lparr>Wf := w\<rparr>, a)"

lemma attempt_reading:
  "stagingAttempt outcome topic now (reading w a (st, b)) =
    (let st' = snd (applyReleaseStage \<lparr>Clock = \<lambda>_. now, Outcome = outcome\<rparr> topic a (st\<lparr>Wf := w\<rparr>))
     in (Events st' \<noteq> Events st, (st', a)))"
  by (simp add: stagingAttempt_def reading_def Let_def)

lemma stagingRun_accepted:
  "stagingRun outcome topic obs st =
    staging.accepted outcome topic (map (\<lambda>(w, a, now). (reading w a, now)) obs) (st, b)"
proof (induction obs arbitrary: st b)
  case Nil
  then show ?case by simp
next
  case (Cons ob rest)
  obtain w a now where ob: "ob = (w, a, now)" by (metis prod.collapse)
  let ?r = "applyReleaseStage \<lparr>Clock = \<lambda>_. now, Outcome = outcome\<rparr> topic a (st\<lparr>Wf := w\<rparr>)"
  have "stagingRun outcome topic rest (snd ?r) =
      staging.accepted outcome topic (map (\<lambda>(w, a, now). (reading w a, now)) rest) (snd ?r, a)"
    by (rule Cons.IH)
  then show ?case
    by (cases "Events (snd ?r) = Events st") (simp_all add: ob attempt_reading Let_def)
qed

text \<open>C21: Staging is throttled whatever the status says.  Over any run of staging steps of the operator for
  one command of one resource, each step with its own, possibly stale, reading of the resource, its own
  artifact decision and its own clock (after 1970), and from any memory of the operator, the times at which the
  command is sent lie at least thirty seconds apart, as long as no reading says that the device holds
  the release already: such a reading clears the memory of the throttle.\<close>

theorem staging_throttled:
  assumes "\<forall>(w, a, now) \<in> set obs. key_of w = k \<and> stageCommandID (R_Generation (release w)) (DesiredDigest a) = c \<and>
      \<not> deviceReleaseReady w (DesiredDigest a) \<and> 0 < now"
  shows "sorted_wrt (\<lambda>s t. s + 30 * second \<le> t) (stagingRun outcome topic obs st)"
proof -
  have "staging.harmless k c (reading w a)" if "stagingPending k c w a" for w a
    using that by (simp add: staging.harmless_def reading_def pairPending_def pairSent_def stageSent_def)
  then have "\<forall>(change, now) \<in> set (map (\<lambda>(w, a, now). (reading w a, now)) obs). staging.harmless k c change \<and> 0 < now"
    using assms by (auto simp: stagingPending_def)
  then show ?thesis
    unfolding stagingRun_accepted [of outcome topic obs st zeroArtifact] by (rule staging.accepted_spaced)
qed

section \<open>A concrete run\<close>

text \<open>Release 3, not on the device; and the same resource in a reading that says it is.\<close>

definition unstaged :: wasmFunction where
  "unstaged = zeroWasmFunction\<lparr>Spec := zeroSpec\<lparr>Device := zeroDevice\<lparr>D_ArtifactURL := ''u''\<rparr>,
     Release := zeroRelease\<lparr>R_Generation := 3\<rparr>\<rparr>\<rparr>"

definition staleReady :: wasmFunction where
  "staleReady = on_status (\<lambda>s. s\<lparr>StagedReleaseGeneration := 3, DeviceStagedArtifactDigest := sampleDigest\<rparr>) unstaged"

definition stagedDecision :: artifactDecision where
  "stagedDecision = zeroArtifact\<lparr>A_Enabled := True, DesiredDigest := sampleDigest\<rparr>"

lemma unstaged_facts [simp]:
  "key_of unstaged = ([], [])" "key_of staleReady = ([], [])" "deviceArtifactURL unstaged \<noteq> []" "deviceArtifactURL staleReady \<noteq> []"
  "R_Generation (release unstaged) = 3" "R_Generation (release staleReady) = 3" "A_Enabled stagedDecision"
  "DesiredDigest stagedDecision = sampleDigest" "sampleDigest \<noteq> []" "\<not> deviceReleaseReady unstaged sampleDigest"
  "deviceReleaseReady staleReady sampleDigest" "LastStageCommandTime (Status unstaged) = None" "LastStageCommandTime (Status staleReady) = None"
proof -
  show nonempty: "sampleDigest \<noteq> []" using is_digest_not_Nil sampleDigest by blast
  have "trimSpace ''u'' = ''u''" by (rule trimSpace_plain) (simp add: plain_char_def)
  then show "deviceArtifactURL unstaged \<noteq> []" "deviceArtifactURL staleReady \<noteq> []"
    by (simp_all add: deviceArtifactURL_def staleReady_def unstaged_def)
  show "\<not> deviceReleaseReady unstaged sampleDigest" "deviceReleaseReady staleReady sampleDigest"
    using nonempty by (auto simp: deviceReleaseReady_def deviceReleaseStaged_def deviceReleaseActive_def staleReady_def unstaged_def zeroStatus_def zeroWasmFunction_def)
qed (simp_all add: staleReady_def unstaged_def stagedDecision_def zero_defs key_of_def)

theorem staging_throttled_witness:
  "stagingRun (\<lambda>_. None) ''t'' [(unstaged, stagedDecision, second), (unstaged, stagedDecision, 2 * second),
     (unstaged, stagedDecision, 31 * second)] (emptyOperator unstaged) = [second, 31 * second] \<and>
   sorted_wrt (\<lambda>s t. s + 30 * second \<le> t) [second, 31 * second]"
proof -
  let ?obs = "[(unstaged, stagedDecision, second), (unstaged, stagedDecision, 2 * second), (unstaged, stagedDecision, 31 * second)]"
  have "stagingRun (\<lambda>_. None) ''t'' ?obs (emptyOperator unstaged) = [second, 31 * second]"
    by (simp add: applyReleaseStage_def andThen_def readClock_def ret_def publishControl_def call_def claimReleaseStageAttempt_def
      lastStageSend_def stage_delay_value releaseStageRetryBase_def wrap32_def emptyOperator_def second_def Let_def)
  then show ?thesis
    using staging_throttled [of ?obs "([], [])" "stageCommandID 3 sampleDigest" "\<lambda>_. None" "''t''" "emptyOperator unstaged"]
    by (simp add: second_def)
qed

text \<open>A stale reading opens the throttle.  One reading that still says the device holds the release (a cache
  that is behind the report of a restarted device) clears the memory, and the command is sent again two
  seconds after it was sent.\<close>

theorem stale_reading_opens_throttle:
  "stagingRun (\<lambda>_. None) topic [(unstaged, stagedDecision, second), (staleReady, stagedDecision, 2 * second),
     (unstaged, stagedDecision, 3 * second)] (emptyOperator unstaged) = [second, 3 * second]"
  by (simp add: applyReleaseStage_def andThen_def readClock_def ret_def publishControl_def call_def claimReleaseStageAttempt_def
      lastStageSend_def stage_delay_value releaseStageRetryBase_def wrap32_def emptyOperator_def second_def Let_def)

end
