(* ===== verification/Command_Memory.thy ===== *)
theory Command_Memory
  imports Reconcile_Safety
begin

text \<open>
  What the status remembers of the messages a pass sends: the memory of the commands in the status,
  replayed from the messages of the pass, and the one status write that carries it.
\<close>

section \<open>The memory and its replay\<close>

text \<open>
  The ids of the last placement, staging and simulation commands and of the last deadline signal, and the
  thresholds last sent.
\<close>

record sentMemory =
  SM_Command :: string
  SM_Stage :: string
  SM_Signal :: string
  SM_Simulation :: string
  SM_Low :: int32
  SM_High :: int32

definition sentMemoryOf :: "wasmFunction \<Rightarrow> sentMemory" where
  "sentMemoryOf w =
    \<lparr>SM_Command = LastCommandID (Status w), SM_Stage = LastStageCommandID (Status w),
     SM_Signal = LastSignaledDeadlineDecisionID (Status w),
     SM_Simulation = LastAppliedBatterySimulationCommandID (Status w),
     SM_Low = LastAppliedLowBatteryThreshold (Status w), SM_High = LastAppliedHighBatteryThreshold (Status w)\<rparr>"

text \<open>What has to be remembered of a message that the broker took.\<close>

fun noteMessage :: "controlMessage \<Rightarrow> sentMemory \<Rightarrow> sentMemory" where
  "noteMessage (StageRelease c g url digest f contract) m = m\<lparr>SM_Stage := c\<rparr>"
| "noteMessage (SetSimulation c enabled drain recov) m = m\<lparr>SM_Simulation := c\<rparr>"
| "noteMessage (SetThresholds c low high) m = m\<lparr>SM_Low := low, SM_High := high\<rparr>"
| "noteMessage (SignalDeadlineRejection c f) m = m\<lparr>SM_Signal := c\<rparr>"
| "noteMessage (PauseFunction c g) m = m\<lparr>SM_Command := c\<rparr>"
| "noteMessage (ResumeFunction c g) m = m\<lparr>SM_Command := c\<rparr>"
| "noteMessage (ActivateLocal c g) m = m\<lparr>SM_Command := c\<rparr>"
| "noteMessage (SetRuntimeMode c mode g) m = m\<lparr>SM_Command := c\<rparr>"

text \<open>
  An attempt to stage is remembered also when the broker refuses the message; of all other calls only
  the successful ones are.
\<close>

fun noteEvent :: "event \<times> string option \<Rightarrow> sentMemory \<Rightarrow> sentMemory" where
  "noteEvent (ActivateHost g, answer) m = m"
| "noteEvent (Publish topic (StageRelease c g url digest f contract), answer) m = m\<lparr>SM_Stage := c\<rparr>"
| "noteEvent (Publish topic msg, None) m = noteMessage msg m"
| "noteEvent (Publish topic msg, Some err) m = m"

lemma noteEvent_sent [simp]: "noteEvent (Publish topic msg, None) m = noteMessage msg m"
  by (cases msg) simp_all

definition isStaging :: "controlMessage \<Rightarrow> bool" where
  "isStaging msg \<longleftrightarrow> (\<exists>c g url digest f contract. msg = StageRelease c g url digest f contract)"

lemma noteEvent_refused: "\<not> isStaging msg \<Longrightarrow> noteEvent (Publish topic msg, Some err) m = m"
  by (cases msg) (simp_all add: isStaging_def)

section \<open>Steps that keep the books\<close>

text \<open>A step whose effect on the memory is the replay of the calls it makes.\<close>

definition books :: "'a step \<Rightarrow> bool" where
  "books f \<longleftrightarrow> (\<forall>st :: operatorState. \<exists>evs. Events (snd (f st)) = Events st @ evs \<and>
     sentMemoryOf (Wf (snd (f st))) = fold noteEvent evs (sentMemoryOf (Wf st)))"

named_theorems books_intros

text \<open>A step that makes no call and leaves the memory alone.\<close>

definition mute :: "(sentMemory \<Rightarrow> sentMemory) \<Rightarrow> 'a step \<Rightarrow> bool" where
  "mute note f \<longleftrightarrow> (\<forall>st :: operatorState. Events (snd (f st)) = Events st \<and>
     sentMemoryOf (Wf (snd (f st))) = note (sentMemoryOf (Wf st)))"

lemma books_mute: "mute (\<lambda>m. m) f \<Longrightarrow> books f"
  unfolding mute_def books_def by auto

lemma books_andThen [books_intros]:
  assumes "books f" "\<And>a. books (g a)"
  shows "books (andThen f g)"
  unfolding books_def
proof
  fix st :: operatorState
  obtain r st1 where f: "f st = (r, st1)" by (cases "f st")
  obtain evs where 1: "Events st1 = Events st @ evs" "sentMemoryOf (Wf st1) = fold noteEvent evs (sentMemoryOf (Wf st))"
    using assms(1) f unfolding books_def by (metis snd_conv)
  show "\<exists>evs. Events (snd (andThen f g st)) = Events st @ evs \<and>
     sentMemoryOf (Wf (snd (andThen f g st))) = fold noteEvent evs (sentMemoryOf (Wf st))"
  proof (cases r)
    case (Inl e)
    then show ?thesis using f 1 by (auto simp: andThen_def)
  next
    case (Inr a)
    obtain evs2 where "Events (snd (g a st1)) = Events st1 @ evs2"
      "sentMemoryOf (Wf (snd (g a st1))) = fold noteEvent evs2 (sentMemoryOf (Wf st1))"
      using assms(2) [of a] unfolding books_def by blast
    with f 1 Inr show ?thesis by (intro exI [of _ "evs @ evs2"]) (simp add: andThen_def)
  qed
qed

lemma books_basic [books_intros]: "books (ret a)" "books (readClock env)" "books (\<lambda>st. (x, st))"
  by (rule books_mute, simp add: mute_def ret_def readClock_def)+

lemma books_modify [books_intros]:
  "(\<And>st. Events (f st) = Events st \<and> sentMemoryOf (Wf (f st)) = sentMemoryOf (Wf st)) \<Longrightarrow> books (modify f)"
  by (rule books_mute) (simp add: mute_def modify_def)

lemma books_if [books_intros]: "(b \<Longrightarrow> books f) \<Longrightarrow> (\<not> b \<Longrightarrow> books g) \<Longrightarrow> books (if b then f else g)"
  by simp

lemma books_at: "(\<And>st :: operatorState. \<exists>f'. f st = f' st \<and> books f') \<Longrightarrow> books f"
  unfolding books_def by metis

lemma books_chosen: "f st = f' st \<Longrightarrow> books f' \<Longrightarrow> \<exists>f'. f st = f' st \<and> books f'"
  by blast

text \<open>A step that is one of two or three, by guards on its own state.\<close>

lemma books_either:
  assumes "f st = ret a st \<or> f st = g st" "books g"
  shows "\<exists>f'. f st = f' st \<and> books f'"
  using assms(1)
proof
  assume "f st = ret a st"
  then show ?thesis using books_basic(1) [of a] by blast
next
  assume "f st = g st"
  then show ?thesis using assms(2) by blast
qed

lemma books_one_of:
  assumes "f st = ret a st \<or> f st = g st \<or> f st = h st" "books g" "books h"
  shows "\<exists>f'. f st = f' st \<and> books f'"
  using assms books_either [of f st a g] by (cases "f st = h st") blast+

text \<open>A message and the note of it afterwards.\<close>

lemma books_publish:
  assumes "\<not> isStaging msg" "\<And>a. mute (noteMessage msg) (g a)"
  shows "books (andThen (publishControl env topic msg) g)"
  unfolding books_def
proof
  fix st :: operatorState
  let ?answer = "Outcome env (length (Events st))" and ?st = "st\<lparr>Events := Events st @ [(Publish topic msg, Outcome env (length (Events st)))]\<rparr>"
  have "snd (andThen (publishControl env topic msg) g st) = (if ?answer = None then snd (g () ?st) else ?st)"
    by (simp add: andThen_def publishControl_def call_def Let_def split: option.split)
  moreover have "Events (snd (g () ?st)) = Events ?st" "sentMemoryOf (Wf (snd (g () ?st))) = noteMessage msg (sentMemoryOf (Wf ?st))"
    using assms(2) unfolding mute_def by blast+
  ultimately show "\<exists>evs. Events (snd (andThen (publishControl env topic msg) g st)) = Events st @ evs \<and>
     sentMemoryOf (Wf (snd (andThen (publishControl env topic msg) g st))) = fold noteEvent evs (sentMemoryOf (Wf st))"
    using noteEvent_refused [OF assms(1)]
    by (intro exI [of _ "[(Publish topic msg, ?answer)]"]) auto
qed

section \<open>Every operation keeps the books\<close>

lemma books_stage: "books (applyReleaseStage env topic a)"
proof (rule books_at)
  fix st :: operatorState
  let ?w = "Wf st" and ?g = "R_Generation (release (Wf st))" and ?digest = "DesiredDigest a"
  let ?c = "stageCommandID ?g ?digest"
  let ?msg = "StageRelease ?c ?g (deviceArtifactURL ?w) ?digest (FunctionIdentity (release ?w)) (ResourceContract (release ?w))"
  let ?send = "\<lambda>b. case b of None \<Rightarrow> ret False | Some attempt \<Rightarrow> andThen (publishControl env topic ?msg) (\<lambda>_. ret True)"
  let ?claim = "\<lambda>now st. case claimReleaseStageAttempt ?c now st of (b, st') \<Rightarrow> ?send b st'"
  have claim: "books (?claim now)" for now
    unfolding books_def
  proof
    fix st :: operatorState
    obtain b st' where c: "claimReleaseStageAttempt ?c now st = (b, st')" by (cases "claimReleaseStageAttempt ?c now st")
    then have st': "Events st' = Events st \<and> sentMemoryOf (Wf st') =
        (if b = None then sentMemoryOf (Wf st) else (sentMemoryOf (Wf st))\<lparr>SM_Stage := ?c\<rparr>)"
      by (auto simp: claimReleaseStageAttempt_def sentMemoryOf_def Let_def split: prod.splits if_splits)
    show "\<exists>evs. Events (snd (?claim now st)) = Events st @ evs \<and>
       sentMemoryOf (Wf (snd (?claim now st))) = fold noteEvent evs (sentMemoryOf (Wf st))"
    proof (cases b)
      case None
      then show ?thesis using c st' by (simp add: ret_def)
    next
      case (Some n)
      then show ?thesis using c st'
        by (intro exI [of _ "[(Publish topic ?msg, Outcome env (length (Events st')))]"])
          (simp add: andThen_def publishControl_def call_def ret_def Let_def split: option.split)
    qed
  qed
  let ?reset = "\<lambda>s. (setStatus (\<lambda>x. x\<lparr>StageCommandAttempts := 0\<rparr>) s)\<lparr>StageSends := (StageSends s)(key_of ?w := None)\<rparr>"
  have reset: "books (\<lambda>s. (Inr False, ?reset s))" by (rule books_mute) (simp add: mute_def sentMemoryOf_def)
  have "applyReleaseStage env topic a st =
    (if \<not> A_Enabled a \<or> ?digest = [] \<or> ?g \<le> 0 then ret False
     else if deviceArtifactURL ?w = [] then (\<lambda>s. (Inl (''device.artifactURL is required to stage release '' @ fmt_d ?g), s))
     else if deviceReleaseReady ?w ?digest then (\<lambda>s. (Inr False, ?reset s))
     else andThen (readClock env) ?claim) st"
    by (simp add: applyReleaseStage_def Let_def ret_def)
  then show "\<exists>f'. applyReleaseStage env topic a st = f' st \<and> books f'"
    by (rule books_chosen) (intro books_intros claim reset)
qed

lemma books_simulation: "books (applyBatterySimulationUpdate env topic)"
proof (rule books_at)
  fix st :: operatorState
  let ?s = "BatterySimulation (device (Wf st))"
  show "\<exists>f'. applyBatterySimulationUpdate env topic st = f' st \<and> books f'"
  proof (cases "BS_Enabled ?s")
    case None
    then have "applyBatterySimulationUpdate env topic st = ret False st"
      by (simp add: applyBatterySimulationUpdate_def Let_def ret_def)
    then show ?thesis using books_basic(1) [of False] by blast
  next
    case (Some enabled)
    let ?drain = "effectiveSimulationStep (LocalDrainPercent ?s)" and ?recov = "effectiveSimulationStep (EdgeRecoverPercent ?s)"
    let ?id = "simulationID enabled ?drain ?recov"
    let ?send = "andThen (publishControl env topic (SetSimulation ?id enabled ?drain ?recov)) (\<lambda>_.
      andThen (modify (setStatus (\<lambda>s. s\<lparr>LastAppliedBatterySimulationCommandID := ?id\<rparr>))) (\<lambda>_.
      andThen (readClock env) (\<lambda>now.
      andThen (modify (setStatus (\<lambda>s. s\<lparr>LastBatterySimulationCommandTime := Some now\<rparr>))) (\<lambda>_. ret True))))"
    have "books ?send"
      by (rule books_publish) (simp_all add: isStaging_def mute_def andThen_def modify_def readClock_def ret_def sentMemoryOf_def)
    moreover have "applyBatterySimulationUpdate env topic st = ret False st \<or> applyBatterySimulationUpdate env topic st = ?send st"
      by (simp add: applyBatterySimulationUpdate_def Let_def ret_def Some)
    ultimately show ?thesis by (intro books_either)
  qed
qed

lemma books_thresholds: "books (applyThresholdUpdate env topic d)"
proof (rule books_at)
  fix st :: operatorState
  let ?send = "andThen (publishControl env topic
      (SetThresholds (thresholdsID (LowThreshold d) (HighThreshold d)) (LowThreshold d) (HighThreshold d)))
    (\<lambda>_. andThen (modify (setStatus (\<lambda>s. s\<lparr>LastAppliedLowBatteryThreshold := LowThreshold d,
       LastAppliedHighBatteryThreshold := HighThreshold d\<rparr>))) (\<lambda>_. ret True))"
  have "books ?send"
    by (rule books_publish) (simp_all add: isStaging_def mute_def andThen_def modify_def ret_def sentMemoryOf_def)
  moreover have "applyThresholdUpdate env topic d st = ret False st \<or> applyThresholdUpdate env topic d st = ?send st"
    by (simp add: applyThresholdUpdate_def ret_def)
  ultimately show "\<exists>f'. applyThresholdUpdate env topic d st = f' st \<and> books f'" by (intro books_either)
qed

lemma books_rejection: "books (applyDeadlineRejectionSignal env topic d)"
proof (rule books_at)
  fix st :: operatorState
  let ?id = "deadlineDecisionID (Wf st) d" and ?f = "FunctionIdentity (release (Wf st))"
  let ?mark = "modify (setStatus (\<lambda>s. s\<lparr>LastDeadlineDecisionID := deadlineDecisionID (Wf st) d\<rparr>))"
  let ?send = "andThen ?mark (\<lambda>_. andThen (publishControl env topic (SignalDeadlineRejection ?id ?f))
    (\<lambda>_. modify (setStatus (\<lambda>s. s\<lparr>LastSignaledDeadlineDecisionID := ?id\<rparr>))))"
  have mark: "books ?mark" by (rule books_modify) (simp add: sentMemoryOf_def)
  have send: "books ?send"
    by (rule books_andThen [OF mark], rule books_publish)
      (simp_all add: isStaging_def mute_def modify_def sentMemoryOf_def)
  have "applyDeadlineRejectionSignal env topic d st = ret () st \<or> applyDeadlineRejectionSignal env topic d st = ?mark st \<or>
      applyDeadlineRejectionSignal env topic d st = ?send st"
    by (simp add: applyDeadlineRejectionSignal_def Let_def ret_def modify_andThen) (simp add: modify_def)
  then show "\<exists>f'. applyDeadlineRejectionSignal env topic d st = f' st \<and> books f'"
    using mark send by (rule books_one_of)
qed

lemma mute_remember: "(\<And>m. note m = m\<lparr>SM_Command := c\<rparr>) \<Longrightarrow> mute note (rememberCommand env c)"
  by (simp add: mute_def rememberCommand_def andThen_def readClock_def modify_def sentMemoryOf_def)

lemma books_pause: "books (applyPauseCommand env topic)"
proof (rule books_at)
  fix st :: operatorState
  let ?g = "R_Generation (release (Wf st))"
  let ?send = "andThen (publishControl env topic (PauseFunction (pauseID ?g) ?g)) (\<lambda>_. rememberCommand env (pauseID ?g))"
  have "books ?send" by (rule books_publish) (simp_all add: isStaging_def mute_remember)
  moreover have "applyPauseCommand env topic st = ret () st \<or> applyPauseCommand env topic st = ?send st"
    by (simp add: applyPauseCommand_def Let_def ret_def)
  ultimately show "\<exists>f'. applyPauseCommand env topic st = f' st \<and> books f'" by (intro books_either)
qed

lemma books_resume: "books (applyResumeCommand env topic d a)"
proof (rule books_at)
  fix st :: operatorState
  let ?g = "R_Generation (release (Wf st))"
  let ?send = "andThen (publishControl env topic (ResumeFunction (resumeID ?g) ?g)) (\<lambda>_. rememberCommand env (resumeID ?g))"
  have "books ?send" by (rule books_publish) (simp_all add: isStaging_def mute_remember)
  moreover have "applyResumeCommand env topic d a st = ret () st \<or> applyResumeCommand env topic d a st = ?send st"
    by (simp add: applyResumeCommand_def Let_def ret_def)
  ultimately show "\<exists>f'. applyResumeCommand env topic d a st = f' st \<and> books f'" by (intro books_either)
qed

lemma books_activation:
  assumes "\<not> isStaging msg" "\<And>m. noteMessage msg m = m\<lparr>SM_Command := c\<rparr>"
  shows "books (sendActivation env topic c msg p mode track)"
proof -
  have remember: "books (modify (rememberReleaseActivationSend c now))" for now
    by (rule books_modify) (simp add: rememberReleaseActivationSend_def)
  have "books (andThen (publishControl env topic msg) (\<lambda>_.
    andThen (modify (if track then setStatus (\<lambda>s. s\<lparr>LastCommandedPlacement := p, LastCommandedRuntimeMode := mode\<rparr>) else id)) (\<lambda>_.
    andThen (modify (setStatus (\<lambda>s. s\<lparr>LastCommandID := c\<rparr>))) (\<lambda>_. ret True))))"
    by (rule books_publish [OF assms(1)]) (simp add: mute_def andThen_def modify_def ret_def sentMemoryOf_def assms(2))
  then show ?thesis unfolding sendActivation_def by (intro books_andThen [OF books_basic(2)] books_andThen [OF remember])
qed

lemma books_sends:
  "books (sendActivateLocalCommand env topic t)" "books (sendRuntimeModeCommand env topic d t)"
proof -
  have sends: "books (sendActivation env topic c (ActivateLocal c g) p m t)"
    "books (sendActivation env topic c (SetRuntimeMode c v g) p m t)" for c g v p m
    by (rule books_activation; simp add: isStaging_def)+
  show "books (sendActivateLocalCommand env topic t)"
    unfolding sendActivateLocalCommand_def Let_def by (rule books_at) (use sends(1) in blast)
  show "books (sendRuntimeModeCommand env topic d t)"
    unfolding sendRuntimeModeCommand_def Let_def by (rule books_at) (use sends(2) in blast)
qed

lemma books_unlessSkipped:
  assumes "books f"
  shows "books (unlessSkipped env c p m digest f)"
proof -
  have "books (\<lambda>st. case shouldSkipPlacementCommand c p m (R_Generation (release (Wf st))) digest now st of
      (skip, st') \<Rightarrow> (if skip then ret False else f) st')" for now
    unfolding books_def
  proof
    fix st :: operatorState
    let ?skip = "shouldSkipPlacementCommand c p m (R_Generation (release (Wf st))) digest now st"
    have same: "Events (snd ?skip) = Events st" "Wf (snd ?skip) = Wf st"
      by (simp_all add: shouldSkipPlacementCommand_def Let_def)
    have "books (if fst ?skip then ret False else f)" by (intro books_if books_basic assms)
    then show "\<exists>evs. Events (snd (case ?skip of (skip, st') \<Rightarrow> (if skip then ret False else f) st')) = Events st @ evs \<and>
        sentMemoryOf (Wf (snd (case ?skip of (skip, st') \<Rightarrow> (if skip then ret False else f) st'))) =
          fold noteEvent evs (sentMemoryOf (Wf st))"
      unfolding books_def using same by (metis (no_types, lifting) case_prod_unfold)
  qed
  then show ?thesis unfolding unlessSkipped_def by (intro books_andThen books_basic)
qed

lemma books_host: "books (ensureHostActive env a)"
proof -
  have call: "books (activateHostRelease env)"
    unfolding books_def activateHostRelease_def call_def by (auto simp: Let_def split: option.split)
  show ?thesis
  proof (rule books_at)
    fix st :: operatorState
    let ?go = "andThen (activateHostRelease env) (\<lambda>_.
      andThen (modify (setStatus (\<lambda>s. s\<lparr>HostArtifactDigest := DesiredDigest a, HostStagedArtifactDigest := []\<rparr>))) (\<lambda>_.
      ret (Some (a\<lparr>HostDigest := DesiredDigest a, HostActiveGeneration := R_Generation (release (Wf st)),
        HostActiveFunction := FunctionIdentity (release (Wf st)), HostStagedDigest := [], HostStagedGeneration := 0,
        HostStagedFunction := []\<rparr>))))"
    have "books ?go" by (intro books_andThen call books_modify books_basic) (simp add: sentMemoryOf_def)
    moreover have "ensureHostActive env a st = ret (Some a) st \<or> ensureHostActive env a st = ret None st \<or>
        ensureHostActive env a st = ?go st"
      by (simp add: ensureHostActive_def Let_def ret_def)
    ultimately show "\<exists>f'. ensureHostActive env a st = f' st \<and> books f'" using books_basic(1) [of "Some a"] books_basic(1) [of None] by blast
  qed
qed

lemma books_command: "books (applyPlacementCommand env topic d a)"
proof (rule books_at)
  fix st :: operatorState
  let ?g = "R_Generation (release (Wf st))" and ?t = "Transition d \<longrightarrow> Accepted (PD_Deadline d)"
  let ?local = "unlessSkipped env (activateLocalID ?g) (Desired d) placementLocal (DesiredDigest a)
    (sendActivateLocalCommand env topic ?t)"
  let ?edge = "andThen (ensureHostActive env a) (\<lambda>served. case served of None \<Rightarrow> ret False
    | Some a' \<Rightarrow> if \<not> hostActiveMatches a' (Wf st) then ret False
        else unlessSkipped env (runtimeEdgeID ?g) (Desired d) placementEdge (DesiredDigest a) (sendRuntimeModeCommand env topic d ?t))"
  have "books ?local" by (intro books_unlessSkipped books_sends)
  moreover have "books ?edge"
    by (rule books_andThen [OF books_host]) (auto intro!: books_intros books_unlessSkipped books_sends split: option.split)
  moreover have "applyPlacementCommand env topic d a st = ret False st \<or>
      applyPlacementCommand env topic d a st = ?local st \<or> applyPlacementCommand env topic d a st = ?edge st"
    by (simp add: applyPlacementCommand_def Let_def ret_def cong: if_cong)
  ultimately show "\<exists>f'. applyPlacementCommand env topic d a st = f' st \<and> books f'" by (intro books_one_of)
qed

lemma books_pass:
  "\<exists>evs. Events (snd (applyPlacement env d a st)) = Events st @ evs \<and>
     sentMemoryOf (Wf (snd (applyPlacement env d a st))) = fold noteEvent evs (sentMemoryOf (Wf st))"
proof (cases "ControlTopic (device (Wf st)) = []")
  case True
  then show ?thesis by (simp add: applyPlacement_no_topic)
next
  case False
  let ?topic = "ControlTopic (device (Wf st))"
  have before: "books (beforeCommand env ?topic d a)"
    unfolding beforeCommand_def
    by (intro books_andThen books_stage books_simulation books_thresholds books_rejection books_if books_pause books_basic)
  have after: "books (afterCommand env ?topic d a c)" for c
    unfolding afterCommand_def
    by (intro books_andThen books_if books_resume books_basic books_modify) (simp add: sentMemoryOf_def)
  have "books (andThen (andThen (beforeCommand env ?topic d a) (\<lambda>_. applyPlacementCommand env ?topic d a))
      (afterCommand env ?topic d a))"
    by (intro books_andThen before books_command after)
  then show ?thesis using applyPlacement_steps [OF refl False, of env d a] unfolding books_def by metis
qed

section \<open>The one status write of a pass\<close>

lemma sentMemory_commandMemory: "commandMemory (Status v) = commandMemory (Status w) \<Longrightarrow> sentMemoryOf v = sentMemoryOf w"
  by (simp add: commandMemory_def sentMemoryOf_def)

lemma sentMemory_gated:
  "sentMemoryOf (gated reason m1 m2 aerr (on_status (\<lambda>s. s\<lparr>DesiredArtifactDigest := x, HostArtifactDigest := y,
     HostStagedArtifactDigest := z\<rparr>) w)) = sentMemoryOf w"
  by (simp add: gated_def sentMemoryOf_def updateArtifactRetryState_def Let_def split: option.split)

text \<open>All attempts at the status write but the last are refused as conflicts.\<close>

lemma updateStatusOnce_log:
  "Writes (snd (updateStatusOnce api key w u t)) = Writes t \<or>
   (\<exists>x. Writes (snd (updateStatusOnce api key w u t)) = Writes t @ [(x, fst (updateStatusOnce api key w u t))])"
  by (auto simp: updateStatusOnce_steps sendWrite_def Let_def split: sum.split)

lemma status_conflicts:
  assumes "retryOnConflict n (updateStatusOnce api key w u) t = (None, t')"
  shows "\<exists>fs x. Writes t' = Writes t @ fs @ [(x, None)] \<and> (\<forall>y \<in> set fs. snd y = Some Conflict)"
  using assms
proof (induction n arbitrary: t)
  case 0
  then show ?case by simp
next
  case (Suc n)
  obtain r t1 where once: "updateStatusOnce api key w u t = (r, t1)" by (cases "updateStatusOnce api key w u t")
  show ?case
  proof (cases "r = Some Conflict")
    case True
    then have "retryOnConflict n (updateStatusOnce api key w u) t1 = (None, t')"
      using Suc.prems once by (simp add: retryOnConflict_Suc)
    from Suc.IH [OF this] obtain fs x where fs: "Writes t' = Writes t1 @ fs @ [(x, None)]" "\<forall>y \<in> set fs. snd y = Some Conflict"
      by blast
    moreover have "\<exists>pre. Writes t1 = Writes t @ pre \<and> (\<forall>y \<in> set pre. snd y = Some Conflict)"
      using updateStatusOnce_log [of api key w u t] once True by auto
    ultimately show ?thesis by auto
  next
    case False
    then have "r = None" "t1 = t'" using Suc.prems once by (simp_all add: retryOnConflict_Suc)
    then have "\<exists>x. Writes t' = Writes t @ [(x, None)]"
      using once by (auto simp: updateStatusOnce_steps sendWrite_def Let_def split: sum.splits)
    then show ?thesis by (metis append_Nil empty_iff empty_set)
  qed
qed

text \<open>C25: A pass reports what it did.  When a pass that has sent a request or a message or attempted to write
  a status ends without an error, exactly one of its status writes was taken, the last of all its
  writes; every status write before it was refused as a conflict.  The status written carries the
  memory of the commands as the pass has left it, and the ids and thresholds in it are those that a
  replay of the messages of the pass gives: for every message that the broker took, and for every
  attempt to stage, the id (or the thresholds) of the last one of its kind, and what the resource said
  at the start of the pass where the pass has sent nothing of the kind.\<close>

theorem commands_are_recorded:
  assumes "reconcile env key st = (Finished delay, st')"
    and "Events (Operator st') \<noteq> Events (Operator st) \<or> Http st' \<noteq> Http st \<or> statusWrites st st' \<noteq> []"
  shows "\<exists>w ws w' evs. GetFunction (Api env) (ApiCalls (Trace st)) key = Inr w \<and>
    Writes (Trace st') = Writes (Trace st) @ ws @ [(UpdateStatus w', None)] \<and>
    (\<forall>v answer. (UpdateStatus v, answer) \<in> set ws \<longrightarrow> answer = Some Conflict) \<and>
    commandMemory (Status w') = commandMemory (Status (passWf st')) \<and>
    Events (Operator st') = Events (Operator st) @ evs \<and>
    sentMemoryOf w' = fold noteEvent evs (sentMemoryOf w)"
  using assms(1)
proof (cases rule: reconcile_halves)
  case stopped
  then show ?thesis using assms(2) objectWrites_no_status [of st "Trace st'" st'] by simp
next
  case (reached w deploy t1 t2)
  from reached(5) show ?thesis
  proof (cases rule: releaseStages_cases)
    case (reported artifact aerr h wa n av d now e st3 commanded perr st4 st5 u1 u2 u3 rs)
    let ?u = "statusInput n d artifact aerr commanded perr u1 u2 u3 (passWf st4)"
    have "rs = None" using reported(13) by (auto split: option.splits)
    then have run: "updateStatus (Api env) key (passWf st4) ?u (Trace st4) = (None, Trace st')" using reported(10) by simp
    obtain fs x where fs: "Writes (Trace st') = Writes (Trace st4) @ fs @ [(x, None)]" "\<forall>y \<in> set fs. snd y = Some Conflict"
      using status_conflicts run unfolding updateStatus_def by blast
    obtain gs y current where "Writes (Trace st') = Writes (Trace st4) @ gs @ [(y, None)]"
      "y = UpdateStatus (reconciledStatus (Api env) (passWf st4) ?u current)"
      using updateStatus_log(2) [OF run refl] by (auto simp: statusWrite_def)
    with fs have x: "x = UpdateStatus (reconciledStatus (Api env) (passWf st4) ?u current)" by simp
    obtain os where os: "Writes t2 = Writes (Trace st) @ os" "\<forall>y \<in> set os. objectWrite (fst y)"
      using reached(4) by (auto simp: logs_def)
    let ?w' = "reconciledStatus (Api env) (passWf st4) ?u current"
    have ws: "Writes (Trace st') = Writes (Trace st) @ (os @ fs) @ [(UpdateStatus ?w', None)]"
      using fs(1) reported(9) os(1) x by simp
    have conflicts: "\<forall>v answer. (UpdateStatus v, answer) \<in> set (os @ fs) \<longrightarrow> answer = Some Conflict"
      using fs(2) os(2) by (force simp: objectWrite_def)
    have memory: "commandMemory (Status ?w') = commandMemory (Status (passWf st'))"
      by (simp only: reconciledStatus_memory reported(11))
    have start: "sentMemoryOf (passWf st3) = sentMemoryOf w"
      using reported(17) sentMemory_gated by auto
    have op4: "Operator st4 = (if PD_Enabled d then snd (applyPlacement (Cmd env) d artifact (Operator st3)) else Operator st3)"
      using reported(6) by (auto simp: commandStage_def split: prod.splits if_splits)
    have "\<exists>evs. Events (Operator st4) = Events (Operator st3) @ evs \<and>
        sentMemoryOf (passWf st4) = fold noteEvent evs (sentMemoryOf (passWf st3))"
      unfolding op4 using books_pass by auto
    then obtain evs where evs: "Events (Operator st4) = Events (Operator st3) @ evs"
        "sentMemoryOf (passWf st4) = fold noteEvent evs (sentMemoryOf w)"
      using start by auto
    have "sentMemoryOf ?w' = sentMemoryOf (passWf st4)"
      by (rule sentMemory_commandMemory) (rule reconciledStatus_memory)
    moreover have "Events (Operator st') = Events (Operator st) @ evs"
      using evs(1) reported(5,12) by simp
    ultimately show ?thesis
      using reached(1) ws conflicts memory evs(2) by (intro exI [of _ w] exI [of _ "os @ fs"] exI [of _ ?w'] exI [of _ evs]) simp
  qed simp
qed

text \<open>A function with a control topic and nothing else: the pass sends the thresholds.\<close>

definition thresholdFunction :: wasmFunction where
  "thresholdFunction = zeroWasmFunction\<lparr>Spec := zeroSpec\<lparr>Device := zeroDevice\<lparr>ControlTopic := ''c''\<rparr>\<rparr>\<rparr>"

lemma gated_fields [simp]:
  "device (gated reason m1 m2 aerr w) = device w"
  "LastAppliedLowBatteryThreshold (Status (gated reason m1 m2 aerr w)) = LastAppliedLowBatteryThreshold (Status w)"
  "ObservedAdmissionPaused (Status (gated reason m1 m2 aerr w)) = ObservedAdmissionPaused (Status w)"
  by (simp_all add: gated_def updateArtifactRetryState_def Let_def split: option.split)

lemma threshold_url: "operatorArtifactURL thresholdFunction = []"
proof -
  have "OperatorWasmURL (device thresholdFunction) = []" by (simp add: thresholdFunction_def zero_defs)
  moreover have "trimSpace [] = []" by (rule trimSpace_plain) simp
  ultimately show ?thesis by (simp add: operatorArtifactURL_def)
qed

lemma threshold_decision:
  assumes "same_input thresholdFunction w"
  defines "d \<equiv> \<lambda>now e a av. snd (applyDestinationReadiness w (resolvePlacementWithEstimates now w e) a av)"
  shows "\<not> Transition (d now e a av)" "BatteryThresholdEnabled (d now e a av)" "LowThreshold (d now e a av) = 20"
    "HighThreshold (d now e a av) = 60" "PD_Enabled (d now e a av)"
proof -
  have w: "placement w = zeroPlacement" "DesiredPlacement (Status w) = []" "ControlTopic (device w) = ''c''"
    "ObservedBatteryPercent (Status w) = None"
    using same_inputD [OF assms(1)] by (simp_all add: thresholdFunction_def zero_defs)
  show "\<not> Transition (d now e a av)" "BatteryThresholdEnabled (d now e a av)" "LowThreshold (d now e a av) = 20"
    "HighThreshold (d now e a av) = 60" "PD_Enabled (d now e a av)"
    by (simp_all add: d_def applyDestinationReadiness_def resolvePlacementWithEstimates_def initialDecision_def
        proposePlacement_def proposeAuto_def policy_mode_def batteryPercentForPlacement_def w
        effectiveBatteryThresholdEnabled_def resolvedLowThreshold_def resolvedHighThreshold_def
        defaultLowBatteryThreshold_def defaultHighBatteryThreshold_def zero_defs toLower_def Let_def)
qed

lemma sends_thresholds:
  assumes "\<not> A_Enabled a" "BS_Enabled (BatterySimulation (device (Wf st))) = None" "ControlTopic (device (Wf st)) = topic" "topic \<noteq> []"
    and "\<not> Transition d" "BatteryThresholdEnabled d" "LastAppliedLowBatteryThreshold (Status (Wf st)) \<noteq> LowThreshold d"
    and "\<not> ObservedAdmissionPaused (Status (Wf st))" "Outcome env = (\<lambda>n. None)"
  shows "Events (snd (applyPlacement env d a st)) = Events st @
    [(Publish topic (SetThresholds (thresholdsID (LowThreshold d) (HighThreshold d)) (LowThreshold d) (HighThreshold d)), None)]"
  using assms
  by (simp add: applyPlacement_def applyReleaseStage_def applyBatterySimulationUpdate_def applyThresholdUpdate_def
      applyDeadlineRejectionSignal_def deadlineRejected_def applyPlacementCommand_def applyResumeCommand_def andThen_def
      publishControl_def call_def modify_def ret_def Let_def)

theorem commands_are_recorded_witness:
  "\<exists>(st' :: passState) w' topic c. last (Writes (Trace st')) = (UpdateStatus w', None) \<and>
     Events (Operator st') = [(Publish topic (SetThresholds c 20 60), None)] \<and> LastAppliedLowBatteryThreshold (Status w') = 20"
proof -
  let ?env = "demoPass thresholdFunction vouching"
  obtain delay st' w' where run: "reconcile ?env ([], []) idlePass = (Finished delay, st')" "w' \<in> set (statusWrites idlePass st')"
    using demo_pass by blast
  have env: "Outcome (Cmd ?env) = (\<lambda>n. None)" by (simp add: demoPass_def)
  obtain deploy t2 where full: "reconcile ?env ([], []) idlePass =
     releaseStages ?env ([], []) deploy (idlePass\<lparr>Trace := t2, Operator := (Operator idlePass)\<lparr>Wf := thresholdFunction\<rparr>\<rparr>)"
    using demo_reaches by blast
  have "releaseStages ?env ([], []) deploy (idlePass\<lparr>Trace := t2, Operator := (Operator idlePass)\<lparr>Wf := thresholdFunction\<rparr>\<rparr>) =
      (Finished delay, st')" using run(1) full by simp
  then have "\<exists>topic c. Events (Operator st') = [(Publish topic (SetThresholds c 20 60), None)]"
  proof (cases rule: releaseStages_cases)
    case (reported artifact aerr h wa n av d now e st3 commanded perr st4 st5 u1 u2 u3 rs)
    have art: "artifact = zeroArtifact"
      using reported(1) threshold_url by (simp add: reconcileArtifact_def)
    have d: "\<not> Transition d" "BatteryThresholdEnabled d" "LowThreshold d = 20" "HighThreshold d = 60" "PD_Enabled d"
      using threshold_decision [of wa] reported(2) by (simp_all add: reported(4))
    have w3: "device (passWf st3) = device thresholdFunction" "LastAppliedLowBatteryThreshold (Status (passWf st3)) = 0"
      "\<not> ObservedAdmissionPaused (Status (passWf st3))"
      using reported(17) gated_fields by (auto simp: thresholdFunction_def zero_defs)
    have "Events (Operator st') = Events (snd (applyPlacement (Cmd ?env) d artifact (Operator st3)))"
      using reported(6,12) d(5) by (auto simp: commandStage_def split: prod.splits)
    moreover have "Events (Operator st3) = []" using reported(5) by (simp add: idlePass_def)
    ultimately show ?thesis
      using sends_thresholds [of artifact "Operator st3" "''c''" d "Cmd ?env"] d w3 env
      by (simp add: art zeroArtifact_def thresholdFunction_def zero_defs)
  qed simp
  then obtain topic c where events: "Events (Operator st') = [(Publish topic (SetThresholds c 20 60), None)]" by blast
  have effect: "Events (Operator st') \<noteq> Events (Operator idlePass) \<or> Http st' \<noteq> Http idlePass \<or> statusWrites idlePass st' \<noteq> []"
    using run(2) by auto
  from commands_are_recorded [OF run(1) effect] obtain w0 ws v evs where
    "Writes (Trace st') = Writes (Trace idlePass) @ ws @ [(UpdateStatus v, None)]"
    "Events (Operator st') = Events (Operator idlePass) @ evs" "sentMemoryOf v = fold noteEvent evs (sentMemoryOf w0)"
    by blast
  then have "last (Writes (Trace st')) = (UpdateStatus v, None)" "sentMemoryOf v = noteEvent (Publish topic (SetThresholds c 20 60), None) (sentMemoryOf w0)"
    using events by (auto simp: idlePass_def)
  moreover from this(2) have "LastAppliedLowBatteryThreshold (Status v) = 20" by (simp add: sentMemoryOf_def)
  ultimately show ?thesis using events by blast
qed

end
