(* ===== verification/Decision_Panics.thy ===== *)
theory Decision_Panics
  imports Reconcile_Safety "HOL-Library.Monad_Syntax"
begin

text \<open>
  The placement decision, the retry bookkeeping and the requeue once more, with every pointer that the code
  dereferences as an explicit operation that fails on \<open>nil\<close>.  The other theories read such pointers
  with a total function; here the guards before each dereference are part of what is proved, as is the
  range of the index with which the estimator reads its samples.
\<close>

section \<open>Pointers\<close>

text \<open>
  A computation that may panic: \<open>None\<close> is the panic.  \<open>both\<close> and \<open>either\<close> are \<open>&&\<close> and \<open>||\<close>, whose right
  sides run only if needed.
\<close>

definition deref :: "'a option \<Rightarrow> 'a option" where
  "deref pointer = pointer"

definition both :: "bool \<Rightarrow> bool option \<Rightarrow> bool option" where
  "both b rest = (if b then rest else Some False)"

definition either :: "bool \<Rightarrow> bool option \<Rightarrow> bool option" where
  "either b rest = (if b then Some True else rest)"

section \<open>The decision\<close>

definition effectiveBatteryThresholdEnabledP :: "wasmFunction \<Rightarrow> bool option" where
  "effectiveBatteryThresholdEnabledP w =
    (let enabled = BT_Enabled (BatteryThreshold (placement w)) in if enabled = None then Some True else deref enabled)"

definition effectiveDeadlineEnabledP :: "wasmFunction \<Rightarrow> bool option" where
  "effectiveDeadlineEnabledP w =
    (let enabled = DP_Enabled (Deadline (placement w)) in if enabled = None then Some True else deref enabled)"

definition effectiveBatteryDeltaEnabledP :: "wasmFunction \<Rightarrow> bool option" where
  "effectiveBatteryDeltaEnabledP w =
    (let enabled = BD_Enabled (BatteryDelta (placement w)) in if enabled = None then Some True else deref enabled)"

definition localBatteryDeltaForcesEdgeP :: "wasmFunction \<Rightarrow> int32 \<Rightarrow> bool option" where
  "localBatteryDeltaForcesEdgeP w high =
    do { enabled \<leftarrow> effectiveBatteryDeltaEnabledP w;
         if \<not> enabled \<or> ObservedMode (Status w) \<noteq> placementLocal \<or> ObservedBatteryDeltaPercent (Status w) = None
         then Some False
         else do {
           charged \<leftarrow> both (ObservedBatteryPercent (Status w) \<noteq> None)
             (do { b \<leftarrow> deref (ObservedBatteryPercent (Status w)); Some (b \<ge> high) });
           if charged then Some False
           else do {
             delta \<leftarrow> deref (ObservedBatteryDeltaPercent (Status w));
             Some (delta \<ge> effectiveBatteryDeltaMaxDrainPercent w \<and>
               ConsecutiveRiskyWindows (Status w) \<ge> effectiveBatteryDeltaRiskyWindows w) } } }"

definition proposeAutoP :: "wasmFunction \<Rightarrow> placementDecision \<Rightarrow> placementDecision option" where
  "proposeAutoP w d =
    (if PD_BatteryPercent d = None then Some (d\<lparr>PD_Reason := ''auto placement waiting for battery telemetry''\<rparr>)
     else do {
       full \<leftarrow> both (BatteryThresholdEnabled d \<and> Current d \<noteq> placementLocal)
         (do { b \<leftarrow> deref (PD_BatteryPercent d); Some (b \<ge> HighThreshold d) });
       if full then do {
         b \<leftarrow> deref (PD_BatteryPercent d);
         Some (d\<lparr>Proposal := placementLocal, PD_ProposalSource := ''HighBatteryThreshold'',
           PD_Reason := ''battery '' @ fmt_d b @ ''% >= high threshold '' @ fmt_d (HighThreshold d) @ ''%''\<rparr>) }
       else do {
         drains \<leftarrow> localBatteryDeltaForcesEdgeP w (HighThreshold d);
         if drains then do {
           delta \<leftarrow> deref (ObservedBatteryDeltaPercent (Status w));
           Some (d\<lparr>Proposal := placementEdge, PD_ProposalSource := ''BatteryDrain'',
             PD_Reason := ''local battery drain '' @ fmt_d delta @ ''% confirmed for '' @
               fmt_d (ConsecutiveRiskyWindows (Status w)) @ '' windows over '' @
               fmt_d (effectiveBatteryDeltaWindowSeconds w) @ ''s''\<rparr>) }
         else Some (d\<lparr>PD_Reason := ''retaining accepted '' @ Current d @ '' placement''\<rparr>) } })"

definition proposePlacementP :: "wasmFunction \<Rightarrow> placementDecision \<Rightarrow> placementDecision option" where
  "proposePlacementP w d =
    do { low \<leftarrow> both (BatteryThresholdEnabled d \<and> Current d = placementLocal \<and> PD_BatteryPercent d \<noteq> None)
           (do { b \<leftarrow> deref (PD_BatteryPercent d); Some (b \<le> LowThreshold d) });
         if low then do {
           b \<leftarrow> deref (PD_BatteryPercent d);
           Some (d\<lparr>Proposal := placementEdge, PD_ProposalSource := ''LowBatteryThreshold'', Hard := True,
             PD_Reason := ''battery '' @ fmt_d b @ ''% <= low threshold '' @ fmt_d (LowThreshold d) @ ''%''\<rparr>) }
         else if policy_mode w = placementEdge then
           Some (d\<lparr>Proposal := placementEdge, PD_ProposalSource := ''ExplicitPlacement'',
             PD_Reason := ''operator requested edge placement''\<rparr>)
         else if policy_mode w = placementLocal then
           Some (d\<lparr>Proposal := placementLocal, PD_ProposalSource := ''ExplicitPlacement'',
             PD_Reason := ''operator requested local placement''\<rparr>)
         else if policy_mode w = placementAuto then proposeAutoP w d
         else Some (d\<lparr>PD_Reason := ''unsupported placement mode '' @ fmt_q (P_Mode (placement w))\<rparr>) }"

text \<open>In the evaluation the target is read twice: in the test for a usable target, and for the slack.\<close>

definition evaluateDeadlineAdmissionP ::
    "time \<Rightarrow> wasmFunction \<Rightarrow> string \<Rightarrow> bool \<Rightarrow> deadlineEstimateSnapshot \<Rightarrow> deadlineEvaluation option" where
  "evaluateDeadlineAdmissionP now w candidate hard estimates =
    do { enabled \<leftarrow> effectiveDeadlineEnabledP w;
         let evaluation = zeroEvaluation\<lparr>E_Enabled := enabled, Accepted := True, E_Candidate := candidate\<rparr>;
             identity = trimSpace (FunctionIdentity (release w));
             observedIdentity = trimSpace (ObservedFunction (Status w));
             target = TargetMs (Deadline (placement w));
             condition = deadlineAdmissionCondition now
         in if \<not> enabled then Some evaluation
            else if identity = [] \<or> \<not> IdentityKnown estimates then
              Some (evaluation\<lparr>Accepted := hard, BlocksTransition := \<not> hard,
                E_Condition := Some (condition ConditionUnknown ''FunctionIdentityUnknown''
                  (''function identity '' @ fmt_q identity @ '' has no configured timing profile''))\<rparr>)
            else if observedIdentity \<noteq> [] \<and> observedIdentity \<noteq> identity then
              Some (evaluation\<lparr>Accepted := hard, BlocksTransition := \<not> hard,
                E_Condition := Some (condition ConditionUnknown ''FunctionIdentityMismatch''
                  (''selected function '' @ fmt_q identity @ '' does not match reported function '' @
                   fmt_q observedIdentity))\<rparr>)
            else do {
              unusable \<leftarrow> either (target = None) (do { t \<leftarrow> deref target; Some (t \<le> 0) });
              if unusable then
                Some (evaluation\<lparr>E_Condition := Some (condition ConditionUnknown ''TargetUnavailable''
                  ''deadline targetMs is not configured; deadline admission abstained'')\<rparr>)
              else if \<not> Available estimates then
                Some (evaluation\<lparr>E_Condition := Some (condition ConditionUnknown ''EstimatesUnavailable''
                  (''timing estimates for function '' @ fmt_q identity @
                   '' are unavailable; deadline admission abstained''))\<rparr>)
              else case deadlineCandidateCost candidate estimates (effectiveDeadlineSafetyMarginMs w) of
                None \<Rightarrow>
                  Some (evaluation\<lparr>Accepted := False, BlocksTransition := True,
                    E_Condition := Some (condition ConditionUnknown ''CandidateUnknown''
                      (''cannot evaluate unsupported candidate placement '' @ fmt_q candidate))\<rparr>)
              | Some cost \<Rightarrow> do {
                  t \<leftarrow> deref target;
                  let slack = wrap32 (t - cost);
                      minimum = effectiveDeadlineMinSlackMs w;
                      priced = evaluation\<lparr>CostMs := Some cost, SlackMs := Some slack\<rparr>
                  in Some (if slack \<ge> minimum then
                       priced\<lparr>E_Condition := Some (condition ConditionTrue ''CandidateAccepted''
                         (candidate @ '' candidate cost '' @ fmt_d cost @ ''ms leaves '' @ fmt_d slack @
                          ''ms slack (minimum '' @ fmt_d minimum @ ''ms)''))\<rparr>
                     else if hard then
                       priced\<lparr>Unsafe := True, Forced := True,
                         E_Condition := Some (condition ConditionFalse ''ForcedBatteryOverride''
                           (candidate @ '' candidate cost '' @ fmt_d cost @ ''ms leaves '' @ fmt_d slack @
                            ''ms slack below minimum '' @ fmt_d minimum @
                            ''ms; low-battery guardrail overrides deadline risk''))\<rparr>
                     else
                       priced\<lparr>Unsafe := True, Accepted := False, BlocksTransition := True,
                         E_Condition := Some (condition ConditionFalse ''CandidateDeadlineUnsafe''
                           (candidate @ '' candidate cost '' @ fmt_d cost @ ''ms leaves '' @ fmt_d slack @
                            ''ms slack below minimum '' @ fmt_d minimum @ ''ms''))\<rparr>) } } }"

definition resolvePlacementWithEstimatesP ::
    "time \<Rightarrow> wasmFunction \<Rightarrow> deadlineEstimateSnapshot \<Rightarrow> placementDecision option" where
  "resolvePlacementWithEstimatesP now w estimates =
    do { thresholds \<leftarrow> effectiveBatteryThresholdEnabledP w;
         let d0 = (initialDecision w)\<lparr>BatteryThresholdEnabled := thresholds\<rparr>
         in if \<not> PD_Enabled d0 then Some (d0\<lparr>PD_Reason := ''device control topic not configured''\<rparr>)
            else do {
              d \<leftarrow> proposePlacementP w d0;
              if Proposal d = [] then do {
                verdict \<leftarrow> evaluateDeadlineAdmissionP now w (Current d) False estimates;
                Some (d\<lparr>Candidate := Current d, PD_Deadline := verdict\<rparr>) }
              else do {
                verdict \<leftarrow> evaluateDeadlineAdmissionP now w (applyResourceLocality w (Proposal d)) (Hard d) estimates;
                let candidate = applyResourceLocality w (Proposal d);
                    transition = (candidate \<noteq> Current d);
                    d' = d\<lparr>Candidate := candidate, Transition := transition, PD_Deadline := verdict\<rparr>;
                    kept = d'\<lparr>Desired := Current d, RuntimeMode := runtimeModeForPlacement (Current d)\<rparr>
                in if \<not> transition \<or> Accepted verdict then
                     Some (d'\<lparr>Desired := candidate, RuntimeMode := runtimeModeForPlacement candidate\<rparr>)
                   else if E_Condition verdict \<noteq> None then do {
                     k \<leftarrow> deref (E_Condition verdict);
                     Some (kept\<lparr>PD_Reason := C_Message k\<rparr>) }
                   else Some kept } } }"

text \<open>The estimate and the decision, as the pass takes them.\<close>

definition decideP :: "deadlineTelemetryEstimator option \<Rightarrow> time \<Rightarrow> wasmFunction \<Rightarrow> placementDecision option" where
  "decideP estimator now w =
    do { estimates \<leftarrow> deadlineEstimate estimator w; resolvePlacementWithEstimatesP now w estimates }"

section \<open>Retry bookkeeping and requeue\<close>

definition updateArtifactRetryStateP ::
    "time \<Rightarrow> time \<Rightarrow> 'e option \<Rightarrow> wasmFunctionStatus \<Rightarrow> wasmFunctionStatus option" where
  "updateArtifactRetryStateP now later artifactErr s =
    (if artifactErr = None then Some (s\<lparr>ArtifactSyncStartedAt := None, ArtifactSyncRetryCount := 0\<rparr>)
     else let s0 = (if ArtifactSyncStartedAt s = None then s\<lparr>ArtifactSyncStartedAt := Some now\<rparr> else s);
              s1 = s0\<lparr>ArtifactSyncRetryCount := wrap32 (ArtifactSyncRetryCount s0 + 1)\<rparr>
          in do {
            started \<leftarrow> deref (ArtifactSyncStartedAt s1);
            Some (if time_sub later started \<ge> 60 * second then s1\<lparr>ArtifactReadinessReason := ''SyncFailed''\<rparr> else s1) })"

definition requeuePendingReleaseP :: "wasmFunction \<Rightarrow> time \<Rightarrow> duration option option" where
  "requeuePendingReleaseP w now =
    (let s = Status w; state = releaseDeliveryState w (normalizeArtifactDigest (R_ArtifactDigest (release w)))
     in if state = ''AwaitingStageAck'' then
          (if LastStageCommandTime s = None then Some (Some second)
           else do {
             t \<leftarrow> deref (LastStageCommandTime s);
             Some (requeueAt (t + releaseStageRetryDelay (if StageCommandAttempts s < 1 then 1 else StageCommandAttempts s)) now) })
        else if state = ''AwaitingActivationAck'' then
          (if LastCommandTime s = None then Some (Some second)
           else do { t \<leftarrow> deref (LastCommandTime s); Some (requeueAt (t + releaseStageRetryBase) now) })
        else Some None)"

section \<open>No dereference fails\<close>

named_theorems checked

lemma checked_flags [checked]:
  "effectiveBatteryThresholdEnabledP w = Some (effectiveBatteryThresholdEnabled w)"
  "effectiveDeadlineEnabledP w = Some (effectiveDeadlineEnabled w)"
  "effectiveBatteryDeltaEnabledP w = Some (effectiveBatteryDeltaEnabled w)"
  by (auto simp: effectiveBatteryThresholdEnabledP_def effectiveBatteryThresholdEnabled_def effectiveDeadlineEnabledP_def
      effectiveDeadlineEnabled_def effectiveBatteryDeltaEnabledP_def effectiveBatteryDeltaEnabled_def deref_def Let_def
      split: option.split)

lemma checked_drain [checked]: "localBatteryDeltaForcesEdgeP w high = Some (localBatteryDeltaForcesEdge w high)"
  by (auto simp: localBatteryDeltaForcesEdgeP_def localBatteryDeltaForcesEdge_def checked deref_def both_def split: option.split)

text \<open>The dereference in the drain branch is guarded inside the function called before it.\<close>

lemma drain_observed: "localBatteryDeltaForcesEdge w high \<Longrightarrow> \<exists>delta. ObservedBatteryDeltaPercent (Status w) = Some delta"
  by (auto simp: localBatteryDeltaForcesEdge_def split: if_splits)

lemma checked_auto [checked]: "proposeAutoP w d = Some (proposeAuto w d)"
proof (cases "PD_BatteryPercent d")
  case None
  then show ?thesis by (simp add: proposeAutoP_def proposeAuto_def)
next
  case (Some b)
  show ?thesis
  proof (cases "localBatteryDeltaForcesEdge w (HighThreshold d)")
    case True
    then obtain delta where "ObservedBatteryDeltaPercent (Status w) = Some delta" using drain_observed by blast
    with Some True show ?thesis by (simp add: proposeAutoP_def proposeAuto_def checked deref_def both_def)
  next
    case False
    with Some show ?thesis by (simp add: proposeAutoP_def proposeAuto_def checked deref_def both_def)
  qed
qed

lemma checked_propose [checked]: "proposePlacementP w d = Some (proposePlacement w d)"
  by (cases "PD_BatteryPercent d") (simp_all add: proposePlacementP_def proposePlacement_def checked deref_def both_def)

lemma checked_evaluate [checked]:
  "evaluateDeadlineAdmissionP now w candidate hard e = Some (evaluateDeadlineAdmission now w candidate hard e)"
proof (cases "TargetMs (Deadline (placement w))")
  case None
  then show ?thesis
    by (simp add: evaluateDeadlineAdmissionP_def evaluateDeadlineAdmission_def zeroEvaluation_def checked deref_def both_def either_def Let_def)
next
  case (Some t)
  then show ?thesis
    by (cases "deadlineCandidateCost candidate e (effectiveDeadlineSafetyMarginMs w)")
      (simp_all add: evaluateDeadlineAdmissionP_def evaluateDeadlineAdmission_def zeroEvaluation_def checked deref_def both_def either_def Let_def)
qed

lemma checked_resolve [checked]:
  "resolvePlacementWithEstimatesP now w e = Some (resolvePlacementWithEstimates now w e)"
proof -
  have "(initialDecision w)\<lparr>BatteryThresholdEnabled := effectiveBatteryThresholdEnabled w\<rparr> = initialDecision w"
    by (simp add: initialDecision_def)
  then show ?thesis
    by (simp add: resolvePlacementWithEstimatesP_def resolvePlacementWithEstimates_def checked deref_def Let_def split: option.split)
qed

lemma checked_retry [checked]: "updateArtifactRetryStateP now later err s = Some (updateArtifactRetryState now later err s)"
  by (auto simp: updateArtifactRetryStateP_def updateArtifactRetryState_def deref_def Let_def split: option.split)

lemma checked_requeue [checked]: "requeuePendingReleaseP w now = Some (requeuePendingRelease w now)"
  by (auto simp: requeuePendingReleaseP_def requeuePendingRelease_def deref_def Let_def split: option.split)

text \<open>C28: The decision of a pass does not panic.  With every dereference of a pointer in the resolution of the
  placement, in the deadline evaluation, in the retry bookkeeping and in the requeue taken as an
  operation that fails on nil, and the estimator's index as one that fails out of range, all of them
  succeed, whatever the resource, the samples and profiles of the estimator and the clock: the estimate
  exists, and decision, retry state and requeue are exactly those that the pass works with.\<close>

theorem decision_never_panics:
  "\<exists>e. deadlineEstimate estimator w = Some e \<and>
    decideP estimator now w = Some (resolvePlacementWithEstimates now w e) \<and>
    updateArtifactRetryStateP now1 now2 err (Status w) = Some (updateArtifactRetryState now1 now2 err (Status w)) \<and>
    requeuePendingReleaseP w later = Some (requeuePendingRelease w later)"
proof -
  have "deadlineEstimate estimator w \<noteq> None"
    using snapshot_total by (auto simp: deadlineEstimate_def estimate_def Let_def split: option.split)
  then show ?thesis by (auto simp: decideP_def checked)
qed

end
