(* ===== verification/Spec2Isabelle.thy ===== *)
theory Spec2Isabelle
  imports Placement_Props Estimator_Props Drain_Props Command_Findings Command_Settling Session_Props Edge_Activation Hal_Props
    Host_Service_Props Deployed_Host Telemetry_Retry Deep_Copy_Props Operator_Props Placement_Readiness Staging_Runs
    Command_Memory Decision_Panics
begin

text \<open>
  A verification library for the edge placement system of this repository: the Kubernetes operator
  (\<open>edge/operator\<close>), which places a WebAssembly function on a battery powered device or on an edge
  host, and the edge host (\<open>edge/host\<close>), which stages, activates and runs the releases of the function.

  \<^bold>\<open>The program.\<close>  A \<open>WasmFunction\<close> resource declares a device, a release and a placement policy.  The
  telemetry bridge of the operator (\<open>mqtt_telemetry.go\<close>) receives the device's telemetry over MQTT and
  records it in the status.  The reconciler (\<open>wasmfunction_controller.go\<close>) brings a Deployment and a
  Service in order, synchronises the release with the host over HTTP (\<open>artifact_sync.go\<close>), decides
  the placement from the battery, the drain and the deadline estimates (\<open>deadline_placement.go\<close>,
  \<open>deadline_estimator.go\<close>), sends the device its commands over MQTT (\<open>mqtt_publisher.go\<close>) and writes the
  status.  The host (\<open>main.go\<close>, \<open>hal.go\<close>) keeps an active and a staged release and answers requests by
  running the active one.

  \<^bold>\<open>Foundations.\<close>
  \<^item> \<open>Sif_Prelude\<close>: \<open>int32\<close> and \<open>int64\<close> as integers with the wrap-around written out, time in
    nanoseconds, results as sums, and the list lemmas that several parts share.
  \<^item> \<open>Go_Text\<close>: the functions of Go's \<open>strings\<close>, \<open>strconv\<close> and \<open>fmt\<close> that the program uses.
  \<^item> \<open>Api_Types\<close>: the records of \<open>wasmfunction_types.go\<close>, field by field.
  \<^item> \<open>Release_Match\<close>: digests, the predicates that say which release a runtime holds, the ids of the
    commands and \<open>releaseDeliveryState\<close>; the locale \<open>normaliser\<close> is interpreted for the normal forms.

  \<^bold>\<open>The decision.\<close>
  \<^item> \<open>Placement_Policy\<close> with \<open>Placement_Props\<close>: \<open>resolvePlacementWithEstimates\<close>, \<open>applyDestinationReadiness\<close>
    and the placement condition.  The decision refines an abstract policy of prioritised proposers, and
    repeated decisions settle, except in two configurations that oscillate.
  \<^item> \<open>Placement_Readiness\<close>: in a pass, a transition needs admission and a destination that holds the declared
    release, with the one gap that an unreachable artifact source leaves.
  \<^item> \<open>Decision_Panics\<close>: the decision, the retry state and the requeue with every pointer dereference as an
    operation that fails on nil; none of them fails, so that the total functions of the other theories lose nothing.
  \<^item> \<open>Deadline\<close>: \<open>evaluateDeadlineAdmission\<close> and the candidate costs at 32 bits, against the ideal costs.
  \<^item> \<open>Rolling_Window\<close>, \<open>Estimator\<close>, \<open>Estimator_Props\<close>: the sample windows of \<open>deadline_estimator.go\<close> (a
    locale that the estimator and the drain tracker interpret), nearest-rank percentiles, totality.
  \<^item> \<open>Drain\<close>, \<open>Drain_Props\<close>: the battery drain tracker; an offload is backed by real observations.

  \<^bold>\<open>The commands.\<close>
  \<^item> \<open>Commands\<close>: \<open>applyPlacement\<close> and all it calls, as steps on a record of the resource and the throttling
    maps.  The \<open>n\<close>-th external call and the \<open>n\<close>-th clock reading are answered by an environment;
    \<open>Edge_Activation\<close> answers the host activations among them by \<open>activateHostRelease\<close> (\<open>postHostActivation\<close> of
    \<open>Artifact_Sync\<close>) sent to the host.
  \<^item> \<open>Command_Props\<close>, \<open>Throttled_Sender\<close>, \<open>Command_Safety\<close>, \<open>Command_Findings\<close>: which commands are
    justified, that a pass stops at its first failure, the throttles (a locale with two
    interpretations), and the cases where pausing and throttling work against their purpose.
  \<^item> \<open>Staging_Runs\<close>: the throttle of \<open>applyReleaseStage\<close> as a whole over any readings of the resource, and the
    stale reading that opens it.
  \<^item> \<open>Command_Settling\<close>: once the telemetry reports what a pass without an error has asked for, the next pass
    is silent; \<open>keeps\<close> is the frame predicate of the steps.

  \<^bold>\<open>The telemetry.\<close>
  \<^item> \<open>Telemetry\<close>, \<open>Telemetry_Props\<close>: from a decoded message to the status of the resources it is for.
  \<^item> \<open>Telemetry_Retry\<close>: what the drain tracker makes of an observation that conflicts repeat.
  \<^item> \<open>Mqtt_Codec\<close>, \<open>Mqtt_Props\<close>: the packets on the wire as words of 8 bits; framing is a locale between
    the writers and the reader, interpreted on \<open>mqttReadPacket\<close>.
  \<^item> \<open>Telemetry_Session\<close>, \<open>Session_Props\<close>: \<open>consumeTelemetry\<close> turn by turn on a stream in which a read
    deadline may fall between any two bytes, and the loop that reconnects.

  \<^bold>\<open>The release on the host.\<close>
  \<^item> \<open>Edge_Host\<close>, \<open>Host_Props\<close>: uploads in the atomic steps between which another request may run,
    activation, serving and running, with file operations that may fail.
  \<^item> \<open>Artifact_Sync\<close>, \<open>Artifact_Props\<close>: the operator's side over an HTTP environment that answers each
    request depending on the requests before it.
  \<^item> \<open>Release_Slots\<close>, \<open>Sync_Host\<close>: two slots as an abstract machine and as a locale, which the host
    refines and interprets; operator and host together.
  \<^item> \<open>Hal\<close>, \<open>Hal_Props\<close>: the guest's memory, the host functions, typed inputs and outputs.  A guest is an
    arbitrary well-founded tree of host calls, so that every terminating guest is covered.
  \<^item> \<open>Host_Service\<close>, \<open>Host_Service_Props\<close>: \<open>main\<close> of the host, its routes, all handlers behind them and its log
    lines.  From its start on the service runs what it names.  A download reads the digest and opens the file at
    two moments, the second without the lock; \<open>activationStates\<close> are the files it can find in the middle of an
    activation, and its possible answers are determined exactly.
  \<^item> \<open>Deployed_Host\<close>: the container of the desired Deployment starts a host where the Service, the probes and the
    operator look for it.

  \<^bold>\<open>The pass.\<close>
  \<^item> \<open>Cluster\<close>, \<open>Cluster_Props\<close>: the desired objects, and \<open>ensureDeployment\<close> and \<open>ensureService\<close> over an API
    client whose answers are arbitrary; retries are a locale with three interpretations.
  \<^item> \<open>Reconcile\<close>: \<open>Reconcile\<close> as the composition of all of the above in the order of the code, with
    \<open>updateStatus\<close>, the retry state and the requeue decisions.
  \<^item> \<open>Reconcile_Props\<close>, \<open>Reconcile_Safety\<close>: the order of effects, the type and the ownership of the status
    a pass writes, its conditions, and the requeue times against the throttle, where a time that is read back from a
    status has lost its fractions of a second (\<open>wholeSecond\<close>).
  \<^item> \<open>Command_Memory\<close>: the status written at the end of a pass is the record of every command the pass sent.
  \<^item> \<open>Edge_Activation\<close>: the whole pass and the host together: edge mode means that the host serves the release.

  \<^bold>\<open>The operator's process and its memory.\<close>
  \<^item> \<open>Operator_Main\<close>, \<open>Operator_Props\<close>: \<open>cmd/main.go\<close> with the parsing of its flags, the options of the manager,
    the scheme (\<open>groupversion_info.go\<close>), \<open>SetupWithManager\<close> and the order of the set-up calls.
  \<^item> \<open>Go_Store\<close>, \<open>Deep_Copy\<close>, \<open>Deep_Copy_Props\<close>: a memory of typed cells with pointers and slices, and on it every
    method of \<open>zz_generated.deepcopy.go\<close>, which the other theories, on values without sharing, do not need;
    the locale \<open>deep_copy\<close> is the contract of a copy, and it is closed under structs, pointers and slices.

  \<^bold>\<open>Bounds and fuel.\<close>  No definition needs fuel.  \<open>retry.DefaultRetry\<close> makes five attempts, which is the
  argument of the retry loops; the loops over lists and length bytes are structural or have a measure;
  the loops of \<open>consumeTelemetry\<close> and \<open>Start\<close>, which do not end, are modelled by their bodies and by
  runs of any finite number of turns.

  \<^bold>\<open>Parameters.\<close>  The API server, the HTTP transport, the broker, the clock, the file system's failures,
  SHA-256, wasmtime, the decoding of JSON documents (but for the resource inputs), the condition
  helpers of Kubernetes, the owner reference, the deep copies of the \<open>metav1\<close> types, and the flags and scheme
  entries that libraries add are arguments or environments.  What a theorem needs of
  them is a hypothesis of that theorem, and its witness instantiates it.

  \<^bold>\<open>Not modelled.\<close>  The operator's log lines and the logger's options; the device's firmware, the guests, tools,
  tests and manifests.  The paths of the host's routes are free of percent escapes.  Strings are
  lists of bytes, and the white space and letter case of Go's Unicode tables are those of the characters
  listed in \<open>Go_Text\<close>.  A run of a guest that never returns holds the lock of the host forever; such
  guests are outside the model.  The package variables \<open>sensorData\<close> and \<open>outputData\<close> of the host are set at the start of each run
  under its lock and are arguments of the run (\<open>halRuntime\<close>).  Clock readings are rounded to seconds in a stored
  status only where a theorem says so.
\<close>

end
